(* ===== verification/Prelude.thy ===== *)
theory Prelude
  imports Main "HOL-Library.Word" "HOL-Library.Multiset" "HOL-Library.List_Lexorder"
    "HOL-Library.Char_ord"
begin

text \<open>
  The vocabulary every component theory shares: machine integers at the width the Rust code
  gives them, \<open>Result\<close> as a sum (\<open>Inl\<close> the error), the \<open>Vec\<close> and \<open>Iterator\<close>
  operations the code calls, \<open>BTreeMap\<close> as an association list in strictly ascending key
  order, and comparator-driven stable sorting (\<open>slice::sort_by\<close>).

  The theory also opens the two collections the component proofs feed: \<open>btree_simps\<close> for the
  map algebra and \<open>result_simps\<close> for the propagation of errors.
\<close>

named_theorems btree_simps \<open>lookups and key sets of the ordered map operations\<close>
named_theorems result_simps \<open>propagation of errors through results\<close>

section \<open>Machine integers\<close>

type_synonym u8 = "8 word"
type_synonym u16 = "16 word"
type_synonym u32 = "32 word"
type_synonym u64 = "64 word"
type_synonym i64 = "64 word"

text \<open>\<open>u64::MAX\<close> and \<open>u32::MAX\<close>.\<close>

definition u64_max :: u64 where
  "u64_max = - 1"

definition u32_max :: u32 where
  "u32_max = - 1"

text \<open>\<open>checked_add\<close>: \<open>None\<close> exactly when the mathematical sum leaves the type.\<close>

definition checked_add :: "'a::len word \<Rightarrow> 'a word \<Rightarrow> 'a word option" where
  "checked_add a b = (if unat a + unat b < 2 ^ LENGTH('a) then Some (a + b) else None)"

text \<open>\<open>checked_sub\<close>: \<open>None\<close> when the difference would be negative.\<close>

definition checked_sub :: "'a::len word \<Rightarrow> 'a word \<Rightarrow> 'a word option" where
  "checked_sub a b = (if b \<le> a then Some (a - b) else None)"

text \<open>\<open>saturating_sub\<close> and \<open>saturating_add\<close>.\<close>

definition saturating_sub :: "'a::len word \<Rightarrow> 'a word \<Rightarrow> 'a word" where
  "saturating_sub a b = (if b \<le> a then a - b else 0)"

definition saturating_add :: "'a::len word \<Rightarrow> 'a word \<Rightarrow> 'a word" where
  "saturating_add a b = (case checked_add a b of Some c \<Rightarrow> c | None \<Rightarrow> - 1)"

lemma checked_add_SomeD:
  "checked_add a b = Some c \<Longrightarrow> unat c = unat a + unat b"
  by (auto simp: checked_add_def unat_word_ariths split: if_splits)

lemma checked_add_ge:
  "checked_add a b = Some c \<Longrightarrow> a \<le> c \<and> b \<le> c"
  by (auto dest: checked_add_SomeD simp: word_le_nat_alt)

lemma checked_add_pos:
  "checked_add a b = Some c \<Longrightarrow> b \<noteq> 0 \<Longrightarrow> a < c \<and> c \<noteq> 0"
  using unat_eq_zero[of b] unat_eq_zero[of c]
  by (auto dest!: checked_add_SomeD simp: word_less_nat_alt)

lemma checked_add_None_iff:
  "checked_add a b = None \<longleftrightarrow> 2 ^ LENGTH('a) \<le> unat a + unat b" for a b :: "'a::len word"
  by (simp add: checked_add_def not_less)

text \<open>\<open>u32::try_from(position).ok().and_then(|p| p.checked_add(1))\<close>, the 1-based position
  the queue reports.\<close>

definition one_based_u32 :: "nat \<Rightarrow> u32 option" where
  "one_based_u32 n = (if n < 2 ^ 32 then checked_add (of_nat n) 1 else None)"

lemma unat_of_nat_less: "n < 2 ^ LENGTH('a) \<Longrightarrow> unat (of_nat n :: 'a::len word) = n"
  by (simp add: unat_of_nat take_bit_eq_mod)

lemma one_based_u32_small:
  assumes "Suc n < 2 ^ 32"
  shows "one_based_u32 n = Some (of_nat (Suc n))"
proof -
  have n: "n < 2 ^ 32" using assms by (rule Suc_lessD)
  have "unat (of_nat n :: u32) = n" using n unat_of_nat_less[of n, where 'a = 32] by simp
  then have u: "unat (of_nat n :: u32) + unat (1 :: u32) < 2 ^ LENGTH(32)"
    using assms by simp
  show ?thesis
    unfolding one_based_u32_def checked_add_def
    by (simp only: n u if_True of_nat_Suc add.commute[of 1 "of_nat n"])
qed

section \<open>Results and options\<close>

text \<open>\<open>Result<T, E>\<close>.\<close>

type_synonym ('e, 'a) result = "'e + 'a"

definition is_ok :: "('e, 'a) result \<Rightarrow> bool" where
  "is_ok r = (case r of Inl _ \<Rightarrow> False | Inr _ \<Rightarrow> True)"

definition ok_or :: "'e \<Rightarrow> 'a option \<Rightarrow> ('e, 'a) result" where
  "ok_or e x = (case x of None \<Rightarrow> Inl e | Some v \<Rightarrow> Inr v)"

text \<open>The \<open>?\<close> operator on a pure computation.\<close>

definition and_then :: "('e, 'a) result \<Rightarrow> ('a \<Rightarrow> ('e, 'b) result) \<Rightarrow> ('e, 'b) result" where
  "and_then r f = (case r of Inl e \<Rightarrow> Inl e | Inr v \<Rightarrow> f v)"

definition map_err :: "('e \<Rightarrow> 'f) \<Rightarrow> ('e, 'a) result \<Rightarrow> ('f, 'a) result" where
  "map_err g r = (case r of Inl e \<Rightarrow> Inl (g e) | Inr v \<Rightarrow> Inr v)"

lemma is_ok_simps [simp]: "\<not> is_ok (Inl e)" "is_ok (Inr v)"
  by (simp_all add: is_ok_def)

lemma is_ok_iff: "is_ok r \<longleftrightarrow> (\<exists>v. r = Inr v)"
  by (cases r) auto

lemma ok_or_simps [simp]: "ok_or e None = Inl e" "ok_or e (Some v) = Inr v"
  by (simp_all add: ok_or_def)

lemma ok_or_Inr [result_simps]: "ok_or e x = Inr v \<longleftrightarrow> x = Some v"
  by (cases x) auto

lemma ok_or_Inl [result_simps]: "ok_or e x = Inl e' \<longleftrightarrow> x = None \<and> e' = e"
  by (cases x) auto

lemma and_then_simps [simp]: "and_then (Inl e) f = Inl e" "and_then (Inr v) f = f v"
  by (simp_all add: and_then_def)

lemma and_then_Inr [result_simps]:
  "and_then r f = Inr b \<longleftrightarrow> (\<exists>a. r = Inr a \<and> f a = Inr b)"
  by (cases r) auto

lemma and_then_Inl [result_simps]:
  "and_then r f = Inl e \<longleftrightarrow> r = Inl e \<or> (\<exists>a. r = Inr a \<and> f a = Inl e)"
  by (cases r) auto

lemma map_err_simps [simp]: "map_err g (Inl e) = Inl (g e)" "map_err g (Inr v) = Inr v"
  by (simp_all add: map_err_def)

lemma map_err_Inr [result_simps]: "map_err g r = Inr v \<longleftrightarrow> r = Inr v"
  by (cases r) auto

text \<open>The \<open>?\<close> operator in a method that takes \<open>&mut self\<close>: an error returns early, with the
  state as it is at that point.\<close>

definition try_in ::
  "('e, 'a) result \<Rightarrow> 's \<Rightarrow> ('a \<Rightarrow> ('e, 'b) result \<times> 's) \<Rightarrow> ('e, 'b) result \<times> 's" where
  "try_in r s f = (case r of Inl e \<Rightarrow> (Inl e, s) | Inr v \<Rightarrow> f v)"

lemma try_in_simps [simp]: "try_in (Inl e) s f = (Inl e, s)" "try_in (Inr v) s f = f v"
  by (simp_all add: try_in_def)

lemma try_in_split:
  "P (try_in r s f) \<longleftrightarrow>
     (\<forall>e. r = Inl e \<longrightarrow> P (Inl e, s)) \<and> (\<forall>v. r = Inr v \<longrightarrow> P (f v))"
  by (cases r) auto

lemma try_in_Inr [result_simps]:
  "try_in r s f = (Inr b, s') \<longleftrightarrow> (\<exists>a. r = Inr a \<and> f a = (Inr b, s'))"
  by (cases r) auto

lemma try_in_eq:
  "try_in r s f = (res, s') \<longleftrightarrow>
     (\<exists>e. r = Inl e \<and> res = Inl e \<and> s' = s) \<or> (\<exists>v. r = Inr v \<and> f v = (res, s'))"
  by (cases r) auto

section \<open>Vec and Iterator\<close>

text \<open>\<open>iter().position(p)\<close>.\<close>

fun position :: "('a \<Rightarrow> bool) \<Rightarrow> 'a list \<Rightarrow> nat option" where
  "position p [] = None"
| "position p (x # xs) = (if p x then Some 0 else map_option Suc (position p xs))"

lemma position_None [simp]: "position p xs = None \<longleftrightarrow> (\<forall>x\<in>set xs. \<not> p x)"
  by (induction xs) auto

lemma position_SomeD:
  "position p xs = Some n \<Longrightarrow> n < length xs \<and> p (xs ! n) \<and> (\<forall>m<n. \<not> p (xs ! m))"
proof (induction xs arbitrary: n)
  case (Cons x xs)
  show ?case
  proof (cases "p x")
    case False
    with Cons.prems obtain m where m: "position p xs = Some m" "n = Suc m" by auto
    with Cons.IH[OF m(1)] False show ?thesis by (auto simp: nth_Cons split: nat.splits)
  qed (use Cons.prems in auto)
qed simp

lemma position_Some_iff:
  "position p xs = Some n \<longleftrightarrow> n < length xs \<and> p (xs ! n) \<and> (\<forall>m<n. \<not> p (xs ! m))"
proof
  assume r: "n < length xs \<and> p (xs ! n) \<and> (\<forall>m<n. \<not> p (xs ! m))"
  then have "position p xs \<noteq> None" by (auto simp: position_None)
  then obtain k where k: "position p xs = Some k" by blast
  with position_SomeD[OF k] r have "\<not> k < n" "\<not> n < k" by auto
  with k show "position p xs = Some n" by simp
qed (rule position_SomeD)

text \<open>\<open>Vec::remove(i)\<close> for an index in range.\<close>

definition remove_at :: "nat \<Rightarrow> 'a list \<Rightarrow> 'a list" where
  "remove_at n xs = take n xs @ drop (Suc n) xs"

lemma remove_at_Cons [simp]:
  "remove_at 0 (x # xs) = xs" "remove_at (Suc n) (x # xs) = x # remove_at n xs"
  "remove_at n [] = []"
  by (simp_all add: remove_at_def)

lemma length_remove_at: "n < length xs \<Longrightarrow> length (remove_at n xs) = length xs - 1"
  by (simp add: remove_at_def)

lemma length_remove_at_le: "length (remove_at n xs) \<le> length xs"
  by (simp add: remove_at_def)

lemma set_remove_at: "set (remove_at n xs) \<subseteq> set xs"
  by (auto simp: remove_at_def dest: in_set_takeD in_set_dropD)

lemma mset_remove_at: "n < length xs \<Longrightarrow> mset (remove_at n xs) = mset xs - {#xs ! n#}"
proof (induction xs arbitrary: n)
  case (Cons x xs)
  show ?case
  proof (cases n)
    case (Suc k)
    with Cons have "mset (remove_at k xs) = mset xs - {#xs ! k#}" and "xs ! k \<in># mset xs"
      by simp_all
    with Suc show ?thesis by simp
  qed simp
qed simp

lemma distinct_remove_at: "distinct xs \<Longrightarrow> distinct (remove_at n xs)"
proof (induction xs arbitrary: n)
  case (Cons x xs)
  then show ?case by (cases n) (auto dest: subsetD[OF set_remove_at])
qed simp

lemma map_remove_at: "map f (remove_at n xs) = remove_at n (map f xs)"
  by (simp add: remove_at_def take_map drop_map)

lemma sorted_wrt_remove_at: "sorted_wrt P xs \<Longrightarrow> sorted_wrt P (remove_at n xs)"
proof (induction xs arbitrary: n)
  case (Cons x xs)
  then show ?case by (cases n) (auto dest: subsetD[OF set_remove_at])
qed simp

lemma nth_remove_at:
  "n < length xs \<Longrightarrow> remove_at n xs ! m = (if m < n then xs ! m else xs ! Suc m)"
  by (auto simp: remove_at_def nth_append min_def)

lemma take_remove_at [simp]: "take n (remove_at n xs) = take n xs"
  by (cases "n \<le> length xs") (simp_all add: remove_at_def)

lemma drop_remove_at [simp]: "n < length xs \<Longrightarrow> drop n (remove_at n xs) = drop (Suc n) xs"
  by (simp add: remove_at_def)

section \<open>Comparators and stable sorting\<close>

text \<open>\<open>std::cmp::Ordering\<close>, \<open>Ord::cmp\<close>, \<open>then_with\<close> and \<open>reverse\<close>.\<close>

datatype ordering = Less | Equal | Greater

definition cmp :: "'a::linorder \<Rightarrow> 'a \<Rightarrow> ordering" where
  "cmp a b = (if a < b then Less else if a = b then Equal else Greater)"

fun then_with :: "ordering \<Rightarrow> ordering \<Rightarrow> ordering" where
  "then_with Equal o2 = o2"
| "then_with o1 o2 = o1"

fun reverse :: "ordering \<Rightarrow> ordering" where
  "reverse Less = Greater"
| "reverse Equal = Equal"
| "reverse Greater = Less"

lemma cmp_simps [simp]:
  "cmp a b = Less \<longleftrightarrow> a < b" "cmp a b = Equal \<longleftrightarrow> a = b" "cmp a b = Greater \<longleftrightarrow> b < a"
  by (auto simp: cmp_def)

lemma then_with_simps [simp]:
  "then_with o1 o2 = Less \<longleftrightarrow> o1 = Less \<or> o1 = Equal \<and> o2 = Less"
  "then_with o1 o2 = Equal \<longleftrightarrow> o1 = Equal \<and> o2 = Equal"
  "then_with o1 o2 = Greater \<longleftrightarrow> o1 = Greater \<or> o1 = Equal \<and> o2 = Greater"
  by (cases o1; simp)+

lemma reverse_simps [simp]:
  "reverse o1 = Less \<longleftrightarrow> o1 = Greater" "reverse o1 = Equal \<longleftrightarrow> o1 = Equal"
  "reverse o1 = Greater \<longleftrightarrow> o1 = Less" "reverse (reverse o1) = o1"
  by (cases o1; simp)+

lemma cmp_swap: "cmp b a = reverse (cmp a b)"
  by (auto simp: cmp_def)

lemma reverse_then_with: "reverse (then_with a b) = then_with (reverse a) (reverse b)"
  by (cases a) auto

text \<open>The stable sort of \<open>slice::sort_by\<close>, as insertion from the right: an element goes in
  front of the first one that is not smaller, so equal elements keep their order.\<close>

fun insert_by :: "('a \<Rightarrow> 'a \<Rightarrow> ordering) \<Rightarrow> 'a \<Rightarrow> 'a list \<Rightarrow> 'a list" where
  "insert_by c x [] = [x]"
| "insert_by c x (y # ys) = (if c x y = Greater then y # insert_by c x ys else x # y # ys)"

definition sort_by :: "('a \<Rightarrow> 'a \<Rightarrow> ordering) \<Rightarrow> 'a list \<Rightarrow> 'a list" where
  "sort_by c xs = foldr (insert_by c) xs []"

lemma sort_by_simps [simp]:
  "sort_by c [] = []" "sort_by c (x # xs) = insert_by c x (sort_by c xs)"
  by (simp_all add: sort_by_def)

lemma mset_insert_by [simp]: "mset (insert_by c x xs) = add_mset x (mset xs)"
  by (induction xs) auto

lemma mset_sort_by [simp]: "mset (sort_by c xs) = mset xs"
  by (induction xs) auto

lemma set_sort_by [simp]: "set (sort_by c xs) = set xs"
  by (metis mset_sort_by set_mset_mset)

lemma length_sort_by [simp]: "length (sort_by c xs) = length xs"
  by (metis mset_sort_by size_mset)

lemma set_insert_by [simp]: "set (insert_by c x xs) = insert x (set xs)"
  by (induction xs) auto

text \<open>What a comparator promises to \<open>sort_by\<close>: a total preorder, consistent under swapping
  its arguments.\<close>

locale comparator =
  fixes c :: "'a \<Rightarrow> 'a \<Rightarrow> ordering"
  assumes swap: "c y x = reverse (c x y)"
    and le_trans: "c x y \<noteq> Greater \<Longrightarrow> c y z \<noteq> Greater \<Longrightarrow> c x z \<noteq> Greater"
begin

lemma refl: "c x x = Equal"
  using swap[of x x] by (cases "c x x") auto

lemma sorted_insert_by:
  "sorted_wrt (\<lambda>x y. c x y \<noteq> Greater) xs \<Longrightarrow> sorted_wrt (\<lambda>x y. c x y \<noteq> Greater) (insert_by c x xs)"
proof (induction xs)
  case (Cons y ys)
  show ?case
  proof (cases "c x y = Greater")
    case True
    then have "c y x \<noteq> Greater" using swap[of y x] by simp
    with Cons True show ?thesis by auto
  next
    case False
    with Cons.prems le_trans[of x y] show ?thesis by auto
  qed
qed simp

lemma sorted_sort_by: "sorted_wrt (\<lambda>x y. c x y \<noteq> Greater) (sort_by c xs)"
  by (induction xs) (auto intro: sorted_insert_by)

lemma sort_by_sorted:
  "sorted_wrt (\<lambda>x y. c x y \<noteq> Greater) xs \<Longrightarrow> sort_by c xs = xs"
proof (induction xs)
  case (Cons x xs)
  then show ?case by (cases xs) auto
qed simp

text \<open>Where no two elements compare equal the sorted order is unique: sorting forgets the
  order the elements came in.\<close>

lemma sorted_strict:
  assumes "sorted_wrt (\<lambda>x y. c x y \<noteq> Greater) xs" "distinct xs"
    and "\<And>x y. x \<in> set xs \<Longrightarrow> y \<in> set xs \<Longrightarrow> c x y = Equal \<Longrightarrow> x = y"
  shows "sorted_wrt (\<lambda>x y. c x y = Less) xs"
  using assms
proof (induction xs)
  case (Cons z zs)
  have "c z y = Less" if "y \<in> set zs" for y
  proof (cases "c z y")
    case Equal
    then have "z = y" using Cons.prems(3)[of z y] that by simp
    with Cons.prems(2) that show ?thesis by simp
  next
    case Greater
    with Cons.prems(1) that show ?thesis by simp
  qed
  moreover have "sorted_wrt (\<lambda>x y. c x y = Less) zs"
    using Cons.prems by (intro Cons.IH) auto
  ultimately show ?case by simp
qed simp

lemma sorted_Less_inj:
  assumes "sorted_wrt (\<lambda>x y. c x y = Less) xs" "x \<in> set xs" "y \<in> set xs" "c x y = Equal"
  shows "x = y"
  using assms
proof (induction xs)
  case (Cons z zs)
  then show ?case using swap[of x y] by auto
qed simp

lemma distinct_sort_by: "distinct (sort_by c xs) = distinct xs"
  by (rule mset_eq_imp_distinct_iff) simp

lemma strict_sort_by:
  assumes "\<And>x y. x \<in> set xs \<Longrightarrow> y \<in> set xs \<Longrightarrow> c x y = Equal \<Longrightarrow> x = y" and "distinct xs"
  shows "sorted_wrt (\<lambda>x y. c x y = Less) (sort_by c xs)"
  using assms by (intro sorted_strict sorted_sort_by) (simp_all add: distinct_sort_by)

lemma sorted_Less_unique:
  assumes "sorted_wrt (\<lambda>x y. c x y = Less) xs" "sorted_wrt (\<lambda>x y. c x y = Less) ys"
    and "set xs = set ys"
  shows "xs = ys"
  using assms
proof (induction xs arbitrary: ys)
  case Nil
  then show ?case by simp
next
  case (Cons x xs)
  then obtain y zs where ys: "ys = y # zs" by (cases ys) auto
  have asym: "\<not> (c a b = Less \<and> c b a = Less)" for a b using swap[of a b] by auto
  have irr: "c a a \<noteq> Less" for a by (simp add: refl)
  have "x = y"
  proof (rule ccontr)
    assume "x \<noteq> y"
    with Cons.prems(3) ys have "x \<in> set zs" "y \<in> set xs" by auto
    with Cons.prems(1,2) ys have "c x y = Less" "c y x = Less" by auto
    with asym show False by blast
  qed
  moreover have "set xs = set zs"
  proof -
    have "x \<notin> set xs" "y \<notin> set zs" using Cons.prems(1,2) ys irr by auto
    with Cons.prems(3) ys \<open>x = y\<close> show ?thesis by auto
  qed
  ultimately show ?case using Cons ys by auto
qed

lemma sort_by_order_independent:
  assumes "mset xs = mset ys" "distinct xs"
    and "\<And>x y. x \<in> set xs \<Longrightarrow> y \<in> set xs \<Longrightarrow> c x y = Equal \<Longrightarrow> x = y"
  shows "sort_by c xs = sort_by c ys"
proof (rule sorted_Less_unique)
  have s: "set xs = set ys" using assms(1) by (metis set_mset_mset)
  show "sorted_wrt (\<lambda>x y. c x y = Less) (sort_by c xs)"
    by (rule strict_sort_by) (use assms in auto)
  show "sorted_wrt (\<lambda>x y. c x y = Less) (sort_by c ys)"
    using assms s mset_eq_imp_distinct_iff[OF assms(1)] by (intro strict_sort_by) auto
  show "set (sort_by c xs) = set (sort_by c ys)" using s by simp
qed

end

section \<open>BTreeMap\<close>

text \<open>\<open>BTreeMap<K, V>\<close>: the entries in ascending key order, as its iterators yield them.\<close>

type_synonym ('k, 'v) btree = "('k \<times> 'v) list"

definition bt_wf :: "('k::linorder, 'v) btree \<Rightarrow> bool" where
  "bt_wf m \<longleftrightarrow> sorted_wrt (<) (map fst m)"

abbreviation bt_get :: "('k, 'v) btree \<Rightarrow> 'k \<Rightarrow> 'v option" where
  "bt_get \<equiv> map_of"

fun bt_insert :: "'k::linorder \<Rightarrow> 'v \<Rightarrow> ('k, 'v) btree \<Rightarrow> ('k, 'v) btree" where
  "bt_insert k v [] = [(k, v)]"
| "bt_insert k v ((a, b) # m) =
     (if k < a then (k, v) # (a, b) # m
      else if k = a then (k, v) # m
      else (a, b) # bt_insert k v m)"

definition bt_remove :: "'k \<Rightarrow> ('k, 'v) btree \<Rightarrow> ('k, 'v) btree" where
  "bt_remove k m = filter (\<lambda>(a, b). a \<noteq> k) m"

text \<open>\<open>entry(k).or_insert(v)\<close>: the map with \<open>k\<close> present.\<close>

definition bt_or_insert :: "'k::linorder \<Rightarrow> 'v \<Rightarrow> ('k, 'v) btree \<Rightarrow> ('k, 'v) btree" where
  "bt_or_insert k v m = (case bt_get m k of None \<Rightarrow> bt_insert k v m | Some _ \<Rightarrow> m)"

lemma bt_get_insert [simp, btree_simps]: "bt_get (bt_insert k v m) = (bt_get m)(k \<mapsto> v)"
  by (induction m) auto

lemma bt_get_remove [simp, btree_simps]: "bt_get (bt_remove k m) = (bt_get m)(k := None)"
proof
  fix x
  show "bt_get (bt_remove k m) x = ((bt_get m)(k := None)) x"
    by (induction m) (auto simp: bt_remove_def)
qed

lemma bt_get_or_insert [btree_simps]:
  "bt_get (bt_or_insert k v m) x =
     (if x = k then Some (case bt_get m k of None \<Rightarrow> v | Some w \<Rightarrow> w) else bt_get m x)"
  by (auto simp: bt_or_insert_def split: option.splits)

lemma keys_insert [simp, btree_simps]: "fst ` set (bt_insert k v m) = insert k (fst ` set m)"
proof (induction m)
  case (Cons e m)
  show ?case
  proof (cases e)
    case (Pair a b)
    with Cons show ?thesis by (simp add: insert_commute)
  qed
qed simp

lemma bt_wf_Nil [simp]: "bt_wf []"
  by (simp add: bt_wf_def)

lemma bt_wf_Cons: "bt_wf ((a, b) # m) \<longleftrightarrow> (\<forall>k\<in>fst ` set m. a < k) \<and> bt_wf m"
  by (auto simp: bt_wf_def)

lemma bt_wf_insert [simp, intro]: "bt_wf m \<Longrightarrow> bt_wf (bt_insert k v m)"
proof (induction m)
  case (Cons e m)
  then show ?case by (cases e) (fastforce simp: bt_wf_Cons)
qed (simp add: bt_wf_Cons)

lemma bt_wf_filter: "bt_wf m \<Longrightarrow> bt_wf (filter p m)"
proof (induction m)
  case (Cons e m)
  then show ?case by (cases e) (auto simp: bt_wf_Cons)
qed simp

lemma bt_wf_remove [simp, intro]: "bt_wf m \<Longrightarrow> bt_wf (bt_remove k m)"
  by (simp add: bt_remove_def bt_wf_filter)

lemma bt_wf_or_insert [simp, intro]: "bt_wf m \<Longrightarrow> bt_wf (bt_or_insert k v m)"
  by (auto simp: bt_or_insert_def split: option.splits)

lemma bt_wf_distinct: "bt_wf m \<Longrightarrow> distinct (map fst m)"
  by (simp add: bt_wf_def strict_sorted_iff)

lemma bt_get_in_set: "bt_wf m \<Longrightarrow> bt_get m k = Some v \<longleftrightarrow> (k, v) \<in> set m"
  by (rule map_of_eq_Some_iff) (rule bt_wf_distinct)

lemma length_bt_insert:
  "bt_wf m \<Longrightarrow> length (bt_insert k v m) = (if k \<in> fst ` set m then length m else Suc (length m))"
proof (induction m)
  case (Cons e m)
  then show ?case by (cases e) (force simp: bt_wf_Cons)
qed simp

lemma length_bt_insert_le: "length (bt_insert k v m) \<le> Suc (length m)"
  by (induction m) auto

lemma length_bt_remove_le: "length (bt_remove k m) \<le> length m"
  by (simp add: bt_remove_def)

lemma bt_eqI:
  assumes "bt_wf m" "bt_wf n" "bt_get m = bt_get n"
  shows "m = n"
proof -
  have "set m = set n"
    using assms(3) bt_get_in_set[OF assms(1)] bt_get_in_set[OF assms(2)] by auto
  moreover have "inj_on fst (set m \<union> set n)"
    using calculation bt_wf_distinct[OF assms(2)] by (simp add: distinct_map)
  ultimately show ?thesis
    using assms(1,2) map_sorted_distinct_set_unique[of fst m n]
    by (simp add: bt_wf_def strict_sorted_iff)
qed

text \<open>The interface the components use a \<open>BTreeMap\<close> through: what a lookup returns after
  each update, and that every update keeps the representation.\<close>

locale ordered_map =
  fixes get :: "'m \<Rightarrow> 'k \<Rightarrow> 'v option"
    and ins :: "'k \<Rightarrow> 'v \<Rightarrow> 'm \<Rightarrow> 'm"
    and del :: "'k \<Rightarrow> 'm \<Rightarrow> 'm"
    and wf :: "'m \<Rightarrow> bool"
  assumes get_ins: "get (ins k v m) = (get m)(k \<mapsto> v)"
    and get_del: "get (del k m) = (get m)(k := None)"
    and wf_ins: "wf m \<Longrightarrow> wf (ins k v m)"
    and wf_del: "wf m \<Longrightarrow> wf (del k m)"
    and ext: "wf m \<Longrightarrow> wf n \<Longrightarrow> get m = get n \<Longrightarrow> m = n"
begin

lemma ins_ins: "wf m \<Longrightarrow> ins k v (ins k w m) = ins k v m"
  by (rule ext) (auto simp: wf_ins get_ins)

lemma ins_same: "wf m \<Longrightarrow> get m k = Some v \<Longrightarrow> ins k v m = m"
  by (rule ext) (auto simp: wf_ins get_ins)

lemma del_ins: "wf m \<Longrightarrow> get m k = None \<Longrightarrow> del k (ins k v m) = m"
  by (rule ext) (auto simp: wf_ins wf_del get_ins get_del)

lemma ins_commute: "wf m \<Longrightarrow> k \<noteq> l \<Longrightarrow> ins k v (ins l w m) = ins l w (ins k v m)"
  by (rule ext) (auto simp: wf_ins get_ins)

end

interpretation bt: ordered_map bt_get bt_insert bt_remove bt_wf
  by unfold_locales (auto intro: bt_eqI)

end
