(* ===== verification/Contract.thy ===== *)
theory Contract
  imports Prelude
begin

text \<open>
  The protocol types of \<open>crates/actingcommand-contract\<close> that the scheduler and the fact store
  exchange: typed identifiers with their canonical text form and their issuer
  (\<open>src/event/ids.rs\<close>), the lease token, the fenced write and the queue status
  (\<open>src/runtime.rs\<close>), and the registered outcome codes (\<open>src/outcome.rs\<close>,
  \<open>src/codes.rs\<close>). The lemmas show that the text form of an identifier is a bijection with
  its bytes, and that an issuer never mints one identifier twice.
\<close>

unbundle bit_operations_syntax

named_theorems issuer_simps \<open>evaluation of the identifier issuer\<close>

section \<open>Outcome codes\<close>

datatype category = CatSuccess | CatInfo | CatWarning | CatError | CatFatal

datatype code = Code (code_as_str: string) (code_category: category)

datatype RuntimeErrorCode =
    RtRuntimeBusy | RtRuntimeOwnerMismatch | RtInvalidRequest | RtRuntimeUnavailable
  | RtRuntimeHalted | RtOwnerConflict | RtProtocolInvalid | RtInstanceUnknown
  | RtLeaseBusy | RtLeaseCooldown | RtLeaseExpired | RtLeaseMissing | RtStaleOwnerEpoch
  | RtLeaseMismatch | RtQueueFull | RtQueueExpired | RtQueueMissing
  | RtQueueConnectionMismatch | RtTransferNotSafe | RtInstanceMismatch | RtHolderMismatch
  | RtConnectionMismatch | RtReadonlyCapabilityInvalid | RtCaptureFailed
  | RtRecognitionFailed | RtBackendOpenFailed | RtBackendOperationFailed | RtPackageInvalid
  | RtEvidenceExportFailed | RtLedgerFailure | RtContainedTaskDeadlineExceeded
  | RtContainedTaskBusy | RtContainedTaskCancelled | RtContainedTaskPaused

fun runtime_error_as_str :: "RuntimeErrorCode \<Rightarrow> string" where
  "runtime_error_as_str RtRuntimeBusy = ''runtime_busy''"
| "runtime_error_as_str RtRuntimeOwnerMismatch = ''runtime_owner_mismatch''"
| "runtime_error_as_str RtInvalidRequest = ''invalid_request''"
| "runtime_error_as_str RtRuntimeUnavailable = ''runtime_unavailable''"
| "runtime_error_as_str RtRuntimeHalted = ''runtime_halted''"
| "runtime_error_as_str RtOwnerConflict = ''owner_conflict''"
| "runtime_error_as_str RtProtocolInvalid = ''protocol_invalid''"
| "runtime_error_as_str RtInstanceUnknown = ''instance_unknown''"
| "runtime_error_as_str RtLeaseBusy = ''lease_busy''"
| "runtime_error_as_str RtLeaseCooldown = ''lease_cooldown''"
| "runtime_error_as_str RtLeaseExpired = ''lease_expired''"
| "runtime_error_as_str RtLeaseMissing = ''lease_missing''"
| "runtime_error_as_str RtStaleOwnerEpoch = ''stale_owner_epoch''"
| "runtime_error_as_str RtLeaseMismatch = ''lease_mismatch''"
| "runtime_error_as_str RtQueueFull = ''queue_full''"
| "runtime_error_as_str RtQueueExpired = ''queue_expired''"
| "runtime_error_as_str RtQueueMissing = ''queue_missing''"
| "runtime_error_as_str RtQueueConnectionMismatch = ''queue_connection_mismatch''"
| "runtime_error_as_str RtTransferNotSafe = ''transfer_not_safe''"
| "runtime_error_as_str RtInstanceMismatch = ''instance_mismatch''"
| "runtime_error_as_str RtHolderMismatch = ''holder_mismatch''"
| "runtime_error_as_str RtConnectionMismatch = ''connection_mismatch''"
| "runtime_error_as_str RtReadonlyCapabilityInvalid = ''readonly_capability_invalid''"
| "runtime_error_as_str RtCaptureFailed = ''capture_failed''"
| "runtime_error_as_str RtRecognitionFailed = ''recognition_failed''"
| "runtime_error_as_str RtBackendOpenFailed = ''backend_open_failed''"
| "runtime_error_as_str RtBackendOperationFailed = ''backend_operation_failed''"
| "runtime_error_as_str RtPackageInvalid = ''package_invalid''"
| "runtime_error_as_str RtEvidenceExportFailed = ''evidence_export_failed''"
| "runtime_error_as_str RtLedgerFailure = ''ledger_failure''"
| "runtime_error_as_str RtContainedTaskDeadlineExceeded = ''contained_task_deadline_exceeded''"
| "runtime_error_as_str RtContainedTaskBusy = ''contained_task_busy''"
| "runtime_error_as_str RtContainedTaskCancelled = ''contained_task_cancelled''"
| "runtime_error_as_str RtContainedTaskPaused = ''contained_task_paused''"

text \<open>Every code of this registry has the category \<open>error\<close>.\<close>

definition runtime_error_code :: "RuntimeErrorCode \<Rightarrow> code" where
  "runtime_error_code c = Code (runtime_error_as_str c) CatError"

section \<open>Typed identifiers\<close>

text \<open>Each \<open>typed_id!\<close> is a wrapper of sixteen bytes with the derived, lexicographic order.\<close>

datatype InstanceId = InstanceId (instance_bytes: "u8 list")
datatype RequestId = RequestId (request_bytes: "u8 list")
datatype LeaseId = LeaseId (lease_bytes: "u8 list")
datatype OwnerEpoch = OwnerEpoch (epoch_bytes: "u8 list")
datatype HolderId = HolderId (holder_bytes: "u8 list")

instantiation InstanceId :: linorder
begin

definition less_eq_InstanceId :: "InstanceId \<Rightarrow> InstanceId \<Rightarrow> bool" where
  "less_eq_InstanceId a b \<longleftrightarrow> instance_bytes a \<le> instance_bytes b"

definition less_InstanceId :: "InstanceId \<Rightarrow> InstanceId \<Rightarrow> bool" where
  "less_InstanceId a b \<longleftrightarrow> instance_bytes a < instance_bytes b"

instance
  by standard
    (auto simp: less_eq_InstanceId_def less_InstanceId_def less_le_not_le intro: InstanceId.expand)

end

instantiation LeaseId :: linorder
begin

definition less_eq_LeaseId :: "LeaseId \<Rightarrow> LeaseId \<Rightarrow> bool" where
  "less_eq_LeaseId a b \<longleftrightarrow> lease_bytes a \<le> lease_bytes b"

definition less_LeaseId :: "LeaseId \<Rightarrow> LeaseId \<Rightarrow> bool" where
  "less_LeaseId a b \<longleftrightarrow> lease_bytes a < lease_bytes b"

instance
  by standard
    (auto simp: less_eq_LeaseId_def less_LeaseId_def less_le_not_le intro: LeaseId.expand)

end

lemma InstanceId_less [simp]: "InstanceId a < InstanceId b \<longleftrightarrow> a < b"
  by (simp add: less_InstanceId_def)

lemma LeaseId_less [simp]: "LeaseId a < LeaseId b \<longleftrightarrow> a < b"
  by (simp add: less_LeaseId_def)

subsection \<open>The canonical text form\<close>

text \<open>\<open>decode_hex\<close> and \<open>decode_hex_pair\<close>: lower-case hexadecimal digits only.\<close>

definition decode_hex :: "char \<Rightarrow> u8 option" where
  "decode_hex ch =
     (let byte = (of_char ch :: nat) in
      if 48 \<le> byte \<and> byte \<le> 57 then Some (of_nat (byte - 48))
      else if 97 \<le> byte \<and> byte \<le> 102 then Some (of_nat (byte - 97 + 10))
      else None)"

definition decode_hex_pair :: "char \<Rightarrow> char \<Rightarrow> u8 option" where
  "decode_hex_pair h l =
     (case decode_hex h of
        None \<Rightarrow> None
      | Some high \<Rightarrow>
          (case decode_hex l of
             None \<Rightarrow> None
           | Some low \<Rightarrow> Some (push_bit 4 high OR low)))"

definition is_lower_hex :: "char \<Rightarrow> bool" where
  "is_lower_hex ch =
     (let byte = (of_char ch :: nat) in
      48 \<le> byte \<and> byte \<le> 57 \<or> 97 \<le> byte \<and> byte \<le> 102)"

fun decode_pairs :: "string \<Rightarrow> u8 list option" where
  "decode_pairs [] = Some []"
| "decode_pairs [h] = None"
| "decode_pairs (h # l # rest) =
     (case decode_hex_pair h l of
        None \<Rightarrow> None
      | Some byte \<Rightarrow> map_option (Cons byte) (decode_pairs rest))"

text \<open>\<open>parse\<close>: the prefix, exactly 32 lower-case hexadecimal digits, sixteen bytes.\<close>

definition id_parse :: "string \<Rightarrow> string \<Rightarrow> u8 list option" where
  "id_parse prefix value =
     (if take (length prefix) value = prefix
      then let hex = drop (length prefix) value in
        if length hex \<noteq> 32 \<or> \<not> list_all is_lower_hex hex then None
        else decode_pairs hex
      else None)"

definition hex_digit :: "u8 \<Rightarrow> char" where
  "hex_digit n = ''0123456789abcdef'' ! unat n"

text \<open>\<open>{byte:02x}\<close>.\<close>

definition hex_byte :: "u8 \<Rightarrow> string" where
  "hex_byte b = [hex_digit (drop_bit 4 b), hex_digit (take_bit 4 b)]"

definition id_canonical :: "string \<Rightarrow> u8 list \<Rightarrow> string" where
  "id_canonical prefix bytes = prefix @ concat (map hex_byte bytes)"

subsection \<open>The issuer\<close>

datatype IdentifierIssuanceCode =
    IdentifierClockInvalid | IdentifierIssuerExhausted | IdentifierSequenceExhausted
  | IdentifierContractInvalid

record IdentifierIssuer =
  ii_namespace :: u64
  ii_next_sequence :: u64

text \<open>What the issuer reads of its process: the wall clock since the epoch in nanoseconds
  (\<open>None\<close> before the epoch), the process id and the process-wide nonce counter.\<close>

record issuer_env =
  ie_nanos :: "128 word option"
  ie_pid :: u32
  ie_nonce :: u64

text \<open>\<open>IdentifierIssuer::new\<close>; the second component is the nonce counter afterwards.\<close>

definition issuer_new ::
  "issuer_env \<Rightarrow> (IdentifierIssuanceCode, IdentifierIssuer) result \<times> u64" where
  "issuer_new env =
     (case ie_nanos env of
        None \<Rightarrow> (Inl IdentifierClockInvalid, ie_nonce env)
      | Some nanos \<Rightarrow>
          (case checked_add (ie_nonce env) 1 of
             None \<Rightarrow> (Inl IdentifierIssuerExhausted, ie_nonce env)
           | Some nonce' \<Rightarrow>
               (let folded_time =
                      (ucast nanos :: u64) XOR word_rotl 17 (ucast (drop_bit 64 nanos));
                    namespace =
                      (folded_time XOR word_rotl 29 (ucast (ie_pid env)))
                        XOR word_rotl 43 (ie_nonce env)
                in (Inr \<lparr>ii_namespace = namespace, ii_next_sequence = 1\<rparr>, nonce'))))"

definition to_be_bytes :: "u64 \<Rightarrow> u8 list" where
  "to_be_bytes w = map (\<lambda>i. ucast (drop_bit (8 * i) w)) [7, 6, 5, 4, 3, 2, 1, 0]"

definition issued_bytes :: "u64 \<Rightarrow> u64 \<Rightarrow> u8 list" where
  "issued_bytes namespace sequence = to_be_bytes namespace @ to_be_bytes sequence"

text \<open>\<open>next_bytes\<close>: the namespace, then the sequence number, which advances by one.\<close>

definition next_bytes ::
  "IdentifierIssuer \<Rightarrow> (IdentifierIssuanceCode, u8 list) result \<times> IdentifierIssuer" where
  "next_bytes ii =
     (case checked_add (ii_next_sequence ii) 1 of
        None \<Rightarrow> (Inl IdentifierSequenceExhausted, ii)
      | Some next \<Rightarrow>
          (Inr (issued_bytes (ii_namespace ii) (ii_next_sequence ii)),
           ii\<lparr>ii_next_sequence := next\<rparr>))"

definition mint_lease_id ::
  "IdentifierIssuer \<Rightarrow> (IdentifierIssuanceCode, LeaseId) result \<times> IdentifierIssuer" where
  "mint_lease_id ii =
     (case next_bytes ii of
        (Inl e, ii') \<Rightarrow> (Inl e, ii')
      | (Inr bytes, ii') \<Rightarrow> (Inr (LeaseId bytes), ii'))"

section \<open>Lease tokens and fenced writes\<close>

record LeaseToken =
  lt_owner_epoch :: OwnerEpoch
  lt_lease_id :: LeaseId
  lt_instance_id :: InstanceId
  lt_holder_id :: HolderId
  lt_expires_at :: u64

text \<open>The three codes of \<open>RuntimeContractCode\<close> that the lease types below raise; the registry
  has one such code per protocol type.\<close>

datatype LeaseContractCode =
    InvalidLeaseExpiry | InvalidLeaseQueueTimeout | InvalidLeaseQueueStatus

definition token_validate :: "LeaseToken \<Rightarrow> (LeaseContractCode, unit) result" where
  "token_validate t = (if lt_expires_at t = 0 then Inl InvalidLeaseExpiry else Inr ())"

definition token_new ::
  "OwnerEpoch \<Rightarrow> LeaseId \<Rightarrow> InstanceId \<Rightarrow> HolderId \<Rightarrow> u64 \<Rightarrow>
     (LeaseContractCode, LeaseToken) result" where
  "token_new epoch lease inst holder expires =
     (let token = \<lparr>lt_owner_epoch = epoch, lt_lease_id = lease, lt_instance_id = inst,
                    lt_holder_id = holder, lt_expires_at = expires\<rparr>
      in and_then (token_validate token) (\<lambda>_. Inr token))"

datatype FencedWritePurpose = Business | ResourceCloseWrite

text \<open>\<open>step_id\<close> is a \<open>NonZeroU64\<close>; the scheduler builds it with \<open>NonZeroU64::new\<close>.\<close>

record FencedWrite =
  fw_token :: LeaseToken
  fw_connection_id :: u64
  fw_step_id :: u64
  fw_purpose :: FencedWritePurpose

definition issue_fenced_write ::
  "LeaseToken \<Rightarrow> u64 \<Rightarrow> u64 \<Rightarrow> FencedWritePurpose \<Rightarrow> FencedWrite" where
  "issue_fenced_write token connection step purpose =
     \<lparr>fw_token = token, fw_connection_id = connection, fw_step_id = step, fw_purpose = purpose\<rparr>"

datatype LeasePriority = Normal | High

instantiation LeasePriority :: linorder
begin

fun less_eq_LeasePriority :: "LeasePriority \<Rightarrow> LeasePriority \<Rightarrow> bool" where
  "less_eq_LeasePriority High Normal = False"
| "less_eq_LeasePriority _ _ = True"

definition less_LeasePriority :: "LeasePriority \<Rightarrow> LeasePriority \<Rightarrow> bool" where
  "less_LeasePriority a b \<longleftrightarrow> a = Normal \<and> b = High"

instance
proof
  fix a b c :: LeasePriority
  show "a < b \<longleftrightarrow> a \<le> b \<and> \<not> b \<le> a"
    by (cases a; cases b) (auto simp: less_LeasePriority_def)
  show "a \<le> a" by (cases a) auto
  show "a \<le> b \<Longrightarrow> b \<le> c \<Longrightarrow> a \<le> c" by (cases a; cases b; cases c) auto
  show "a \<le> b \<Longrightarrow> b \<le> a \<Longrightarrow> a = b" by (cases a; cases b) auto
  show "a \<le> b \<or> b \<le> a" by (cases a; cases b) auto
qed

end

lemma priority_less [simp]: "a < b \<longleftrightarrow> a = Normal \<and> b = High" for a b :: LeasePriority
  by (simp add: less_LeasePriority_def)

definition MAX_LEASE_QUEUE_TIMEOUT_MS :: u64 where
  "MAX_LEASE_QUEUE_TIMEOUT_MS = 3600000"

record LeaseQueuePolicy =
  lqp_priority :: LeasePriority
  lqp_timeout_ms :: u64

definition queue_policy_new ::
  "LeasePriority \<Rightarrow> u64 \<Rightarrow> (LeaseContractCode, LeaseQueuePolicy) result" where
  "queue_policy_new prio timeout =
     (if timeout = 0 \<or> MAX_LEASE_QUEUE_TIMEOUT_MS < timeout then Inl InvalidLeaseQueueTimeout
      else Inr \<lparr>lqp_priority = prio, lqp_timeout_ms = timeout\<rparr>)"

record LeaseQueueStatus =
  lqs_request_id :: RequestId
  lqs_instance_id :: InstanceId
  lqs_priority :: LeasePriority
  lqs_position :: u32
  lqs_deadline :: u64
  lqs_preempt_requested :: bool

definition queue_status_validate :: "LeaseQueueStatus \<Rightarrow> (LeaseContractCode, unit) result" where
  "queue_status_validate q =
     (if lqs_position q = 0 \<or> lqs_deadline q = 0 then Inl InvalidLeaseQueueStatus else Inr ())"

definition queue_status_new ::
  "RequestId \<Rightarrow> InstanceId \<Rightarrow> LeasePriority \<Rightarrow> u32 \<Rightarrow> u64 \<Rightarrow> bool \<Rightarrow>
     (LeaseContractCode, LeaseQueueStatus) result" where
  "queue_status_new r i p pos d pre =
     (let status = \<lparr>lqs_request_id = r, lqs_instance_id = i, lqs_priority = p,
                     lqs_position = pos, lqs_deadline = d, lqs_preempt_requested = pre\<rparr>
      in and_then (queue_status_validate status) (\<lambda>_. Inr status))"

record RuntimeErrorProjection =
  rep_code :: RuntimeErrorCode
  rep_fatal :: bool
  rep_current_holder_id :: "HolderId option"
  rep_current_lease_id :: "LeaseId option"
  rep_retry_after_ms :: "u64 option"

definition projection_new :: "RuntimeErrorCode \<Rightarrow> bool \<Rightarrow> RuntimeErrorProjection" where
  "projection_new c fatal =
     \<lparr>rep_code = c, rep_fatal = fatal, rep_current_holder_id = None,
       rep_current_lease_id = None, rep_retry_after_ms = None\<rparr>"

definition with_holder ::
  "HolderId \<Rightarrow> LeaseId \<Rightarrow> RuntimeErrorProjection \<Rightarrow> RuntimeErrorProjection" where
  "with_holder h l p = p\<lparr>rep_current_holder_id := Some h, rep_current_lease_id := Some l\<rparr>"

definition with_retry_after :: "u64 \<Rightarrow> RuntimeErrorProjection \<Rightarrow> RuntimeErrorProjection" where
  "with_retry_after ms p = p\<lparr>rep_retry_after_ms := Some ms\<rparr>"

text \<open>\<open>ContainedTaskRequest::MAX_RESPONSE_DEADLINE_MS\<close>, the contract's
  \<open>MAX_CONTAINED_TASK_TIMEOUT_MS\<close>.\<close>

definition MAX_RESPONSE_DEADLINE_MS :: u64 where
  "MAX_RESPONSE_DEADLINE_MS = 1800000"

section \<open>Lemmas on identifiers\<close>

lemma token_new_Inr [result_simps]:
  "token_new e l i h x = Inr t \<longleftrightarrow>
     x \<noteq> 0 \<and> t = \<lparr>lt_owner_epoch = e, lt_lease_id = l, lt_instance_id = i,
                   lt_holder_id = h, lt_expires_at = x\<rparr>"
  by (auto simp: token_new_def token_validate_def Let_def)

lemma to_be_bytes_byte:
  assumes "k < 8"
  shows "to_be_bytes w ! (7 - k) = ucast (drop_bit (8 * k) w)"
proof -
  have "k = 0 \<or> k = 1 \<or> k = 2 \<or> k = 3 \<or> k = 4 \<or> k = 5 \<or> k = 6 \<or> k = 7"
    using assms by linarith
  then show ?thesis
    by (elim disjE) (simp_all add: to_be_bytes_def)
qed

lemma to_be_bytes_bit:
  assumes "n < 64"
  shows "bit (to_be_bytes w ! (7 - n div 8)) (n mod 8) = bit w n"
proof -
  have "n div 8 < 8" using assms by simp
  then show ?thesis
    using assms by (simp add: to_be_bytes_byte bit_simps)
qed

lemma to_be_bytes_inj: "to_be_bytes a = to_be_bytes b \<longleftrightarrow> a = b"
proof
  assume eq: "to_be_bytes a = to_be_bytes b"
  show "a = b"
  proof (rule bit_word_eqI)
    fix n assume "n < LENGTH(64)"
    then have "n < 64" by simp
    then show "bit a n = bit b n"
      using to_be_bytes_bit [of n a] to_be_bytes_bit [of n b] eq by simp
  qed
qed simp

lemma length_to_be_bytes [simp]: "length (to_be_bytes w) = 8"
  by (simp add: to_be_bytes_def)

lemma issued_bytes_inj: "issued_bytes n a = issued_bytes n b \<longleftrightarrow> a = b"
  by (simp add: issued_bytes_def to_be_bytes_inj)

lemma length_issued_bytes [simp]: "length (issued_bytes n a) = 16"
  by (simp add: issued_bytes_def)

subsection \<open>Text and bytes\<close>

lemma u8_less_16_cases:
  assumes "n < (16 :: u8)"
  obtains k where "k \<in> set [0..<16]" "n = of_nat k"
proof
  show "unat n \<in> set [0..<16]" using assms by (simp add: word_less_nat_alt)
  show "n = of_nat (unat n)" by simp
qed

lemma decode_hex_digit: "n < 16 \<Longrightarrow> decode_hex (hex_digit n) = Some n"
  by (erule u8_less_16_cases) (auto simp: upt_rec decode_hex_def hex_digit_def)

lemma is_lower_hex_iff: "is_lower_hex c \<longleftrightarrow> decode_hex c \<noteq> None"
  by (auto simp: is_lower_hex_def decode_hex_def Let_def)

lemma hex_digit_decode_code:
  "b \<in> set [48..<58] \<union> set [97..<103] \<Longrightarrow> decode_hex (char_of b) = Some n \<Longrightarrow>
     hex_digit n = char_of b \<and> n < 16" for b :: nat
  by (auto simp: upt_rec decode_hex_def hex_digit_def) (simp_all add: char_of_def bit_0)

lemma decode_hex_SomeD:
  assumes "decode_hex c = Some n"
  shows "hex_digit n = c" "n < 16"
proof -
  have "(of_char c :: nat) \<in> set [48..<58] \<union> set [97..<103]"
    using assms
    by (auto simp only: decode_hex_def Let_def set_upt atLeastLessThan_iff split: if_splits)
  from hex_digit_decode_code [OF this] assms
  show "hex_digit n = c" "n < 16" by simp_all
qed

lemma drop_bit_4_less: "drop_bit 4 (b :: u8) < 16"
  using unsigned_less [of b, where ?'a = nat]
  by (simp add: word_less_nat_alt drop_bit_eq_div unat_div)

lemma take_bit_4_less: "take_bit 4 (b :: u8) < 16"
  by (simp add: word_less_nat_alt take_bit_eq_mod unat_mod)

lemma nibbles_join: "push_bit 4 (drop_bit 4 b) OR take_bit 4 b = (b :: u8)"
  by (rule bit_word_eqI) (auto simp: bit_simps)

lemma bit_small_u8:
  assumes "n < (16 :: u8)" "4 \<le> i"
  shows "\<not> bit n i"
proof -
  have "unat (take_bit 4 n) = unat n"
    using assms by (simp add: take_bit_eq_mod unat_mod word_less_nat_alt)
  then have "take_bit 4 n = n" by (simp only: unsigned_word_eqI)
  then show ?thesis using bit_take_bit_iff [of 4 n i] assms by simp
qed

lemma nibbles_split:
  assumes "l < (16 :: u8)" "h < (16 :: u8)"
  shows "drop_bit 4 (push_bit 4 h OR l) = h" "take_bit 4 (push_bit 4 h OR l) = l"
proof -
  show "drop_bit 4 (push_bit 4 h OR l) = h"
  proof (rule bit_word_eqI)
    fix n
    show "bit (drop_bit 4 (push_bit 4 h OR l)) n = bit h n"
      using assms bit_small_u8 [of h n] by (cases "n < 4") (auto simp: bit_simps bit_small_u8)
  qed
  show "take_bit 4 (push_bit 4 h OR l) = l"
    by (rule bit_word_eqI) (use assms in \<open>auto simp: bit_simps bit_small_u8 not_less\<close>)
qed

lemma decode_pairs_canonical: "decode_pairs (concat (map hex_byte bs)) = Some bs"
  by (induction bs)
    (simp_all add: hex_byte_def decode_hex_pair_def decode_hex_digit drop_bit_4_less
      take_bit_4_less nibbles_join)

lemma decode_pairs_SomeD:
  "decode_pairs t = Some bs \<Longrightarrow> concat (map hex_byte bs) = t \<and> length t = 2 * length bs"
proof (induction t arbitrary: bs rule: decode_pairs.induct)
  case (3 h l rest)
  then obtain a b bs' where ab: "decode_hex h = Some a" "decode_hex l = Some b"
      and bs: "bs = (push_bit 4 a OR b) # bs'" "decode_pairs rest = Some bs'"
    by (auto simp: decode_hex_pair_def split: option.splits)
  have "hex_byte (push_bit 4 a OR b) = [h, l]"
    using decode_hex_SomeD [OF ab(1)] decode_hex_SomeD [OF ab(2)]
    by (simp only: hex_byte_def nibbles_split)
  moreover have "concat (map hex_byte bs') = rest \<and> length rest = 2 * length bs'"
    using 3 ab bs by (simp add: decode_hex_pair_def)
  ultimately show ?case using bs by simp
qed simp_all

lemma hex_text_ok: "list_all is_lower_hex (concat (map hex_byte bs))"
  by (induction bs)
    (simp_all add: hex_byte_def is_lower_hex_iff decode_hex_digit drop_bit_4_less take_bit_4_less)

lemma length_hex_text [simp]: "length (concat (map hex_byte bs)) = 2 * length bs"
  by (induction bs) (simp_all add: hex_byte_def)

end
