(* ===== verification/Claims.thy ===== *)
theory Claims
  imports Contract
begin

text \<open>
  The vocabulary of the scheduler (\<open>crates/scheduler/src/lib.rs\<close>): its configuration, the kinds
  of claims that hold or wait on an instance, the routine gate a caller reads from the
  scheduling pauses and blackouts, and the scheduler's errors with their outcome codes and wire
  projections. The lemmas show what the gate can hold back and that laying silence over a gate
  only ever holds back more.
\<close>

named_theorems claim_simps \<open>evaluation of claim kinds and gates\<close>

section \<open>Configuration\<close>

definition DEFAULT_MAX_CLIENT_HEARTBEAT_INTERVAL_MS :: u64 where
  "DEFAULT_MAX_CLIENT_HEARTBEAT_INTERVAL_MS = 5000"

definition DEFAULT_TAKEOVER_COOLDOWN_MS :: u64 where
  "DEFAULT_TAKEOVER_COOLDOWN_MS = 6000"

definition DEFAULT_LEASE_TTL_MS :: u64 where
  "DEFAULT_LEASE_TTL_MS = 120000"

definition DEFAULT_MAXIMUM_QUEUE_TIMEOUT_MS :: u64 where
  "DEFAULT_MAXIMUM_QUEUE_TIMEOUT_MS = 60000"

definition DEFAULT_MAX_QUEUE_DEPTH_PER_INSTANCE :: nat where
  "DEFAULT_MAX_QUEUE_DEPTH_PER_INSTANCE = 64"

definition MAX_QUEUE_DEPTH_PER_INSTANCE :: nat where
  "MAX_QUEUE_DEPTH_PER_INSTANCE = 4096"

record SchedulerConfig =
  sc_maximum_client_heartbeat_interval_ms :: u64
  sc_takeover_cooldown_ms :: u64
  sc_lease_ttl_ms :: u64
  sc_maximum_queue_timeout_ms :: u64
  sc_max_queue_depth_per_instance :: nat

text \<open>\<open>SchedulerConfig::default()\<close>.\<close>

definition default_config :: SchedulerConfig where
  "default_config =
     \<lparr>sc_maximum_client_heartbeat_interval_ms = DEFAULT_MAX_CLIENT_HEARTBEAT_INTERVAL_MS,
       sc_takeover_cooldown_ms = DEFAULT_TAKEOVER_COOLDOWN_MS,
       sc_lease_ttl_ms = DEFAULT_LEASE_TTL_MS,
       sc_maximum_queue_timeout_ms = DEFAULT_MAXIMUM_QUEUE_TIMEOUT_MS,
       sc_max_queue_depth_per_instance = DEFAULT_MAX_QUEUE_DEPTH_PER_INSTANCE\<rparr>"

section \<open>Claim kinds\<close>

datatype LeaseReleaseReason =
    ReleaseExplicit | ReleasePreempted | ReleaseDisconnect | ReleaseExpired
  | ReleaseBackendFailure | ReleaseHostShutdown | ReleaseInstancePaused
  | ReleaseConnectionPrepared

datatype LeaseTransferReason =
    TransferPreempted | TransferExplicitRelease | TransferDisconnect | TransferExpired
  | TransferBackendFailure | TransferHostShutdown

datatype ClaimKind =
    PolicyDispatch | Ladder | LadderContinuation | StartupPackage | Autostart | DirectTaskRun
  | EmulatorControl | InputLifecycle | ResumeReconnect | SelfCheck | BackendSwitch
  | DaemonStartPreparation | LabOperation | ClientLease | ResourceClose

datatype ClaimClass = Routine | HolderOwned | Operator | HostInternal

fun claim_kind_as_str :: "ClaimKind \<Rightarrow> string" where
  "claim_kind_as_str PolicyDispatch = ''policy_dispatch''"
| "claim_kind_as_str Ladder = ''ladder''"
| "claim_kind_as_str LadderContinuation = ''ladder_continuation''"
| "claim_kind_as_str StartupPackage = ''startup_package''"
| "claim_kind_as_str Autostart = ''autostart''"
| "claim_kind_as_str DirectTaskRun = ''direct_task_run''"
| "claim_kind_as_str EmulatorControl = ''emulator_control''"
| "claim_kind_as_str InputLifecycle = ''input_lifecycle''"
| "claim_kind_as_str ResumeReconnect = ''resume_reconnect''"
| "claim_kind_as_str SelfCheck = ''self_check''"
| "claim_kind_as_str BackendSwitch = ''backend_switch''"
| "claim_kind_as_str DaemonStartPreparation = ''daemon_start_preparation''"
| "claim_kind_as_str LabOperation = ''lab_operation''"
| "claim_kind_as_str ClientLease = ''client_lease''"
| "claim_kind_as_str ResourceClose = ''resource_close''"

fun claim_class :: "ClaimKind \<Rightarrow> ClaimClass" where
  "claim_class PolicyDispatch = Routine"
| "claim_class Ladder = Routine"
| "claim_class StartupPackage = Routine"
| "claim_class LadderContinuation = HolderOwned"
| "claim_class DirectTaskRun = Operator"
| "claim_class EmulatorControl = Operator"
| "claim_class InputLifecycle = Operator"
| "claim_class ResumeReconnect = Operator"
| "claim_class SelfCheck = Operator"
| "claim_class BackendSwitch = Operator"
| "claim_class LabOperation = Operator"
| "claim_class ClientLease = Operator"
| "claim_class Autostart = HostInternal"
| "claim_class DaemonStartPreparation = HostInternal"
| "claim_class ResourceClose = HostInternal"

definition gated_by_pause :: "ClaimKind \<Rightarrow> bool" where
  "gated_by_pause k \<longleftrightarrow> claim_class k = Routine"

definition holder_owned :: "ClaimKind \<Rightarrow> bool" where
  "holder_owned k \<longleftrightarrow> claim_class k = HolderOwned"

definition takes_admission_checks :: "ClaimKind \<Rightarrow> bool" where
  "takes_admission_checks k \<longleftrightarrow>
     k \<in> {PolicyDispatch, StartupPackage, DirectTaskRun, InputLifecycle, LabOperation, ClientLease}"

definition skips_business_capacity :: "ClaimKind \<Rightarrow> bool" where
  "skips_business_capacity k \<longleftrightarrow>
     k \<in> {Ladder, LadderContinuation, EmulatorControl, Autostart, ResumeReconnect, SelfCheck,
          BackendSwitch, DaemonStartPreparation, ResourceClose}"

section \<open>The claim gate\<close>

datatype ClaimGate =
    Open
  | RoutineHeld
  | Silenced (silenced_routine_held: bool) (silenced_autostart: bool)

fun routine_held :: "ClaimGate \<Rightarrow> bool" where
  "routine_held RoutineHeld = True"
| "routine_held (Silenced held _) = held"
| "routine_held Open = False"

fun blackout :: "ClaimGate \<Rightarrow> bool" where
  "blackout (Silenced _ auto) = auto"
| "blackout _ = False"

fun holds :: "ClaimGate \<Rightarrow> ClaimKind \<Rightarrow> bool" where
  "holds Open kind = False"
| "holds RoutineHeld kind = gated_by_pause kind"
| "holds (Silenced held auto) kind =
     (held \<and> gated_by_pause kind \<or> kind = StartupPackage \<or> auto \<and> kind = Autostart)"

definition silenced :: "ClaimGate \<Rightarrow> bool \<Rightarrow> ClaimGate" where
  "silenced g auto = Silenced (routine_held g) (auto \<or> blackout g)"

section \<open>Errors\<close>

type_synonym ConnectionId = u64

datatype SchedulerError =
    InvalidConfig | InvalidConnection | IdentifierIssuance | ExpiryOverflow
  | Busy HolderId LeaseId u64
  | Cooldown u64
  | StaleOwnerEpoch | LeaseMismatch | InstanceMismatch | HolderMismatch | ConnectionMismatch
  | LeaseExpired | LeaseNotExpired | LeaseMissing
  | QueueFull | QueueExpired | QueueMissing | QueueConnectionMismatch | QueueRequestMismatch
  | QueueTimeoutInvalid | QueueSequenceOverflow | StepSequenceOverflow
  | TransferNotSafe | DestructiveStateMismatch | ResourceCloseOnly
  | QueueAhead ClaimKind u32
  | GateHeld

definition connection_id_new :: "u64 \<Rightarrow> (SchedulerError, ConnectionId) result" where
  "connection_id_new v = (if v = 0 then Inl InvalidConnection else Inr v)"

definition config_validate :: "SchedulerConfig \<Rightarrow> (SchedulerError, SchedulerConfig) result" where
  "config_validate c =
     (if sc_maximum_client_heartbeat_interval_ms c = 0
         \<or> sc_takeover_cooldown_ms c \<le> sc_maximum_client_heartbeat_interval_ms c
         \<or> sc_lease_ttl_ms c \<le> sc_maximum_client_heartbeat_interval_ms c
         \<or> sc_maximum_queue_timeout_ms c = 0
         \<or> MAX_LEASE_QUEUE_TIMEOUT_MS < sc_maximum_queue_timeout_ms c
         \<or> sc_max_queue_depth_per_instance c = 0
         \<or> MAX_QUEUE_DEPTH_PER_INSTANCE < sc_max_queue_depth_per_instance c
      then Inl InvalidConfig
      else Inr c)"

fun scheduler_error_code :: "SchedulerError \<Rightarrow> code" where
  "scheduler_error_code InvalidConfig = Code ''invalid_scheduler_config'' CatError"
| "scheduler_error_code InvalidConnection = Code ''invalid_connection_id'' CatError"
| "scheduler_error_code IdentifierIssuance = Code ''identifier_issuance_failed'' CatError"
| "scheduler_error_code ExpiryOverflow = Code ''lease_expiry_overflow'' CatError"
| "scheduler_error_code (Busy _ _ _) = runtime_error_code RtLeaseBusy"
| "scheduler_error_code (QueueAhead _ _) = runtime_error_code RtLeaseBusy"
| "scheduler_error_code GateHeld = runtime_error_code RtLeaseBusy"
| "scheduler_error_code (Cooldown _) = runtime_error_code RtLeaseCooldown"
| "scheduler_error_code StaleOwnerEpoch = runtime_error_code RtStaleOwnerEpoch"
| "scheduler_error_code LeaseMismatch = runtime_error_code RtLeaseMismatch"
| "scheduler_error_code InstanceMismatch = runtime_error_code RtInstanceMismatch"
| "scheduler_error_code HolderMismatch = runtime_error_code RtHolderMismatch"
| "scheduler_error_code ConnectionMismatch = runtime_error_code RtConnectionMismatch"
| "scheduler_error_code LeaseExpired = runtime_error_code RtLeaseExpired"
| "scheduler_error_code LeaseNotExpired = Code ''lease_not_expired'' CatError"
| "scheduler_error_code LeaseMissing = runtime_error_code RtLeaseMissing"
| "scheduler_error_code QueueFull = Code ''lease_queue_full'' CatError"
| "scheduler_error_code QueueExpired = Code ''lease_queue_expired'' CatError"
| "scheduler_error_code QueueMissing = Code ''lease_queue_missing'' CatError"
| "scheduler_error_code QueueConnectionMismatch =
     Code ''lease_queue_connection_mismatch'' CatError"
| "scheduler_error_code QueueRequestMismatch = Code ''lease_queue_request_mismatch'' CatError"
| "scheduler_error_code QueueTimeoutInvalid = Code ''lease_queue_timeout_invalid'' CatError"
| "scheduler_error_code QueueSequenceOverflow = Code ''lease_queue_sequence_overflow'' CatError"
| "scheduler_error_code StepSequenceOverflow = Code ''lease_step_sequence_overflow'' CatError"
| "scheduler_error_code TransferNotSafe = Code ''lease_transfer_not_safe'' CatError"
| "scheduler_error_code DestructiveStateMismatch = Code ''destructive_state_mismatch'' CatError"
| "scheduler_error_code ResourceCloseOnly = Code ''resource_close_only'' CatError"

definition is_fatal :: "SchedulerError \<Rightarrow> bool" where
  "is_fatal e \<longleftrightarrow>
     e \<in> {InvalidConfig, InvalidConnection, IdentifierIssuance, ExpiryOverflow,
          QueueSequenceOverflow, StepSequenceOverflow}"

fun scheduler_projection :: "SchedulerError \<Rightarrow> RuntimeErrorProjection" where
  "scheduler_projection InvalidConfig = projection_new RtRuntimeHalted True"
| "scheduler_projection InvalidConnection = projection_new RtRuntimeHalted True"
| "scheduler_projection IdentifierIssuance = projection_new RtRuntimeHalted True"
| "scheduler_projection ExpiryOverflow = projection_new RtRuntimeHalted True"
| "scheduler_projection (Busy h l _) = with_holder h l (projection_new RtLeaseBusy False)"
| "scheduler_projection (QueueAhead _ _) = projection_new RtLeaseBusy False"
| "scheduler_projection GateHeld = projection_new RtLeaseBusy False"
| "scheduler_projection (Cooldown ms) =
     with_retry_after ms (projection_new RtLeaseCooldown False)"
| "scheduler_projection StaleOwnerEpoch = projection_new RtStaleOwnerEpoch False"
| "scheduler_projection LeaseMismatch = projection_new RtLeaseMismatch False"
| "scheduler_projection InstanceMismatch = projection_new RtInstanceMismatch False"
| "scheduler_projection HolderMismatch = projection_new RtHolderMismatch False"
| "scheduler_projection ConnectionMismatch = projection_new RtConnectionMismatch False"
| "scheduler_projection LeaseExpired = projection_new RtLeaseExpired False"
| "scheduler_projection LeaseNotExpired = projection_new RtLeaseMismatch False"
| "scheduler_projection LeaseMissing = projection_new RtLeaseMissing False"
| "scheduler_projection QueueFull = projection_new RtQueueFull False"
| "scheduler_projection QueueExpired = projection_new RtQueueExpired False"
| "scheduler_projection QueueMissing = projection_new RtQueueMissing False"
| "scheduler_projection QueueConnectionMismatch = projection_new RtQueueConnectionMismatch False"
| "scheduler_projection QueueRequestMismatch = projection_new RtQueueConnectionMismatch False"
| "scheduler_projection QueueTimeoutInvalid = projection_new RtInvalidRequest False"
| "scheduler_projection QueueSequenceOverflow = projection_new RtRuntimeHalted True"
| "scheduler_projection StepSequenceOverflow = projection_new RtRuntimeHalted True"
| "scheduler_projection TransferNotSafe = projection_new RtTransferNotSafe False"
| "scheduler_projection DestructiveStateMismatch = projection_new RtTransferNotSafe False"
| "scheduler_projection ResourceCloseOnly = projection_new RtTransferNotSafe False"

section \<open>Lemmas\<close>

lemma config_validate_Inr [result_simps]:
  "config_validate c = Inr c' \<longleftrightarrow>
     c' = c
     \<and> 0 < sc_maximum_client_heartbeat_interval_ms c
     \<and> sc_maximum_client_heartbeat_interval_ms c < sc_takeover_cooldown_ms c
     \<and> sc_maximum_client_heartbeat_interval_ms c < sc_lease_ttl_ms c
     \<and> 0 < sc_maximum_queue_timeout_ms c
     \<and> sc_maximum_queue_timeout_ms c \<le> MAX_LEASE_QUEUE_TIMEOUT_MS
     \<and> 0 < sc_max_queue_depth_per_instance c
     \<and> sc_max_queue_depth_per_instance c \<le> MAX_QUEUE_DEPTH_PER_INSTANCE"
  by (auto simp: config_validate_def word_neq_0_conv not_le not_less)

lemma default_config_valid [simp]: "config_validate default_config = Inr default_config"
  by (simp add: config_validate_def default_config_def MAX_LEASE_QUEUE_TIMEOUT_MS_def
      MAX_QUEUE_DEPTH_PER_INSTANCE_def DEFAULT_MAX_CLIENT_HEARTBEAT_INTERVAL_MS_def
      DEFAULT_TAKEOVER_COOLDOWN_MS_def DEFAULT_LEASE_TTL_MS_def
      DEFAULT_MAXIMUM_QUEUE_TIMEOUT_MS_def DEFAULT_MAX_QUEUE_DEPTH_PER_INSTANCE_def)

lemma holds_alt [claim_simps]:
  "holds g k \<longleftrightarrow>
     routine_held g \<and> gated_by_pause k
     \<or> k = StartupPackage \<and> (\<exists>h a. g = Silenced h a)
     \<or> blackout g \<and> k = Autostart"
  by (cases g) auto

lemma not_holds_class:
  "claim_class k = Operator \<or> claim_class k = HolderOwned \<Longrightarrow> \<not> holds g k"
  by (cases g; cases k) (auto simp: gated_by_pause_def)

lemma silenced_mono: "holds g k \<Longrightarrow> holds (silenced g a) k"
  by (cases g) (auto simp: silenced_def)

lemma silenced_silenced: "silenced (silenced g a) b = silenced g (a \<or> b)"
  by (cases g) (auto simp: silenced_def)

lemma projection_fatal: "rep_fatal (scheduler_projection e) = is_fatal e"
  by (cases e) (auto simp: projection_new_def is_fatal_def with_holder_def with_retry_after_def)

end
