(* ===== verification/Scheduler_State.thy ===== *)
theory Scheduler_State
  imports Claims
begin

text \<open>
  The state of \<open>SeedScheduler\<close> (\<open>crates/scheduler/src/lib.rs\<close>): lease and queue entries, the
  records kept for replays, the per-instance state and the scheduler itself, with the free
  functions and validation helpers every operation goes through. A method with \<open>&self\<close> is a
  function of the scheduler; one with \<open>&mut self\<close> returns its result paired with the scheduler
  afterwards, on the error paths too.

  The queue order is a lawful comparator, so a queue is kept strictly sorted: the entry a
  client sees at position \<open>n\<close> is the \<open>n\<close>-th one to be granted.
\<close>

named_theorems sched_defs \<open>the operations of the scheduler\<close>
named_theorems sched_view \<open>how updates of the scheduler show in its views\<close>

section \<open>Entries and records\<close>

record ClaimRequest =
  cr_request_id :: RequestId
  cr_instance_id :: InstanceId
  cr_holder_id :: HolderId
  cr_connection_id :: ConnectionId
  cr_kind :: ClaimKind
  cr_priority :: LeasePriority
  cr_lease_ttl_ms :: u64

definition CLAIM_NO_DEADLINE_MONOTONIC_MS :: u64 where
  "CLAIM_NO_DEADLINE_MONOTONIC_MS = u64_max"

record ReleasedLease =
  rl_token :: LeaseToken
  rl_reason :: LeaseReleaseReason

record PreparedLease =
  pl_token :: LeaseToken
  pl_connection_id :: ConnectionId
  pl_acquire_request_id :: RequestId
  pl_priority :: LeasePriority
  pl_resource_close_only :: bool
  pl_kind :: ClaimKind
  pl_from_queue :: bool

datatype LeasePreparation = Existing LeaseToken | New PreparedLease

record LeaseAcquisitionPolicy =
  lap_priority :: LeasePriority
  lap_lease_ttl_ms :: u64
  lap_kind :: ClaimKind
  lap_gate :: ClaimGate

record RenewRecord =
  rr_request_id :: RequestId
  rr_submitted_token :: LeaseToken
  rr_renewed_token :: LeaseToken

record ReleaseRecord =
  rel_request_id :: RequestId
  rel_submitted_token :: LeaseToken
  rel_connection_id :: ConnectionId
  rel_released :: ReleasedLease

record LeaseEntry =
  le_token :: LeaseToken
  le_connection_id :: ConnectionId
  le_resource_close_only :: bool
  le_acquire_request_id :: RequestId
  le_last_renew :: "RenewRecord option"
  le_priority :: LeasePriority
  le_destructive_step :: "(u64 \<times> FencedWritePurpose) option"
  le_preempt_requested :: bool
  le_kind :: ClaimKind

record QueueEntry =
  qe_request_id :: RequestId
  qe_holder_id :: HolderId
  qe_connection_id :: ConnectionId
  qe_priority :: LeasePriority
  qe_deadline :: u64
  qe_arrival_sequence :: u64
  qe_kind :: ClaimKind
  qe_lease_ttl_ms :: u64
  qe_may_preempt :: bool

definition eligible :: "QueueEntry \<Rightarrow> ClaimGate \<Rightarrow> u64 \<Rightarrow> bool" where
  "eligible e gate now \<longleftrightarrow> now < qe_deadline e \<and> \<not> holds gate (qe_kind e)"

record QueueLeaseRequest =
  qr_request_id :: RequestId
  qr_instance_id :: InstanceId
  qr_holder_id :: HolderId
  qr_connection_id :: ConnectionId
  qr_priority :: LeasePriority
  qr_timeout_ms :: u64

record QueuedLease =
  ql_request_id :: RequestId
  ql_instance_id :: InstanceId
  ql_holder_id :: HolderId
  ql_connection_id :: ConnectionId
  ql_priority :: LeasePriority
  ql_position :: u32
  ql_deadline :: u64
  ql_preempt_requested :: bool
  ql_kind :: ClaimKind

text \<open>\<open>QueuedLease::status\<close>.\<close>

definition queued_status :: "QueuedLease \<Rightarrow> (SchedulerError, LeaseQueueStatus) result" where
  "queued_status q =
     map_err (\<lambda>_. InvalidConfig)
       (queue_status_new (ql_request_id q) (ql_instance_id q) (ql_priority q) (ql_position q)
          (ql_deadline q) (ql_preempt_requested q))"

record ActiveLease =
  al_token :: LeaseToken
  al_connection_id :: ConnectionId
  al_priority :: LeasePriority
  al_destructive_step_active :: bool
  al_preempt_requested :: bool
  al_kind :: ClaimKind

datatype QueueAdmissionDecision = Lease LeasePreparation | Queued QueuedLease

record QueueAdmissionOutcome =
  qo_decision :: QueueAdmissionDecision
  qo_expired :: "QueuedLease list"

datatype QueuePoll = Granted LeaseToken | Pending QueuedLease

datatype CancelledQueuedLease = CancelledQueuedLease (cancelled_queued: QueuedLease)

record PreparedLeaseTransfer =
  plt_from :: LeaseEntry
  plt_queued :: QueueEntry
  plt_to_token :: LeaseToken
  plt_reason :: LeaseTransferReason
  plt_release_request_id :: "RequestId option"
  plt_hand_off :: bool

datatype TransferPreparation = NoCandidate | Deferred | Ready PreparedLeaseTransfer

section \<open>Instance and scheduler state\<close>

record InstanceState =
  is_lease :: "LeaseEntry option"
  is_last_release :: "ReleaseRecord option"
  is_cooldown_until :: u64
  is_queue :: "QueueEntry list"

text \<open>\<open>InstanceState::default()\<close>.\<close>

definition default_instance :: InstanceState where
  "default_instance =
     \<lparr>is_lease = None, is_last_release = None, is_cooldown_until = 0, is_queue = []\<rparr>"

record SeedScheduler =
  ss_owner_epoch :: OwnerEpoch
  ss_config :: SchedulerConfig
  ss_lease_issuer :: IdentifierIssuer
  ss_instances :: "(InstanceId, InstanceState) btree"
  ss_lease_locations :: "(LeaseId, InstanceId) btree"
  ss_next_arrival_sequence :: u64
  ss_next_step_id :: u64

type_synonym 'a sched_op = "SeedScheduler \<Rightarrow> (SchedulerError, 'a) result \<times> SeedScheduler"

text \<open>Writing through \<open>instances.get_mut(&i)\<close>, and \<open>instances.entry(i).or_default()\<close>.\<close>

definition put_state :: "InstanceId \<Rightarrow> InstanceState \<Rightarrow> SeedScheduler \<Rightarrow> SeedScheduler" where
  "put_state i st s = s\<lparr>ss_instances := bt_insert i st (ss_instances s)\<rparr>"

definition entry_or_default :: "InstanceId \<Rightarrow> SeedScheduler \<Rightarrow> InstanceState" where
  "entry_or_default i s =
     (case bt_get (ss_instances s) i of None \<Rightarrow> default_instance | Some st \<Rightarrow> st)"

definition remove_location :: "LeaseId \<Rightarrow> SeedScheduler \<Rightarrow> SeedScheduler" where
  "remove_location l s = s\<lparr>ss_lease_locations := bt_remove l (ss_lease_locations s)\<rparr>"

definition insert_location :: "LeaseId \<Rightarrow> InstanceId \<Rightarrow> SeedScheduler \<Rightarrow> SeedScheduler" where
  "insert_location l i s = s\<lparr>ss_lease_locations := bt_insert l i (ss_lease_locations s)\<rparr>"

section \<open>The queue\<close>

text \<open>The comparator of \<open>sort_queue\<close>: holder-owned first, then \<open>High\<close> before \<open>Normal\<close>, then
  arrival order.\<close>

definition queue_cmp :: "QueueEntry \<Rightarrow> QueueEntry \<Rightarrow> ordering" where
  "queue_cmp left right =
     then_with
       (then_with
          (cmp (holder_owned (qe_kind right)) (holder_owned (qe_kind left)))
          (cmp (qe_priority right) (qe_priority left)))
       (cmp (qe_arrival_sequence left) (qe_arrival_sequence right))"

definition sort_queue :: "QueueEntry list \<Rightarrow> QueueEntry list" where
  "sort_queue q = sort_by queue_cmp q"

definition first_eligible :: "InstanceState \<Rightarrow> ClaimGate \<Rightarrow> u64 \<Rightarrow> nat option" where
  "first_eligible st gate now = position (\<lambda>e. eligible e gate now) (is_queue st)"

definition queue_ahead :: "InstanceState \<Rightarrow> nat \<Rightarrow> SchedulerError" where
  "queue_ahead st pos =
     QueueAhead (qe_kind (is_queue st ! pos))
       (case one_based_u32 pos of Some p \<Rightarrow> p | None \<Rightarrow> u32_max)"

text \<open>What \<open>refresh_preempt_requested\<close> computes from the lease and the head of the queue.\<close>

definition wants_preempt :: "QueueEntry list \<Rightarrow> LeaseEntry \<Rightarrow> bool" where
  "wants_preempt q lease =
     (case q of
        [] \<Rightarrow> False
      | queued # _ \<Rightarrow> qe_may_preempt queued \<and> le_priority lease < qe_priority queued)"

definition refresh_preempt_requested :: "InstanceState \<Rightarrow> InstanceState" where
  "refresh_preempt_requested st =
     (case is_lease st of
        None \<Rightarrow> st
      | Some lease \<Rightarrow>
          st\<lparr>is_lease :=
               Some (lease\<lparr>le_preempt_requested := wants_preempt (is_queue st) lease\<rparr>)\<rparr>)"

definition queued_at_position ::
  "InstanceState \<Rightarrow> InstanceId \<Rightarrow> nat \<Rightarrow> (SchedulerError, QueuedLease) result" where
  "queued_at_position st i pos =
     (if pos < length (is_queue st)
      then let entry = is_queue st ! pos in
        and_then (ok_or QueueSequenceOverflow (one_based_u32 pos))
          (\<lambda>position.
             Inr \<lparr>ql_request_id = qe_request_id entry, ql_instance_id = i,
                   ql_holder_id = qe_holder_id entry,
                   ql_connection_id = qe_connection_id entry,
                   ql_priority = qe_priority entry, ql_position = position,
                   ql_deadline = qe_deadline entry,
                   ql_preempt_requested =
                     (qe_may_preempt entry
                      \<and> (case is_lease st of
                            None \<Rightarrow> False
                          | Some lease \<Rightarrow> le_priority lease < qe_priority entry)),
                   ql_kind = qe_kind entry\<rparr>)
      else Inl QueueMissing)"

definition queued_by_request ::
  "InstanceState \<Rightarrow> InstanceId \<Rightarrow> RequestId \<Rightarrow> (SchedulerError, QueuedLease) result" where
  "queued_by_request st i r =
     and_then (ok_or QueueMissing (position (\<lambda>e. qe_request_id e = r) (is_queue st)))
       (queued_at_position st i)"

fun transfer_release_reason :: "LeaseTransferReason \<Rightarrow> LeaseReleaseReason" where
  "transfer_release_reason TransferPreempted = ReleasePreempted"
| "transfer_release_reason TransferExplicitRelease = ReleaseExplicit"
| "transfer_release_reason TransferDisconnect = ReleaseDisconnect"
| "transfer_release_reason TransferExpired = ReleaseExpired"
| "transfer_release_reason TransferBackendFailure = ReleaseBackendFailure"
| "transfer_release_reason TransferHostShutdown = ReleaseHostShutdown"

text \<open>\<open>instances.iter().find_map(..)\<close>: the queue that holds a request, and its place there.\<close>

fun find_queued_in ::
  "RequestId \<Rightarrow> (InstanceId, InstanceState) btree \<Rightarrow> (InstanceId \<times> nat) option" where
  "find_queued_in r [] = None"
| "find_queued_in r ((i, st) # rest) =
     (case position (\<lambda>e. qe_request_id e = r) (is_queue st) of
        Some pos \<Rightarrow> Some (i, pos)
      | None \<Rightarrow> find_queued_in r rest)"

definition find_queued :: "RequestId \<Rightarrow> SeedScheduler \<Rightarrow> (InstanceId \<times> nat) option" where
  "find_queued r s = find_queued_in r (ss_instances s)"

text \<open>The test both \<open>enqueue_claim\<close> and \<open>prepare_claim_hand_off\<close> make: some lease was acquired
  by the request, or some queue holds it.\<close>

definition request_known :: "RequestId \<Rightarrow> SeedScheduler \<Rightarrow> bool" where
  "request_known r s =
     list_ex
       (\<lambda>(i, st).
          (case is_lease st of None \<Rightarrow> False | Some lease \<Rightarrow> le_acquire_request_id lease = r)
          \<or> list_ex (\<lambda>e. qe_request_id e = r) (is_queue st))
       (ss_instances s)"

section \<open>Validation\<close>

definition validate_claim_ttl :: "u64 \<Rightarrow> SeedScheduler \<Rightarrow> (SchedulerError, unit) result" where
  "validate_claim_ttl ttl s =
     and_then
       (ok_or ExpiryOverflow
          (checked_add MAX_RESPONSE_DEADLINE_MS
             (sc_maximum_client_heartbeat_interval_ms (ss_config s))))
       (\<lambda>maximum_lease_ttl_ms.
          if ttl \<le> sc_maximum_client_heartbeat_interval_ms (ss_config s)
             \<or> maximum_lease_ttl_ms < ttl
          then Inl InvalidConfig else Inr ())"

definition expiry_from_ttl :: "u64 \<Rightarrow> u64 \<Rightarrow> (SchedulerError, u64) result" where
  "expiry_from_ttl now ttl = ok_or ExpiryOverflow (checked_add now ttl)"

definition validate_epoch :: "LeaseToken \<Rightarrow> SeedScheduler \<Rightarrow> (SchedulerError, unit) result" where
  "validate_epoch token s =
     (if lt_owner_epoch token \<noteq> ss_owner_epoch s then Inl StaleOwnerEpoch else Inr ())"

definition locate_token_instance ::
  "LeaseToken \<Rightarrow> SeedScheduler \<Rightarrow> (SchedulerError, InstanceId) result" where
  "locate_token_instance token s =
     (case bt_get (ss_lease_locations s) (lt_lease_id token) of
        None \<Rightarrow>
          (case bt_get (ss_instances s) (lt_instance_id token) of
             None \<Rightarrow> Inl LeaseMismatch
           | Some st \<Rightarrow>
               if 0 < is_cooldown_until st then Inl LeaseMissing else Inl LeaseMismatch)
      | Some located \<Rightarrow>
          if located \<noteq> lt_instance_id token then Inl InstanceMismatch else Inr located)"

definition validate_active_lease ::
  "LeaseEntry \<Rightarrow> LeaseToken \<Rightarrow> ConnectionId \<Rightarrow> u64 \<Rightarrow> (SchedulerError, unit) result" where
  "validate_active_lease lease submitted connection now =
     (if lt_instance_id (le_token lease) \<noteq> lt_instance_id submitted then Inl InstanceMismatch
      else if lt_lease_id (le_token lease) \<noteq> lt_lease_id submitted then Inl LeaseMismatch
      else if lt_holder_id (le_token lease) \<noteq> lt_holder_id submitted then Inl HolderMismatch
      else if le_connection_id lease \<noteq> connection then Inl ConnectionMismatch
      else if lt_expires_at (le_token lease) \<le> now then Inl LeaseExpired
      else if le_token lease \<noteq> submitted then Inl LeaseMismatch
      else Inr ())"

text \<open>The state and the lease of an instance, as the operations fetch them with
  \<open>ok_or(LeaseMissing)\<close>.\<close>

definition get_state ::
  "InstanceId \<Rightarrow> SeedScheduler \<Rightarrow> (SchedulerError, InstanceState) result" where
  "get_state i s = ok_or LeaseMissing (bt_get (ss_instances s) i)"

definition get_lease :: "InstanceState \<Rightarrow> (SchedulerError, LeaseEntry) result" where
  "get_lease st = ok_or LeaseMissing (is_lease st)"

text \<open>\<open>expiry_from_ttl\<close>, \<open>mint_lease_id\<close> and \<open>LeaseToken::new\<close>, the way every grant makes its
  token.\<close>

definition issue_token :: "InstanceId \<Rightarrow> HolderId \<Rightarrow> u64 \<Rightarrow> u64 \<Rightarrow> LeaseToken sched_op" where
  "issue_token i holder now ttl s =
     try_in (expiry_from_ttl now ttl) s (\<lambda>expires.
       case mint_lease_id (ss_lease_issuer s) of
         (Inl _, issuer) \<Rightarrow> (Inl IdentifierIssuance, s\<lparr>ss_lease_issuer := issuer\<rparr>)
       | (Inr lease_id, issuer) \<Rightarrow>
           (map_err (\<lambda>_. InvalidConfig)
              (token_new (ss_owner_epoch s) lease_id i holder expires),
            s\<lparr>ss_lease_issuer := issuer\<rparr>))"

section \<open>The views and their laws\<close>

text \<open>The lease, the queue and the cooldown of an instance, whether the map has it or not.\<close>

definition lease_of :: "SeedScheduler \<Rightarrow> InstanceId \<Rightarrow> LeaseEntry option" where
  "lease_of s i = is_lease (entry_or_default i s)"

definition queue_of :: "SeedScheduler \<Rightarrow> InstanceId \<Rightarrow> QueueEntry list" where
  "queue_of s i = is_queue (entry_or_default i s)"

definition cooldown_of :: "SeedScheduler \<Rightarrow> InstanceId \<Rightarrow> u64" where
  "cooldown_of s i = is_cooldown_until (entry_or_default i s)"

end
