(* ===== verification/Scheduler_Grants.thy ===== *)
theory Scheduler_Grants
  imports Scheduler_State
begin

text \<open>
  How leases are granted and how requests wait (\<open>crates/scheduler/src/lib.rs\<close>, from
  \<open>SeedScheduler::new\<close> to \<open>remove_queued_for_instance\<close>): immediate tries, their commit, the
  admission of queued requests and internal claims, the pump's grants, polling, cancelling and
  the loops that take entries out of the queues.
\<close>

section \<open>Construction\<close>

text \<open>\<open>SeedScheduler::new\<close>; the issuer's environment is a parameter.\<close>

definition scheduler_new ::
  "issuer_env \<Rightarrow> OwnerEpoch \<Rightarrow> SchedulerConfig \<Rightarrow> InstanceId list \<Rightarrow> u64 \<Rightarrow>
     (SchedulerError, SeedScheduler) result" where
  "scheduler_new env epoch config takeover now =
     and_then (config_validate config) (\<lambda>config.
     and_then (ok_or ExpiryOverflow (checked_add now (sc_takeover_cooldown_ms config)))
       (\<lambda>cooldown_until.
     and_then (map_err (\<lambda>_. IdentifierIssuance) (fst (issuer_new env))) (\<lambda>issuer.
     Inr \<lparr>ss_owner_epoch = epoch, ss_config = config, ss_lease_issuer = issuer,
           ss_instances =
             fold (\<lambda>i. bt_or_insert i (default_instance\<lparr>is_cooldown_until := cooldown_until\<rparr>))
               takeover [],
           ss_lease_locations = [], ss_next_arrival_sequence = 1, ss_next_step_id = 1\<rparr>)))"

section \<open>Immediate tries\<close>

definition busy :: "LeaseEntry \<Rightarrow> SchedulerError" where
  "busy lease =
     Busy (lt_holder_id (le_token lease)) (lt_lease_id (le_token lease))
       (lt_expires_at (le_token lease))"

definition prepare_acquire_with_policy ::
  "RequestId \<Rightarrow> InstanceId \<Rightarrow> HolderId \<Rightarrow> ConnectionId \<Rightarrow> LeaseAcquisitionPolicy \<Rightarrow> u64 \<Rightarrow>
     LeasePreparation sched_op" where
  "prepare_acquire_with_policy request_id i holder connection policy now s =
     (let st = entry_or_default i s in
      if now < is_cooldown_until st
      then (Inl (Cooldown (is_cooldown_until st - now)), put_state i st s)
      else
        (let st = st\<lparr>is_cooldown_until := 0\<rparr>; s = put_state i st s in
         case is_lease st of
           Some lease \<Rightarrow>
             if lt_expires_at (le_token lease) \<le> now then (Inl LeaseExpired, s)
             else if le_acquire_request_id lease = request_id
                     \<and> le_connection_id lease = connection
                     \<and> lt_holder_id (le_token lease) = holder
             then (Inr (Existing (le_token lease)), s)
             else (Inl (busy lease), s)
         | None \<Rightarrow>
             (case first_eligible st (lap_gate policy) now of
                Some ahead \<Rightarrow> (Inl (queue_ahead st ahead), s)
              | None \<Rightarrow>
                  if holds (lap_gate policy) (lap_kind policy) \<and> lap_kind policy \<noteq> PolicyDispatch
                  then (Inl GateHeld, s)
                  else
                    (case issue_token i holder now (lap_lease_ttl_ms policy) s of
                       (Inl e, s) \<Rightarrow> (Inl e, s)
                     | (Inr token, s) \<Rightarrow>
                         (Inr (New \<lparr>pl_token = token, pl_connection_id = connection,
                                     pl_acquire_request_id = request_id,
                                     pl_priority = lap_priority policy,
                                     pl_resource_close_only = False,
                                     pl_kind = lap_kind policy, pl_from_queue = False\<rparr>), s)))))"

definition prepare_acquire ::
  "RequestId \<Rightarrow> InstanceId \<Rightarrow> HolderId \<Rightarrow> ConnectionId \<Rightarrow> u64 \<Rightarrow> LeasePreparation sched_op" where
  "prepare_acquire request_id i holder connection now s =
     prepare_acquire_with_policy request_id i holder connection
       \<lparr>lap_priority = Normal, lap_lease_ttl_ms = sc_lease_ttl_ms (ss_config s),
         lap_kind = ClientLease, lap_gate = Open\<rparr> now s"

definition prepare_acquire_with_ttl ::
  "RequestId \<Rightarrow> InstanceId \<Rightarrow> HolderId \<Rightarrow> ConnectionId \<Rightarrow> u64 \<Rightarrow> u64 \<Rightarrow>
     LeasePreparation sched_op" where
  "prepare_acquire_with_ttl request_id i holder connection ttl now s =
     try_in (validate_claim_ttl ttl s) s (\<lambda>_.
       prepare_acquire_with_policy request_id i holder connection
         \<lparr>lap_priority = Normal, lap_lease_ttl_ms = ttl, lap_kind = ClientLease,
           lap_gate = Open\<rparr> now s)"

definition prepare_claim_acquire ::
  "ClaimRequest \<Rightarrow> ClaimGate \<Rightarrow> u64 \<Rightarrow> LeasePreparation sched_op" where
  "prepare_claim_acquire claim gate now s =
     try_in (validate_claim_ttl (cr_lease_ttl_ms claim) s) s (\<lambda>_.
       prepare_acquire_with_policy (cr_request_id claim) (cr_instance_id claim)
         (cr_holder_id claim) (cr_connection_id claim)
         \<lparr>lap_priority = cr_priority claim, lap_lease_ttl_ms = cr_lease_ttl_ms claim,
           lap_kind = cr_kind claim, lap_gate = gate\<rparr> now s)"

definition refusing_count :: "InstanceId \<Rightarrow> ClaimGate \<Rightarrow> u64 \<Rightarrow> SeedScheduler \<Rightarrow> nat" where
  "refusing_count i gate now s =
     (case bt_get (ss_instances s) i of
        None \<Rightarrow> 0
      | Some st \<Rightarrow>
          length (filter (\<lambda>e. eligible e gate now \<and> \<not> holder_owned (qe_kind e)) (is_queue st)))"

definition prepare_dedicated_lease ::
  "RequestId \<Rightarrow> InstanceId \<Rightarrow> HolderId \<Rightarrow> ConnectionId \<Rightarrow> ClaimKind \<Rightarrow> ClaimGate \<Rightarrow> u64 \<Rightarrow>
     LeasePreparation sched_op" where
  "prepare_dedicated_lease request_id i holder connection kind gate now s =
     (if 0 < refusing_count i gate now s then (Inl TransferNotSafe, s)
      else
        (case prepare_acquire_with_policy request_id i holder connection
                \<lparr>lap_priority = Normal, lap_lease_ttl_ms = sc_lease_ttl_ms (ss_config s),
                  lap_kind = kind, lap_gate = Open\<rparr> now s of
           (Inl e, s) \<Rightarrow> (Inl e, s)
         | (Inr (New prepared), s) \<Rightarrow>
             (Inr (New (prepared\<lparr>pl_resource_close_only := True\<rparr>)), s)
         | (Inr (Existing _), s) \<Rightarrow> (Inl ResourceCloseOnly, s)))"

definition prepare_resource_close ::
  "RequestId \<Rightarrow> InstanceId \<Rightarrow> HolderId \<Rightarrow> ConnectionId \<Rightarrow> u64 \<Rightarrow> LeasePreparation sched_op" where
  "prepare_resource_close request_id i holder connection now s =
     prepare_dedicated_lease request_id i holder connection ResourceClose Open now s"

section \<open>Commit\<close>

text \<open>The lease entry a committed preparation becomes.\<close>

definition prepared_entry :: "PreparedLease \<Rightarrow> LeaseEntry" where
  "prepared_entry p =
     \<lparr>le_token = pl_token p, le_connection_id = pl_connection_id p,
       le_resource_close_only = pl_resource_close_only p,
       le_acquire_request_id = pl_acquire_request_id p, le_last_renew = None,
       le_priority = pl_priority p, le_destructive_step = None,
       le_preempt_requested = False, le_kind = pl_kind p\<rparr>"

definition commit_acquire :: "LeasePreparation \<Rightarrow> u64 \<Rightarrow> LeaseToken sched_op" where
  "commit_acquire preparation now s =
     (case preparation of
        Existing token \<Rightarrow> (Inr token, s)
      | New prepared \<Rightarrow>
          (let token = pl_token prepared; i = lt_instance_id token in
           try_in (validate_epoch token s) s (\<lambda>_.
           if lt_expires_at token \<le> now then (Inl LeaseExpired, s)
           else try_in (get_state i s) s (\<lambda>st.
           if now < is_cooldown_until st
           then (Inl (Cooldown (is_cooldown_until st - now)), s)
           else
             (case is_lease st of
                Some lease \<Rightarrow> (Inl (busy lease), s)
              | None \<Rightarrow>
                  try_in
                    (if pl_from_queue prepared
                     then
                       and_then
                         (ok_or QueueMissing
                            (position (\<lambda>e. qe_request_id e = pl_acquire_request_id prepared)
                               (is_queue st)))
                         (\<lambda>pos. Inr (st\<lparr>is_queue := remove_at pos (is_queue st)\<rparr>))
                     else Inr st) s
                    (\<lambda>st.
                       let st = refresh_preempt_requested
                                  (st\<lparr>is_lease := Some (prepared_entry prepared)\<rparr>)
                       in (Inr token,
                           insert_location (lt_lease_id token) i
                             (put_state i (st\<lparr>is_last_release := None\<rparr>) s))))))))"

definition acquire ::
  "RequestId \<Rightarrow> InstanceId \<Rightarrow> HolderId \<Rightarrow> ConnectionId \<Rightarrow> u64 \<Rightarrow> LeaseToken sched_op" where
  "acquire request_id i holder connection now s =
     (case prepare_acquire request_id i holder connection now s of
        (Inl e, s) \<Rightarrow> (Inl e, s)
      | (Inr preparation, s) \<Rightarrow> commit_acquire preparation now s)"

section \<open>Taking entries out of the queues\<close>

text \<open>The loop \<open>while position < queue.len()\<close> that several methods share: an entry that
  matches is reported as it stands and removed, otherwise the position advances.\<close>

function remove_loop ::
  "(QueueEntry \<Rightarrow> bool) \<Rightarrow> InstanceId \<Rightarrow> nat \<Rightarrow> InstanceState \<Rightarrow> QueuedLease list \<Rightarrow>
     (SchedulerError, QueuedLease list) result \<times> InstanceState" where
  "remove_loop p i pos st acc =
     (if pos < length (is_queue st)
      then if p (is_queue st ! pos)
        then (case queued_at_position st i pos of
                Inl e \<Rightarrow> (Inl e, st)
              | Inr q \<Rightarrow>
                  remove_loop p i pos (st\<lparr>is_queue := remove_at pos (is_queue st)\<rparr>) (acc @ [q]))
        else remove_loop p i (Suc pos) st acc
      else (Inr acc, st))"
  by pat_completeness auto
termination
  by (relation "measure (\<lambda>(p, i, pos, st, acc). length (is_queue st) - pos)")
    (auto simp: length_remove_at)

declare remove_loop.simps [simp del]

definition remove_matching ::
  "(QueueEntry \<Rightarrow> bool) \<Rightarrow> InstanceId \<Rightarrow> QueuedLease list sched_op" where
  "remove_matching p i s =
     (case bt_get (ss_instances s) i of
        None \<Rightarrow> (Inr [], s)
      | Some st \<Rightarrow>
          (case remove_loop p i 0 st [] of
             (Inl e, st) \<Rightarrow> (Inl e, put_state i st s)
           | (Inr removed, st) \<Rightarrow>
               (Inr removed, put_state i (refresh_preempt_requested st) s)))"

fun remove_matching_on ::
  "(QueueEntry \<Rightarrow> bool) \<Rightarrow> InstanceId list \<Rightarrow> QueuedLease list sched_op" where
  "remove_matching_on p [] s = (Inr [], s)"
| "remove_matching_on p (i # is) s =
     (case remove_matching p i s of
        (Inl e, s) \<Rightarrow> (Inl e, s)
      | (Inr removed, s) \<Rightarrow>
          (case remove_matching_on p is s of
             (Inl e, s) \<Rightarrow> (Inl e, s)
           | (Inr others, s) \<Rightarrow> (Inr (removed @ others), s)))"

definition cancelled ::
  "(SchedulerError, QueuedLease list) result \<times> SeedScheduler \<Rightarrow>
     (SchedulerError, CancelledQueuedLease list) result \<times> SeedScheduler" where
  "cancelled rs =
     (case rs of
        (Inl e, s) \<Rightarrow> (Inl e, s)
      | (Inr removed, s) \<Rightarrow> (Inr (map CancelledQueuedLease removed), s))"

definition take_expired_for_instance :: "InstanceId \<Rightarrow> u64 \<Rightarrow> QueuedLease list sched_op" where
  "take_expired_for_instance i now s = remove_matching (\<lambda>e. qe_deadline e \<le> now) i s"

definition take_expired_queued :: "u64 \<Rightarrow> QueuedLease list sched_op" where
  "take_expired_queued now s =
     remove_matching_on (\<lambda>e. qe_deadline e \<le> now) (map fst (ss_instances s)) s"

definition remove_queued_for_connection ::
  "ConnectionId \<Rightarrow> CancelledQueuedLease list sched_op" where
  "remove_queued_for_connection connection s =
     cancelled
       (remove_matching_on (\<lambda>e. qe_connection_id e = connection) (map fst (ss_instances s)) s)"

definition remove_queued_for_connection_on_instance ::
  "InstanceId \<Rightarrow> ConnectionId \<Rightarrow> CancelledQueuedLease list sched_op" where
  "remove_queued_for_connection_on_instance i connection s =
     cancelled (remove_matching (\<lambda>e. qe_connection_id e = connection) i s)"

text \<open>\<open>while !queue.is_empty()\<close> with position 0: every entry matches.\<close>

definition remove_queued_for_instance :: "InstanceId \<Rightarrow> CancelledQueuedLease list sched_op" where
  "remove_queued_for_instance i s = cancelled (remove_matching (\<lambda>_. True) i s)"

definition remove_queued_for_drain :: "InstanceId \<Rightarrow> CancelledQueuedLease list sched_op" where
  "remove_queued_for_drain i s =
     cancelled (remove_matching (\<lambda>e. \<not> holder_owned (qe_kind e)) i s)"

definition queued_instance_ids_for_connection ::
  "ConnectionId \<Rightarrow> SeedScheduler \<Rightarrow> InstanceId list" where
  "queued_instance_ids_for_connection connection s =
     map fst
       (filter (\<lambda>(i, st). list_ex (\<lambda>e. qe_connection_id e = connection) (is_queue st))
          (ss_instances s))"

definition remove_queue_position :: "InstanceId \<Rightarrow> nat \<Rightarrow> InstanceState \<Rightarrow> SeedScheduler \<Rightarrow>
  SeedScheduler" where
  "remove_queue_position i pos st s =
     put_state i (refresh_preempt_requested (st\<lparr>is_queue := remove_at pos (is_queue st)\<rparr>)) s"

definition remove_queued_request :: "RequestId \<Rightarrow> unit sched_op" where
  "remove_queued_request r s =
     try_in (ok_or QueueMissing (find_queued r s)) s (\<lambda>(i, pos).
     try_in (ok_or QueueMissing (bt_get (ss_instances s) i)) s (\<lambda>st.
     (Inr (), remove_queue_position i pos st s)))"

section \<open>Queued requests\<close>

text \<open>One turn of the loop of \<open>replay_queue_request\<close>; \<open>None\<close> goes on to the next instance.\<close>

definition replay_one ::
  "RequestId \<Rightarrow> InstanceId \<Rightarrow> HolderId \<Rightarrow> ConnectionId \<Rightarrow> LeasePriority \<Rightarrow>
     InstanceId \<Rightarrow> InstanceState \<Rightarrow> (SchedulerError, QueueAdmissionDecision) result option" where
  "replay_one r i holder connection prio candidate st =
     (case is_lease st of
        Some lease \<Rightarrow>
          if le_acquire_request_id lease = r
          then Some
            (if candidate \<noteq> i \<or> lt_holder_id (le_token lease) \<noteq> holder
                \<or> le_priority lease \<noteq> prio
             then Inl QueueRequestMismatch
             else if le_connection_id lease \<noteq> connection then Inl QueueConnectionMismatch
             else Inr (Lease (Existing (le_token lease))))
          else None
      | None \<Rightarrow> None)"

definition replay_one_queued ::
  "RequestId \<Rightarrow> InstanceId \<Rightarrow> HolderId \<Rightarrow> ConnectionId \<Rightarrow> LeasePriority \<Rightarrow>
     InstanceId \<Rightarrow> InstanceState \<Rightarrow> (SchedulerError, QueueAdmissionDecision) result option" where
  "replay_one_queued r i holder connection prio candidate st =
     (case position (\<lambda>e. qe_request_id e = r) (is_queue st) of
        Some pos \<Rightarrow>
          (let queued = is_queue st ! pos in
           Some
             (if candidate \<noteq> i \<or> qe_holder_id queued \<noteq> holder \<or> qe_priority queued \<noteq> prio
              then Inl QueueRequestMismatch
              else if qe_connection_id queued \<noteq> connection then Inl QueueConnectionMismatch
              else and_then (queued_at_position st candidate pos) (\<lambda>q. Inr (Queued q))))
      | None \<Rightarrow> None)"

fun replay_in ::
  "RequestId \<Rightarrow> InstanceId \<Rightarrow> HolderId \<Rightarrow> ConnectionId \<Rightarrow> LeasePriority \<Rightarrow>
     (InstanceId, InstanceState) btree \<Rightarrow>
     (SchedulerError, QueueAdmissionDecision option) result" where
  "replay_in r i holder connection prio [] = Inr None"
| "replay_in r i holder connection prio ((candidate, st) # rest) =
     (case replay_one r i holder connection prio candidate st of
        Some res \<Rightarrow> and_then res (\<lambda>d. Inr (Some d))
      | None \<Rightarrow>
          (case replay_one_queued r i holder connection prio candidate st of
             Some res \<Rightarrow> and_then res (\<lambda>d. Inr (Some d))
           | None \<Rightarrow> replay_in r i holder connection prio rest))"

definition replay_queue_request ::
  "RequestId \<Rightarrow> InstanceId \<Rightarrow> HolderId \<Rightarrow> ConnectionId \<Rightarrow> LeasePriority \<Rightarrow> SeedScheduler \<Rightarrow>
     (SchedulerError, QueueAdmissionDecision option) result" where
  "replay_queue_request r i holder connection prio s =
     replay_in r i holder connection prio (ss_instances s)"

definition insert_queue_entry :: "InstanceId \<Rightarrow> QueueEntry \<Rightarrow> QueuedLease sched_op" where
  "insert_queue_entry i entry s =
     (let arrival = ss_next_arrival_sequence s in
      try_in (ok_or QueueSequenceOverflow (checked_add arrival 1)) s (\<lambda>next_arrival.
      let st = entry_or_default i s in
      if sc_max_queue_depth_per_instance (ss_config s) \<le> length (is_queue st)
      then (Inl QueueFull, put_state i st s)
      else
        (let entry = entry\<lparr>qe_arrival_sequence := arrival\<rparr>;
             st = refresh_preempt_requested
                    (st\<lparr>is_queue := sort_queue (is_queue st @ [entry])\<rparr>)
         in (queued_by_request st i (qe_request_id entry),
             put_state i st (s\<lparr>ss_next_arrival_sequence := next_arrival\<rparr>)))))"

text \<open>The queue entry of a client's request.\<close>

definition client_entry :: "QueueLeaseRequest \<Rightarrow> u64 \<Rightarrow> u64 \<Rightarrow> QueueEntry" where
  "client_entry request deadline ttl =
     \<lparr>qe_request_id = qr_request_id request, qe_holder_id = qr_holder_id request,
       qe_connection_id = qr_connection_id request, qe_priority = qr_priority request,
       qe_deadline = deadline, qe_arrival_sequence = 0, qe_kind = ClientLease,
       qe_lease_ttl_ms = ttl, qe_may_preempt = True\<rparr>"

text \<open>The second half of \<open>request_queued_gated\<close>, once the expired entries are out.\<close>

definition admit_request ::
  "QueueLeaseRequest \<Rightarrow> ClaimGate \<Rightarrow> bool \<Rightarrow> QueuedLease list \<Rightarrow> u64 \<Rightarrow>
     QueueAdmissionOutcome sched_op" where
  "admit_request request gate immediate_allowed expired now s =
     (let i = qr_instance_id request;
          st = entry_or_default i s;
          s = put_state i st s;
          entry_ahead = (first_eligible st gate now \<noteq> None)
      in
      if is_lease st = None \<and> now < is_cooldown_until st
      then (Inl (Cooldown (is_cooldown_until st - now)), s)
      else if is_lease st = None \<and> immediate_allowed \<and> \<not> entry_ahead
      then
        (case prepare_acquire_with_policy (qr_request_id request) i (qr_holder_id request)
                (qr_connection_id request)
                \<lparr>lap_priority = qr_priority request,
                  lap_lease_ttl_ms = sc_lease_ttl_ms (ss_config s),
                  lap_kind = ClientLease, lap_gate = gate\<rparr> now s of
           (Inl e, s) \<Rightarrow> (Inl e, s)
         | (Inr preparation, s) \<Rightarrow>
             (Inr \<lparr>qo_decision = Lease preparation, qo_expired = expired\<rparr>, s))
      else
        try_in (ok_or ExpiryOverflow (checked_add now (qr_timeout_ms request))) s (\<lambda>deadline.
        case insert_queue_entry i
               (client_entry request deadline (sc_lease_ttl_ms (ss_config s))) s of
          (Inl e, s) \<Rightarrow> (Inl e, s)
        | (Inr queued, s) \<Rightarrow>
            (Inr \<lparr>qo_decision = Queued queued, qo_expired = expired\<rparr>, s)))"

definition request_queued_gated ::
  "QueueLeaseRequest \<Rightarrow> ClaimGate \<Rightarrow> bool \<Rightarrow> u64 \<Rightarrow> QueueAdmissionOutcome sched_op" where
  "request_queued_gated request gate immediate_allowed now s =
     (if qr_timeout_ms request = 0
         \<or> sc_maximum_queue_timeout_ms (ss_config s) < qr_timeout_ms request
      then (Inl QueueTimeoutInvalid, s)
      else
        try_in
          (replay_queue_request (qr_request_id request) (qr_instance_id request)
             (qr_holder_id request) (qr_connection_id request) (qr_priority request) s) s
          (\<lambda>replayed.
           case replayed of
             Some (Queued queued) \<Rightarrow>
               if ql_deadline queued \<le> now
               then (case remove_queued_request (qr_request_id request) s of
                       (Inl e, s) \<Rightarrow> (Inl e, s)
                     | (Inr _, s) \<Rightarrow> (Inl QueueExpired, s))
               else (Inr \<lparr>qo_decision = Queued queued, qo_expired = []\<rparr>, s)
           | Some (Lease preparation) \<Rightarrow>
               (Inr \<lparr>qo_decision = Lease preparation, qo_expired = []\<rparr>, s)
           | None \<Rightarrow>
               (case take_expired_for_instance (qr_instance_id request) now s of
                  (Inl e, s) \<Rightarrow> (Inl e, s)
                | (Inr expired, s) \<Rightarrow>
                    admit_request request gate immediate_allowed expired now s)))"

definition request_queued :: "QueueLeaseRequest \<Rightarrow> u64 \<Rightarrow> QueueAdmissionOutcome sched_op" where
  "request_queued request now s = request_queued_gated request Open True now s"

section \<open>Internal claims\<close>

text \<open>The queue entry of a claim: no deadline, no preemption.\<close>

definition claim_entry :: "ClaimRequest \<Rightarrow> QueueEntry" where
  "claim_entry claim =
     \<lparr>qe_request_id = cr_request_id claim, qe_holder_id = cr_holder_id claim,
       qe_connection_id = cr_connection_id claim, qe_priority = cr_priority claim,
       qe_deadline = CLAIM_NO_DEADLINE_MONOTONIC_MS, qe_arrival_sequence = 0,
       qe_kind = cr_kind claim, qe_lease_ttl_ms = cr_lease_ttl_ms claim,
       qe_may_preempt = False\<rparr>"

definition enqueue_claim :: "ClaimRequest \<Rightarrow> u64 \<Rightarrow> QueuedLease sched_op" where
  "enqueue_claim claim now s =
     try_in (validate_claim_ttl (cr_lease_ttl_ms claim) s) s (\<lambda>_.
     if request_known (cr_request_id claim) s then (Inl QueueRequestMismatch, s)
     else try_in
       (if holder_owned (cr_kind claim)
        then and_then
               (ok_or LeaseMissing
                  (Option.bind (bt_get (ss_instances s) (cr_instance_id claim)) is_lease))
               (\<lambda>lease.
                  if lt_holder_id (le_token lease) \<noteq> cr_holder_id claim then Inl HolderMismatch
                  else Inr ())
        else Inr ()) s
       (\<lambda>_. insert_queue_entry (cr_instance_id claim) (claim_entry claim) s))"

section \<open>The pump\<close>

text \<open>The entry the pump would grant: the instance is free and out of cooldown, and an
  eligible entry waits.\<close>

definition grant_position :: "InstanceState \<Rightarrow> ClaimGate \<Rightarrow> u64 \<Rightarrow> nat option" where
  "grant_position st gate now =
     (if is_lease st \<noteq> None \<or> now < is_cooldown_until st then None
      else first_eligible st gate now)"

definition grant_candidate ::
  "InstanceId \<Rightarrow> ClaimGate \<Rightarrow> u64 \<Rightarrow> SeedScheduler \<Rightarrow> ClaimKind option" where
  "grant_candidate i gate now s =
     Option.bind (bt_get (ss_instances s) i) (\<lambda>st.
       map_option (\<lambda>pos. qe_kind (is_queue st ! pos)) (grant_position st gate now))"

definition grant_candidate_request ::
  "InstanceId \<Rightarrow> ClaimGate \<Rightarrow> u64 \<Rightarrow> SeedScheduler \<Rightarrow> RequestId option" where
  "grant_candidate_request i gate now s =
     Option.bind (bt_get (ss_instances s) i) (\<lambda>st.
       map_option (\<lambda>pos. qe_request_id (is_queue st ! pos)) (grant_position st gate now))"

definition prepare_queued_grant ::
  "InstanceId \<Rightarrow> ClaimGate \<Rightarrow> u64 \<Rightarrow> PreparedLease option sched_op" where
  "prepare_queued_grant i gate now s =
     (case bt_get (ss_instances s) i of
        None \<Rightarrow> (Inr None, s)
      | Some st \<Rightarrow>
          (case grant_position st gate now of
             None \<Rightarrow> (Inr None, s)
           | Some pos \<Rightarrow>
               (let entry = is_queue st ! pos in
                case issue_token i (qe_holder_id entry) now (qe_lease_ttl_ms entry) s of
                  (Inl e, s) \<Rightarrow> (Inl e, s)
                | (Inr token, s) \<Rightarrow>
                    (Inr (Some \<lparr>pl_token = token, pl_connection_id = qe_connection_id entry,
                                 pl_acquire_request_id = qe_request_id entry,
                                 pl_priority = qe_priority entry,
                                 pl_resource_close_only = False,
                                 pl_kind = qe_kind entry, pl_from_queue = True\<rparr>), s))))"

section \<open>Reading the queues\<close>

fun collect_results :: "('e, 'a) result list \<Rightarrow> ('e, 'a list) result" where
  "collect_results [] = Inr []"
| "collect_results (r # rs) =
     and_then r (\<lambda>x. and_then (collect_results rs) (\<lambda>xs. Inr (x # xs)))"

definition queued_on ::
  "InstanceId \<Rightarrow> SeedScheduler \<Rightarrow> (SchedulerError, QueuedLease list) result" where
  "queued_on i s =
     (case bt_get (ss_instances s) i of
        None \<Rightarrow> Inr []
      | Some st \<Rightarrow>
          collect_results (map (queued_at_position st i) [0..<length (is_queue st)]))"

definition eligible_count :: "InstanceId \<Rightarrow> ClaimGate \<Rightarrow> u64 \<Rightarrow> SeedScheduler \<Rightarrow> nat" where
  "eligible_count i gate now s =
     (case bt_get (ss_instances s) i of
        None \<Rightarrow> 0
      | Some st \<Rightarrow> length (filter (\<lambda>e. eligible e gate now) (is_queue st)))"

definition waiting_total_gated :: "(InstanceId \<Rightarrow> ClaimGate) \<Rightarrow> SeedScheduler \<Rightarrow> nat" where
  "waiting_total_gated gate_of s =
     sum_list
       (map (\<lambda>(i, st). length (filter (\<lambda>e. \<not> holds (gate_of i) (qe_kind e)) (is_queue st)))
          (ss_instances s))"

definition waiting_total :: "(InstanceId \<Rightarrow> bool) \<Rightarrow> SeedScheduler \<Rightarrow> nat" where
  "waiting_total held_by_pause s =
     waiting_total_gated (\<lambda>i. if held_by_pause i then RoutineHeld else Open) s"

definition is_ladder :: "ClaimKind \<Rightarrow> bool" where
  "is_ladder k \<longleftrightarrow> k = Ladder \<or> k = LadderContinuation"

definition ladder_active :: "InstanceId \<Rightarrow> SeedScheduler \<Rightarrow> bool" where
  "ladder_active i s =
     (case bt_get (ss_instances s) i of
        None \<Rightarrow> False
      | Some st \<Rightarrow>
          (case is_lease st of None \<Rightarrow> False | Some lease \<Rightarrow> is_ladder (le_kind lease))
          \<or> list_ex (\<lambda>e. is_ladder (qe_kind e)) (is_queue st))"

definition queued_of_kind :: "InstanceId \<Rightarrow> ClaimKind \<Rightarrow> SeedScheduler \<Rightarrow> RequestId list" where
  "queued_of_kind i kind s =
     (case bt_get (ss_instances s) i of
        None \<Rightarrow> []
      | Some st \<Rightarrow> map qe_request_id (filter (\<lambda>e. qe_kind e = kind) (is_queue st)))"

section \<open>Polling and cancelling\<close>

fun poll_leases ::
  "RequestId \<Rightarrow> ConnectionId \<Rightarrow> (InstanceId, InstanceState) btree \<Rightarrow>
     (SchedulerError, LeaseToken) result option" where
  "poll_leases r connection [] = None"
| "poll_leases r connection ((i, st) # rest) =
     (case is_lease st of
        Some lease \<Rightarrow>
          if le_acquire_request_id lease = r
          then Some (if le_connection_id lease \<noteq> connection then Inl QueueConnectionMismatch
                     else Inr (le_token lease))
          else poll_leases r connection rest
      | None \<Rightarrow> poll_leases r connection rest)"

definition poll_queued :: "RequestId \<Rightarrow> ConnectionId \<Rightarrow> u64 \<Rightarrow> QueuePoll sched_op" where
  "poll_queued r connection now s =
     (case poll_leases r connection (ss_instances s) of
        Some res \<Rightarrow> (and_then res (\<lambda>token. Inr (Granted token)), s)
      | None \<Rightarrow>
          try_in (ok_or QueueMissing (find_queued r s)) s (\<lambda>(i, pos).
          try_in (ok_or QueueMissing (bt_get (ss_instances s) i)) s (\<lambda>st.
          if qe_connection_id (is_queue st ! pos) \<noteq> connection
          then (Inl QueueConnectionMismatch, s)
          else if qe_deadline (is_queue st ! pos) \<le> now
          then (Inl QueueExpired, remove_queue_position i pos st s)
          else (and_then (queued_at_position st i pos) (\<lambda>q. Inr (Pending q)), s))))"

definition cancel_queued :: "RequestId \<Rightarrow> ConnectionId \<Rightarrow> CancelledQueuedLease sched_op" where
  "cancel_queued r connection s =
     try_in (ok_or QueueMissing (find_queued r s)) s (\<lambda>(i, pos).
     try_in (ok_or QueueMissing (bt_get (ss_instances s) i)) s (\<lambda>st.
     if qe_connection_id (is_queue st ! pos) \<noteq> connection
     then (Inl QueueConnectionMismatch, s)
     else try_in (queued_at_position st i pos) s (\<lambda>queued.
     (Inr (CancelledQueuedLease queued), remove_queue_position i pos st s))))"

end
