(* ===== verification/Scheduler_Lifetime.thy ===== *)
theory Scheduler_Lifetime
  imports Scheduler_Grants
begin

text \<open>
  How a held lease lives and ends (\<open>crates/scheduler/src/lib.rs\<close>, from
  \<open>begin_destructive_step\<close> to \<open>clear_elapsed_cooldowns\<close>): fencing of destructive steps,
  transfers and hand-offs, renewal, release with its replay, expiry, rollback and the read-only
  queries.
\<close>

section \<open>Write validation\<close>

definition validate_current_lease ::
  "LeaseToken \<Rightarrow> ConnectionId \<Rightarrow> u64 \<Rightarrow> SeedScheduler \<Rightarrow> (SchedulerError, LeaseEntry) result" where
  "validate_current_lease token connection now s =
     and_then (validate_epoch token s) (\<lambda>_.
     and_then
       (case bt_get (ss_instances s) (lt_instance_id token) of
          None \<Rightarrow> Inr ()
        | Some st \<Rightarrow>
            if now < is_cooldown_until st then Inl (Cooldown (is_cooldown_until st - now))
            else Inr ()) (\<lambda>_.
     and_then (locate_token_instance token s) (\<lambda>i.
     and_then (get_state i s) (\<lambda>st.
     if now < is_cooldown_until st then Inl (Cooldown (is_cooldown_until st - now))
     else
       and_then (get_lease st) (\<lambda>lease.
       and_then (validate_active_lease lease token connection now) (\<lambda>_.
       Inr lease))))))"

definition validate_write ::
  "LeaseToken \<Rightarrow> ConnectionId \<Rightarrow> u64 \<Rightarrow> SeedScheduler \<Rightarrow> (SchedulerError, unit) result" where
  "validate_write token connection now s =
     and_then (validate_current_lease token connection now s) (\<lambda>lease.
     if le_resource_close_only lease then Inl ResourceCloseOnly else Inr ())"

definition validate_destructive_step ::
  "FencedWrite \<Rightarrow> ConnectionId \<Rightarrow> u64 \<Rightarrow> SeedScheduler \<Rightarrow> (SchedulerError, unit) result" where
  "validate_destructive_step witness connection now s =
     and_then (validate_current_lease (fw_token witness) connection now s) (\<lambda>lease.
     if fw_connection_id witness \<noteq> connection
        \<or> le_destructive_step lease \<noteq> Some (fw_step_id witness, fw_purpose witness)
     then Inl DestructiveStateMismatch else Inr ())"

section \<open>Destructive steps\<close>

definition non_zero :: "u64 \<Rightarrow> u64 option" where
  "non_zero v = (if v = 0 then None else Some v)"

text \<open>The part \<open>begin_destructive_step\<close> and \<open>begin_resource_close\<close> share once the lease is
  free of a step.\<close>

definition open_step ::
  "LeaseToken \<Rightarrow> ConnectionId \<Rightarrow> FencedWritePurpose \<Rightarrow> InstanceState \<Rightarrow> LeaseEntry \<Rightarrow>
     FencedWrite sched_op" where
  "open_step token connection purpose st lease s =
     try_in (ok_or StepSequenceOverflow (checked_add (ss_next_step_id s) 1)) s (\<lambda>next.
     try_in (ok_or StepSequenceOverflow (non_zero (ss_next_step_id s))) s (\<lambda>step_id.
     (Inr (issue_fenced_write token connection step_id purpose),
      put_state (lt_instance_id token)
        (st\<lparr>is_lease := Some (lease\<lparr>le_destructive_step := Some (step_id, purpose)\<rparr>)\<rparr>)
        (s\<lparr>ss_next_step_id := next\<rparr>))))"

definition begin_destructive_step ::
  "LeaseToken \<Rightarrow> ConnectionId \<Rightarrow> u64 \<Rightarrow> FencedWrite sched_op" where
  "begin_destructive_step token connection now s =
     try_in (validate_write token connection now s) s (\<lambda>_.
     try_in (get_state (lt_instance_id token) s) s (\<lambda>st.
     try_in (get_lease st) s (\<lambda>lease.
     if le_destructive_step lease \<noteq> None then (Inl DestructiveStateMismatch, s)
     else if le_preempt_requested lease then (Inl TransferNotSafe, s)
     else open_step token connection Business st lease s)))"

definition begin_resource_close ::
  "LeaseToken \<Rightarrow> ConnectionId \<Rightarrow> u64 \<Rightarrow> FencedWrite sched_op" where
  "begin_resource_close token connection now s =
     try_in (validate_current_lease token connection now s) s (\<lambda>_.
     try_in (get_state (lt_instance_id token) s) s (\<lambda>st.
     try_in (get_lease st) s (\<lambda>lease.
     if le_destructive_step lease \<noteq> None then (Inl DestructiveStateMismatch, s)
     else open_step token connection ResourceCloseWrite st lease s)))"

definition finish_destructive_step :: "FencedWrite \<Rightarrow> ConnectionId \<Rightarrow> unit sched_op" where
  "finish_destructive_step witness connection s =
     (let token = fw_token witness in
      try_in (validate_epoch token s) s (\<lambda>_.
      try_in (locate_token_instance token s) s (\<lambda>i.
      try_in (get_state i s) s (\<lambda>st.
      try_in (get_lease st) s (\<lambda>lease.
      if le_token lease \<noteq> token \<or> le_connection_id lease \<noteq> connection
         \<or> fw_connection_id witness \<noteq> connection
      then (Inl ConnectionMismatch, s)
      else if le_destructive_step lease \<noteq> Some (fw_step_id witness, fw_purpose witness)
      then (Inl DestructiveStateMismatch, s)
      else
        (Inr (),
         put_state i (st\<lparr>is_lease := Some (lease\<lparr>le_destructive_step := None\<rparr>)\<rparr>) s))))))"

section \<open>Transfers and hand-offs\<close>

definition transferable_lease ::
  "LeaseToken \<Rightarrow> ConnectionId \<Rightarrow> SeedScheduler \<Rightarrow> (SchedulerError, LeaseEntry) result" where
  "transferable_lease token connection s =
     and_then (validate_epoch token s) (\<lambda>_.
     and_then (locate_token_instance token s) (\<lambda>i.
     and_then (get_state i s) (\<lambda>st.
     and_then (get_lease st) (\<lambda>lease.
     if le_token lease \<noteq> token then Inl LeaseMismatch
     else if le_connection_id lease \<noteq> connection then Inl ConnectionMismatch
     else Inr lease))))"

definition prepared_transfer ::
  "LeaseEntry \<Rightarrow> QueueEntry \<Rightarrow> LeaseTransferReason \<Rightarrow> RequestId option \<Rightarrow> bool \<Rightarrow> u64 \<Rightarrow>
     TransferPreparation sched_op" where
  "prepared_transfer from queued reason release_request_id hand_off now s =
     (case issue_token (lt_instance_id (le_token from)) (qe_holder_id queued) now
             (qe_lease_ttl_ms queued) s of
        (Inl e, s) \<Rightarrow> (Inl e, s)
      | (Inr to_token, s) \<Rightarrow>
          (Inr (Ready \<lparr>plt_from = from, plt_queued = queued, plt_to_token = to_token,
                        plt_reason = reason, plt_release_request_id = release_request_id,
                        plt_hand_off = hand_off\<rparr>), s))"

definition prepare_transfer_gated ::
  "LeaseToken \<Rightarrow> ConnectionId \<Rightarrow> LeaseTransferReason \<Rightarrow> RequestId option \<Rightarrow> ClaimGate \<Rightarrow> u64 \<Rightarrow>
     TransferPreparation sched_op" where
  "prepare_transfer_gated token connection reason release_request_id gate now s =
     (if (reason = TransferExplicitRelease) \<noteq> (release_request_id \<noteq> None)
      then (Inl QueueRequestMismatch, s)
      else try_in (transferable_lease token connection s) s (\<lambda>lease.
      if le_destructive_step lease \<noteq> None then (Inr Deferred, s)
      else try_in (get_state (lt_instance_id token) s) s (\<lambda>st.
      case first_eligible st gate now of
        None \<Rightarrow> (Inr NoCandidate, s)
      | Some pos \<Rightarrow>
          (let queued = is_queue st ! pos in
           if reason = TransferPreempted
              \<and> \<not> (qe_may_preempt queued \<and> le_priority lease < qe_priority queued)
           then (Inr NoCandidate, s)
           else prepared_transfer lease queued reason release_request_id False now s))))"

definition prepare_transfer ::
  "LeaseToken \<Rightarrow> ConnectionId \<Rightarrow> LeaseTransferReason \<Rightarrow> RequestId option \<Rightarrow> u64 \<Rightarrow>
     TransferPreparation sched_op" where
  "prepare_transfer token connection reason release_request_id now s =
     prepare_transfer_gated token connection reason release_request_id Open now s"

definition prepare_claim_hand_off ::
  "LeaseToken \<Rightarrow> ConnectionId \<Rightarrow> LeaseTransferReason \<Rightarrow> RequestId option \<Rightarrow> ClaimRequest \<Rightarrow>
     ClaimGate \<Rightarrow> u64 \<Rightarrow> TransferPreparation sched_op" where
  "prepare_claim_hand_off token connection reason release_request_id claim gate now s =
     try_in (validate_claim_ttl (cr_lease_ttl_ms claim) s) s (\<lambda>_.
     if cr_instance_id claim \<noteq> lt_instance_id token then (Inl InstanceMismatch, s)
     else try_in (transferable_lease token connection s) s (\<lambda>lease.
     if le_destructive_step lease \<noteq> None then (Inr Deferred, s)
     else if holds gate (cr_kind claim) then (Inr NoCandidate, s)
     else if request_known (cr_request_id claim) s then (Inl QueueRequestMismatch, s)
     else prepared_transfer lease (claim_entry claim) reason release_request_id True now s))"

definition prepare_hand_off ::
  "LeaseToken \<Rightarrow> ConnectionId \<Rightarrow> LeaseTransferReason \<Rightarrow> ClaimRequest \<Rightarrow> ClaimGate \<Rightarrow> u64 \<Rightarrow>
     TransferPreparation sched_op" where
  "prepare_hand_off token connection reason claim gate now s =
     (if reason = TransferExplicitRelease then (Inl QueueRequestMismatch, s)
      else prepare_claim_hand_off token connection reason None claim gate now s)"

definition prepare_release_hand_off ::
  "LeaseToken \<Rightarrow> ConnectionId \<Rightarrow> RequestId \<Rightarrow> ClaimRequest \<Rightarrow> ClaimGate \<Rightarrow> u64 \<Rightarrow>
     TransferPreparation sched_op" where
  "prepare_release_hand_off token connection release_request_id claim gate now s =
     prepare_claim_hand_off token connection TransferExplicitRelease (Some release_request_id)
       claim gate now s"

text \<open>The lease entry and the release record a committed transfer leaves.\<close>

definition transferred_entry :: "QueueEntry \<Rightarrow> LeaseToken \<Rightarrow> LeaseEntry" where
  "transferred_entry queued token =
     \<lparr>le_token = token, le_connection_id = qe_connection_id queued,
       le_resource_close_only = False, le_acquire_request_id = qe_request_id queued,
       le_last_renew = None, le_priority = qe_priority queued, le_destructive_step = None,
       le_preempt_requested = False,
       le_kind = (if qe_kind queued = LadderContinuation then Ladder else qe_kind queued)\<rparr>"

definition transfer_record :: "PreparedLeaseTransfer \<Rightarrow> ReleaseRecord option" where
  "transfer_record prepared =
     map_option
       (\<lambda>request_id.
          \<lparr>rel_request_id = request_id, rel_submitted_token = le_token (plt_from prepared),
            rel_connection_id = le_connection_id (plt_from prepared),
            rel_released =
              \<lparr>rl_token = le_token (plt_from prepared),
                rl_reason = transfer_release_reason (plt_reason prepared)\<rparr>\<rparr>)
       (plt_release_request_id prepared)"

text \<open>The receiver of a transfer and the queue without it: a hand-off leaves the queue as it is,
  a queued receiver is taken out of it.\<close>

definition transfer_receiver ::
  "PreparedLeaseTransfer \<Rightarrow> InstanceState \<Rightarrow>
     (SchedulerError, QueueEntry \<times> QueueEntry list) result" where
  "transfer_receiver prepared st =
     (if plt_hand_off prepared
      then
        (if list_ex (\<lambda>e. qe_request_id e = qe_request_id (plt_queued prepared)) (is_queue st)
         then Inl QueueRequestMismatch else Inr (plt_queued prepared, is_queue st))
      else
        and_then
          (ok_or QueueRequestMismatch
             (position (\<lambda>e. e = plt_queued prepared) (is_queue st)))
          (\<lambda>pos. Inr (is_queue st ! pos, remove_at pos (is_queue st))))"

definition commit_transfer :: "PreparedLeaseTransfer \<Rightarrow> u64 \<Rightarrow> LeaseToken sched_op" where
  "commit_transfer prepared now s =
     (let from_token = le_token (plt_from prepared); token = plt_to_token prepared in
      try_in (validate_epoch from_token s) s (\<lambda>_.
      try_in (validate_epoch token s) s (\<lambda>_.
      if lt_expires_at token \<le> now then (Inl LeaseExpired, s)
      else
        (let i = lt_instance_id from_token in
         try_in (get_state i s) s (\<lambda>st.
         if is_lease st \<noteq> Some (plt_from prepared) then (Inl LeaseMismatch, s)
         else try_in (transfer_receiver prepared st) s
           (\<lambda>(queued, queue).
              let st = refresh_preempt_requested
                         (st\<lparr>is_queue := queue, is_last_release := transfer_record prepared,
                              is_lease := Some (transferred_entry queued token)\<rparr>)
              in (Inr token,
                  insert_location (lt_lease_id token) i
                    (remove_location (lt_lease_id from_token) (put_state i st s)))))))))"

section \<open>Renewal\<close>

definition renew_with_ttl ::
  "LeaseToken \<Rightarrow> ConnectionId \<Rightarrow> u64 \<Rightarrow> u64 \<Rightarrow> LeaseToken sched_op" where
  "renew_with_ttl submitted connection ttl now s =
     try_in (validate_claim_ttl ttl s) s (\<lambda>_.
     try_in (validate_epoch submitted s) s (\<lambda>_.
     try_in (expiry_from_ttl now ttl) s (\<lambda>expires_at.
     try_in (get_state (lt_instance_id submitted) s) s (\<lambda>st.
     try_in (get_lease st) s (\<lambda>lease.
     if lt_lease_id (le_token lease) \<noteq> lt_lease_id submitted then (Inl LeaseMissing, s)
     else
       try_in (validate_active_lease lease submitted connection now) s (\<lambda>_.
       try_in
         (map_err (\<lambda>_. InvalidConfig)
            (token_new (ss_owner_epoch s) (lt_lease_id (le_token lease))
               (lt_instance_id submitted) (lt_holder_id (le_token lease)) expires_at)) s
         (\<lambda>renewed.
            (Inr renewed,
             put_state (lt_instance_id submitted)
               (st\<lparr>is_lease := Some (lease\<lparr>le_token := renewed\<rparr>)\<rparr>) s))))))))"

definition replayed_renew ::
  "RequestId \<Rightarrow> LeaseToken \<Rightarrow> ConnectionId \<Rightarrow> SeedScheduler \<Rightarrow>
     (SchedulerError, LeaseToken option) result" where
  "replayed_renew request_id submitted connection s =
     and_then (validate_epoch submitted s) (\<lambda>_.
     case Option.bind (bt_get (ss_instances s) (lt_instance_id submitted)) is_lease of
       None \<Rightarrow> Inr None
     | Some lease \<Rightarrow>
         (case le_last_renew lease of
            None \<Rightarrow> Inr None
          | Some record \<Rightarrow>
              if rr_request_id record \<noteq> request_id then Inr None
              else if rr_submitted_token record \<noteq> submitted then Inl LeaseMismatch
              else if le_connection_id lease \<noteq> connection then Inl ConnectionMismatch
              else Inr (Some (rr_renewed_token record))))"

definition renew :: "RequestId \<Rightarrow> LeaseToken \<Rightarrow> ConnectionId \<Rightarrow> u64 \<Rightarrow> LeaseToken sched_op" where
  "renew request_id submitted connection now s =
     try_in (replayed_renew request_id submitted connection s) s (\<lambda>replayed.
     case replayed of
       Some renewed \<Rightarrow> (Inr renewed, s)
     | None \<Rightarrow>
         try_in (validate_epoch submitted s) s (\<lambda>_.
         try_in (locate_token_instance submitted s) s (\<lambda>i.
         try_in (expiry_from_ttl now (sc_lease_ttl_ms (ss_config s))) s (\<lambda>expires_at.
         try_in (get_state i s) s (\<lambda>st.
         try_in (get_lease st) s (\<lambda>lease.
         try_in (validate_active_lease lease submitted connection now) s (\<lambda>_.
         try_in
           (map_err (\<lambda>_. InvalidConfig)
              (token_new (ss_owner_epoch s) (lt_lease_id (le_token lease)) i
                 (lt_holder_id (le_token lease)) expires_at)) s
           (\<lambda>renewed.
              (Inr renewed,
               put_state i
                 (st\<lparr>is_lease :=
                      Some (lease\<lparr>le_last_renew :=
                                     Some \<lparr>rr_request_id = request_id,
                                            rr_submitted_token = submitted,
                                            rr_renewed_token = renewed\<rparr>,
                                   le_token := renewed\<rparr>)\<rparr>) s)))))))))"

section \<open>Release and expiry\<close>

definition replayed_release ::
  "RequestId \<Rightarrow> LeaseToken \<Rightarrow> ConnectionId \<Rightarrow> SeedScheduler \<Rightarrow>
     (SchedulerError, ReleasedLease option) result" where
  "replayed_release request_id submitted connection s =
     and_then (validate_epoch submitted s) (\<lambda>_.
     case Option.bind (bt_get (ss_instances s) (lt_instance_id submitted)) is_last_release of
       None \<Rightarrow> Inr None
     | Some record \<Rightarrow>
         if rel_request_id record \<noteq> request_id then Inr None
         else if rel_submitted_token record \<noteq> submitted then Inl LeaseMismatch
         else if rel_connection_id record \<noteq> connection then Inl ConnectionMismatch
         else Inr (Some (rel_released record)))"

definition release ::
  "RequestId \<Rightarrow> LeaseToken \<Rightarrow> ConnectionId \<Rightarrow> u64 \<Rightarrow> ReleasedLease sched_op" where
  "release request_id submitted connection now s =
     try_in (replayed_release request_id submitted connection s) s (\<lambda>replayed.
     case replayed of
       Some released \<Rightarrow> (Inr released, s)
     | None \<Rightarrow>
         try_in (validate_epoch submitted s) s (\<lambda>_.
         try_in (locate_token_instance submitted s) s (\<lambda>i.
         try_in (get_state i s) s (\<lambda>st.
         try_in (get_lease st) s (\<lambda>lease.
         try_in (validate_active_lease lease submitted connection now) s (\<lambda>_.
         let released = \<lparr>rl_token = le_token lease, rl_reason = ReleaseExplicit\<rparr> in
         (Inr released,
          remove_location (lt_lease_id submitted)
            (put_state i
               (st\<lparr>is_lease := None,
                    is_last_release :=
                      Some \<lparr>rel_request_id = request_id, rel_submitted_token = submitted,
                             rel_connection_id = connection, rel_released = released\<rparr>\<rparr>)
               s))))))))"

text \<open>The end every owned release shares: the lease is taken, its location and the last release
  are forgotten.\<close>

definition drop_lease ::
  "InstanceId \<Rightarrow> InstanceState \<Rightarrow> LeaseEntry \<Rightarrow> SeedScheduler \<Rightarrow> SeedScheduler" where
  "drop_lease i st lease s =
     remove_location (lt_lease_id (le_token lease))
       (put_state i (st\<lparr>is_lease := None, is_last_release := None\<rparr>) s)"

definition expire_token :: "LeaseToken \<Rightarrow> u64 \<Rightarrow> ReleasedLease sched_op" where
  "expire_token submitted now s =
     try_in (validate_epoch submitted s) s (\<lambda>_.
     try_in (locate_token_instance submitted s) s (\<lambda>i.
     try_in (get_state i s) s (\<lambda>st.
     try_in (get_lease st) s (\<lambda>lease.
     if le_token lease \<noteq> submitted then (Inl LeaseMismatch, s)
     else if now < lt_expires_at (le_token lease) then (Inl LeaseNotExpired, s)
     else
       (Inr \<lparr>rl_token = le_token lease, rl_reason = ReleaseExpired\<rparr>,
        drop_lease i st lease s)))))"

definition release_owned ::
  "LeaseToken \<Rightarrow> ConnectionId \<Rightarrow> LeaseReleaseReason \<Rightarrow> ReleasedLease sched_op" where
  "release_owned submitted connection reason s =
     (if reason = ReleaseExplicit \<or> reason = ReleaseExpired then (Inl LeaseMismatch, s)
      else
        try_in (validate_epoch submitted s) s (\<lambda>_.
        try_in (locate_token_instance submitted s) s (\<lambda>i.
        try_in (get_state i s) s (\<lambda>st.
        try_in (get_lease st) s (\<lambda>lease.
        if le_token lease \<noteq> submitted then (Inl LeaseMismatch, s)
        else if le_connection_id lease \<noteq> connection then (Inl ConnectionMismatch, s)
        else
          (Inr \<lparr>rl_token = le_token lease, rl_reason = reason\<rparr>, drop_lease i st lease s))))))"

definition rollback_lease :: "LeaseToken \<Rightarrow> unit sched_op" where
  "rollback_lease token s =
     try_in (validate_epoch token s) s (\<lambda>_.
     try_in (locate_token_instance token s) s (\<lambda>i.
     try_in (get_state i s) s (\<lambda>st.
     try_in (get_lease st) s (\<lambda>lease.
     if le_token lease \<noteq> token then (Inl LeaseMismatch, s)
     else (Inr (), drop_lease i st lease s)))))"

definition clear_elapsed_cooldowns :: "u64 \<Rightarrow> SeedScheduler \<Rightarrow> bool \<times> SeedScheduler" where
  "clear_elapsed_cooldowns now s =
     (let elapsed = \<lambda>st. is_cooldown_until st \<noteq> 0 \<and> is_cooldown_until st \<le> now in
      (list_ex (\<lambda>(i, st). elapsed st) (ss_instances s),
       s\<lparr>ss_instances :=
            map (\<lambda>(i, st). (i, if elapsed st then st\<lparr>is_cooldown_until := 0\<rparr> else st))
              (ss_instances s)\<rparr>))"

section \<open>Queries\<close>

definition leases_list :: "SeedScheduler \<Rightarrow> LeaseEntry list" where
  "leases_list s = List.map_filter (\<lambda>(i, st). is_lease st) (ss_instances s)"

definition due_tokens :: "u64 \<Rightarrow> SeedScheduler \<Rightarrow> LeaseToken list" where
  "due_tokens now s =
     map le_token (filter (\<lambda>l. lt_expires_at (le_token l) \<le> now) (leases_list s))"

definition tokens_for_connection :: "ConnectionId \<Rightarrow> SeedScheduler \<Rightarrow> LeaseToken list" where
  "tokens_for_connection connection s =
     map le_token (filter (\<lambda>l. le_connection_id l = connection) (leases_list s))"

definition active_tokens :: "SeedScheduler \<Rightarrow> LeaseToken list" where
  "active_tokens s = map le_token (leases_list s)"

definition connection_for_token ::
  "LeaseToken \<Rightarrow> SeedScheduler \<Rightarrow> (SchedulerError, ConnectionId) result" where
  "connection_for_token token s =
     and_then (validate_epoch token s) (\<lambda>_.
     and_then (locate_token_instance token s) (\<lambda>i.
     and_then (get_state i s) (\<lambda>st.
     and_then (get_lease st) (\<lambda>lease.
     if le_token lease \<noteq> token then Inl LeaseMismatch else Inr (le_connection_id lease)))))"

definition active_lease :: "InstanceId \<Rightarrow> SeedScheduler \<Rightarrow> ActiveLease option" where
  "active_lease i s =
     map_option
       (\<lambda>lease.
          \<lparr>al_token = le_token lease, al_connection_id = le_connection_id lease,
            al_priority = le_priority lease,
            al_destructive_step_active = (le_destructive_step lease \<noteq> None),
            al_preempt_requested = le_preempt_requested lease, al_kind = le_kind lease\<rparr>)
       (Option.bind (bt_get (ss_instances s) i) is_lease)"

definition queued_count :: "InstanceId \<Rightarrow> SeedScheduler \<Rightarrow> nat" where
  "queued_count i s =
     (case bt_get (ss_instances s) i of None \<Rightarrow> 0 | Some st \<Rightarrow> length (is_queue st))"

definition cooldown_active :: "InstanceId \<Rightarrow> u64 \<Rightarrow> SeedScheduler \<Rightarrow> bool" where
  "cooldown_active i now s =
     (case bt_get (ss_instances s) i of None \<Rightarrow> False | Some st \<Rightarrow> now < is_cooldown_until st)"

definition first_eligible_kind ::
  "InstanceId \<Rightarrow> ClaimGate \<Rightarrow> u64 \<Rightarrow> SeedScheduler \<Rightarrow> ClaimKind option" where
  "first_eligible_kind i gate now s =
     Option.bind (bt_get (ss_instances s) i) (\<lambda>st.
       map_option (\<lambda>pos. qe_kind (is_queue st ! pos)) (first_eligible st gate now))"

definition cooldown_remaining_ms :: "InstanceId \<Rightarrow> u64 \<Rightarrow> SeedScheduler \<Rightarrow> u64 option" where
  "cooldown_remaining_ms i now s =
     (case Option.bind (bt_get (ss_instances s) i)
             (\<lambda>st. checked_sub (is_cooldown_until st) now) of
        None \<Rightarrow> None
      | Some remaining \<Rightarrow> if 0 < remaining then Some remaining else None)"

definition active_instance_ids :: "SeedScheduler \<Rightarrow> InstanceId list" where
  "active_instance_ids s = map fst (filter (\<lambda>(i, st). is_lease st \<noteq> None) (ss_instances s))"

definition protected_instance_ids :: "u64 \<Rightarrow> SeedScheduler \<Rightarrow> InstanceId list" where
  "protected_instance_ids now s =
     map fst
       (filter (\<lambda>(i, st). is_lease st \<noteq> None \<or> now < is_cooldown_until st) (ss_instances s))"

end
