(* ===== verification/Scheduler_Inv.thy ===== *)
theory Scheduler_Inv
  imports Scheduler_Lifetime
begin

text \<open>
  The invariant of the scheduler and that every operation keeps it. The invariant speaks of the
  views of the state: where leases are located, what a held lease and a queue look like, that
  the preemption flag of a lease is what its queue asks for, and that no request waits twice.

  An operation is \<^emph>\<open>quiet\<close> when it leaves the held tokens and their locations alone; the others
  change the lease of one instance. The theory shows for every operation which of the two it is.
\<close>

section \<open>The queue order\<close>

interpretation qc: comparator queue_cmp
proof
  show "queue_cmp y x = reverse (queue_cmp x y)" for x y
    unfolding queue_cmp_def reverse_then_with by (metis cmp_swap)
  show "queue_cmp x z \<noteq> Greater" if "queue_cmp x y \<noteq> Greater" "queue_cmp y z \<noteq> Greater" for x y z
    using that by (cases "qe_priority x"; cases "qe_priority y"; cases "qe_priority z")
      (auto simp: queue_cmp_def)
qed

lemma queue_cmp_Equal_arrival:
  "queue_cmp x y = Equal \<Longrightarrow> qe_arrival_sequence x = qe_arrival_sequence y"
  by (simp add: queue_cmp_def)

section \<open>Views under updates\<close>

lemma entry_or_default_put [sched_view]:
  "entry_or_default j (put_state i st s) = (if j = i then st else entry_or_default j s)"
  by (simp add: entry_or_default_def put_state_def)

lemma lease_of_put [sched_view]: "lease_of (put_state i st s) = (lease_of s)(i := is_lease st)"
  by (auto simp: lease_of_def sched_view)

lemma queue_of_put [sched_view]: "queue_of (put_state i st s) = (queue_of s)(i := is_queue st)"
  by (auto simp: queue_of_def sched_view)

lemma cooldown_of_put [sched_view]:
  "cooldown_of (put_state i st s) = (cooldown_of s)(i := is_cooldown_until st)"
  by (auto simp: cooldown_of_def sched_view)

lemma entry_or_default_upd [simp]:
  "entry_or_default i (s\<lparr>ss_lease_issuer := a\<rparr>) = entry_or_default i s"
  "entry_or_default i (s\<lparr>ss_next_arrival_sequence := n\<rparr>) = entry_or_default i s"
  "entry_or_default i (s\<lparr>ss_next_step_id := n\<rparr>) = entry_or_default i s"
  "entry_or_default i (s\<lparr>ss_lease_locations := l\<rparr>) = entry_or_default i s"
  by (simp_all add: entry_or_default_def)

lemma views_upd [simp]:
  "lease_of (s\<lparr>ss_lease_issuer := a\<rparr>) = lease_of s"
  "lease_of (s\<lparr>ss_next_arrival_sequence := n\<rparr>) = lease_of s"
  "lease_of (s\<lparr>ss_next_step_id := n\<rparr>) = lease_of s"
  "lease_of (s\<lparr>ss_lease_locations := l\<rparr>) = lease_of s"
  "queue_of (s\<lparr>ss_lease_issuer := a\<rparr>) = queue_of s"
  "queue_of (s\<lparr>ss_next_arrival_sequence := n\<rparr>) = queue_of s"
  "queue_of (s\<lparr>ss_next_step_id := n\<rparr>) = queue_of s"
  "queue_of (s\<lparr>ss_lease_locations := l\<rparr>) = queue_of s"
  by (auto simp: lease_of_def queue_of_def)

lemma put_state_fields [simp]:
  "ss_owner_epoch (put_state i st s) = ss_owner_epoch s"
  "ss_config (put_state i st s) = ss_config s"
  "ss_lease_issuer (put_state i st s) = ss_lease_issuer s"
  "ss_lease_locations (put_state i st s) = ss_lease_locations s"
  "ss_next_arrival_sequence (put_state i st s) = ss_next_arrival_sequence s"
  "ss_next_step_id (put_state i st s) = ss_next_step_id s"
  "ss_instances (put_state i st s) = bt_insert i st (ss_instances s)"
  by (simp_all add: put_state_def)

lemma get_state_Inr [result_simps]: "get_state i s = Inr st \<longleftrightarrow> bt_get (ss_instances s) i = Some st"
  by (simp add: get_state_def result_simps)

lemma get_lease_Inr [result_simps]: "get_lease st = Inr l \<longleftrightarrow> is_lease st = Some l"
  by (simp add: get_lease_def result_simps)

lemma entry_or_default_Some [simp]:
  "bt_get (ss_instances s) i = Some st \<Longrightarrow> entry_or_default i s = st"
  by (simp add: entry_or_default_def)

lemma entry_or_default_None [simp]:
  "bt_get (ss_instances s) i = None \<Longrightarrow> entry_or_default i s = default_instance"
  by (simp add: entry_or_default_def)

lemma is_queue_entry: "is_queue (entry_or_default i s) = queue_of s i"
  by (simp add: queue_of_def)

lemma is_lease_entry: "is_lease (entry_or_default i s) = lease_of s i"
  by (simp add: lease_of_def)

lemma validate_epoch_Inr [result_simps]:
  "validate_epoch t s = Inr u \<longleftrightarrow> lt_owner_epoch t = ss_owner_epoch s"
  by (simp add: validate_epoch_def)

lemma locate_Inr [result_simps]:
  "locate_token_instance t s = Inr i \<longleftrightarrow>
     bt_get (ss_lease_locations s) (lt_lease_id t) = Some i \<and> lt_instance_id t = i"
  by (auto simp: locate_token_instance_def split: option.splits)

lemma validate_active_lease_Inr [result_simps]:
  "validate_active_lease l t c now = Inr u \<longleftrightarrow>
     le_token l = t \<and> le_connection_id l = c \<and> now < lt_expires_at t"
  by (auto simp: validate_active_lease_def not_le)

lemma refresh_fields [simp]:
  "is_queue (refresh_preempt_requested st) = is_queue st"
  "is_last_release (refresh_preempt_requested st) = is_last_release st"
  "is_cooldown_until (refresh_preempt_requested st) = is_cooldown_until st"
  by (simp_all add: refresh_preempt_requested_def split: option.splits)

lemma refresh_lease:
  "is_lease (refresh_preempt_requested st) =
     map_option (\<lambda>l. l\<lparr>le_preempt_requested := wants_preempt (is_queue st) l\<rparr>) (is_lease st)"
  by (simp add: refresh_preempt_requested_def split: option.splits)

section \<open>The invariant\<close>

text \<open>The identifiers the issuer has minted so far.\<close>

definition minted :: "IdentifierIssuer \<Rightarrow> LeaseId \<Rightarrow> bool" where
  "minted ii l \<longleftrightarrow>
     (\<exists>k < ii_next_sequence ii. l = LeaseId (issued_bytes (ii_namespace ii) k))"

definition lease_ok :: "SeedScheduler \<Rightarrow> InstanceId \<Rightarrow> LeaseEntry \<Rightarrow> bool" where
  "lease_ok s i l \<longleftrightarrow>
     lt_instance_id (le_token l) = i
     \<and> lt_owner_epoch (le_token l) = ss_owner_epoch s
     \<and> lt_expires_at (le_token l) \<noteq> 0
     \<and> minted (ss_lease_issuer s) (lt_lease_id (le_token l))
     \<and> (case le_destructive_step l of
           None \<Rightarrow> True
         | Some (k, _) \<Rightarrow> k \<noteq> 0 \<and> k < ss_next_step_id s)
     \<and> (case le_last_renew l of
           None \<Rightarrow> True
         | Some r \<Rightarrow> lt_lease_id (rr_renewed_token r) = lt_lease_id (le_token l)
                   \<and> lt_lease_id (rr_submitted_token r) = lt_lease_id (le_token l))"

definition queue_ok :: "SeedScheduler \<Rightarrow> QueueEntry list \<Rightarrow> bool" where
  "queue_ok s q \<longleftrightarrow>
     sorted_wrt (\<lambda>a b. queue_cmp a b = Less) q
     \<and> length q \<le> sc_max_queue_depth_per_instance (ss_config s)
     \<and> distinct (map qe_request_id q)
     \<and> (\<forall>e\<in>set q. qe_arrival_sequence e < ss_next_arrival_sequence s \<and> qe_deadline e \<noteq> 0
          \<and> sc_maximum_client_heartbeat_interval_ms (ss_config s) < qe_lease_ttl_ms e)"

definition requests :: "QueueEntry list \<Rightarrow> RequestId set" where
  "requests q = qe_request_id ` set q"

definition locations_ok :: "SeedScheduler \<Rightarrow> bool" where
  "locations_ok s \<longleftrightarrow>
     (\<forall>lid i. bt_get (ss_lease_locations s) lid = Some i \<longleftrightarrow>
        (\<exists>l. lease_of s i = Some l \<and> lt_lease_id (le_token l) = lid))"

definition instance_ok :: "SeedScheduler \<Rightarrow> InstanceId \<Rightarrow> LeaseEntry option \<Rightarrow> QueueEntry list \<Rightarrow> bool" where
  "instance_ok s i lease q \<longleftrightarrow>
     queue_ok s q
     \<and> (\<forall>l. lease = Some l \<longrightarrow> lease_ok s i l \<and> le_preempt_requested l = wants_preempt q l)"

definition sched_inv :: "SeedScheduler \<Rightarrow> bool" where
  "sched_inv s \<longleftrightarrow>
     config_validate (ss_config s) = Inr (ss_config s)
     \<and> bt_wf (ss_instances s) \<and> bt_wf (ss_lease_locations s)
     \<and> ss_next_step_id s \<noteq> 0
     \<and> locations_ok s
     \<and> (\<forall>i. instance_ok s i (lease_of s i) (queue_of s i))
     \<and> (\<forall>i j. i \<noteq> j \<longrightarrow> requests (queue_of s i) \<inter> requests (queue_of s j) = {})"

text \<open>The tokens held, as a client sees them.\<close>

definition held :: "SeedScheduler \<Rightarrow> InstanceId \<Rightarrow> (LeaseToken \<times> ConnectionId) option" where
  "held s i = map_option (\<lambda>l. (le_token l, le_connection_id l)) (lease_of s i)"

definition quiet :: "SeedScheduler \<Rightarrow> SeedScheduler \<Rightarrow> bool" where
  "quiet s s' \<longleftrightarrow>
     ss_owner_epoch s' = ss_owner_epoch s \<and> ss_config s' = ss_config s
     \<and> ii_namespace (ss_lease_issuer s') = ii_namespace (ss_lease_issuer s)
     \<and> ii_next_sequence (ss_lease_issuer s) \<le> ii_next_sequence (ss_lease_issuer s')
     \<and> ss_lease_locations s' = ss_lease_locations s
     \<and> held s' = held s"

definition safe :: "SeedScheduler \<Rightarrow> SeedScheduler \<Rightarrow> bool" where
  "safe s s' \<longleftrightarrow> sched_inv s' \<and> quiet s s'"

lemma quiet_refl [simp]: "quiet s s"
  by (simp add: quiet_def)

lemma quiet_trans: "quiet s s' \<Longrightarrow> quiet s' s'' \<Longrightarrow> quiet s s''"
  by (auto simp: quiet_def)

lemma safe_refl [simp]: "sched_inv s \<Longrightarrow> safe s s"
  by (simp add: safe_def)

lemma safe_trans: "safe s s' \<Longrightarrow> (sched_inv s' \<Longrightarrow> safe s' s'') \<Longrightarrow> safe s s''"
  by (auto simp: safe_def intro: quiet_trans)

lemma safe_try_in:
  "sched_inv s \<Longrightarrow> (\<And>v. r = Inr v \<Longrightarrow> safe s (snd (f v))) \<Longrightarrow> safe s (snd (try_in r s f))"
  by (cases r) auto

section \<open>Rules for the invariant\<close>

lemma minted_mono:
  "minted ii l \<Longrightarrow> ii_namespace ii' = ii_namespace ii \<Longrightarrow>
     ii_next_sequence ii \<le> ii_next_sequence ii' \<Longrightarrow> minted ii' l"
  by (auto simp: minted_def intro: less_le_trans)

lemma sched_inv_instance: "sched_inv s \<Longrightarrow> instance_ok s i (lease_of s i) (queue_of s i)"
  by (simp add: sched_inv_def)

lemma sched_inv_lease: "sched_inv s \<Longrightarrow> lease_of s i = Some l \<Longrightarrow> lease_ok s i l"
  using sched_inv_instance[of s i] by (simp add: instance_ok_def)

lemma sched_inv_queue: "sched_inv s \<Longrightarrow> queue_ok s (queue_of s i)"
  using sched_inv_instance[of s i] by (simp add: instance_ok_def)

lemma sched_inv_located:
  "sched_inv s \<Longrightarrow> lease_of s i = Some l \<Longrightarrow>
     bt_get (ss_lease_locations s) (lt_lease_id (le_token l)) = Some i"
  by (auto simp: sched_inv_def locations_ok_def)

lemma sched_inv_loc_iff:
  "sched_inv s \<Longrightarrow> bt_get (ss_lease_locations s) lid = Some i \<longleftrightarrow>
     (\<exists>l. lease_of s i = Some l \<and> lt_lease_id (le_token l) = lid)"
  by (simp add: sched_inv_def locations_ok_def)

lemma sched_inv_requests:
  "sched_inv s \<Longrightarrow> i \<noteq> j \<Longrightarrow> x \<in> requests (queue_of s i) \<Longrightarrow> x \<notin> requests (queue_of s j)"
  unfolding sched_inv_def by blast

lemma requests_disjoint:
  "sched_inv s \<Longrightarrow> requests q \<subseteq> requests (queue_of s i) \<Longrightarrow> j \<noteq> i \<Longrightarrow>
     requests q \<inter> requests (queue_of s j) = {}"
  using sched_inv_requests[of s i j] by blast

lemma queue_ok_depth: "queue_ok s q \<Longrightarrow> sched_inv s \<Longrightarrow> length q \<le> 4096"
  by (auto simp: queue_ok_def sched_inv_def result_simps MAX_QUEUE_DEPTH_PER_INSTANCE_def)

text \<open>The one rule for an update of one instance together with the locations.\<close>

lemma sched_inv_change:
  assumes inv: "sched_inv s"
    and wf: "bt_wf loc'"
    and loc: "\<And>lid j. bt_get loc' lid = Some j \<longleftrightarrow>
                (if j = i then \<exists>l. is_lease st = Some l \<and> lt_lease_id (le_token l) = lid
                 else bt_get (ss_lease_locations s) lid = Some j)"
    and ok: "instance_ok s i (is_lease st) (is_queue st)"
    and req: "\<And>j. j \<noteq> i \<Longrightarrow> requests (is_queue st) \<inter> requests (queue_of s j) = {}"
  shows "sched_inv ((put_state i st s)\<lparr>ss_lease_locations := loc'\<rparr>)" (is "sched_inv ?s'")
proof -
  have inst: "instance_ok ?s' j = instance_ok s j" for j
    by (intro ext) (simp add: instance_ok_def queue_ok_def lease_ok_def split: option.splits)
  have "locations_ok ?s'"
    using inv loc by (auto simp: locations_ok_def sched_inv_def sched_view split: if_splits)
  moreover have "instance_ok ?s' j (lease_of ?s' j) (queue_of ?s' j)" for j
    using ok sched_inv_instance[OF inv, of j] by (auto simp: inst sched_view)
  moreover have "requests (queue_of ?s' j) \<inter> requests (queue_of ?s' k) = {}" if "j \<noteq> k" for j k
    using inv req[of j] req[of k] that by (auto simp: sched_view sched_inv_def)
  ultimately show ?thesis
    using inv wf by (simp add: sched_inv_def)
qed

text \<open>An update that keeps the lease, or touches only its fields.\<close>

lemma sched_inv_put:
  assumes inv: "sched_inv s"
    and lid: "map_option (lt_lease_id \<circ> le_token) (is_lease st) =
                map_option (lt_lease_id \<circ> le_token) (lease_of s i)"
    and ok: "instance_ok s i (is_lease st) (is_queue st)"
    and req: "\<And>j. j \<noteq> i \<Longrightarrow> requests (is_queue st) \<inter> requests (queue_of s j) = {}"
  shows "sched_inv (put_state i st s)"
proof -
  have "sched_inv ((put_state i st s)\<lparr>ss_lease_locations := ss_lease_locations s\<rparr>)"
  proof (rule sched_inv_change[OF inv _ _ ok req])
    show "bt_wf (ss_lease_locations s)" using inv by (simp add: sched_inv_def)
    show "bt_get (ss_lease_locations s) l = Some j \<longleftrightarrow>
            (if j = i then \<exists>la. is_lease st = Some la \<and> lt_lease_id (le_token la) = l
             else bt_get (ss_lease_locations s) l = Some j)" for l j
      using inv lid by (cases "is_lease st"; cases "lease_of s i")
        (auto simp: sched_inv_def locations_ok_def)
  qed
  then show ?thesis by (simp add: put_state_def)
qed

text \<open>An update that takes the lease away.\<close>

lemma sched_inv_drop:
  assumes inv: "sched_inv s" and st: "is_lease st = None" and l: "lease_of s i = Some l"
    and q: "queue_ok s (is_queue st)" and req: "requests (is_queue st) \<subseteq> requests (queue_of s i)"
    and lid: "lid = lt_lease_id (le_token l)"
  shows "sched_inv (remove_location lid (put_state i st s))"
  unfolding remove_location_def put_state_fields
proof (rule sched_inv_change[OF inv])
  show "bt_wf (bt_remove lid (ss_lease_locations s))" using inv by (simp add: sched_inv_def)
  show "bt_get (bt_remove lid (ss_lease_locations s)) k = Some j \<longleftrightarrow>
          (if j = i then \<exists>la. is_lease st = Some la \<and> lt_lease_id (le_token la) = k
           else bt_get (ss_lease_locations s) k = Some j)" for k j
  proof -
    have "bt_get (ss_lease_locations s) lid = Some i"
      using sched_inv_located[OF inv l] lid by simp
    moreover have "bt_get (ss_lease_locations s) k = Some i \<longleftrightarrow> k = lid"
      using inv l lid by (auto simp: sched_inv_def locations_ok_def)
    ultimately show ?thesis using st by auto
  qed
  show "instance_ok s i (is_lease st) (is_queue st)" using st q by (simp add: instance_ok_def)
  show "requests (is_queue st) \<inter> requests (queue_of s j) = {}" if "j \<noteq> i" for j
    using req sched_inv_requests[OF inv] that by blast
qed

text \<open>An update that installs a lease with a new identifier in place of the current one, if any.\<close>

lemma sched_inv_install:
  assumes inv: "sched_inv s" and st: "is_lease st = Some l"
    and fresh: "bt_get (ss_lease_locations s) (lt_lease_id (le_token l)) = None"
    and ok: "instance_ok s i (Some l) (is_queue st)"
    and req: "requests (is_queue st) \<subseteq> requests (queue_of s i)"
    and loc: "loc = (case lease_of s i of
                None \<Rightarrow> ss_lease_locations s
              | Some l0 \<Rightarrow> bt_remove (lt_lease_id (le_token l0)) (ss_lease_locations s))"
  shows "sched_inv ((put_state i st s)
           \<lparr>ss_lease_locations := bt_insert (lt_lease_id (le_token l)) i loc\<rparr>)"
proof (rule sched_inv_change[OF inv])
  have wf: "bt_wf (ss_lease_locations s)" using inv by (simp add: sched_inv_def)
  then show "bt_wf (bt_insert (lt_lease_id (le_token l)) i loc)"
    by (auto simp: loc split: option.splits)
  show "bt_get (bt_insert (lt_lease_id (le_token l)) i loc) k = Some j \<longleftrightarrow>
          (if j = i then \<exists>la. is_lease st = Some la \<and> lt_lease_id (le_token la) = k
           else bt_get (ss_lease_locations s) k = Some j)" for k j
  proof (cases "lease_of s i")
    case None
    then show ?thesis
      using fresh sched_inv_loc_iff[OF inv, of k i] by (auto simp: st loc)
  next
    case (Some l0)
    then show ?thesis
      using fresh sched_inv_loc_iff[OF inv, of k i] sched_inv_located[OF inv Some]
      by (auto simp: st loc)
  qed
  show "instance_ok s i (is_lease st) (is_queue st)" using ok st by simp
  show "requests (is_queue st) \<inter> requests (queue_of s j) = {}" if "j \<noteq> i" for j
    using req sched_inv_requests[OF inv] that by blast
qed

section \<open>Quiet updates\<close>

definition grown :: "SeedScheduler \<Rightarrow> SeedScheduler \<Rightarrow> bool" where
  "grown s s' \<longleftrightarrow>
     ss_owner_epoch s' = ss_owner_epoch s \<and> ss_config s' = ss_config s
     \<and> ii_namespace (ss_lease_issuer s') = ii_namespace (ss_lease_issuer s)
     \<and> ii_next_sequence (ss_lease_issuer s) \<le> ii_next_sequence (ss_lease_issuer s')
     \<and> ss_next_arrival_sequence s \<le> ss_next_arrival_sequence s'
     \<and> ss_next_step_id s \<le> ss_next_step_id s'"

lemma queue_ok_mono: "queue_ok s q \<Longrightarrow> grown s s' \<Longrightarrow> queue_ok s' q"
  by (auto simp: queue_ok_def grown_def intro: less_le_trans)

lemma lease_ok_mono: "lease_ok s i l \<Longrightarrow> grown s s' \<Longrightarrow> lease_ok s' i l"
  unfolding lease_ok_def grown_def
  by (cases "le_destructive_step l"; cases "le_last_renew l")
    (auto intro: minted_mono less_le_trans)

lemma instance_ok_mono: "instance_ok s i l q \<Longrightarrow> grown s s' \<Longrightarrow> instance_ok s' i l q"
  by (auto simp: instance_ok_def intro: queue_ok_mono lease_ok_mono)

lemma sched_inv_counters:
  assumes "sched_inv s"
    and "s' = s\<lparr>ss_lease_issuer := a, ss_next_arrival_sequence := n, ss_next_step_id := k\<rparr>"
    and "ii_namespace a = ii_namespace (ss_lease_issuer s)"
    and "ii_next_sequence (ss_lease_issuer s) \<le> ii_next_sequence a"
    and "ss_next_arrival_sequence s \<le> n" "ss_next_step_id s \<le> k"
  shows "safe s s'"
proof -
  have "instance_ok s' i (lease_of s' i) (queue_of s' i)" for i
    using sched_inv_instance[OF assms(1), of i] assms(2-)
    by (auto intro!: instance_ok_mono[where s = s] simp: grown_def)
  moreover have "k \<noteq> 0" using assms(1,6) by (auto simp: sched_inv_def)
  ultimately show ?thesis
    using assms by (auto simp: safe_def quiet_def held_def sched_inv_def locations_ok_def)
qed

lemma safe_issuer:
  "sched_inv s \<Longrightarrow> ii_namespace a = ii_namespace (ss_lease_issuer s) \<Longrightarrow>
     ii_next_sequence (ss_lease_issuer s) \<le> ii_next_sequence a \<Longrightarrow>
     safe s (s\<lparr>ss_lease_issuer := a\<rparr>)"
  by (rule sched_inv_counters[where n = "ss_next_arrival_sequence s" and k = "ss_next_step_id s"])
    auto

lemma safe_arrival:
  "sched_inv s \<Longrightarrow> ss_next_arrival_sequence s \<le> n \<Longrightarrow>
     safe s (s\<lparr>ss_next_arrival_sequence := n\<rparr>)"
  by (rule sched_inv_counters[where a = "ss_lease_issuer s" and k = "ss_next_step_id s"]) auto

lemma safe_step_id:
  "sched_inv s \<Longrightarrow> ss_next_step_id s \<le> n \<Longrightarrow> safe s (s\<lparr>ss_next_step_id := n\<rparr>)"
  by (rule sched_inv_counters[where a = "ss_lease_issuer s" and n = "ss_next_arrival_sequence s"])
    auto

lemma safe_put:
  assumes inv: "sched_inv s"
    and hd: "map_option (\<lambda>l. (le_token l, le_connection_id l)) (is_lease st) = held s i"
    and ok: "instance_ok s i (is_lease st) (is_queue st)"
    and req: "\<And>j. j \<noteq> i \<Longrightarrow> requests (is_queue st) \<inter> requests (queue_of s j) = {}"
  shows "safe s (put_state i st s)"
proof -
  have "map_option (lt_lease_id \<circ> le_token) (is_lease st) =
          map_option (lt_lease_id \<circ> le_token) (lease_of s i)"
    using arg_cong[OF hd, of "map_option (lt_lease_id \<circ> fst)"]
    by (simp add: held_def option.map_comp comp_def)
  then have "sched_inv (put_state i st s)" by (rule sched_inv_put[OF inv _ ok req])
  moreover have "held (put_state i st s) = held s"
    using hd by (auto simp: held_def sched_view fun_eq_iff)
  ultimately show ?thesis by (simp add: safe_def quiet_def)
qed

lemma safe_put_same:
  assumes "sched_inv s" "is_lease st = lease_of s i" "is_queue st = queue_of s i"
  shows "safe s (put_state i st s)"
proof (rule safe_put[OF assms(1)])
  show "requests (is_queue st) \<inter> requests (queue_of s j) = {}" if "j \<noteq> i" for j
    using requests_disjoint[OF assms(1) _ that] assms(3) by simp
qed (use assms sched_inv_instance[OF assms(1), of i] in \<open>simp_all add: held_def\<close>)

text \<open>Replacing the queue and refreshing the preemption flag.\<close>

lemma lease_ok_flag [simp]: "lease_ok s i (l\<lparr>le_preempt_requested := b\<rparr>) = lease_ok s i l"
  by (simp add: lease_ok_def split: option.splits)

lemma wants_preempt_flag [simp]: "wants_preempt q (l\<lparr>le_preempt_requested := b\<rparr>) = wants_preempt q l"
  by (simp add: wants_preempt_def split: list.splits)

lemma instance_ok_refresh:
  assumes "queue_ok s (is_queue st)" "\<And>l. is_lease st = Some l \<Longrightarrow> lease_ok s i l"
  shows "instance_ok s i (is_lease (refresh_preempt_requested st)) (is_queue st)"
  using assms by (auto simp: instance_ok_def refresh_lease)

lemma safe_put_refresh:
  assumes inv: "sched_inv s" and st: "is_lease st = lease_of s i"
    and q: "queue_ok s (is_queue st)"
    and req: "\<And>j. j \<noteq> i \<Longrightarrow> requests (is_queue st) \<inter> requests (queue_of s j) = {}"
  shows "safe s (put_state i (refresh_preempt_requested st) s)"
proof (rule safe_put[OF inv])
  show "map_option (\<lambda>l. (le_token l, le_connection_id l)) (is_lease (refresh_preempt_requested st))
          = held s i"
    by (simp add: refresh_lease st held_def option.map_comp comp_def)
  show "instance_ok s i (is_lease (refresh_preempt_requested st))
          (is_queue (refresh_preempt_requested st))"
    using instance_ok_refresh[OF q, of i] sched_inv_lease[OF inv] st by simp
qed (simp add: req)

section \<open>Removing from the queues\<close>

lemma queue_ok_remove_at: "queue_ok s q \<Longrightarrow> queue_ok s (remove_at n q)"
  using length_remove_at_le[of n q] set_remove_at[of n q]
  by (auto simp: queue_ok_def sorted_wrt_remove_at map_remove_at distinct_remove_at)

lemma queue_ok_filter: "queue_ok s q \<Longrightarrow> queue_ok s (filter p q)"
  using le_trans[OF length_filter_le[of p q]]
  by (auto simp: queue_ok_def sorted_wrt_filter distinct_map_filter)

lemma requests_remove_at: "requests (remove_at n q) \<subseteq> requests q"
  using set_remove_at[of n q] by (auto simp: requests_def)

lemma requests_filter: "requests (filter p q) \<subseteq> requests q"
  by (auto simp: requests_def)

lemma safe_remove_queue_position:
  assumes inv: "sched_inv s" and st: "bt_get (ss_instances s) i = Some st"
  shows "safe s (remove_queue_position i pos st s)"
  unfolding remove_queue_position_def
proof (rule safe_put_refresh[OF inv])
  have q: "is_queue st = queue_of s i" using st by (simp add: queue_of_def)
  let ?st = "st\<lparr>is_queue := remove_at pos (is_queue st)\<rparr>"
  show "is_lease ?st = lease_of s i" using st by (simp add: lease_of_def)
  show "queue_ok s (is_queue ?st)"
    using sched_inv_queue[OF inv, of i] by (simp add: q queue_ok_remove_at)
  show "requests (is_queue ?st) \<inter> requests (queue_of s j) = {}" if "j \<noteq> i" for j
    using requests_disjoint[OF inv requests_remove_at that] by (simp add: q)
qed

lemma queued_at_position_ok:
  assumes "pos < length (is_queue st)" "length (is_queue st) \<le> 4096"
  obtains q where "queued_at_position st i pos = Inr q"
    "ql_request_id q = qe_request_id (is_queue st ! pos)" "ql_instance_id q = i"
    "ql_connection_id q = qe_connection_id (is_queue st ! pos)"
    "ql_deadline q = qe_deadline (is_queue st ! pos)"
    "ql_kind q = qe_kind (is_queue st ! pos)"
    "ql_position q = of_nat (Suc pos)"
proof -
  have "Suc pos < 2 ^ 32" using assms by simp
  from one_based_u32_small[OF this] assms(1) that show thesis
    by (simp add: queued_at_position_def Let_def)
qed

text \<open>The removal loop keeps the entries that do not match, in their order, and reports the
  others.\<close>

lemma remove_loop_correct:
  assumes "length (is_queue st) \<le> 4096"
  shows "\<exists>qs. remove_loop p i pos st acc =
           (Inr (acc @ qs),
            st\<lparr>is_queue := take pos (is_queue st) @ filter (\<lambda>e. \<not> p e) (drop pos (is_queue st))\<rparr>)
         \<and> map ql_request_id qs = map qe_request_id (filter p (drop pos (is_queue st)))
         \<and> (\<forall>q\<in>set qs. ql_instance_id q = i)"
  using assms
proof (induction p i pos st acc rule: remove_loop.induct)
  case (1 p i pos st acc)
  show ?case
  proof (cases "pos < length (is_queue st)")
    case in_range: True
    then have d: "drop pos (is_queue st) = is_queue st ! pos # drop (Suc pos) (is_queue st)"
      by (simp add: Cons_nth_drop_Suc)
    show ?thesis
    proof (cases "p (is_queue st ! pos)")
      case True
      obtain q where q: "queued_at_position st i pos = Inr q"
          "ql_request_id q = qe_request_id (is_queue st ! pos)" "ql_instance_id q = i"
        using queued_at_position_ok[OF in_range "1.prems"] by metis
      let ?st = "st\<lparr>is_queue := remove_at pos (is_queue st)\<rparr>"
      have "length (is_queue ?st) \<le> 4096"
        using "1.prems" length_remove_at_le[of pos "is_queue st"] by simp
      from "1.IH"(1)[OF in_range True q(1) this] obtain qs where
        "remove_loop p i pos ?st (acc @ [q]) =
           (Inr ((acc @ [q]) @ qs),
            ?st\<lparr>is_queue := take pos (is_queue ?st)
                   @ filter (\<lambda>e. \<not> p e) (drop pos (is_queue ?st))\<rparr>)"
        "map ql_request_id qs = map qe_request_id (filter p (drop pos (is_queue ?st)))"
        "\<forall>q\<in>set qs. ql_instance_id q = i"
        by blast
      with in_range True q d show ?thesis
        by (intro exI[of _ "q # qs"]) (simp add: remove_loop.simps[of p i pos st acc])
    next
      case False
      from "1.IH"(2)[OF in_range False "1.prems"] in_range False d show ?thesis
        by (simp add: remove_loop.simps[of p i pos st acc] take_Suc_conv_app_nth)
    qed
  next
    case False
    then show ?thesis by (simp add: remove_loop.simps[of p i pos st acc])
  qed
qed

lemma remove_matching_None:
  "bt_get (ss_instances s) i = None \<Longrightarrow> remove_matching p i s = (Inr [], s)"
  by (simp add: remove_matching_def)

lemma remove_matching_Some:
  assumes inv: "sched_inv s" and st: "bt_get (ss_instances s) i = Some st"
  obtains qs where
    "remove_matching p i s =
       (Inr qs, put_state i (refresh_preempt_requested
                  (st\<lparr>is_queue := filter (\<lambda>e. \<not> p e) (is_queue st)\<rparr>)) s)"
    "map ql_request_id qs = map qe_request_id (filter p (is_queue st))"
    "\<forall>q\<in>set qs. ql_instance_id q = i"
proof -
  have "is_queue st = queue_of s i" using st by (simp add: queue_of_def)
  then have "length (is_queue st) \<le> 4096"
    using queue_ok_depth[OF sched_inv_queue[OF inv] inv] by simp
  from remove_loop_correct[OF this, of p i 0 "[]"] st that show thesis
    by (auto simp: remove_matching_def)
qed

lemma safe_remove_matching:
  assumes inv: "sched_inv s"
  shows "safe s (snd (remove_matching p i s))"
proof (cases "bt_get (ss_instances s) i")
  case None
  then show ?thesis using inv by (simp add: remove_matching_None)
next
  case (Some st)
  have v: "is_queue st = queue_of s i" "is_lease st = lease_of s i"
    using Some by (simp_all add: queue_of_def lease_of_def)
  obtain qs where r: "remove_matching p i s =
       (Inr qs, put_state i (refresh_preempt_requested
                  (st\<lparr>is_queue := filter (\<lambda>e. \<not> p e) (is_queue st)\<rparr>)) s)"
    using remove_matching_Some[OF inv Some] by metis
  show ?thesis
    unfolding r snd_conv
    by (rule safe_put_refresh[OF inv])
      (simp_all add: v queue_ok_filter sched_inv_queue[OF inv]
        requests_disjoint[OF inv requests_filter])
qed

lemma safe_remove_matching_on:
  "sched_inv s \<Longrightarrow> safe s (snd (remove_matching_on p is s))"
proof (induction "is" arbitrary: s)
  case (Cons i "is")
  have "safe s (snd (remove_matching p i s))" by (rule safe_remove_matching[OF Cons.prems])
  moreover have "safe s'' (snd (remove_matching_on p is s''))" if "sched_inv s''" for s''
    by (rule Cons.IH[OF that])
  ultimately show ?case
    by (auto split: prod.splits sum.splits elim!: safe_trans) (metis safe_trans snd_conv)+
qed simp

end
