(* ===== verification/Scheduler_Quiet.thy ===== *)
theory Scheduler_Quiet
  imports Scheduler_Inv
begin

text \<open>
  Every operation that prepares, queues, polls, cancels, fences or only reads is quiet and keeps
  the invariant; the tokens such an operation prepares carry an identifier that has never been
  minted before.
\<close>

section \<open>Issuing tokens\<close>

definition next_lease_id :: "SeedScheduler \<Rightarrow> LeaseId" where
  "next_lease_id s =
     LeaseId (issued_bytes (ii_namespace (ss_lease_issuer s)) (ii_next_sequence (ss_lease_issuer s)))"

text \<open>The token was issued between the two states.\<close>

definition issued :: "SeedScheduler \<Rightarrow> SeedScheduler \<Rightarrow> LeaseToken \<Rightarrow> bool" where
  "issued s s' t \<longleftrightarrow>
     lt_lease_id t = next_lease_id s
     \<and> ii_next_sequence (ss_lease_issuer s) < ii_next_sequence (ss_lease_issuer s')
     \<and> lt_owner_epoch t = ss_owner_epoch s
     \<and> lt_expires_at t \<noteq> 0"

lemma issued_minted:
  assumes "issued s s' t" "quiet s s'"
  shows "minted (ss_lease_issuer s') (lt_lease_id t)"
  using assms by (auto simp: issued_def quiet_def minted_def next_lease_id_def)

lemma not_minted_next: "\<not> minted (ss_lease_issuer s) (next_lease_id s)"
  by (auto simp: minted_def next_lease_id_def issued_bytes_inj)

lemma mint_lease_id_cases:
  assumes "mint_lease_id ii = (r, ii')"
  shows "ii_namespace ii' = ii_namespace ii" "ii_next_sequence ii \<le> ii_next_sequence ii'"
    and "r = Inr l \<Longrightarrow> ii_next_sequence ii < ii_next_sequence ii'
           \<and> l = LeaseId (issued_bytes (ii_namespace ii) (ii_next_sequence ii))"
  using assms checked_add_ge[of "ii_next_sequence ii" 1] checked_add_pos[of "ii_next_sequence ii" 1]
  by (auto simp: mint_lease_id_def next_bytes_def split: option.splits)

lemma issue_token_safe:
  assumes inv: "sched_inv s" and r: "issue_token i h now ttl s = (res, s')"
  shows "safe s s'"
proof (cases "expiry_from_ttl now ttl")
  case (Inr e)
  obtain m ii where m: "mint_lease_id (ss_lease_issuer s) = (m, ii)" by fastforce
  have "s' = s\<lparr>ss_lease_issuer := ii\<rparr>"
    using r Inr m by (auto simp: issue_token_def split: sum.splits)
  with mint_lease_id_cases(1,2)[OF m] show ?thesis by (simp add: safe_issuer inv)
qed (use r inv in \<open>simp add: issue_token_def\<close>)

lemma issue_token_Inr:
  assumes r: "issue_token i h now ttl s = (Inr t, s')"
  shows "issued s s' t" "lt_instance_id t = i" "lt_holder_id t = h"
    and "unat (lt_expires_at t) = unat now + unat ttl"
    and "ss_instances s' = ss_instances s"
proof -
  obtain e where e: "expiry_from_ttl now ttl = Inr e" using r by (auto simp: issue_token_def result_simps)
  obtain m ii where m: "mint_lease_id (ss_lease_issuer s) = (m, ii)" by fastforce
  with r e obtain l where l: "m = Inr l" by (cases m) (auto simp: issue_token_def)
  have u: "unat e = unat now + unat ttl"
    using e by (auto simp: expiry_from_ttl_def result_simps dest: checked_add_SomeD)
  from r e m l have t: "token_new (ss_owner_epoch s) l i h e = Inr t"
    and s': "s' = s\<lparr>ss_lease_issuer := ii\<rparr>"
    by (auto simp: issue_token_def result_simps)
  with u mint_lease_id_cases(3)[OF m l] show "issued s s' t" "lt_instance_id t = i" "lt_holder_id t = h"
    "unat (lt_expires_at t) = unat now + unat ttl" "ss_instances s' = ss_instances s"
    by (auto simp: issued_def result_simps next_lease_id_def)
qed

lemma issued_via:
  "issued s1 s' t \<Longrightarrow> ss_lease_issuer s1 = ss_lease_issuer s \<Longrightarrow>
     ss_owner_epoch s1 = ss_owner_epoch s \<Longrightarrow> issued s s' t"
  by (simp add: issued_def next_lease_id_def)

section \<open>Preparing an immediate lease\<close>

text \<open>What a preparation promises: the state is untouched but for counters and cooldowns, and a
  new lease carries a token issued by this very call for the instance asked.\<close>

definition prepares :: "SeedScheduler \<Rightarrow> InstanceId \<Rightarrow>
    (SchedulerError, LeasePreparation) result \<times> SeedScheduler \<Rightarrow> bool" where
  "prepares s i out \<longleftrightarrow>
     safe s (snd out)
     \<and> (\<forall>p. fst out = Inr (New p) \<longrightarrow>
           issued s (snd out) (pl_token p) \<and> lt_instance_id (pl_token p) = i
           \<and> lease_of s i = None)"

lemma prepares_Inl: "sched_inv s \<Longrightarrow> prepares s i (Inl e, s)"
  by (simp add: prepares_def)

lemma prepares_try_in:
  "sched_inv s \<Longrightarrow> (\<And>v. r = Inr v \<Longrightarrow> prepares s i (f v)) \<Longrightarrow> prepares s i (try_in r s f)"
  by (cases r) (auto simp: prepares_def)

lemma prepares_prepare_acquire_with_policy:
  assumes inv: "sched_inv s"
  shows "prepares s i (prepare_acquire_with_policy r i h c pol now s)"
proof -
  let ?st = "entry_or_default i s"
  let ?s1 = "put_state i (?st\<lparr>is_cooldown_until := 0\<rparr>) s"
  have s0: "safe s (put_state i ?st s)"
    by (rule safe_put_same[OF inv]) (simp_all add: lease_of_def queue_of_def)
  have s1: "safe s ?s1"
    by (rule safe_put_same[OF inv]) (simp_all add: lease_of_def queue_of_def)
  obtain res s2 where r2: "issue_token i h now (lap_lease_ttl_ms pol) ?s1 = (res, s2)"
    by fastforce
  have s2: "safe s s2" using safe_trans[OF s1 issue_token_safe[OF _ r2]] .
  have new: "issued s s2 t \<and> lt_instance_id t = i" if "res = Inr t" for t
    using issue_token_Inr[of i h now "lap_lease_ttl_ms pol" ?s1 t s2] r2 that
    by (auto intro: issued_via)
  have lease: "lease_of s i = is_lease ?st" by (simp add: lease_of_def)
  show ?thesis
  proof (cases "now < is_cooldown_until ?st")
    case True
    then show ?thesis
      using s0 by (simp add: prepares_def prepare_acquire_with_policy_def Let_def)
  next
    case False
    then show ?thesis
      using s1 s2 new r2 lease
      by (cases "is_lease ?st"; cases res)
        (auto simp: prepares_def prepare_acquire_with_policy_def Let_def first_eligible_def
          split: option.split)
  qed
qed

lemma prepares_prepare_acquire: "sched_inv s \<Longrightarrow> prepares s i (prepare_acquire r i h c now s)"
  by (simp add: prepare_acquire_def prepares_prepare_acquire_with_policy)

lemma prepares_prepare_acquire_with_ttl:
  "sched_inv s \<Longrightarrow> prepares s i (prepare_acquire_with_ttl r i h c ttl now s)"
  by (simp add: prepare_acquire_with_ttl_def prepares_try_in prepares_prepare_acquire_with_policy)

lemma prepares_prepare_claim_acquire:
  "sched_inv s \<Longrightarrow> prepares s (cr_instance_id cl) (prepare_claim_acquire cl gate now s)"
  by (simp add: prepare_claim_acquire_def prepares_try_in prepares_prepare_acquire_with_policy)

lemma prepares_prepare_dedicated_lease:
  assumes "sched_inv s"
  shows "prepares s i (prepare_dedicated_lease r i h c k gate now s)"
proof -
  let ?pol = "\<lparr>lap_priority = Normal, lap_lease_ttl_ms = sc_lease_ttl_ms (ss_config s),
                lap_kind = k, lap_gate = Open\<rparr>"
  show ?thesis
    using prepares_prepare_acquire_with_policy[OF assms, of i r h c ?pol now] assms
    by (auto simp: prepares_def prepare_dedicated_lease_def
        split: prod.splits sum.splits LeasePreparation.splits)
qed

lemma prepares_prepare_resource_close:
  "sched_inv s \<Longrightarrow> prepares s i (prepare_resource_close r i h c now s)"
  by (simp add: prepare_resource_close_def prepares_prepare_dedicated_lease)

section \<open>Queueing\<close>

lemma queue_of_in:
  "bt_wf (ss_instances s) \<Longrightarrow> (i, st) \<in> set (ss_instances s) \<Longrightarrow> queue_of s i = is_queue st"
  by (simp add: queue_of_def bt_get_in_set[symmetric])

lemma requests_queue_of_cases:
  assumes "r \<in> requests (queue_of s i)"
  obtains st where "(i, st) \<in> set (ss_instances s)" "r \<in> requests (is_queue st)"
  using assms that
  by (cases "bt_get (ss_instances s) i")
    (auto simp: queue_of_def requests_def default_instance_def dest: map_of_SomeD)

lemma replay_in_None:
  assumes "replay_in r i h c p m = Inr None" "(j, st) \<in> set m"
  shows "r \<notin> requests (is_queue st)"
    and "is_lease st = Some l \<Longrightarrow> le_acquire_request_id l \<noteq> r"
  using assms
  by (induction m) (auto simp: replay_one_def replay_one_queued_def requests_def Let_def result_simps
      split: option.splits if_splits)

lemma not_known:
  assumes "\<not> request_known r s" "(j, st) \<in> set (ss_instances s)"
  shows "r \<notin> requests (is_queue st)"
  using assms by (force simp: request_known_def requests_def list_ex_iff)

lemma queue_ok_insert:
  assumes q: "queue_ok s q" and fresh: "qe_request_id e \<notin> requests q"
    and len: "length q < sc_max_queue_depth_per_instance (ss_config s)"
    and e: "qe_arrival_sequence e = ss_next_arrival_sequence s" "qe_deadline e \<noteq> 0"
      "sc_maximum_client_heartbeat_interval_ms (ss_config s) < qe_lease_ttl_ms e"
    and s': "s' = s\<lparr>ss_next_arrival_sequence := n\<rparr>" "ss_next_arrival_sequence s < n"
  shows "queue_ok s' (sort_queue (q @ [e]))"
proof -
  have "x = y" if "x \<in> set (q @ [e])" "y \<in> set (q @ [e])" "queue_cmp x y = Equal" for x y
    using that q e queue_cmp_Equal_arrival[OF that(3)] qc.sorted_Less_inj[of q x y]
    by (fastforce simp: queue_ok_def)
  moreover have d: "distinct (map qe_request_id (q @ [e]))"
    using q fresh by (auto simp: queue_ok_def requests_def)
  ultimately have "sorted_wrt (\<lambda>a b. queue_cmp a b = Less) (sort_by queue_cmp (q @ [e]))"
    by (intro qc.strict_sort_by) (auto simp: distinct_map)
  moreover have "distinct (map qe_request_id (sort_by queue_cmp (q @ [e])))"
    using d mset_eq_imp_distinct_iff[OF arg_cong[OF mset_sort_by[of queue_cmp "q @ [e]"],
        of "image_mset qe_request_id", folded mset_map]] by simp
  ultimately show ?thesis
    using assms by (auto simp: queue_ok_def sort_queue_def simp del: sort_by_simps)
qed

lemma safe_insert_queue_entry:
  assumes inv: "sched_inv s" and fresh: "\<And>j. qe_request_id e \<notin> requests (queue_of s j)"
    and e: "qe_deadline e \<noteq> 0"
      "sc_maximum_client_heartbeat_interval_ms (ss_config s) < qe_lease_ttl_ms e"
  shows "safe s (snd (insert_queue_entry i e s))"
proof (cases "checked_add (ss_next_arrival_sequence s) 1")
  case (Some n)
  let ?st = "entry_or_default i s"
  let ?e = "e\<lparr>qe_arrival_sequence := ss_next_arrival_sequence s\<rparr>"
  let ?s1 = "s\<lparr>ss_next_arrival_sequence := n\<rparr>"
  have n: "ss_next_arrival_sequence s < n" using checked_add_pos[OF Some] by simp
  show ?thesis
  proof (cases "sc_max_queue_depth_per_instance (ss_config s) \<le> length (is_queue ?st)")
    case True
    then show ?thesis
      using safe_put_same[OF inv, of ?st i] Some
      by (simp add: insert_queue_entry_def Let_def lease_of_def queue_of_def)
  next
    case False
    let ?st' = "?st\<lparr>is_queue := sort_queue (is_queue ?st @ [?e])\<rparr>"
    have s1: "safe s ?s1" using safe_arrival[OF inv, of n] n by simp
    have q: "queue_ok ?s1 (sort_queue (is_queue ?st @ [?e]))"
      by (rule queue_ok_insert[where s = s and n = n])
        (use inv fresh[of i] e False n in
          \<open>simp_all add: sched_inv_queue flip: queue_of_def\<close>)
    have "safe ?s1 (put_state i (refresh_preempt_requested ?st') ?s1)"
    proof (rule safe_put_refresh)
      show "sched_inv ?s1" using s1 by (simp add: safe_def)
      show "is_lease ?st' = lease_of ?s1 i" by (simp add: lease_of_def)
      show "queue_ok ?s1 (is_queue ?st')" using q by simp
      show "requests (is_queue ?st') \<inter> requests (queue_of ?s1 j) = {}" if "j \<noteq> i" for j
        using requests_disjoint[OF inv order_refl that] fresh[of j]
        by (auto simp: requests_def sort_queue_def is_queue_entry simp del: sort_by_simps)
    qed
    then have "safe s (put_state i (refresh_preempt_requested ?st') ?s1)"
      by (rule safe_trans[OF s1])
    then show ?thesis
      using Some False by (simp add: insert_queue_entry_def Let_def)
  qed
qed (use inv in \<open>simp add: insert_queue_entry_def Let_def\<close>)

lemma validate_claim_ttl_Inr [result_simps]:
  "validate_claim_ttl ttl s = Inr u \<longleftrightarrow>
     (\<exists>m. checked_add MAX_RESPONSE_DEADLINE_MS
            (sc_maximum_client_heartbeat_interval_ms (ss_config s)) = Some m
          \<and> sc_maximum_client_heartbeat_interval_ms (ss_config s) < ttl \<and> ttl \<le> m)"
  by (auto simp: validate_claim_ttl_def and_then_Inr ok_or_Inr not_le not_less)

lemma sched_inv_ttl:
  "sched_inv s \<Longrightarrow>
     sc_maximum_client_heartbeat_interval_ms (ss_config s) < sc_lease_ttl_ms (ss_config s)"
  by (simp add: sched_inv_def config_validate_Inr)

lemma safe_enqueue_claim:
  assumes inv: "sched_inv s"
  shows "safe s (snd (enqueue_claim cl now s))"
proof -
  have "qe_request_id (claim_entry cl) \<notin> requests (queue_of s j)"
    if "\<not> request_known (cr_request_id cl) s" for j
    using not_known[OF that] by (auto simp: claim_entry_def elim!: requests_queue_of_cases)
  moreover have "qe_deadline (claim_entry cl) \<noteq> 0"
    by (simp add: claim_entry_def CLAIM_NO_DEADLINE_MONOTONIC_MS_def u64_max_def)
  ultimately show ?thesis
    using inv
    by (auto simp: enqueue_claim_def claim_entry_def validate_claim_ttl_Inr
        intro!: safe_try_in safe_insert_queue_entry)
qed

lemma safe_remove_queued_request: "sched_inv s \<Longrightarrow> safe s (snd (remove_queued_request r s))"
  unfolding remove_queued_request_def
  by (auto intro!: safe_try_in safe_remove_queue_position simp: result_simps split: prod.splits)

lemma safe_poll_queued: "sched_inv s \<Longrightarrow> safe s (snd (poll_queued r c now s))"
  unfolding poll_queued_def
  by (auto intro!: safe_try_in safe_remove_queue_position simp: result_simps
      split: option.splits prod.splits)

lemma safe_cancel_queued: "sched_inv s \<Longrightarrow> safe s (snd (cancel_queued r c s))"
  unfolding cancel_queued_def
  by (auto intro!: safe_try_in safe_remove_queue_position simp: result_simps split: prod.splits)

lemma snd_cancelled [simp]: "snd (cancelled rs) = snd rs"
  by (auto simp: cancelled_def split: prod.splits sum.splits)

lemma requests_remove_matching:
  assumes "sched_inv s"
  shows "requests (queue_of (snd (remove_matching p i s)) j) \<subseteq> requests (queue_of s j)"
proof (cases "bt_get (ss_instances s) i")
  case (Some st)
  obtain qs where "remove_matching p i s =
       (Inr qs, put_state i (refresh_preempt_requested
                  (st\<lparr>is_queue := filter (\<lambda>e. \<not> p e) (is_queue st)\<rparr>)) s)"
    using remove_matching_Some[OF assms Some] by metis
  then show ?thesis
    using Some requests_filter[of "\<lambda>e. \<not> p e"] by (auto simp: sched_view queue_of_def)
qed (simp add: remove_matching_None)

text \<open>The admission of a client's queue request.\<close>

definition admits :: "SeedScheduler \<Rightarrow> InstanceId \<Rightarrow>
    (SchedulerError, QueueAdmissionOutcome) result \<times> SeedScheduler \<Rightarrow> bool" where
  "admits s i out \<longleftrightarrow>
     safe s (snd out)
     \<and> (\<forall>o' p. fst out = Inr o' \<and> qo_decision o' = Lease (New p) \<longrightarrow>
           issued s (snd out) (pl_token p) \<and> lt_instance_id (pl_token p) = i)"

lemma admits_safe: "safe s s' \<Longrightarrow> admits s i (Inl e, s')"
  by (simp add: admits_def)

lemma admits_try_in:
  "sched_inv s \<Longrightarrow> (\<And>v. r = Inr v \<Longrightarrow> admits s i (f v)) \<Longrightarrow> admits s i (try_in r s f)"
  by (cases r) (auto simp: admits_def)

lemma replay_in_not_New: "replay_in r i h c p m = Inr (Some d) \<Longrightarrow> d \<noteq> Lease (New pl)"
  by (induction m) (auto simp: replay_one_def replay_one_queued_def Let_def result_simps
      split: option.splits if_splits)

lemma admits_via:
  "safe s s1 \<Longrightarrow> ss_lease_issuer s1 = ss_lease_issuer s \<Longrightarrow> admits s1 i out \<Longrightarrow> admits s i out"
  by (auto simp: admits_def intro: safe_trans issued_via) (auto simp: safe_def quiet_def issued_via)

lemma admits_admit_request:
  assumes inv: "sched_inv s" and t: "qr_timeout_ms q \<noteq> 0"
    and fresh: "\<And>j. qr_request_id q \<notin> requests (queue_of s j)"
  shows "admits s (qr_instance_id q) (admit_request q gate imm ex now s)"
proof -
  let ?i = "qr_instance_id q"
  let ?s1 = "put_state ?i (entry_or_default ?i s) s"
  have s1: "safe s ?s1"
    by (rule safe_put_same[OF inv]) (simp_all add: lease_of_def queue_of_def)
  then have inv1: "sched_inv ?s1" by (simp add: safe_def)
  have q1: "queue_of ?s1 = queue_of s" by (auto simp: sched_view queue_of_def)
  let ?pol = "\<lparr>lap_priority = qr_priority q, lap_lease_ttl_ms = sc_lease_ttl_ms (ss_config s),
                lap_kind = ClientLease, lap_gate = gate\<rparr>"
  obtain res s2 where p: "prepare_acquire_with_policy (qr_request_id q) ?i (qr_holder_id q)
        (qr_connection_id q) ?pol now ?s1 = (res, s2)" by fastforce
  have p2: "admits ?s1 ?i
      (case (res, s2) of
         (Inl e, s) \<Rightarrow> (Inl e, s)
       | (Inr pr, s) \<Rightarrow> (Inr \<lparr>qo_decision = Lease pr, qo_expired = ex\<rparr>, s))"
    using prepares_prepare_acquire_with_policy[OF inv1, of ?i "qr_request_id q" "qr_holder_id q"
        "qr_connection_id q" ?pol now]
    by (auto simp: p prepares_def admits_def split: sum.splits)
  have ins: "admits ?s1 ?i
      (case insert_queue_entry ?i (client_entry q d ttl) ?s1 of
         (Inl e, s) \<Rightarrow> (Inl e, s)
       | (Inr qd, s) \<Rightarrow> (Inr \<lparr>qo_decision = Queued qd, qo_expired = ex\<rparr>, s))"
    if "checked_add now (qr_timeout_ms q) = Some d" "ttl = sc_lease_ttl_ms (ss_config s)" for d ttl
    using safe_insert_queue_entry[OF inv1, of "client_entry q d ttl" ?i] fresh t
      checked_add_pos[OF that(1)] sched_inv_ttl[OF inv] that(2)
    by (auto simp: admits_def q1 client_entry_def split: prod.splits sum.splits)
  have "admits ?s1 ?i (admit_request q gate imm ex now s)"
    using p2 ins inv1
    by (auto simp: admit_request_def Let_def p admits_safe result_simps intro!: admits_try_in)
  then show ?thesis by (rule admits_via[OF s1, rotated]) simp
qed

lemma take_expired_issuer:
  "ss_lease_issuer (snd (remove_matching p i s)) = ss_lease_issuer s"
  by (simp add: remove_matching_def split: option.split prod.split sum.split)

lemma admits_request_queued_gated:
  assumes inv: "sched_inv s"
  shows "admits s (qr_instance_id q) (request_queued_gated q gate imm now s)"
proof (cases "qr_timeout_ms q = 0 \<or> sc_maximum_queue_timeout_ms (ss_config s) < qr_timeout_ms q")
  case True
  then show ?thesis using inv by (simp add: request_queued_gated_def admits_safe)
next
  case False
  let ?r = "replay_queue_request (qr_request_id q) (qr_instance_id q) (qr_holder_id q)
              (qr_connection_id q) (qr_priority q) s"
  consider (err) e where "?r = Inl e" | (hit) d where "?r = Inr (Some d)" | (miss) "?r = Inr None"
    by (cases ?r) auto
  then show ?thesis
  proof cases
    case err
    then show ?thesis using False inv by (simp add: request_queued_gated_def admits_safe)
  next
    case hit
    show ?thesis
    proof (cases d)
      case (Lease p)
      then show ?thesis
        using False hit inv replay_in_not_New[OF hit[unfolded replay_queue_request_def]]
        by (simp add: request_queued_gated_def admits_def)
    next
      case (Queued qd)
      obtain res s1 where r: "remove_queued_request (qr_request_id q) s = (res, s1)" by fastforce
      then have "safe s s1" using safe_remove_queued_request[OF inv, of "qr_request_id q"] by simp
      with Queued False hit inv r show ?thesis
        by (simp add: request_queued_gated_def admits_def split: sum.split)
    qed
  next
    case miss
    obtain res s1 where r: "take_expired_for_instance (qr_instance_id q) now s = (res, s1)"
      by fastforce
    then have s1_def: "s1 = snd (remove_matching (\<lambda>e. qe_deadline e \<le> now) (qr_instance_id q) s)"
      by (simp add: take_expired_for_instance_def)
    have s1: "safe s s1" and ii: "ss_lease_issuer s1 = ss_lease_issuer s"
      by (simp_all add: s1_def safe_remove_matching inv take_expired_issuer)
    have "qr_request_id q \<notin> requests (queue_of s j)" for j
      using replay_in_None(1)[OF miss[unfolded replay_queue_request_def]]
      by (blast elim!: requests_queue_of_cases)
    then have "qr_request_id q \<notin> requests (queue_of s1 j)" for j
      using requests_remove_matching[OF inv, of "\<lambda>e. qe_deadline e \<le> now" "qr_instance_id q" j]
      by (auto simp: s1_def)
    then have "admits s1 (qr_instance_id q) (admit_request q gate imm ex now s1)" for ex
      using s1 False by (intro admits_admit_request) (auto simp: safe_def)
    then show ?thesis
      using miss False r s1 admits_via[OF s1 ii]
      by (auto simp: request_queued_gated_def admits_safe split: sum.splits)
  qed
qed

lemma admits_request_queued:
  "sched_inv s \<Longrightarrow> admits s (qr_instance_id q) (request_queued q now s)"
  by (simp add: request_queued_def admits_request_queued_gated)

section \<open>The pump\<close>

lemma grant_position_None_lease: "grant_position st gate now = Some pos \<Longrightarrow> is_lease st = None"
  by (auto simp: grant_position_def split: if_splits)

lemma prepare_queued_grant_safe:
  assumes inv: "sched_inv s"
  shows "safe s (snd (prepare_queued_grant i gate now s))"
    and "fst (prepare_queued_grant i gate now s) = Inr (Some p) \<Longrightarrow>
           issued s (snd (prepare_queued_grant i gate now s)) (pl_token p)
           \<and> lt_instance_id (pl_token p) = i"
proof -
  have "safe s (snd (prepare_queued_grant i gate now s)) \<and>
    (fst (prepare_queued_grant i gate now s) = Inr (Some p) \<longrightarrow>
       issued s (snd (prepare_queued_grant i gate now s)) (pl_token p)
       \<and> lt_instance_id (pl_token p) = i)"
  proof (cases "Option.bind (bt_get (ss_instances s) i)
                  (\<lambda>st. map_option (\<lambda>pos. is_queue st ! pos) (grant_position st gate now))")
    case None
    then show ?thesis
      using inv by (auto simp: prepare_queued_grant_def bind_eq_None_conv split: option.splits)
  next
    case (Some e)
    obtain res s' where r: "issue_token i (qe_holder_id e) now (qe_lease_ttl_ms e) s = (res, s')"
      by fastforce
    from Some r issue_token_safe[OF inv r] issue_token_Inr(1,2)[of i _ now _ s _ s'] show ?thesis
      by (cases res)
        (auto simp: prepare_queued_grant_def Let_def bind_eq_Some_conv)
  qed
  then show "safe s (snd (prepare_queued_grant i gate now s))"
    and "fst (prepare_queued_grant i gate now s) = Inr (Some p) \<Longrightarrow>
           issued s (snd (prepare_queued_grant i gate now s)) (pl_token p)
           \<and> lt_instance_id (pl_token p) = i" by blast+
qed

section \<open>Destructive steps\<close>

lemma validate_current_lease_Inr [result_simps]:
  "validate_current_lease t c now s = Inr l \<longleftrightarrow>
     lt_owner_epoch t = ss_owner_epoch s
     \<and> bt_get (ss_lease_locations s) (lt_lease_id t) = Some (lt_instance_id t)
     \<and> (\<exists>st. bt_get (ss_instances s) (lt_instance_id t) = Some st
            \<and> is_cooldown_until st \<le> now \<and> is_lease st = Some l)
     \<and> le_token l = t \<and> le_connection_id l = c \<and> now < lt_expires_at t"
  by (auto simp: validate_current_lease_def result_simps not_less split: option.splits if_splits)

lemma validate_write_Inr [result_simps]:
  "validate_write t c now s = Inr u \<longleftrightarrow>
     (\<exists>l. validate_current_lease t c now s = Inr l \<and> \<not> le_resource_close_only l)"
  by (auto simp: validate_write_def and_then_Inr)

lemma non_zero_Some [simp]: "non_zero v = Some w \<longleftrightarrow> w = v \<and> v \<noteq> 0"
  by (auto simp: non_zero_def)

lemma lease_ok_step:
  "lease_ok s i l \<Longrightarrow> k \<noteq> 0 \<Longrightarrow> k < ss_next_step_id s \<Longrightarrow>
     lease_ok s i (l\<lparr>le_destructive_step := Some (k, p)\<rparr>)"
  by (auto simp: lease_ok_def split: option.splits)

lemma lease_ok_no_step: "lease_ok s i l \<Longrightarrow> lease_ok s i (l\<lparr>le_destructive_step := None\<rparr>)"
  by (auto simp: lease_ok_def split: option.splits)

lemma wants_preempt_step [simp]:
  "wants_preempt q (l\<lparr>le_destructive_step := d\<rparr>) = wants_preempt q l"
  by (simp add: wants_preempt_def split: list.splits)

text \<open>Changing the lease of an instance without its token, its connection or its flag.\<close>

lemma safe_put_lease:
  assumes inv: "sched_inv s" and st: "bt_get (ss_instances s) i = Some st" "is_lease st = Some l"
    and l': "le_token l' = le_token l" "le_connection_id l' = le_connection_id l"
      "le_preempt_requested l' = le_preempt_requested l"
      "wants_preempt (is_queue st) l' = wants_preempt (is_queue st) l" "lease_ok s i l'"
  shows "safe s (put_state i (st\<lparr>is_lease := Some l'\<rparr>) s)"
proof (rule safe_put[OF inv])
  have v: "lease_of s i = Some l" "queue_of s i = is_queue st"
    using st by (simp_all add: lease_of_def queue_of_def)
  then show "map_option (\<lambda>l. (le_token l, le_connection_id l)) (is_lease (st\<lparr>is_lease := Some l'\<rparr>))
      = held s i"
    using l' by (simp add: held_def)
  show "instance_ok s i (is_lease (st\<lparr>is_lease := Some l'\<rparr>)) (is_queue (st\<lparr>is_lease := Some l'\<rparr>))"
    using sched_inv_instance[OF inv, of i] l' by (simp add: v instance_ok_def)
  show "requests (is_queue (st\<lparr>is_lease := Some l'\<rparr>)) \<inter> requests (queue_of s j) = {}"
    if "j \<noteq> i" for j
    using requests_disjoint[OF inv _ that, of "is_queue st"] by (simp add: v)
qed

lemma safe_open_step:
  assumes inv: "sched_inv s" and st: "bt_get (ss_instances s) (lt_instance_id t) = Some st"
    "is_lease st = Some l"
  shows "safe s (snd (open_step t c p st l s))"
proof -
  have "safe s (put_state (lt_instance_id t)
          (st\<lparr>is_lease := Some (l\<lparr>le_destructive_step := Some (ss_next_step_id s, p)\<rparr>)\<rparr>)
          (s\<lparr>ss_next_step_id := n\<rparr>))"
    if n: "checked_add (ss_next_step_id s) 1 = Some n" for n
  proof -
    let ?s1 = "s\<lparr>ss_next_step_id := n\<rparr>"
    have lt: "ss_next_step_id s < n" using checked_add_pos[OF n] by simp
    have s1: "safe s ?s1" using safe_step_id[OF inv] lt by simp
    have "lease_ok s (lt_instance_id t) l"
      using sched_inv_lease[OF inv] st by (simp add: lease_of_def)
    then have l1: "lease_ok ?s1 (lt_instance_id t) l"
      using lt by (auto intro!: lease_ok_mono[where s = s] simp: grown_def)
    show ?thesis
    proof (rule safe_trans[OF s1 safe_put_lease])
      show "lease_ok ?s1 (lt_instance_id t)
          (l\<lparr>le_destructive_step := Some (ss_next_step_id s, p)\<rparr>)"
        by (rule lease_ok_step[OF l1]) (use inv lt in \<open>simp_all add: sched_inv_def\<close>)
    qed (use st in simp_all)
  qed
  then show ?thesis
    using inv by (auto simp: open_step_def result_simps intro!: safe_try_in)
qed

lemma safe_begin_destructive_step: "sched_inv s \<Longrightarrow> safe s (snd (begin_destructive_step t c now s))"
  unfolding begin_destructive_step_def
  by (auto simp: result_simps intro!: safe_try_in safe_open_step)

lemma safe_begin_resource_close: "sched_inv s \<Longrightarrow> safe s (snd (begin_resource_close t c now s))"
  unfolding begin_resource_close_def
  by (auto simp: result_simps intro!: safe_try_in safe_open_step)

lemma safe_finish_destructive_step:
  assumes inv: "sched_inv s"
  shows "safe s (snd (finish_destructive_step w c s))"
proof -
  have "safe s (put_state i (st\<lparr>is_lease := Some (l\<lparr>le_destructive_step := None\<rparr>)\<rparr>) s)"
    if "bt_get (ss_instances s) i = Some st" "is_lease st = Some l" for i st l
    by (rule safe_put_lease[OF inv that])
      (use sched_inv_lease[OF inv, of i l] that in \<open>simp_all add: lease_ok_no_step lease_of_def\<close>)
  then show ?thesis
    using inv unfolding finish_destructive_step_def Let_def
    by (auto simp: result_simps intro!: safe_try_in)
qed

section \<open>Preparing transfers\<close>

text \<open>What the preparation of a transfer promises: it changes no lease, and a transfer that is
  ready starts from the lease its token names and goes to a token issued by this very call for
  the same instance.\<close>

definition readies :: "SeedScheduler \<Rightarrow> LeaseToken \<Rightarrow>
    (SchedulerError, TransferPreparation) result \<times> SeedScheduler \<Rightarrow> bool" where
  "readies s t out \<longleftrightarrow>
     safe s (snd out)
     \<and> (\<forall>p. fst out = Inr (Ready p) \<longrightarrow>
           issued s (snd out) (plt_to_token p)
           \<and> lt_instance_id (plt_to_token p) = lt_instance_id t
           \<and> le_token (plt_from p) = t \<and> lease_of s (lt_instance_id t) = Some (plt_from p)
           \<and> le_destructive_step (plt_from p) = None)"

lemma readies_try_in:
  "sched_inv s \<Longrightarrow> (\<And>v. r = Inr v \<Longrightarrow> readies s t (f v)) \<Longrightarrow> readies s t (try_in r s f)"
  by (cases r) (auto simp: readies_def)

lemma readies_no_transfer:
  "sched_inv s \<Longrightarrow> readies s t (Inl e, s)" "sched_inv s \<Longrightarrow> readies s t (Inr NoCandidate, s)"
  "sched_inv s \<Longrightarrow> readies s t (Inr Deferred, s)"
  by (simp_all add: readies_def)

lemma transferable_lease_Inr [result_simps]:
  "transferable_lease t c s = Inr l \<longleftrightarrow>
     lt_owner_epoch t = ss_owner_epoch s
     \<and> bt_get (ss_lease_locations s) (lt_lease_id t) = Some (lt_instance_id t)
     \<and> (\<exists>st. bt_get (ss_instances s) (lt_instance_id t) = Some st \<and> is_lease st = Some l)
     \<and> le_token l = t \<and> le_connection_id l = c"
  by (auto simp: transferable_lease_def result_simps)

lemma no_pair_None [simp]: "(\<forall>a b. x \<noteq> Some (a, b)) \<longleftrightarrow> x = None"
  by (cases x) auto

lemma readies_prepared_transfer:
  assumes inv: "sched_inv s" and l: "transferable_lease t c s = Inr l"
    and step: "le_destructive_step l = None"
  shows "readies s t (prepared_transfer l q reason rel ho now s)"
proof -
  obtain res s' where r: "issue_token (lt_instance_id (le_token l)) (qe_holder_id q) now
      (qe_lease_ttl_ms q) s = (res, s')" by fastforce
  have t: "le_token l = t" "lease_of s (lt_instance_id t) = Some l"
    using l by (auto simp: result_simps lease_of_def)
  show ?thesis
    using r t step issue_token_safe[OF inv r] issue_token_Inr(1,2)[of "lt_instance_id t" _ now _ s _ s']
    by (cases res) (auto simp: readies_def prepared_transfer_def)
qed

lemma readies_prepare_transfer_gated:
  assumes inv: "sched_inv s"
  shows "readies s t (prepare_transfer_gated t c reason rel gate now s)"
  unfolding prepare_transfer_gated_def
  by (auto simp: readies_no_transfer[OF inv] Let_def
      intro!: readies_try_in[OF inv] readies_prepared_transfer[OF inv] split: option.split)

lemma readies_prepare_transfer:
  "sched_inv s \<Longrightarrow> readies s t (prepare_transfer t c reason rel now s)"
  by (simp add: prepare_transfer_def readies_prepare_transfer_gated)

lemma readies_prepare_claim_hand_off:
  assumes inv: "sched_inv s"
  shows "readies s t (prepare_claim_hand_off t c reason rel cl gate now s)"
  unfolding prepare_claim_hand_off_def
  by (auto simp: readies_no_transfer[OF inv]
      intro!: readies_try_in[OF inv] readies_prepared_transfer[OF inv])

lemma readies_prepare_hand_off:
  "sched_inv s \<Longrightarrow> readies s t (prepare_hand_off t c reason cl gate now s)"
  by (simp add: prepare_hand_off_def readies_prepare_claim_hand_off readies_no_transfer)

lemma readies_prepare_release_hand_off:
  "sched_inv s \<Longrightarrow> readies s t (prepare_release_hand_off t c r cl gate now s)"
  by (simp add: prepare_release_hand_off_def readies_prepare_claim_hand_off)

section \<open>Clearing cooldowns\<close>

lemma bt_get_map_values: "bt_get (map (\<lambda>(k, v). (k, f v)) m) i = map_option f (bt_get m i)"
  by (induction m) auto

lemma safe_clear_elapsed_cooldowns:
  assumes inv: "sched_inv s"
  shows "safe s (snd (clear_elapsed_cooldowns now s))"
proof -
  let ?f = "\<lambda>st. if is_cooldown_until st \<noteq> 0 \<and> is_cooldown_until st \<le> now
                 then st\<lparr>is_cooldown_until := 0\<rparr> else st"
  let ?s' = "s\<lparr>ss_instances := map (\<lambda>(i, st). (i, ?f st)) (ss_instances s)\<rparr>"
  have r: "snd (clear_elapsed_cooldowns now s) = ?s'"
    by (simp add: clear_elapsed_cooldowns_def Let_def)
  have v: "lease_of ?s' = lease_of s" "queue_of ?s' = queue_of s"
    by (auto simp: lease_of_def queue_of_def entry_or_default_def bt_get_map_values fun_eq_iff
        split: option.splits)
  have k: "map fst (ss_instances ?s') = map fst (ss_instances s)"
    by (simp add: case_prod_beta comp_def)
  have g: "grown s ?s'" by (simp add: grown_def)
  have "instance_ok ?s' i (lease_of ?s' i) (queue_of ?s' i)" for i
    unfolding v by (rule instance_ok_mono[OF sched_inv_instance[OF inv] g])
  moreover have "bt_wf (ss_instances ?s')"
    using inv unfolding sched_inv_def bt_wf_def k by blast
  moreover have "locations_ok ?s'" using inv by (simp add: sched_inv_def locations_ok_def v)
  ultimately have "sched_inv ?s'"
    using inv by (simp add: sched_inv_def v)
  then show ?thesis by (simp add: r safe_def quiet_def held_def v fun_eq_iff)
qed

end
