(* ===== verification/Scheduler_Leases.thy ===== *)
theory Scheduler_Leases
  imports Scheduler_Quiet
begin

text \<open>
  The operations that change a lease: commits, renewals, releases, expiry and rollback. Each
  changes what one instance holds and keeps the invariant, or leaves the scheduler as it is.
\<close>

named_theorems lease_effects \<open>the effect of an operation on the held tokens\<close>

section \<open>Changes of one lease\<close>

definition lease_change ::
  "SeedScheduler \<Rightarrow> SeedScheduler \<Rightarrow> InstanceId \<Rightarrow> (LeaseToken \<times> ConnectionId) option \<Rightarrow> bool" where
  "lease_change s s' i h \<longleftrightarrow>
     sched_inv s' \<and> ss_owner_epoch s' = ss_owner_epoch s \<and> ss_config s' = ss_config s
     \<and> ss_lease_issuer s' = ss_lease_issuer s \<and> held s' = (held s)(i := h)"

lemma held_put: "held (put_state i st s) =
    (held s)(i := map_option (\<lambda>l. (le_token l, le_connection_id l)) (is_lease st))"
  by (auto simp: held_def sched_view fun_eq_iff)

lemma held_upd [simp]:
  "held (s\<lparr>ss_lease_locations := l\<rparr>) = held s" "held (s\<lparr>ss_lease_issuer := a\<rparr>) = held s"
  "held (remove_location k s) = held s" "held (insert_location k i s) = held s"
  by (auto simp: held_def fun_eq_iff remove_location_def insert_location_def)

lemma location_fields [simp]:
  "ss_owner_epoch (remove_location k s) = ss_owner_epoch s"
  "ss_config (remove_location k s) = ss_config s"
  "ss_lease_issuer (remove_location k s) = ss_lease_issuer s"
  "ss_instances (remove_location k s) = ss_instances s"
  "ss_owner_epoch (insert_location k i s) = ss_owner_epoch s"
  "ss_config (insert_location k i s) = ss_config s"
  "ss_lease_issuer (insert_location k i s) = ss_lease_issuer s"
  "ss_instances (insert_location k i s) = ss_instances s"
  by (simp_all add: remove_location_def insert_location_def)

lemma held_Some:
  "bt_get (ss_instances s) i = Some st \<Longrightarrow> is_lease st = Some l \<Longrightarrow>
     held s i = Some (le_token l, le_connection_id l)"
  by (simp add: held_def lease_of_def)

lemma lease_change_drop:
  assumes inv: "sched_inv s" and st: "bt_get (ss_instances s) i = Some st" "is_lease st = Some l"
    and st': "is_lease st' = None" "is_queue st' = is_queue st"
    and k: "k = lt_lease_id (le_token l)"
  shows "lease_change s (remove_location k (put_state i st' s)) i None"
proof -
  have v: "lease_of s i = Some l" "queue_of s i = is_queue st"
    using st by (simp_all add: lease_of_def queue_of_def)
  have "sched_inv (remove_location k (put_state i st' s))"
    by (rule sched_inv_drop[OF inv st'(1) v(1)])
      (use sched_inv_queue[OF inv, of i] st' k in \<open>simp_all add: v\<close>)
  then show ?thesis using st' by (simp add: lease_change_def held_put)
qed

lemma lease_change_drop_lease:
  "sched_inv s \<Longrightarrow> bt_get (ss_instances s) i = Some st \<Longrightarrow> is_lease st = Some l \<Longrightarrow>
     lease_change s (drop_lease i st l s) i None"
  unfolding drop_lease_def by (rule lease_change_drop) simp_all

section \<open>Releases\<close>

lemma release_cases:
  assumes inv: "sched_inv s" and r: "release req t c now s = (res, s')"
  obtains (same) "s' = s"
  | (freed) "held s (lt_instance_id t) = Some (t, c)" "now < lt_expires_at t"
      "res = Inr \<lparr>rl_token = t, rl_reason = ReleaseExplicit\<rparr>"
      "lease_change s s' (lt_instance_id t) None"
proof -
  have "s' = s \<or> (held s (lt_instance_id t) = Some (t, c) \<and> now < lt_expires_at t
      \<and> res = Inr \<lparr>rl_token = t, rl_reason = ReleaseExplicit\<rparr>
      \<and> lease_change s s' (lt_instance_id t) None)"
    using r unfolding release_def
    by (auto simp: result_simps held_Some Let_def intro!: lease_change_drop[OF inv]
        simp: try_in_eq split: option.splits)
  with that show thesis by blast
qed

lemma expire_token_cases:
  assumes inv: "sched_inv s" and r: "expire_token t now s = (res, s')"
  obtains (same) e where "s' = s" "res = Inl e"
  | (freed) c where "held s (lt_instance_id t) = Some (t, c)" "lt_expires_at t \<le> now"
      "res = Inr \<lparr>rl_token = t, rl_reason = ReleaseExpired\<rparr>"
      "lease_change s s' (lt_instance_id t) None"
proof -
  have "(s' = s \<and> (\<exists>e. res = Inl e)) \<or>
      (\<exists>c. held s (lt_instance_id t) = Some (t, c) \<and> lt_expires_at t \<le> now
         \<and> res = Inr \<lparr>rl_token = t, rl_reason = ReleaseExpired\<rparr>
         \<and> lease_change s s' (lt_instance_id t) None)"
    using r unfolding expire_token_def
    by (auto simp: result_simps held_Some not_less lease_change_drop_lease[OF inv]
        simp: try_in_eq split: if_splits)
  with that show thesis by blast
qed

lemma release_owned_cases:
  assumes inv: "sched_inv s" and r: "release_owned t c reason s = (res, s')"
  obtains (same) e where "s' = s" "res = Inl e"
  | (freed) "held s (lt_instance_id t) = Some (t, c)"
      "res = Inr \<lparr>rl_token = t, rl_reason = reason\<rparr>"
      "reason \<noteq> ReleaseExplicit" "reason \<noteq> ReleaseExpired"
      "lease_change s s' (lt_instance_id t) None"
proof -
  have "(s' = s \<and> (\<exists>e. res = Inl e)) \<or>
      (held s (lt_instance_id t) = Some (t, c)
         \<and> res = Inr \<lparr>rl_token = t, rl_reason = reason\<rparr>
         \<and> reason \<noteq> ReleaseExplicit \<and> reason \<noteq> ReleaseExpired
         \<and> lease_change s s' (lt_instance_id t) None)"
    using r unfolding release_owned_def
    by (auto simp: result_simps held_Some lease_change_drop_lease[OF inv]
        simp: try_in_eq split: if_splits)
  with that show thesis by blast
qed

lemma rollback_lease_cases:
  assumes inv: "sched_inv s" and r: "rollback_lease t s = (res, s')"
  obtains (same) e where "s' = s" "res = Inl e"
  | (freed) c where "held s (lt_instance_id t) = Some (t, c)" "res = Inr ()"
      "lease_change s s' (lt_instance_id t) None"
proof -
  have "(s' = s \<and> (\<exists>e. res = Inl e)) \<or>
      (\<exists>c. held s (lt_instance_id t) = Some (t, c) \<and> res = Inr ()
         \<and> lease_change s s' (lt_instance_id t) None)"
    using r unfolding rollback_lease_def
    by (auto simp: result_simps held_Some lease_change_drop_lease[OF inv]
        simp: try_in_eq split: if_splits)
  with that show thesis by blast
qed

section \<open>Renewals\<close>

lemma lease_change_renew:
  assumes inv: "sched_inv s" and st: "bt_get (ss_instances s) i = Some st" "is_lease st = Some l"
    and t: "token_new (ss_owner_epoch s) (lt_lease_id (le_token l)) i
              (lt_holder_id (le_token l)) e = Inr t'"
    and l': "le_token l' = t'" "le_connection_id l' = le_connection_id l"
      "le_priority l' = le_priority l" "le_destructive_step l' = le_destructive_step l"
      "le_preempt_requested l' = le_preempt_requested l"
      "le_last_renew l' = le_last_renew l
       \<or> le_last_renew l' = Some \<lparr>rr_request_id = r, rr_submitted_token = le_token l,
                                    rr_renewed_token = t'\<rparr>"
  shows "lease_change s (put_state i (st\<lparr>is_lease := Some l'\<rparr>) s) i (Some (t', le_connection_id l))"
    and "t' = (le_token l)\<lparr>lt_expires_at := e\<rparr>"
proof -
  have v: "lease_of s i = Some l" "queue_of s i = is_queue st"
    using st by (simp_all add: lease_of_def queue_of_def)
  have ok: "instance_ok s i (Some l) (is_queue st)"
    using sched_inv_instance[OF inv, of i] by (simp add: v)
  have tk: "e \<noteq> 0" "t' = \<lparr>lt_owner_epoch = ss_owner_epoch s, lt_lease_id = lt_lease_id (le_token l),
      lt_instance_id = i, lt_holder_id = lt_holder_id (le_token l), lt_expires_at = e\<rparr>"
    using t by (simp_all add: result_simps)
  have "lease_ok s i l'"
    using ok tk l' by (auto simp: instance_ok_def lease_ok_def split: option.splits)
  moreover have "wants_preempt (is_queue st) l' = wants_preempt (is_queue st) l"
    using l' by (simp add: wants_preempt_def split: list.splits)
  ultimately have "sched_inv (put_state i (st\<lparr>is_lease := Some l'\<rparr>) s)"
    using ok l' tk requests_disjoint[OF inv order_refl, of _ i]
    by (intro sched_inv_put[OF inv]) (simp_all add: v instance_ok_def)
  then show "lease_change s (put_state i (st\<lparr>is_lease := Some l'\<rparr>) s) i (Some (t', le_connection_id l))"
    using l' by (simp add: lease_change_def held_put)
  show "t' = (le_token l)\<lparr>lt_expires_at := e\<rparr>"
    using tk ok by (simp add: instance_ok_def lease_ok_def)
qed

lemma renew_with_ttl_cases:
  assumes inv: "sched_inv s" and r: "renew_with_ttl t c ttl now s = (res, s')"
  obtains (same) e where "s' = s" "res = Inl e"
  | (renewed) e where "held s (lt_instance_id t) = Some (t, c)" "now < lt_expires_at t"
      "res = Inr (t\<lparr>lt_expires_at := e\<rparr>)" "checked_add now ttl = Some e"
      "validate_claim_ttl ttl s = Inr ()"
      "lease_change s s' (lt_instance_id t) (Some (t\<lparr>lt_expires_at := e\<rparr>, c))"
proof -
  have "(s' = s \<and> (\<exists>e. res = Inl e)) \<or>
      (\<exists>st l e t'. bt_get (ss_instances s) (lt_instance_id t) = Some st \<and> is_lease st = Some l
         \<and> le_token l = t \<and> le_connection_id l = c \<and> now < lt_expires_at t
         \<and> checked_add now ttl = Some e \<and> validate_claim_ttl ttl s = Inr ()
         \<and> token_new (ss_owner_epoch s) (lt_lease_id (le_token l)) (lt_instance_id t)
               (lt_holder_id (le_token l)) e = Inr t'
         \<and> res = Inr t'
         \<and> s' = put_state (lt_instance_id t) (st\<lparr>is_lease := Some (l\<lparr>le_token := t'\<rparr>)\<rparr>) s)"
    using r unfolding renew_with_ttl_def
    by (auto simp: validate_epoch_Inr get_state_Inr get_lease_Inr validate_active_lease_Inr
        map_err_Inr ok_or_Inr expiry_from_ttl_def try_in_eq split: if_splits)
  then show thesis
  proof (elim disjE exE conjE)
    fix st l e t'
    assume a: "bt_get (ss_instances s) (lt_instance_id t) = Some st" "is_lease st = Some l"
      "le_token l = t" "le_connection_id l = c" "now < lt_expires_at t"
      "checked_add now ttl = Some e" "validate_claim_ttl ttl s = Inr ()"
      "token_new (ss_owner_epoch s) (lt_lease_id (le_token l)) (lt_instance_id t)
         (lt_holder_id (le_token l)) e = Inr t'"
      "res = Inr t'"
      "s' = put_state (lt_instance_id t) (st\<lparr>is_lease := Some (l\<lparr>le_token := t'\<rparr>)\<rparr>) s"
    note c = lease_change_renew[OF inv a(1,2,8), of "l\<lparr>le_token := t'\<rparr>"]
    show thesis
      by (rule renewed[of e]) (use a c held_Some[OF a(1,2)] in auto)
  qed (use same in blast)
qed

lemma renew_cases:
  assumes inv: "sched_inv s" and r: "renew req t c now s = (res, s')"
  obtains (same) "s' = s"
  | (renewed) e where "held s (lt_instance_id t) = Some (t, c)" "now < lt_expires_at t"
      "res = Inr (t\<lparr>lt_expires_at := e\<rparr>)"
      "checked_add now (sc_lease_ttl_ms (ss_config s)) = Some e"
      "lease_change s s' (lt_instance_id t) (Some (t\<lparr>lt_expires_at := e\<rparr>, c))"
      "replayed_renew req t c s' = Inr (Some (t\<lparr>lt_expires_at := e\<rparr>))"
proof -
  let ?l' = "\<lambda>l t'. l\<lparr>le_last_renew := Some \<lparr>rr_request_id = req, rr_submitted_token = t,
                 rr_renewed_token = t'\<rparr>, le_token := t'\<rparr>"
  have "s' = s \<or>
      (\<exists>st l e t'. bt_get (ss_instances s) (lt_instance_id t) = Some st \<and> is_lease st = Some l
         \<and> le_token l = t \<and> le_connection_id l = c \<and> now < lt_expires_at t
         \<and> lt_owner_epoch t = ss_owner_epoch s
         \<and> checked_add now (sc_lease_ttl_ms (ss_config s)) = Some e
         \<and> token_new (ss_owner_epoch s) (lt_lease_id (le_token l)) (lt_instance_id t)
               (lt_holder_id (le_token l)) e = Inr t'
         \<and> res = Inr t'
         \<and> s' = put_state (lt_instance_id t) (st\<lparr>is_lease := Some (?l' l t')\<rparr>) s)"
    using r unfolding renew_def
    by (auto simp: validate_epoch_Inr locate_Inr get_state_Inr get_lease_Inr
        validate_active_lease_Inr map_err_Inr ok_or_Inr expiry_from_ttl_def try_in_eq
        split: option.splits)
  then show thesis
  proof (elim disjE exE conjE)
    fix st l e t'
    assume a: "bt_get (ss_instances s) (lt_instance_id t) = Some st" "is_lease st = Some l"
      "le_token l = t" "le_connection_id l = c" "now < lt_expires_at t"
      "lt_owner_epoch t = ss_owner_epoch s"
      "checked_add now (sc_lease_ttl_ms (ss_config s)) = Some e"
      "token_new (ss_owner_epoch s) (lt_lease_id (le_token l)) (lt_instance_id t)
         (lt_holder_id (le_token l)) e = Inr t'"
      "res = Inr t'"
      "s' = put_state (lt_instance_id t) (st\<lparr>is_lease := Some (?l' l t')\<rparr>) s"
    note c = lease_change_renew[OF inv a(1,2,8), of "?l' l t'" req]
    show thesis
      by (rule renewed[of e])
        (use a c held_Some[OF a(1,2)] in
          \<open>auto simp: replayed_renew_def validate_epoch_def\<close>)
  qed (use same in blast)
qed

section \<open>Commits\<close>

text \<open>A token that may still be committed: minted, of this epoch, and held by nobody.\<close>

definition token_ready :: "SeedScheduler \<Rightarrow> LeaseToken \<Rightarrow> bool" where
  "token_ready s t \<longleftrightarrow>
     minted (ss_lease_issuer s) (lt_lease_id t) \<and> lt_owner_epoch t = ss_owner_epoch s
     \<and> lt_expires_at t \<noteq> 0
     \<and> (\<forall>i t' c. held s i = Some (t', c) \<longrightarrow> lt_lease_id t' \<noteq> lt_lease_id t)"

lemma token_ready_unlocated:
  assumes "sched_inv s" "token_ready s t"
  shows "bt_get (ss_lease_locations s) (lt_lease_id t) = None"
proof (rule ccontr)
  assume "\<not> ?thesis"
  then obtain i where "bt_get (ss_lease_locations s) (lt_lease_id t) = Some i" by blast
  then obtain l where "lease_of s i = Some l" "lt_lease_id (le_token l) = lt_lease_id t"
    using sched_inv_loc_iff[OF assms(1)] by blast
  with assms(2) show False by (auto simp: token_ready_def held_def)
qed

lemma lease_ok_new:
  assumes "token_ready s (le_token l)" "lt_instance_id (le_token l) = i"
    "le_destructive_step l = None" "le_last_renew l = None"
  shows "lease_ok s i l"
  using assms by (simp add: token_ready_def lease_ok_def)

lemma sched_inv_install_refresh:
  assumes inv: "sched_inv s" and st: "is_lease st = Some l" and i: "lt_instance_id (le_token l) = i"
    and l: "token_ready s (le_token l)" "le_destructive_step l = None" "le_last_renew l = None"
    and q: "queue_ok s (is_queue st)" "requests (is_queue st) \<subseteq> requests (queue_of s i)"
    and loc: "loc = (case lease_of s i of
                None \<Rightarrow> ss_lease_locations s
              | Some l0 \<Rightarrow> bt_remove (lt_lease_id (le_token l0)) (ss_lease_locations s))"
    and st': "is_lease st' = is_lease (refresh_preempt_requested st)" "is_queue st' = is_queue st"
  shows "lease_change s
           ((put_state i st' s)\<lparr>ss_lease_locations := bt_insert (lt_lease_id (le_token l)) i loc\<rparr>)
           i (Some (le_token l, le_connection_id l))"
proof -
  let ?l = "l\<lparr>le_preempt_requested := wants_preempt (is_queue st) l\<rparr>"
  have sl: "is_lease st' = Some ?l" using st st' by (simp add: refresh_lease)
  have "sched_inv ((put_state i st' s)
      \<lparr>ss_lease_locations := bt_insert (lt_lease_id (le_token ?l)) i loc\<rparr>)"
  proof (rule sched_inv_install[OF inv sl])
    show "bt_get (ss_lease_locations s) (lt_lease_id (le_token ?l)) = None"
      using token_ready_unlocated[OF inv l(1)] by simp
    show "instance_ok s i (Some ?l) (is_queue st')"
      using q lease_ok_new[OF l(1) i l(2,3)] by (simp add: instance_ok_def st')
    show "requests (is_queue st') \<subseteq> requests (queue_of s i)" using q st' by simp
  qed (rule loc)
  then show ?thesis by (simp add: lease_change_def held_put sl)
qed

lemma commit_acquire_New_Inr:
  assumes "commit_acquire (New p) now s = (Inr t, s')"
  obtains st st1 where "bt_get (ss_instances s) (lt_instance_id (pl_token p)) = Some st" "is_lease st = None"
    "t = pl_token p" "now < lt_expires_at (pl_token p)"
    "st1 = st \<or> (\<exists>pos. st1 = st\<lparr>is_queue := remove_at pos (is_queue st)\<rparr>)"
    "s' = insert_location (lt_lease_id (pl_token p)) (lt_instance_id (pl_token p))
        (put_state (lt_instance_id (pl_token p))
          ((refresh_preempt_requested (st1\<lparr>is_lease := Some (prepared_entry p)\<rparr>))
             \<lparr>is_last_release := None\<rparr>) s)"
    "is_cooldown_until st \<le> now" "lt_owner_epoch (pl_token p) = ss_owner_epoch s"
  using assms unfolding commit_acquire_def
  by (auto simp: Let_def try_in_eq result_simps not_le not_less split: if_splits option.splits)

lemma commit_acquire_New_cases:
  assumes inv: "sched_inv s" and ready: "token_ready s (pl_token p)"
    and r: "commit_acquire (New p) now s = (res, s')"
  obtains (same) e where "s' = s" "res = Inl e"
  | (granted) "held s (lt_instance_id (pl_token p)) = None" "res = Inr (pl_token p)"
      "now < lt_expires_at (pl_token p)"
      "lease_change s s' (lt_instance_id (pl_token p)) (Some (pl_token p, pl_connection_id p))"
proof (cases res)
  case (Inl e)
  then have "s' = s"
    using r unfolding commit_acquire_def
    by (auto simp: Let_def try_in_eq split: if_splits option.splits)
  with Inl show thesis by (rule same[rotated])
next
  case (Inr t)
  let ?i = "lt_instance_id (pl_token p)"
  from r[unfolded Inr] obtain st st1 where st: "bt_get (ss_instances s) ?i = Some st" "is_lease st = None"
    and t: "t = pl_token p" "now < lt_expires_at (pl_token p)"
    and st1: "st1 = st \<or> (\<exists>pos. st1 = st\<lparr>is_queue := remove_at pos (is_queue st)\<rparr>)"
    and s': "s' = insert_location (lt_lease_id (pl_token p)) ?i
        (put_state ?i ((refresh_preempt_requested (st1\<lparr>is_lease := Some (prepared_entry p)\<rparr>))
           \<lparr>is_last_release := None\<rparr>) s)"
    by (rule commit_acquire_New_Inr)
  have v: "lease_of s ?i = None" "queue_of s ?i = is_queue st"
    using st by (simp_all add: lease_of_def queue_of_def)
  have q: "queue_ok s (is_queue st1)" "requests (is_queue st1) \<subseteq> requests (queue_of s ?i)"
    using st1 sched_inv_queue[OF inv, of ?i]
    by (auto simp: v queue_ok_remove_at dest: subsetD[OF requests_remove_at])
  have "lease_change s s' ?i (Some (le_token (prepared_entry p), le_connection_id (prepared_entry p)))"
    unfolding s' insert_location_def put_state_fields
    using sched_inv_install_refresh[OF inv, of "st1\<lparr>is_lease := Some (prepared_entry p)\<rparr>"
        "prepared_entry p" ?i "ss_lease_locations s"
        "(refresh_preempt_requested (st1\<lparr>is_lease := Some (prepared_entry p)\<rparr>))\<lparr>is_last_release := None\<rparr>"]
      ready q v
    by (simp add: prepared_entry_def)
  then show thesis
    using granted v t Inr by (simp add: prepared_entry_def held_def)
qed

text \<open>A transfer commits only while the lease it was prepared from is unchanged.\<close>

lemma commit_transfer_cases:
  assumes inv: "sched_inv s" and ready: "token_ready s (plt_to_token p)"
    and i: "lt_instance_id (plt_to_token p) = lt_instance_id (le_token (plt_from p))"
    and r: "commit_transfer p now s = (res, s')"
  obtains (same) e where "s' = s" "res = Inl e"
  | (moved) "lease_of s (lt_instance_id (plt_to_token p)) = Some (plt_from p)"
      "res = Inr (plt_to_token p)" "now < lt_expires_at (plt_to_token p)"
      "lease_change s s' (lt_instance_id (plt_to_token p))
         (Some (plt_to_token p, qe_connection_id (plt_queued p)))"
proof (cases res)
  case (Inl e)
  then have "s' = s"
    using r unfolding commit_transfer_def
    by (auto simp: Let_def try_in_eq split: if_splits option.splits)
  with Inl show thesis by (rule same[rotated])
next
  case (Inr t)
  let ?i = "lt_instance_id (plt_to_token p)"
  let ?st2 = "\<lambda>st q. st\<lparr>is_queue := q, is_last_release := transfer_record p,
                          is_lease := Some (transferred_entry (plt_queued p) (plt_to_token p))\<rparr>"
  from r Inr i obtain st queued q where st: "bt_get (ss_instances s) ?i = Some st"
      "is_lease st = Some (plt_from p)"
    and t: "t = plt_to_token p" "now < lt_expires_at (plt_to_token p)"
    and sel: "transfer_receiver p st = Inr (queued, q)"
    and s0: "s' = insert_location (lt_lease_id (plt_to_token p)) ?i
        (remove_location (lt_lease_id (le_token (plt_from p)))
           (put_state ?i (refresh_preempt_requested
              (st\<lparr>is_queue := q, is_last_release := transfer_record p,
                   is_lease := Some (transferred_entry queued (plt_to_token p))\<rparr>)) s))"
    unfolding commit_transfer_def Let_def
    by (auto simp: try_in_eq get_state_Inr not_le split: if_splits)
  from sel have qd: "queued = plt_queued p"
    and q: "q = is_queue st \<or> (\<exists>pos. q = remove_at pos (is_queue st))"
    by (auto simp: transfer_receiver_def result_simps dest: position_SomeD split: if_splits)
  note s' = s0[unfolded qd]
  have v: "lease_of s ?i = Some (plt_from p)" "queue_of s ?i = is_queue st"
    using st by (simp_all add: lease_of_def queue_of_def)
  have q': "queue_ok s q" "requests q \<subseteq> requests (queue_of s ?i)"
    using q sched_inv_queue[OF inv, of ?i]
    by (auto simp: v queue_ok_remove_at dest: subsetD[OF requests_remove_at])
  let ?l = "transferred_entry (plt_queued p) (plt_to_token p)"
  have "lease_change s s' ?i (Some (le_token ?l, le_connection_id ?l))"
    using sched_inv_install_refresh[OF inv, of "?st2 st q" ?l ?i
        "bt_remove (lt_lease_id (le_token (plt_from p))) (ss_lease_locations s)"
        "refresh_preempt_requested (?st2 st q)"] ready q' v
    by (simp add: transferred_entry_def s' insert_location_def remove_location_def)
  then show thesis
    using moved v t Inr by (simp add: transferred_entry_def)
qed

end
