(* ===== verification/Lease_Spec.thy ===== *)
theory Lease_Spec
  imports Contract
begin

text \<open>
  What a lease authority promises, without queues, cooldowns or clocks: an abstract machine that
  records which token every instance holds and which lease identifiers have ever been granted.
  A step is taken under the offers of the moment: the tokens prepared for a free instance and those
  prepared to take a lease over.
  An instance is granted a token only with an identifier never used before; a renewal keeps the
  identifier and moves only the expiry; a retired identifier is never held again.

  The theory also gives the notion of forward simulation through which the scheduler is shown to
  implement the machine.
\<close>

section \<open>The abstract machine\<close>

type_synonym holdings = "InstanceId \<Rightarrow> (LeaseToken \<times> u64) option"
type_synonym lease_state = "holdings \<times> LeaseId set"

inductive lease_does :: "LeaseToken set \<Rightarrow> LeaseToken set \<Rightarrow> lease_state \<Rightarrow> lease_state \<Rightarrow> bool"
  for G X :: "LeaseToken set" where
  stay: "lease_does G X (H, U) (H, U)"
| grant: "\<lbrakk> H i = None; t \<in> G; lt_lease_id t \<notin> U; lt_instance_id t = i \<rbrakk> \<Longrightarrow>
    lease_does G X (H, U) (H(i \<mapsto> (t, c)), insert (lt_lease_id t) U)"
| hand_over: "\<lbrakk> H i = Some (t0, c0); t \<in> X; lt_lease_id t \<notin> U; lt_instance_id t = i \<rbrakk> \<Longrightarrow>
    lease_does G X (H, U) (H(i \<mapsto> (t, c)), insert (lt_lease_id t) U)"
| renew: "\<lbrakk> H i = Some (t, c) \<rbrakk> \<Longrightarrow>
    lease_does G X (H, U) (H(i \<mapsto> (t\<lparr>lt_expires_at := e\<rparr>, c)), U)"
| retire: "\<lbrakk> H i = Some (t, c) \<rbrakk> \<Longrightarrow> lease_does G X (H, U) (H(i := None), U)"

definition lease_step :: "lease_state \<Rightarrow> lease_state \<Rightarrow> bool" where
  "lease_step a b \<longleftrightarrow> (\<exists>G X. lease_does G X a b)"

definition holds_id :: "holdings \<Rightarrow> InstanceId \<Rightarrow> LeaseId \<Rightarrow> bool" where
  "holds_id H i lid \<longleftrightarrow> (\<exists>t c. H i = Some (t, c) \<and> lt_lease_id t = lid)"

definition lease_state_ok :: "lease_state \<Rightarrow> bool" where
  "lease_state_ok a \<longleftrightarrow>
     (\<forall>i lid. holds_id (fst a) i lid \<longrightarrow> lid \<in> snd a)
     \<and> (\<forall>i j lid. holds_id (fst a) i lid \<longrightarrow> holds_id (fst a) j lid \<longrightarrow> i = j)
     \<and> (\<forall>i t c. fst a i = Some (t, c) \<longrightarrow> lt_instance_id t = i)"

lemma holds_id_upd:
  "holds_id (H(i := h)) j lid \<longleftrightarrow>
     (if j = i then \<exists>t c. h = Some (t, c) \<and> lt_lease_id t = lid else holds_id H j lid)"
  by (auto simp: holds_id_def)

lemma lease_does_ok: "lease_does G X a b \<Longrightarrow> lease_state_ok a \<Longrightarrow> lease_state_ok b"
proof (induction rule: lease_does.induct)
  case (renew H i t c U e)
  have "holds_id (H(i \<mapsto> (t\<lparr>lt_expires_at := e\<rparr>, c))) = holds_id H"
    using renew(1) by (auto simp: holds_id_upd holds_id_def fun_eq_iff)
  moreover have "lt_instance_id t = i"
    using renew by (auto simp: lease_state_ok_def)
  ultimately show ?case
    using renew(2) by (auto simp: lease_state_ok_def split: if_splits)
qed (auto simp: lease_state_ok_def holds_id_upd split: if_splits)

lemma lease_step_ok: "lease_step a b \<Longrightarrow> lease_state_ok a \<Longrightarrow> lease_state_ok b"
  by (auto simp: lease_step_def dest: lease_does_ok)

lemma lease_step_used: "lease_step a b \<Longrightarrow> snd a \<subseteq> snd b"
  by (auto simp: lease_step_def elim!: lease_does.cases)

lemma lease_steps_used: "lease_step\<^sup>*\<^sup>* a b \<Longrightarrow> snd a \<subseteq> snd b"
  by (induction rule: rtranclp_induct) (auto dest: lease_step_used)

text \<open>An identifier that was used and is no longer held stays out.\<close>

lemma lease_step_fenced:
  assumes "lease_step a b" "lid \<in> snd a" "\<And>i. \<not> holds_id (fst a) i lid"
  shows "\<not> holds_id (fst b) i lid"
proof -
  obtain G X where "lease_does G X a b" using assms(1) unfolding lease_step_def by blast
  then show ?thesis
    using assms(2,3)
  proof (induction rule: lease_does.induct)
    case (renew H k t c U e)
    then show ?case by (auto simp: holds_id_upd holds_id_def)
  qed (auto simp: holds_id_upd)
qed

lemma lease_steps_fenced:
  assumes "lease_step\<^sup>*\<^sup>* a b" "lid \<in> snd a" "\<And>i. \<not> holds_id (fst a) i lid"
  shows "\<not> holds_id (fst b) i lid"
proof -
  have "lid \<in> snd b \<and> (\<forall>i. \<not> holds_id (fst b) i lid)"
    using assms
  proof (induction rule: rtranclp_induct)
    case (step b c)
    then show ?case using lease_step_used[OF step(2)] lease_step_fenced[OF step(2)] by blast
  qed blast
  then show ?thesis by blast
qed

text \<open>An identifier moves between instances in no step.\<close>

lemma lease_steps_same_instance:
  assumes "lease_step\<^sup>*\<^sup>* a b" "lease_state_ok a" "holds_id (fst a) i lid" "holds_id (fst b) j lid"
  shows "i = j"
proof -
  have "lid \<in> snd b \<and> lease_state_ok b \<and> (\<forall>j. holds_id (fst b) j lid \<longrightarrow> j = i)"
    using assms(1-3)
  proof (induction rule: rtranclp_induct)
    case base
    then show ?case by (auto simp: lease_state_ok_def)
  next
    case (step b c)
    then have b: "lid \<in> snd b" "lease_state_ok b" "\<forall>j. holds_id (fst b) j lid \<longrightarrow> j = i" by blast+
    obtain G X where "lease_does G X b c" using step(2) unfolding lease_step_def by blast
    then have "\<forall>j. holds_id (fst c) j lid \<longrightarrow> j = i"
      using b
    proof (induction rule: lease_does.induct)
      case (renew H k t c U e)
      then show ?case by (auto simp: holds_id_upd holds_id_def split: if_splits)
    qed (auto simp: holds_id_upd)
    then show ?case
      using lease_step_used[OF step(2)] lease_step_ok[OF step(2)] b by blast
  qed
  with assms(4) show ?thesis by blast
qed

section \<open>Forward simulation\<close>

text \<open>Which steps the abstract machine may take can depend on the concrete state.\<close>

locale simulation =
  fixes cstep :: "'c \<Rightarrow> 'c \<Rightarrow> bool"
    and astep :: "'c \<Rightarrow> 'a \<Rightarrow> 'a \<Rightarrow> bool"
    and R :: "'c \<Rightarrow> 'a \<Rightarrow> bool"
  assumes sim: "R c a \<Longrightarrow> cstep c c' \<Longrightarrow> \<exists>a'. astep c a a' \<and> R c' a'"
begin

lemma sim_steps:
  assumes "cstep\<^sup>*\<^sup>* c c'" "R c a"
  shows "\<exists>a'. (\<lambda>a a'. \<exists>c. astep c a a')\<^sup>*\<^sup>* a a' \<and> R c' a'"
  using assms
proof (induction rule: rtranclp_induct)
  case (step c' c'')
  then obtain a' where a': "(\<lambda>a a'. \<exists>c. astep c a a')\<^sup>*\<^sup>* a a'" "R c' a'" by blast
  from sim[OF a'(2) step(2)] obtain a'' where a'': "astep c' a' a''" "R c'' a''" by blast
  have "(\<lambda>a a'. \<exists>c. astep c a a')\<^sup>*\<^sup>* a a''"
    by (rule rtranclp.rtrancl_into_rtrancl[OF a'(1)]) (use a''(1) in blast)
  with a''(2) show ?case by blast
qed blast

text \<open>A run is matched state by state.\<close>

lemma sim_run:
  assumes "successively cstep (c # cs)" "R c a"
  shows "\<exists>as. successively (\<lambda>(c, a) (c', a'). astep c a a') (zip (c # cs) (a # as)) \<and> list_all2 R cs as"
  using assms
proof (induction cs arbitrary: c a)
  case (Cons c' cs)
  then obtain a' where a': "astep c a a'" "R c' a'" using sim by fastforce
  with Cons.IH[of c' a'] Cons.prems obtain as where
      "successively (\<lambda>(c, a) (c', a'). astep c a a') (zip (c' # cs) (a' # as))" "list_all2 R cs as"
    by auto
  with a' show ?case by (intro exI[of _ "a' # as"]) simp
qed (auto intro: exI[of _ "[]"])

end

end
