(* ===== verification/Scheduler_Machine.thy ===== *)
theory Scheduler_Machine
  imports Scheduler_Leases Lease_Spec
begin

text \<open>
  The scheduler as a state machine: its state together with the prepared leases and transfers
  its callers still own (values that Rust moves and never copies, so each is committed at most
  once), and a step for every public operation that changes state. Every reachable state
  satisfies the invariant, and the machine implements the abstract lease machine of
  \<^theory_text>\<open>Lease_Spec\<close>.

  The public methods that only fix arguments of another one (\<open>request_queued\<close>,
  \<open>prepare_transfer\<close>) or that compose two steps (\<open>acquire\<close>) add no state of their own.
\<close>

section \<open>Steps\<close>

type_synonym sys = "SeedScheduler \<times> PreparedLease list \<times> PreparedLeaseTransfer list"

fun new_leases :: "(SchedulerError, LeasePreparation) result \<Rightarrow> PreparedLease list" where
  "new_leases (Inr (New p)) = [p]"
| "new_leases _ = []"

fun new_grants :: "(SchedulerError, PreparedLease option) result \<Rightarrow> PreparedLease list" where
  "new_grants (Inr (Some p)) = [p]"
| "new_grants _ = []"

fun new_admissions :: "(SchedulerError, QueueAdmissionOutcome) result \<Rightarrow> PreparedLease list" where
  "new_admissions (Inr out) =
     (case qo_decision out of Lease prep \<Rightarrow> new_leases (Inr prep) | Queued _ \<Rightarrow> [])"
| "new_admissions (Inl _) = []"

fun new_transfers ::
  "(SchedulerError, TransferPreparation) result \<Rightarrow> PreparedLeaseTransfer list" where
  "new_transfers (Inr (Ready p)) = [p]"
| "new_transfers _ = []"

inductive sched_step :: "sys \<Rightarrow> sys \<Rightarrow> bool" where
  prepare_acquire:
    "prepare_acquire r i h c now s = (res, s') \<Longrightarrow>
       sched_step (s, P, T) (s', new_leases res @ P, T)"
| prepare_acquire_with_ttl:
    "prepare_acquire_with_ttl r i h c ttl now s = (res, s') \<Longrightarrow>
       sched_step (s, P, T) (s', new_leases res @ P, T)"
| prepare_claim_acquire:
    "prepare_claim_acquire cl gate now s = (res, s') \<Longrightarrow>
       sched_step (s, P, T) (s', new_leases res @ P, T)"
| prepare_dedicated_lease:
    "prepare_dedicated_lease r i h c k gate now s = (res, s') \<Longrightarrow>
       sched_step (s, P, T) (s', new_leases res @ P, T)"
| prepare_queued_grant:
    "prepare_queued_grant i gate now s = (gr, s') \<Longrightarrow>
       sched_step (s, P, T) (s', new_grants gr @ P, T)"
| request_queued_gated:
    "request_queued_gated q gate imm now s = (adm, s') \<Longrightarrow>
       sched_step (s, P, T) (s', new_admissions adm @ P, T)"
| prepare_transfer_gated:
    "prepare_transfer_gated t c reason rel gate now s = (tr, s') \<Longrightarrow>
       sched_step (s, P, T) (s', P, new_transfers tr @ T)"
| prepare_hand_off:
    "prepare_hand_off t c reason cl gate now s = (tr, s') \<Longrightarrow>
       sched_step (s, P, T) (s', P, new_transfers tr @ T)"
| prepare_release_hand_off:
    "prepare_release_hand_off t c r cl gate now s = (tr, s') \<Longrightarrow>
       sched_step (s, P, T) (s', P, new_transfers tr @ T)"
| commit_acquire:
    "commit_acquire (New p) now s = (tok, s') \<Longrightarrow>
       sched_step (s, P1 @ p # P2, T) (s', P1 @ P2, T)"
| discard_acquire: "sched_step (s, P1 @ p # P2, T) (s, P1 @ P2, T)"
| commit_transfer:
    "commit_transfer tp now s = (tok, s') \<Longrightarrow>
       sched_step (s, P, T1 @ tp # T2) (s', P, T1 @ T2)"
| discard_transfer: "sched_step (s, P, T1 @ tp # T2) (s, P, T1 @ T2)"
| enqueue_claim: "sched_step (s, P, T) (snd (enqueue_claim cl now s), P, T)"
| poll_queued: "sched_step (s, P, T) (snd (poll_queued r c now s), P, T)"
| cancel_queued: "sched_step (s, P, T) (snd (cancel_queued r c s), P, T)"
| take_expired_for_instance:
    "sched_step (s, P, T) (snd (take_expired_for_instance i now s), P, T)"
| take_expired_queued: "sched_step (s, P, T) (snd (take_expired_queued now s), P, T)"
| remove_queued_for_connection:
    "sched_step (s, P, T) (snd (remove_queued_for_connection c s), P, T)"
| remove_queued_for_connection_on_instance:
    "sched_step (s, P, T) (snd (remove_queued_for_connection_on_instance i c s), P, T)"
| remove_queued_for_instance: "sched_step (s, P, T) (snd (remove_queued_for_instance i s), P, T)"
| remove_queued_for_drain: "sched_step (s, P, T) (snd (remove_queued_for_drain i s), P, T)"
| begin_destructive_step:
    "sched_step (s, P, T) (snd (begin_destructive_step t c now s), P, T)"
| begin_resource_close: "sched_step (s, P, T) (snd (begin_resource_close t c now s), P, T)"
| finish_destructive_step: "sched_step (s, P, T) (snd (finish_destructive_step w c s), P, T)"
| clear_elapsed_cooldowns: "sched_step (s, P, T) (snd (clear_elapsed_cooldowns now s), P, T)"
| renew: "renew r t c now s = (tok, s') \<Longrightarrow> sched_step (s, P, T) (s', P, T)"
| renew_with_ttl: "renew_with_ttl t c ttl now s = (tok, s') \<Longrightarrow> sched_step (s, P, T) (s', P, T)"
| release: "release r t c now s = (rl, s') \<Longrightarrow> sched_step (s, P, T) (s', P, T)"
| expire_token: "expire_token t now s = (rl, s') \<Longrightarrow> sched_step (s, P, T) (s', P, T)"
| release_owned: "release_owned t c reason' s = (rl, s') \<Longrightarrow> sched_step (s, P, T) (s', P, T)"
| rollback_lease: "rollback_lease t s = (un, s') \<Longrightarrow> sched_step (s, P, T) (s', P, T)"

text \<open>The states a scheduler made by \<open>SeedScheduler::new\<close> can reach.\<close>

definition sched_init :: "sys \<Rightarrow> bool" where
  "sched_init x \<longleftrightarrow>
     (\<exists>env epoch config takeover now s.
        scheduler_new env epoch config takeover now = Inr s \<and> x = (s, [], []))"

definition reachable :: "sys \<Rightarrow> bool" where
  "reachable x \<longleftrightarrow> (\<exists>x0. sched_init x0 \<and> sched_step\<^sup>*\<^sup>* x0 x)"

section \<open>The invariant of the machine\<close>

definition owned_tokens :: "PreparedLease list \<Rightarrow> PreparedLeaseTransfer list \<Rightarrow> LeaseToken list" where
  "owned_tokens P T = map pl_token P @ map plt_to_token T"

text \<open>A prepared transfer stays on its instance and starts from a lease without an open step.\<close>

definition transfer_ready :: "PreparedLeaseTransfer \<Rightarrow> bool" where
  "transfer_ready p \<longleftrightarrow>
     lt_instance_id (plt_to_token p) = lt_instance_id (le_token (plt_from p))
     \<and> le_destructive_step (plt_from p) = None"

definition sys_inv :: "sys \<Rightarrow> bool" where
  "sys_inv x \<longleftrightarrow>
     (case x of (s, P, T) \<Rightarrow>
        sched_inv s
        \<and> distinct (map lt_lease_id (owned_tokens P T))
        \<and> (\<forall>t\<in>set (owned_tokens P T). token_ready s t)
        \<and> (\<forall>p\<in>set T. transfer_ready p))"

text \<open>A step of the machine together with the step of the abstract machine it makes.\<close>

definition sys_sim :: "sys \<Rightarrow> lease_state \<Rightarrow> bool" where
  "sys_sim x a \<longleftrightarrow>
     (case x of (s, P, T) \<Rightarrow>
        sys_inv x \<and> lease_state_ok a \<and> fst a = held s
        \<and> (\<forall>lid\<in>snd a. minted (ss_lease_issuer s) lid)
        \<and> (\<forall>t\<in>set (owned_tokens P T). lt_lease_id t \<notin> snd a))"

text \<open>The abstract step is taken under the offers the callers own: a free instance is granted only a
  prepared lease, a lease is taken over only by a prepared transfer.\<close>

definition offered :: "sys \<Rightarrow> lease_state \<Rightarrow> lease_state \<Rightarrow> bool" where
  "offered x a a' = (case x of (s, P, T) \<Rightarrow> lease_does (pl_token ` set P) (plt_to_token ` set T) a a')"

definition simulates :: "sys \<Rightarrow> lease_state \<Rightarrow> sys \<Rightarrow> bool" where
  "simulates x a x' \<longleftrightarrow> (\<exists>a'. offered x a a' \<and> sys_sim x' a')"

lemma simulates_stay:
  assumes "sys_sim x' a"
  shows "simulates x a x'"
proof -
  have "offered x a a" by (cases a; cases x) (simp add: offered_def lease_does.stay)
  with assms show ?thesis unfolding simulates_def by blast
qed

lemma token_ready_quiet:
  "token_ready s t \<Longrightarrow> quiet s s' \<Longrightarrow> token_ready s' t"
  by (auto simp: token_ready_def quiet_def intro: minted_mono)

lemma token_ready_issued:
  assumes inv: "sched_inv s" and q: "quiet s s'" and i: "issued s s' t"
  shows "token_ready s' t"
proof -
  have "lt_lease_id t' \<noteq> lt_lease_id t" if "held s j = Some (t', c)" for j t' c
  proof -
    from that obtain l where l: "lease_of s j = Some l" "le_token l = t'" by (auto simp: held_def)
    then have "minted (ss_lease_issuer s) (lt_lease_id t')"
      using sched_inv_lease[OF inv l(1)] by (simp add: lease_ok_def)
    with not_minted_next i show ?thesis by (auto simp: issued_def)
  qed
  with assms issued_minted[OF i q] show ?thesis
    by (auto simp: token_ready_def issued_def quiet_def)
qed

lemma simulates_quiet:
  assumes "sys_sim (s, P, T) a" "safe s s'"
  shows "simulates (s, P, T) a (s', P, T)"
proof -
  have "sys_sim (s', P, T) a"
    using assms
    by (auto simp: sys_sim_def sys_inv_def safe_def intro: token_ready_quiet minted_mono)
      (auto simp: quiet_def intro: minted_mono)
  then show ?thesis by (rule simulates_stay)
qed

text \<open>A preparation adds a token with an identifier nobody has seen.\<close>

lemma simulates_issue:
  assumes sim: "sys_sim (s, P, T) a" and safe: "safe s s'" and t: "issued s s' t"
    and own: "mset (owned_tokens P' T') = add_mset t (mset (owned_tokens P T))"
    and T': "\<forall>p\<in>set T'. transfer_ready p"
  shows "simulates (s, P, T) a (s', P', T')"
proof -
  have q: "quiet s s'" and inv: "sched_inv s"
    using safe sim by (simp_all add: safe_def sys_sim_def sys_inv_def)
  have new: "lt_lease_id t \<noteq> lid" if "minted (ss_lease_issuer s) lid" for lid
    using that not_minted_next t by (auto simp: issued_def)
  have set': "set (owned_tokens P' T') = insert t (set (owned_tokens P T))"
    using own by (metis set_mset_add_mset_insert set_mset_mset)
  have "distinct (map lt_lease_id (owned_tokens P' T')) \<longleftrightarrow>
      distinct (map lt_lease_id (t # owned_tokens P T))"
    by (rule mset_eq_imp_distinct_iff) (simp add: own)
  moreover have "lt_lease_id t \<notin> lt_lease_id ` set (owned_tokens P T)"
    using sim new by (auto simp: sys_sim_def sys_inv_def token_ready_def)
  ultimately have "distinct (map lt_lease_id (owned_tokens P' T'))"
    using sim by (simp add: sys_sim_def sys_inv_def)
  moreover have "\<forall>u\<in>set (owned_tokens P' T'). token_ready s' u"
    using sim token_ready_quiet[OF _ q] token_ready_issued[OF inv q t]
    by (auto simp: set' sys_sim_def sys_inv_def)
  moreover have "lt_lease_id t \<notin> snd a" using sim new by (auto simp: sys_sim_def)
  ultimately have "sys_sim (s', P', T') a"
    using sim safe T' q
    by (auto simp: sys_sim_def sys_inv_def set' safe_def quiet_def intro: minted_mono)
  then show ?thesis by (rule simulates_stay)
qed

text \<open>Lease ends and renewals.\<close>

lemma simulates_change:
  assumes sim: "sys_sim (s, P, T) a" and ch: "lease_change s s' i h"
    and sub: "\<And>t c. h = Some (t, c) \<Longrightarrow> holds_id (held s) i (lt_lease_id t)"
    and step: "lease_does (pl_token ` set P) (plt_to_token ` set T) a (held s', snd a)"
  shows "simulates (s, P, T) a (s', P, T)"
proof -
  have "token_ready s' u" if u: "token_ready s u" for u
  proof -
    have "lt_lease_id t' \<noteq> lt_lease_id u" if "held s' j = Some (t', c)" for j t' c
    proof (cases "j = i")
      case True
      then have "holds_id (held s) i (lt_lease_id t')"
        using that ch by (intro sub) (simp add: lease_change_def)
      then obtain t2 c2 where "held s i = Some (t2, c2)" "lt_lease_id t2 = lt_lease_id t'"
        by (auto simp: holds_id_def)
      with u show ?thesis unfolding token_ready_def by metis
    next
      case False
      with that u ch show ?thesis by (auto simp: token_ready_def lease_change_def)
    qed
    with u ch show ?thesis by (simp add: token_ready_def lease_change_def)
  qed
  moreover have "lease_state_ok (held s', snd a)"
    using lease_does_ok[OF step] sim by (simp add: sys_sim_def)
  ultimately have "sys_sim (s', P, T) (held s', snd a)"
    using sim ch by (auto simp: sys_sim_def sys_inv_def lease_change_def)
  with step show ?thesis by (auto simp: simulates_def offered_def)
qed

lemma simulates_drop:
  assumes sim: "sys_sim (s, P, T) a" and ch: "lease_change s s' i None" and h: "held s i = Some (t, c)"
  shows "simulates (s, P, T) a (s', P, T)"
proof (rule simulates_change[OF sim ch])
  have a: "a = (held s, snd a)" using sim by (cases a) (simp add: sys_sim_def)
  show "lease_does (pl_token ` set P) (plt_to_token ` set T) a (held s', snd a)"
    using lease_does.retire[of "held s" i t c, OF h] ch by (subst a) (simp add: lease_change_def)
qed simp

lemma simulates_renew:
  assumes sim: "sys_sim (s, P, T) a" and h: "held s i = Some (t, c)"
    and ch: "lease_change s s' i (Some (t\<lparr>lt_expires_at := e\<rparr>, c))"
  shows "simulates (s, P, T) a (s', P, T)"
proof (rule simulates_change[OF sim ch])
  have a: "a = (held s, snd a)" using sim by (cases a) (simp add: sys_sim_def)
  show "lease_does (pl_token ` set P) (plt_to_token ` set T) a (held s', snd a)"
    using lease_does.renew[of "held s" i t c, OF h] ch by (subst a) (simp add: lease_change_def)
qed (use h in \<open>auto simp: holds_id_def\<close>)

text \<open>Commits consume an owned token and grant it.\<close>

lemma sys_sim_discard:
  assumes sim: "sys_sim (s, P, T) a" and own: "mset (owned_tokens P T) = add_mset t (mset (owned_tokens P' T'))"
    and T': "set T' \<subseteq> set T"
  shows "sys_sim (s, P', T') a"
proof -
  have set': "set (owned_tokens P T) = insert t (set (owned_tokens P' T'))"
    using own by (metis set_mset_add_mset_insert set_mset_mset)
  have "distinct (map lt_lease_id (owned_tokens P T)) \<longleftrightarrow>
      distinct (map lt_lease_id (t # owned_tokens P' T'))"
    by (rule mset_eq_imp_distinct_iff) (simp add: own)
  then show ?thesis
    using sim T' by (auto simp: sys_sim_def sys_inv_def set')
qed

lemma simulates_grant:
  assumes sim: "sys_sim (s, P, T) a" and own: "mset (owned_tokens P T) = add_mset t (mset (owned_tokens P' T'))"
    and T': "set T' \<subseteq> set T" and ch: "lease_change s s' (lt_instance_id t) (Some (t, c))"
    and offer: "if held s (lt_instance_id t) = None then t \<in> pl_token ` set P else t \<in> plt_to_token ` set T"
  shows "simulates (s, P, T) a (s', P', T')"
proof -
  let ?i = "lt_instance_id t" and ?a = "(held s', insert (lt_lease_id t) (snd a))"
  have a: "a = (held s, snd a)" using sim by (cases a) (simp add: sys_sim_def)
  have set': "set (owned_tokens P T) = insert t (set (owned_tokens P' T'))"
    using own by (metis set_mset_add_mset_insert set_mset_mset)
  have h': "held s' = (held s)(?i \<mapsto> (t, c))" using ch by (simp add: lease_change_def)
  have fresh: "lt_lease_id t \<notin> snd a" and rdy: "token_ready s t"
    using sim set' by (auto simp: sys_sim_def sys_inv_def)
  have step: "lease_does (pl_token ` set P) (plt_to_token ` set T) a ?a"
  proof (cases "held s ?i")
    case None
    then show ?thesis
      using lease_does.grant[of "held s" ?i t "pl_token ` set P" "snd a"] fresh offer
      by (subst a) (simp add: h')
  next
    case (Some tc)
    then show ?thesis
      using lease_does.hand_over[of "held s" ?i "fst tc" "snd tc" t "plt_to_token ` set T" "snd a"] fresh offer
      by (subst a) (simp add: h')
  qed
  have "distinct (map lt_lease_id (owned_tokens P T)) \<longleftrightarrow>
      distinct (map lt_lease_id (t # owned_tokens P' T'))"
    by (rule mset_eq_imp_distinct_iff) (simp add: own)
  then have dist: "\<forall>u\<in>set (owned_tokens P' T'). lt_lease_id u \<noteq> lt_lease_id t"
    using sim by (auto simp: sys_sim_def sys_inv_def image_iff)
  have s1: "sys_sim (s, P', T') a" by (rule sys_sim_discard[OF sim own T'])
  have "token_ready s' u" if "u \<in> set (owned_tokens P' T')" for u
    using s1 that ch dist[rule_format, OF that, symmetric]
    by (auto simp: sys_sim_def sys_inv_def token_ready_def lease_change_def)
  moreover have "lease_state_ok ?a"
    using lease_does_ok[OF step] sim by (simp add: sys_sim_def)
  ultimately have "sys_sim (s', P', T') ?a"
    using s1 ch dist rdy[unfolded token_ready_def]
    by (auto simp: sys_sim_def sys_inv_def lease_change_def)
  with step show ?thesis by (auto simp: simulates_def offered_def)
qed

section \<open>Every step simulates\<close>

lemma new_leases_Nil: "new_leases res = [] \<longleftrightarrow> (\<forall>p. res \<noteq> Inr (New p))"
  by (cases res rule: new_leases.cases) auto

lemma simulates_safe:
  "sys_sim (s, P, T) a \<Longrightarrow> (sched_inv s \<Longrightarrow> safe s s') \<Longrightarrow> simulates (s, P, T) a (s', P, T)"
  by (rule simulates_quiet) (simp_all add: sys_sim_def sys_inv_def)

lemma sys_sim_inv: "sys_sim (s, P, T) a \<Longrightarrow> sched_inv s"
  by (simp add: sys_sim_def sys_inv_def)

lemma simulates_prepares:
  assumes sim: "sys_sim (s, P, T) a" and p: "prepares s i (res, s')"
  shows "simulates (s, P, T) a (s', new_leases res @ P, T)"
proof (cases "\<exists>p. res = Inr (New p)")
  case True
  then obtain pl where pl: "res = Inr (New pl)" by blast
  with p have "safe s s'" "issued s s' (pl_token pl)" by (auto simp: prepares_def)
  then show ?thesis
    by (rule simulates_issue[OF sim])
      (use sim pl in \<open>simp_all add: owned_tokens_def sys_sim_def sys_inv_def\<close>)
next
  case False
  then have "new_leases res = []" by (simp add: new_leases_Nil)
  with p simulates_quiet[OF sim] show ?thesis by (simp add: prepares_def)
qed

lemma simulates_grants:
  assumes sim: "sys_sim (s, P, T) a" and r: "prepare_queued_grant i gate now s = (gr, s')"
  shows "simulates (s, P, T) a (s', new_grants gr @ P, T)"
proof -
  have inv: "sched_inv s" using sim by (simp add: sys_sim_def sys_inv_def)
  have safe: "safe s s'" using prepare_queued_grant_safe(1)[OF inv, of i gate now] r by simp
  show ?thesis
  proof (cases "\<exists>p. gr = Inr (Some p)")
    case True
    then obtain p where p: "gr = Inr (Some p)" by blast
    then have "issued s s' (pl_token p)"
      using prepare_queued_grant_safe(2)[OF inv, of i gate now p] r by simp
    with safe show ?thesis
      by (rule simulates_issue[OF sim])
        (use sim p in \<open>simp_all add: owned_tokens_def sys_sim_def sys_inv_def\<close>)
  next
    case False
    then have "new_grants gr = []" by (cases gr rule: new_grants.cases) auto
    with safe simulates_quiet[OF sim] show ?thesis by simp
  qed
qed

lemma simulates_admits:
  assumes sim: "sys_sim (s, P, T) a" and ad: "admits s i (adm, s')"
  shows "simulates (s, P, T) a (s', new_admissions adm @ P, T)"
proof (cases "\<exists>out p. adm = Inr out \<and> qo_decision out = Lease (New p)")
  case True
  then obtain out p where p: "adm = Inr out" "qo_decision out = Lease (New p)" by blast
  with ad have "safe s s'" "issued s s' (pl_token p)" by (auto simp: admits_def)
  then show ?thesis
    by (rule simulates_issue[OF sim])
      (use sim p in \<open>simp_all add: owned_tokens_def sys_sim_def sys_inv_def\<close>)
next
  case False
  then have "new_admissions adm = []"
    by (cases adm) (auto simp: new_leases_Nil split: QueueAdmissionDecision.split)
  with ad simulates_quiet[OF sim] show ?thesis by (simp add: admits_def)
qed

lemma simulates_readies:
  assumes sim: "sys_sim (s, P, T) a" and rd: "readies s t (tr, s')"
  shows "simulates (s, P, T) a (s', P, new_transfers tr @ T)"
proof (cases "\<exists>p. tr = Inr (Ready p)")
  case True
  then obtain p where p: "tr = Inr (Ready p)" by blast
  with rd have "safe s s'" "issued s s' (plt_to_token p)"
    "transfer_ready p"
    by (auto simp: readies_def transfer_ready_def)
  with p sim show ?thesis
    by (intro simulates_issue[OF sim])
      (auto simp: owned_tokens_def sys_sim_def sys_inv_def)
next
  case False
  then have "new_transfers tr = []" by (cases tr rule: new_transfers.cases) auto
  with rd simulates_quiet[OF sim] show ?thesis by (simp add: readies_def)
qed

lemma simulates_commit_acquire:
  assumes sim: "sys_sim (s, P1 @ p # P2, T) a" and r: "commit_acquire (New p) now s = (tok, s')"
  shows "simulates (s, P1 @ p # P2, T) a (s', P1 @ P2, T)"
proof -
  have inv: "sched_inv s" and rdy: "token_ready s (pl_token p)"
    using sim by (auto simp: sys_sim_def sys_inv_def owned_tokens_def)
  have own: "mset (owned_tokens (P1 @ p # P2) T) =
      add_mset (pl_token p) (mset (owned_tokens (P1 @ P2) T))"
    by (simp add: owned_tokens_def)
  from inv rdy r show ?thesis
  proof (cases rule: commit_acquire_New_cases)
    case same
    then show ?thesis using simulates_stay[OF sys_sim_discard[OF sim own]] by simp
  next
    case granted
    then show ?thesis using simulates_grant[OF sim own] by simp
  qed
qed

lemma simulates_commit_transfer:
  assumes sim: "sys_sim (s, P, T1 @ p # T2) a" and r: "commit_transfer p now s = (tok, s')"
  shows "simulates (s, P, T1 @ p # T2) a (s', P, T1 @ T2)"
proof -
  have inv: "sched_inv s" and rdy: "token_ready s (plt_to_token p)"
    and i: "lt_instance_id (plt_to_token p) = lt_instance_id (le_token (plt_from p))"
    using sim by (auto simp: sys_sim_def sys_inv_def owned_tokens_def transfer_ready_def)
  have own: "mset (owned_tokens P (T1 @ p # T2)) =
      add_mset (plt_to_token p) (mset (owned_tokens P (T1 @ T2)))"
    by (simp add: owned_tokens_def)
  from inv rdy i r show ?thesis
  proof (cases rule: commit_transfer_cases)
    case same
    then show ?thesis using simulates_stay[OF sys_sim_discard[OF sim own]] by auto
  next
    case moved
    then show ?thesis using simulates_grant[OF sim own] by (auto simp: held_def)
  qed
qed

lemma simulates_renew_op:
  assumes sim: "sys_sim (s, P, T) a" and r: "renew req t c now s = (res, s')"
  shows "simulates (s, P, T) a (s', P, T)"
proof -
  have inv: "sched_inv s" using sim by (simp add: sys_sim_def sys_inv_def)
  from inv r show ?thesis
  proof (cases rule: renew_cases)
    case same
    then show ?thesis using simulates_stay[OF sim] by simp
  next
    case (renewed e)
    show ?thesis by (rule simulates_renew[OF sim renewed(1) renewed(5)])
  qed
qed

lemma simulates_renew_with_ttl:
  assumes sim: "sys_sim (s, P, T) a" and r: "renew_with_ttl t c ttl now s = (res, s')"
  shows "simulates (s, P, T) a (s', P, T)"
proof -
  have inv: "sched_inv s" using sim by (simp add: sys_sim_def sys_inv_def)
  from inv r show ?thesis
  proof (cases rule: renew_with_ttl_cases)
    case same
    then show ?thesis using simulates_stay[OF sim] by simp
  next
    case (renewed e)
    show ?thesis by (rule simulates_renew[OF sim renewed(1) renewed(6)])
  qed
qed

lemma simulates_release:
  assumes sim: "sys_sim (s, P, T) a" and r: "release req t c now s = (res, s')"
  shows "simulates (s, P, T) a (s', P, T)"
proof -
  have inv: "sched_inv s" using sim by (simp add: sys_sim_def sys_inv_def)
  from inv r show ?thesis
  proof (cases rule: release_cases)
    case same
    then show ?thesis using simulates_stay[OF sim] by simp
  next
    case freed
    show ?thesis by (rule simulates_drop[OF sim freed(4) freed(1)])
  qed
qed

lemma simulates_expire_token:
  assumes sim: "sys_sim (s, P, T) a" and r: "expire_token t now s = (res, s')"
  shows "simulates (s, P, T) a (s', P, T)"
proof -
  have inv: "sched_inv s" using sim by (simp add: sys_sim_def sys_inv_def)
  from inv r show ?thesis
  proof (cases rule: expire_token_cases)
    case same
    then show ?thesis using simulates_stay[OF sim] by simp
  next
    case (freed c)
    show ?thesis by (rule simulates_drop[OF sim freed(4) freed(1)])
  qed
qed

lemma simulates_release_owned:
  assumes sim: "sys_sim (s, P, T) a" and r: "release_owned t c reason s = (res, s')"
  shows "simulates (s, P, T) a (s', P, T)"
proof -
  have inv: "sched_inv s" using sim by (simp add: sys_sim_def sys_inv_def)
  from inv r show ?thesis
  proof (cases rule: release_owned_cases)
    case same
    then show ?thesis using simulates_stay[OF sim] by simp
  next
    case freed
    show ?thesis by (rule simulates_drop[OF sim freed(5) freed(1)])
  qed
qed

lemma simulates_rollback_lease:
  assumes sim: "sys_sim (s, P, T) a" and r: "rollback_lease t s = (res, s')"
  shows "simulates (s, P, T) a (s', P, T)"
proof -
  have inv: "sched_inv s" using sim by (simp add: sys_sim_def sys_inv_def)
  from inv r show ?thesis
  proof (cases rule: rollback_lease_cases)
    case same
    then show ?thesis using simulates_stay[OF sim] by simp
  next
    case (freed c)
    show ?thesis by (rule simulates_drop[OF sim freed(3) freed(1)])
  qed
qed

theorem sched_step_simulates:
  assumes "sched_step x x'" "sys_sim x a"
  shows "simulates x a x'"
  using assms
proof (induction rule: sched_step.induct)
  case (commit_acquire p now s tok s' P1 P2 T)
  then show ?case by (intro simulates_commit_acquire)
next
  case (commit_transfer tp now s tok s' P T1 T2)
  then show ?case by (intro simulates_commit_transfer)
next
  case (discard_acquire s P1 p P2 T)
  show ?case
    by (rule simulates_stay[OF sys_sim_discard[OF discard_acquire, of "pl_token p"]])
      (simp_all add: owned_tokens_def)
next
  case (discard_transfer s P T1 tp T2)
  show ?case
    by (rule simulates_stay[OF sys_sim_discard[OF discard_transfer, of "plt_to_token tp"]])
      (auto simp: owned_tokens_def)
next
  case (renew r t c now s tok s' P T)
  then show ?case by (intro simulates_renew_op)
next
  case (renew_with_ttl t c ttl now s tok s' P T)
  then show ?case by (intro simulates_renew_with_ttl)
next
  case (release r t c now s rl s' P T)
  then show ?case by (intro simulates_release)
next
  case (expire_token t now s rl s' P T)
  then show ?case by (intro simulates_expire_token)
next
  case (release_owned t c reason' s rl s' P T)
  then show ?case by (intro simulates_release_owned)
next
  case (rollback_lease t s un s' P T)
  then show ?case by (intro simulates_rollback_lease)
next
  case (prepare_acquire r i h c now s res s' P T)
  show ?case
    by (rule simulates_prepares[OF prepare_acquire.prems prepares_prepare_acquire[OF sys_sim_inv[OF prepare_acquire.prems], of i r h c now, unfolded prepare_acquire.hyps]])
next
  case (prepare_acquire_with_ttl r i h c ttl now s res s' P T)
  show ?case
    by (rule simulates_prepares[OF prepare_acquire_with_ttl.prems prepares_prepare_acquire_with_ttl[OF sys_sim_inv[OF prepare_acquire_with_ttl.prems], of i r h c ttl now, unfolded prepare_acquire_with_ttl.hyps]])
next
  case (prepare_claim_acquire cl gate now s res s' P T)
  show ?case
    by (rule simulates_prepares[OF prepare_claim_acquire.prems prepares_prepare_claim_acquire[OF sys_sim_inv[OF prepare_claim_acquire.prems], of cl gate now, unfolded prepare_claim_acquire.hyps]])
next
  case (prepare_dedicated_lease r i h c k gate now s res s' P T)
  show ?case
    by (rule simulates_prepares[OF prepare_dedicated_lease.prems prepares_prepare_dedicated_lease[OF sys_sim_inv[OF prepare_dedicated_lease.prems], of i r h c k gate now, unfolded prepare_dedicated_lease.hyps]])
next
  case (prepare_queued_grant i gate now s gr s' P T)
  then show ?case by (intro simulates_grants)
next
  case (request_queued_gated q gate imm now s adm s' P T)
  show ?case
    by (rule simulates_admits[OF request_queued_gated.prems admits_request_queued_gated[OF sys_sim_inv[OF request_queued_gated.prems], of q gate imm now, unfolded request_queued_gated.hyps]])
next
  case (prepare_transfer_gated t c reason rel gate now s tr s' P T)
  show ?case
    by (rule simulates_readies[OF prepare_transfer_gated.prems readies_prepare_transfer_gated[OF sys_sim_inv[OF prepare_transfer_gated.prems], of t c reason rel gate now, unfolded prepare_transfer_gated.hyps]])
next
  case (prepare_hand_off t c reason cl gate now s tr s' P T)
  show ?case
    by (rule simulates_readies[OF prepare_hand_off.prems readies_prepare_hand_off[OF sys_sim_inv[OF prepare_hand_off.prems], of t c reason cl gate now, unfolded prepare_hand_off.hyps]])
next
  case (prepare_release_hand_off t c r cl gate now s tr s' P T)
  show ?case
    by (rule simulates_readies[OF prepare_release_hand_off.prems readies_prepare_release_hand_off[OF sys_sim_inv[OF prepare_release_hand_off.prems], of t c r cl gate now, unfolded prepare_release_hand_off.hyps]])
qed (auto intro!: simulates_safe safe_enqueue_claim safe_poll_queued safe_cancel_queued
      safe_remove_matching safe_remove_matching_on safe_begin_destructive_step
      safe_begin_resource_close safe_finish_destructive_step safe_clear_elapsed_cooldowns
      simp: take_expired_for_instance_def take_expired_queued_def
        remove_queued_for_connection_def remove_queued_for_connection_on_instance_def
        remove_queued_for_instance_def remove_queued_for_drain_def)

section \<open>The initial state and reachability\<close>

definition idle_instance :: "InstanceState \<Rightarrow> bool" where
  "idle_instance st \<longleftrightarrow> is_lease st = None \<and> is_queue st = [] \<and> is_last_release st = None"

lemma fold_or_insert_idle:
  assumes "\<And>j st. bt_get m j = Some st \<Longrightarrow> idle_instance st" "idle_instance st0" "bt_wf m"
  shows "bt_wf (fold (\<lambda>i. bt_or_insert i st0) is m)
    \<and> (\<forall>j st. bt_get (fold (\<lambda>i. bt_or_insert i st0) is m) j = Some st \<longrightarrow> idle_instance st)"
  using assms
proof (induction "is" arbitrary: m)
  case (Cons i "is")
  have "idle_instance st" if "bt_get (bt_or_insert i st0 m) j = Some st" for j st
    using that Cons.prems by (auto simp: bt_get_or_insert split: if_splits option.splits)
  then show ?case
    using Cons.IH[of "bt_or_insert i st0 m"] Cons.prems by simp
qed simp

lemma scheduler_new_inv:
  assumes "scheduler_new env epoch config takeover now = Inr s"
  shows "sched_inv s" "held s = (\<lambda>_. None)" "queue_of s i = []"
proof -
  from assms obtain cd ii where c: "config_validate config = Inr config" and
    s: "s = \<lparr>ss_owner_epoch = epoch, ss_config = config, ss_lease_issuer = ii,
           ss_instances = fold (\<lambda>i. bt_or_insert i (default_instance\<lparr>is_cooldown_until := cd\<rparr>))
               takeover [],
           ss_lease_locations = [], ss_next_arrival_sequence = 1, ss_next_step_id = 1\<rparr>"
    by (auto simp: scheduler_new_def and_then_Inr config_validate_Inr)
  have idle: "bt_wf (ss_instances s)" "bt_get (ss_instances s) j = Some st \<Longrightarrow> idle_instance st" for j st
    using fold_or_insert_idle[of "[]" "default_instance\<lparr>is_cooldown_until := cd\<rparr>" takeover]
    by (auto simp: s idle_instance_def default_instance_def)
  have "idle_instance (entry_or_default j s)" for j
    using idle(2)[of j] by (cases "bt_get (ss_instances s) j")
      (auto simp: idle_instance_def default_instance_def)
  then have v: "lease_of s j = None" "queue_of s j = []" for j
    by (simp_all add: lease_of_def queue_of_def idle_instance_def)
  show "sched_inv s"
    using idle(1) c
    by (simp add: sched_inv_def v locations_ok_def instance_ok_def queue_ok_def requests_def)
      (simp add: s)
  show "held s = (\<lambda>_. None)" by (simp add: held_def v fun_eq_iff)
  show "queue_of s i = []" by (rule v)
qed

lemma sched_init_sim: "sched_init x \<Longrightarrow> sys_sim x (\<lambda>_. None, {})"
  by (auto simp: sched_init_def sys_sim_def sys_inv_def owned_tokens_def scheduler_new_inv
      lease_state_ok_def holds_id_def)

interpretation sched: simulation sched_step offered sys_sim
  using sched_step_simulates by unfold_locales (auto simp: simulates_def)

lemma sched_steps_sim:
  assumes "sched_step\<^sup>*\<^sup>* x x'" "sys_sim x a"
  shows "\<exists>a'. lease_step\<^sup>*\<^sup>* a a' \<and> sys_sim x' a'"
proof -
  obtain a' where "(\<lambda>a a'. \<exists>x. offered x a a')\<^sup>*\<^sup>* a a'" "sys_sim x' a'" using sched.sim_steps[OF assms] by blast
  moreover have "lease_step b b'" if "\<exists>x. offered x b b'" for b b'
    using that by (auto simp: lease_step_def offered_def split: prod.splits)
  then have "(\<lambda>a a'. \<exists>x. offered x a a')\<^sup>*\<^sup>* \<le> lease_step\<^sup>*\<^sup>*" by (intro rtranclp_mono) blast
  ultimately show ?thesis by blast
qed

lemma reachable_sim:
  assumes "reachable x"
  shows "\<exists>a. lease_step\<^sup>*\<^sup>* (\<lambda>_. None, {}) a \<and> sys_sim x a"
  using assms sched_steps_sim sched_init_sim unfolding reachable_def by blast

lemma sys_sim_sys_inv: "sys_sim x a \<Longrightarrow> sys_inv x"
  by (simp add: sys_sim_def split: prod.splits)

lemma reachable_sys_inv: "reachable x \<Longrightarrow> sys_inv x"
  using reachable_sim sys_sim_sys_inv by blast

lemma reachable_sched_inv: "reachable (s, P, T) \<Longrightarrow> sched_inv s"
  using reachable_sys_inv by (fastforce simp: sys_inv_def)

lemma reachable_steps: "reachable x \<Longrightarrow> sched_step\<^sup>*\<^sup>* x x' \<Longrightarrow> reachable x'"
  unfolding reachable_def by (meson rtranclp_trans)

text \<open>Along any run, an identifier that was held and is not held any more never comes back.\<close>

lemma reachable_fenced:
  assumes r: "reachable (s, P, T)" and run: "sched_step\<^sup>*\<^sup>* (s, P, T) (s1, P1, T1)"
    "sched_step\<^sup>*\<^sup>* (s1, P1, T1) (s2, P2, T2)"
    and h: "holds_id (held s) i lid" and gone: "\<And>j. \<not> holds_id (held s1) j lid"
  shows "\<not> holds_id (held s2) j lid"
proof -
  obtain a where a: "sys_sim (s, P, T) a" using reachable_sim[OF r] by blast
  obtain a1 where a1: "lease_step\<^sup>*\<^sup>* a a1" "sys_sim (s1, P1, T1) a1"
    using sched_steps_sim[OF run(1) a] by blast
  obtain a2 where a2: "lease_step\<^sup>*\<^sup>* a1 a2" "sys_sim (s2, P2, T2) a2"
    using sched_steps_sim[OF run(2) a1(2)] by blast
  have f: "fst a = held s" "fst a1 = held s1" "fst a2 = held s2" "lease_state_ok a"
    using a a1 a2 by (simp_all add: sys_sim_def)
  have "lid \<in> snd a" using h f by (auto simp: lease_state_ok_def)
  then have "lid \<in> snd a1" using lease_steps_used[OF a1(1)] by blast
  then show ?thesis using lease_steps_fenced[OF a2(1)] gone f by simp
qed

end
