(* ===== verification/Scheduler_Example.thy ===== *)
theory Scheduler_Example
  imports Scheduler_Machine
begin

text \<open>
  A concrete run of the scheduler, at which the properties are instantiated: a fresh scheduler
  grants its only instance to a first client, a second client queues with a higher priority, the
  first releases, and the pump prepares the grant of the second.
\<close>

section \<open>Values\<close>

definition ex_env :: issuer_env where
  "ex_env = \<lparr>ie_nanos = Some 0, ie_pid = 0, ie_nonce = 0\<rparr>"

definition ex_epoch :: OwnerEpoch where
  "ex_epoch = OwnerEpoch (replicate 16 1)"

definition ex_inst :: InstanceId where
  "ex_inst = InstanceId (replicate 16 2)"

definition ex_holder :: "u8 \<Rightarrow> HolderId" where
  "ex_holder n = HolderId (replicate 16 n)"

definition ex_req :: "u8 \<Rightarrow> RequestId" where
  "ex_req n = RequestId (replicate 16 n)"

definition ex_tok :: "u64 \<Rightarrow> u8 \<Rightarrow> u64 \<Rightarrow> LeaseToken" where
  "ex_tok k h e =
     \<lparr>lt_owner_epoch = ex_epoch, lt_lease_id = LeaseId (issued_bytes 0 k),
       lt_instance_id = ex_inst, lt_holder_id = ex_holder h, lt_expires_at = e\<rparr>"

definition ex_prepared :: PreparedLease where
  "ex_prepared =
     \<lparr>pl_token = ex_tok 1 1 121000, pl_connection_id = 7, pl_acquire_request_id = ex_req 1,
       pl_priority = Normal, pl_resource_close_only = False, pl_kind = ClientLease,
       pl_from_queue = False\<rparr>"

definition ex_lease :: "bool \<Rightarrow> LeaseEntry" where
  "ex_lease flag = (prepared_entry ex_prepared)\<lparr>le_preempt_requested := flag\<rparr>"

definition ex_request :: QueueLeaseRequest where
  "ex_request =
     \<lparr>qr_request_id = ex_req 2, qr_instance_id = ex_inst, qr_holder_id = ex_holder 2,
       qr_connection_id = 8, qr_priority = High, qr_timeout_ms = 50000\<rparr>"

definition ex_entry :: QueueEntry where
  "ex_entry = (client_entry ex_request 52000 120000)\<lparr>qe_arrival_sequence := 1\<rparr>"

definition ex_granted :: PreparedLease where
  "ex_granted =
     \<lparr>pl_token = ex_tok 2 2 124000, pl_connection_id = 8, pl_acquire_request_id = ex_req 2,
       pl_priority = High, pl_resource_close_only = False, pl_kind = ClientLease,
       pl_from_queue = True\<rparr>"

definition ex_released :: ReleaseRecord where
  "ex_released =
     \<lparr>rel_request_id = ex_req 3, rel_submitted_token = ex_tok 1 1 121000,
       rel_connection_id = 7,
       rel_released = \<lparr>rl_token = ex_tok 1 1 121000, rl_reason = ReleaseExplicit\<rparr>\<rparr>"

section \<open>States\<close>

definition ex_state ::
  "u64 \<Rightarrow> InstanceState \<Rightarrow> (LeaseId, InstanceId) btree \<Rightarrow> u64 \<Rightarrow> SeedScheduler" where
  "ex_state k st loc n =
     \<lparr>ss_owner_epoch = ex_epoch, ss_config = default_config,
       ss_lease_issuer = \<lparr>ii_namespace = 0, ii_next_sequence = k\<rparr>,
       ss_instances = [(ex_inst, st)], ss_lease_locations = loc,
       ss_next_arrival_sequence = n, ss_next_step_id = 1\<rparr>"

definition ex_s0 :: SeedScheduler where
  "ex_s0 = (ex_state 1 default_instance [] 1)\<lparr>ss_instances := []\<rparr>"

definition ex_s1 :: SeedScheduler where
  "ex_s1 = ex_state 2 default_instance [] 1"

text \<open>Held by the first client.\<close>

definition ex_s2 :: SeedScheduler where
  "ex_s2 =
     ex_state 2 (default_instance\<lparr>is_lease := Some (ex_lease False)\<rparr>)
       [(LeaseId (issued_bytes 0 1), ex_inst)] 1"

text \<open>The second client waits.\<close>

definition ex_s3 :: SeedScheduler where
  "ex_s3 =
     ex_state 2 (default_instance\<lparr>is_lease := Some (ex_lease True), is_queue := [ex_entry]\<rparr>)
       [(LeaseId (issued_bytes 0 1), ex_inst)] 2"

text \<open>Released by the first client.\<close>

definition ex_s4 :: SeedScheduler where
  "ex_s4 =
     ex_state 2
       (default_instance\<lparr>is_last_release := Some ex_released, is_queue := [ex_entry]\<rparr>) [] 2"

text \<open>The pump has prepared the grant.\<close>

definition ex_s5 :: SeedScheduler where
  "ex_s5 =
     ex_state 3
       (default_instance\<lparr>is_last_release := Some ex_released, is_queue := [ex_entry]\<rparr>) [] 2"

section \<open>The run\<close>

lemmas ex_values =
  ex_env_def ex_tok_def ex_prepared_def ex_lease_def ex_request_def ex_entry_def ex_granted_def
  ex_released_def ex_state_def ex_s0_def ex_s1_def ex_s2_def ex_s3_def ex_s4_def ex_s5_def
  default_instance_def client_entry_def prepared_entry_def

lemmas ex_config =
  default_config_def DEFAULT_LEASE_TTL_MS_def DEFAULT_MAXIMUM_QUEUE_TIMEOUT_MS_def
  DEFAULT_MAX_CLIENT_HEARTBEAT_INTERVAL_MS_def DEFAULT_TAKEOVER_COOLDOWN_MS_def
  DEFAULT_MAX_QUEUE_DEPTH_PER_INSTANCE_def MAX_RESPONSE_DEADLINE_MS_def

lemmas grant_eval =
  prepare_acquire_def prepare_acquire_with_policy_def entry_or_default_def put_state_def
  first_eligible_def issue_token_def expiry_from_ttl_def checked_add_def mint_lease_id_def
  next_bytes_def token_new_def token_validate_def commit_acquire_def validate_epoch_def
  get_state_def get_lease_def refresh_preempt_requested_def wants_preempt_def
  insert_location_def remove_location_def eligible_def prepare_queued_grant_def
  grant_position_def Let_def

lemmas queue_eval =
  request_queued_def request_queued_gated_def admit_request_def replay_queue_request_def
  replay_one_def replay_one_queued_def take_expired_for_instance_def remove_matching_def
  remove_loop.simps insert_queue_entry_def sort_queue_def queued_by_request_def
  queued_at_position_def one_based_u32_def

lemmas release_eval =
  release_def replayed_release_def locate_token_instance_def validate_active_lease_def
  validate_current_lease_def validate_write_def

lemma ex_req_eq [simp]: "ex_req a = ex_req b \<longleftrightarrow> a = b"
  by (simp add: ex_req_def numeral_eq_Suc)

lemma ex_holder_eq [simp]: "ex_holder a = ex_holder b \<longleftrightarrow> a = b"
  by (simp add: ex_holder_def numeral_eq_Suc)

lemma ex_new: "scheduler_new ex_env ex_epoch default_config [] 0 = Inr ex_s0"
  by (simp add: scheduler_new_def issuer_new_def ex_values checked_add_def)
    (simp add: ex_config)

lemma ex_prepare: "prepare_acquire (ex_req 1) ex_inst (ex_holder 1) 7 1000 ex_s0 = (Inr (New ex_prepared), ex_s1)"
  by (simp add: grant_eval ex_values ex_config)

lemma ex_commit: "commit_acquire (New ex_prepared) 1000 ex_s1 = (Inr (ex_tok 1 1 121000), ex_s2)"
  by (simp add: grant_eval ex_values ex_config)

lemma ex_queue:
  "request_queued_gated ex_request Open True 2000 ex_s2 =
     (Inr \<lparr>qo_decision = Queued \<lparr>ql_request_id = ex_req 2, ql_instance_id = ex_inst,
        ql_holder_id = ex_holder 2, ql_connection_id = 8, ql_priority = High, ql_position = 1,
        ql_deadline = 52000, ql_preempt_requested = True, ql_kind = ClientLease\<rparr>,
        qo_expired = []\<rparr>, ex_s3)"
  by (simp add: queue_eval grant_eval ex_values ex_config)

lemma ex_release:
  "release (ex_req 3) (ex_tok 1 1 121000) 7 3000 ex_s3 =
     (Inr \<lparr>rl_token = ex_tok 1 1 121000, rl_reason = ReleaseExplicit\<rparr>, ex_s4)"
  by (simp add: release_eval grant_eval ex_values ex_config bt_remove_def)

lemma ex_pump:
  "prepare_queued_grant ex_inst Open 4000 ex_s4 = (Inr (Some ex_granted), ex_s5)"
  by (simp add: grant_eval ex_values ex_config)

lemma ex_step:
  "sched_step (ex_s0, [], []) (ex_s1, [ex_prepared], [])"
  "sched_step (ex_s1, [ex_prepared], []) (ex_s2, [], [])"
  "sched_step (ex_s2, [], []) (ex_s3, [], [])"
  "sched_step (ex_s3, [], []) (ex_s4, [], [])"
  "sched_step (ex_s4, [], []) (ex_s5, [ex_granted], [])"
  using sched_step.prepare_acquire[OF ex_prepare, of "[]" "[]"]
    sched_step.commit_acquire[OF ex_commit, of "[]" "[]" "[]"]
    sched_step.request_queued_gated[OF ex_queue, of "[]" "[]"]
    sched_step.release[OF ex_release, of "[]" "[]"]
    sched_step.prepare_queued_grant[OF ex_pump, of "[]" "[]"]
  by simp_all

lemma ex_init: "sched_init (ex_s0, [], [])"
  using ex_new unfolding sched_init_def by blast

lemma ex_steps:
  "sched_step\<^sup>*\<^sup>* (ex_s0, [], []) (ex_s2, [], [])"
  "sched_step\<^sup>*\<^sup>* (ex_s2, [], []) (ex_s4, [], [])"
  "sched_step\<^sup>*\<^sup>* (ex_s4, [], []) (ex_s5, [ex_granted], [])"
  using ex_step by (meson converse_rtranclp_into_rtranclp rtranclp.rtrancl_refl)+

lemma ex_reachable:
  "reachable (ex_s0, [], [])" "reachable (ex_s1, [ex_prepared], [])" "reachable (ex_s2, [], [])"
  "reachable (ex_s3, [], [])" "reachable (ex_s4, [], [])" "reachable (ex_s5, [ex_granted], [])"
proof -
  show r0: "reachable (ex_s0, [], [])" using ex_init unfolding reachable_def by blast
  have more: "reachable y" if "reachable x" "sched_step x y" for x y
    using reachable_steps[OF that(1) r_into_rtranclp[of sched_step, OF that(2)]] .
  show r1: "reachable (ex_s1, [ex_prepared], [])" by (rule more[OF r0 ex_step(1)])
  show r2: "reachable (ex_s2, [], [])" by (rule more[OF r1 ex_step(2)])
  show r3: "reachable (ex_s3, [], [])" by (rule more[OF r2 ex_step(3)])
  show r4: "reachable (ex_s4, [], [])" by (rule more[OF r3 ex_step(4)])
  show "reachable (ex_s5, [ex_granted], [])" by (rule more[OF r4 ex_step(5)])
qed

lemma ex_views:
  "lease_of ex_s2 i = (if i = ex_inst then Some (ex_lease False) else None)"
  "lease_of ex_s3 i = (if i = ex_inst then Some (ex_lease True) else None)"
  "lease_of ex_s4 i = None" "lease_of ex_s5 i = None"
  "queue_of ex_s2 i = []"
  "queue_of ex_s3 i = (if i = ex_inst then [ex_entry] else [])"
  "queue_of ex_s4 i = (if i = ex_inst then [ex_entry] else [])"
  "queue_of ex_s5 i = (if i = ex_inst then [ex_entry] else [])"
  "cooldown_of ex_s2 i = 0" "cooldown_of ex_s3 i = 0" "cooldown_of ex_s4 i = 0"
  by (simp_all add: lease_of_def queue_of_def cooldown_of_def entry_or_default_def ex_s2_def
      ex_s3_def ex_s4_def ex_s5_def ex_state_def default_instance_def)

lemma ex_write: "validate_write (ex_tok 1 1 121000) 7 2000 ex_s2 = Inr ()"
  by (simp add: release_eval grant_eval ex_values)

end
