(* ===== verification/Scheduler_Properties.thy ===== *)
theory Scheduler_Properties
  imports Scheduler_Example
begin

text \<open>
  What the scheduler promises, stated over its operations: its invariant, its refinement of the
  abstract lease machine, fencing of retired leases, exclusion and exact admission of writes, and
  the choice of the pump. Each property is followed by its instance on the run of
  \<^theory_text>\<open>Scheduler_Example\<close>.
\<close>

section \<open>Leases\<close>

lemma validate_write_lease:
  assumes "validate_write t c now s = Inr ()"
  obtains st l where "bt_get (ss_instances s) (lt_instance_id t) = Some st" "is_lease st = Some l"
    "le_token l = t" "le_connection_id l = c" "now < lt_expires_at t"
    "bt_get (ss_lease_locations s) (lt_lease_id t) = Some (lt_instance_id t)"
  using assms unfolding validate_write_Inr validate_current_lease_Inr by blast

lemma validate_write_holds:
  assumes "validate_write t c now s = Inr ()"
  shows "holds_id (held s) (lt_instance_id t) (lt_lease_id t)"
  using assms by (rule validate_write_lease) (simp add: held_Some holds_id_def)

text \<open>C1: Whatever sequence of public operations a scheduler made by \<open>SeedScheduler::new\<close> goes
  through, its state satisfies the invariant (locations and leases agree, tokens belong to their
  instance and epoch, queues are strictly ordered and within the configured depth, the preemption
  flag is what the queue asks for, no request waits twice), and every prepared lease or transfer
  its callers still own carries an identifier that no lease has.\<close>

theorem reachable_invariant:
  assumes "reachable (s, P, T)"
  shows "sched_inv s \<and> distinct (map lt_lease_id (owned_tokens P T))
    \<and> (\<forall>t\<in>set (owned_tokens P T). token_ready s t) \<and> (\<forall>p\<in>set T. transfer_ready p)"
  using reachable_sys_inv[OF assms] by (simp add: sys_inv_def)

theorem reachable_invariant_witness:
  "reachable (ex_s5, [ex_granted], []) \<and> sched_inv ex_s5 \<and> token_ready ex_s5 (pl_token ex_granted)"
  using reachable_invariant[OF ex_reachable(6)] ex_reachable(6) by (simp add: owned_tokens_def)

text \<open>C2: The scheduler implements the abstract lease machine step by step: for every run of
  public operations there is a run of the machine, from the empty holdings, that holds the same
  tokens on the same connections after every single operation. So each operation leaves the holdings
  alone; grants a free instance a lease its callers prepared, or replaces a held one by a transfer
  they prepared, in both cases under an identifier never used before in the run; moves only the
  expiry of one token; or retires one lease. A held instance is taken over by nothing but a
  prepared transfer.\<close>

theorem scheduler_refines_leases:
  assumes "sched_init x0" "successively sched_step (x0 # xs)"
  shows "\<exists>as. map fst ((\<lambda>_. None, {}) # as) = map (\<lambda>(s, P, T). held s) (x0 # xs)
    \<and> successively (\<lambda>((s, P, T), a) (x', a'). lease_does (pl_token ` set P) (plt_to_token ` set T) a a')
        (zip (x0 # xs) ((\<lambda>_. None, {}) # as))"
proof -
  have init: "sys_sim x0 (\<lambda>_. None, {})" by (rule sched_init_sim[OF assms(1)])
  obtain as where as: "successively (\<lambda>(x, a) (x', a'). offered x a a') (zip (x0 # xs) ((\<lambda>_. None, {}) # as))"
      "list_all2 sys_sim xs as"
    using sched.sim_run[OF assms(2) init] by blast
  have obs: "fst a = (\<lambda>(s, P, T). held s) x" if "sys_sim x a" for x a
    using that by (auto simp: sys_sim_def)
  have "map fst as = map (\<lambda>(s, P, T). held s) xs"
    using as(2) by (induction rule: list_all2_induct) (simp_all only: list.map obs)
  then have "map fst ((\<lambda>_. None, {}) # as) = map (\<lambda>(s, P, T). held s) (x0 # xs)"
    using obs[OF init] by (simp only: list.map fst_conv)
  moreover have "(\<lambda>(x, a) (x', a'). offered x a a') =
      (\<lambda>((s, P, T), a) (x' :: sys, a'). lease_does (pl_token ` set P) (plt_to_token ` set T) a a')"
    by (auto simp: offered_def fun_eq_iff)
  ultimately show ?thesis using as(1) by (simp only:) blast
qed

theorem scheduler_refines_leases_witness:
  "\<exists>U1 U2 U3 U4. lease_does {pl_token ex_prepared} {} (held ex_s1, U1) (held ex_s2, U2)
     \<and> lease_does {} {} (held ex_s3, U3) (held ex_s4, U4) \<and> held ex_s2 \<noteq> held ex_s4"
proof -
  have "successively sched_step
      [(ex_s0, [], []), (ex_s1, [ex_prepared], []), (ex_s2, [], []), (ex_s3, [], []), (ex_s4, [], [])]"
    using ex_step by simp
  moreover have "held ex_s2 ex_inst \<noteq> held ex_s4 ex_inst" by (simp add: held_def ex_views)
  ultimately show ?thesis using scheduler_refines_leases[OF ex_init] by fastforce
qed

text \<open>C3: Fencing. Once a lease that an instance held is gone from the scheduler, no token with its
  identifier validates a write in any later state, whatever happens in between.\<close>

theorem retired_lease_fenced:
  assumes r: "reachable (s, P, T)"
    and run: "sched_step\<^sup>*\<^sup>* (s, P, T) (s1, P1, T1)" "sched_step\<^sup>*\<^sup>* (s1, P1, T1) (s2, P2, T2)"
    and h: "held s i = Some (t, c)"
    and gone: "\<And>i t' c'. held s1 i = Some (t', c') \<Longrightarrow> lt_lease_id t' \<noteq> lt_lease_id t"
    and t2: "lt_lease_id t2 = lt_lease_id t"
  shows "validate_write t2 c2 now2 s2 \<noteq> Inr ()"
proof
  assume w2: "validate_write t2 c2 now2 s2 = Inr ()"
  have "holds_id (held s) i (lt_lease_id t)" using h by (auto simp: holds_id_def)
  moreover have "\<not> holds_id (held s1) j (lt_lease_id t)" for j
    using gone by (auto simp: holds_id_def)
  ultimately have "\<not> holds_id (held s2) j (lt_lease_id t)" for j
    by (rule reachable_fenced[OF r run])
  then show False using validate_write_holds[OF w2] t2 by simp
qed

theorem retired_lease_fenced_witness:
  "held ex_s2 ex_inst = Some (ex_tok 1 1 121000, 7)
   \<and> validate_write (ex_tok 1 1 121000) 7 4000 ex_s5 \<noteq> Inr ()"
proof -
  have h: "held ex_s2 ex_inst = Some (ex_tok 1 1 121000, 7)"
    by (simp add: held_def ex_views) (simp add: ex_lease_def ex_prepared_def prepared_entry_def)
  from retired_lease_fenced[OF ex_reachable(3) ex_steps(2,3) h, of "ex_tok 1 1 121000"] h show ?thesis
    by (simp add: held_def ex_views)
qed

text \<open>C4: Mutual exclusion. Two writes that validate in one state for one instance, or with one
  lease identifier, present the same token on the same connection.\<close>

theorem write_exclusion:
  assumes w: "validate_write t c now s = Inr ()" "validate_write t' c' now' s = Inr ()"
    and same: "lt_instance_id t = lt_instance_id t' \<or> lt_lease_id t = lt_lease_id t'"
  shows "t = t' \<and> c = c'"
proof -
  obtain st l where l: "bt_get (ss_instances s) (lt_instance_id t) = Some st" "is_lease st = Some l"
    "le_token l = t" "le_connection_id l = c"
    "bt_get (ss_lease_locations s) (lt_lease_id t) = Some (lt_instance_id t)"
    using w(1) by (rule validate_write_lease)
  obtain st' l' where l': "bt_get (ss_instances s) (lt_instance_id t') = Some st'"
    "is_lease st' = Some l'" "le_token l' = t'" "le_connection_id l' = c'"
    "bt_get (ss_lease_locations s) (lt_lease_id t') = Some (lt_instance_id t')"
    using w(2) by (rule validate_write_lease)
  have "lt_instance_id t = lt_instance_id t'" using same l(5) l'(5) by (metis option.inject)
  then have "l = l'" using l(1,2) l'(1,2) by (metis option.inject)
  with l(3,4) l'(3,4) show ?thesis by metis
qed

theorem write_exclusion_witness:
  "validate_write (ex_tok 1 1 121000) 7 2000 ex_s2 = Inr ()
   \<and> validate_write (ex_tok 2 2 124000) 8 2000 ex_s2 \<noteq> Inr ()"
  using write_exclusion[OF ex_write, of "ex_tok 2 2 124000" 8 2000] ex_write
  by (auto simp: ex_tok_def)

text \<open>C5: In every reachable state a write validates exactly when the instance of its token holds
  that very token on that connection, the token has not expired, no takeover cooldown runs, and
  the lease is not reserved for closing resources.\<close>

theorem validate_write_exact:
  assumes "reachable (s, P, T)"
  shows "validate_write t c now s = Inr () \<longleftrightarrow>
    (\<exists>l. lease_of s (lt_instance_id t) = Some l \<and> le_token l = t \<and> le_connection_id l = c
       \<and> now < lt_expires_at t \<and> cooldown_of s (lt_instance_id t) \<le> now
       \<and> \<not> le_resource_close_only l)"
proof -
  let ?i = "lt_instance_id t"
  have inv: "sched_inv s" by (rule reachable_sched_inv[OF assms])
  show ?thesis
  proof (cases "bt_get (ss_instances s) ?i")
    case None
    then show ?thesis
      by (auto simp: validate_write_Inr validate_current_lease_Inr lease_of_def
          default_instance_def)
  next
    case (Some st)
    have loc: "lt_owner_epoch t = ss_owner_epoch s
        \<and> bt_get (ss_lease_locations s) (lt_lease_id t) = Some ?i"
      if "is_lease st = Some l" "le_token l = t" for l
    proof -
      have "lease_of s ?i = Some l" using Some that by (simp add: lease_of_def)
      from sched_inv_lease[OF inv this] sched_inv_located[OF inv this] that show ?thesis
        by (simp add: lease_ok_def)
    qed
    have v: "lease_of s ?i = is_lease st" "cooldown_of s ?i = is_cooldown_until st"
      using Some by (simp_all add: lease_of_def cooldown_of_def)
    show ?thesis
      unfolding validate_write_Inr validate_current_lease_Inr v Some option.inject
      using loc by blast
  qed
qed

theorem validate_write_exact_witness:
  "validate_write (ex_tok 1 1 121000) 7 120999 ex_s2 = Inr ()
   \<and> validate_write (ex_tok 1 1 121000) 7 121000 ex_s2 \<noteq> Inr ()
   \<and> validate_write (ex_tok 1 1 121000) 8 2000 ex_s2 \<noteq> Inr ()"
  by (simp add: validate_write_exact[OF ex_reachable(3)] ex_views ex_tok_def ex_lease_def
      ex_prepared_def prepared_entry_def)

section \<open>Grants and the order of the queue\<close>

lemma prepare_queued_grant_Some:
  assumes "prepare_queued_grant i gate now s = (Inr (Some p), s')"
  obtains st pos e where "bt_get (ss_instances s) i = Some st" "grant_position st gate now = Some pos"
    "e = is_queue st ! pos"
    "issue_token i (qe_holder_id e) now (qe_lease_ttl_ms e) s = (Inr (pl_token p), s')"
    "p = \<lparr>pl_token = pl_token p, pl_connection_id = qe_connection_id e,
           pl_acquire_request_id = qe_request_id e, pl_priority = qe_priority e,
           pl_resource_close_only = False, pl_kind = qe_kind e, pl_from_queue = True\<rparr>"
  using assms
  by (auto simp: prepare_queued_grant_def Let_def split: option.splits prod.splits sum.splits)

lemma first_in_order:
  assumes "sorted_wrt (\<lambda>a b. queue_cmp a b = Less) q" "position f q = Some pos" "e' \<in> set q" "f e'"
  shows "e' = q ! pos \<or> queue_cmp (q ! pos) e' = Less"
proof -
  from assms(3) obtain m where m: "m < length q" "e' = q ! m" by (auto simp: in_set_conv_nth)
  with position_SomeD[OF assms(2)] assms(4) have "\<not> m < pos" by auto
  then consider "m = pos" | "pos < m" by linarith
  then show ?thesis
    using sorted_wrt_nth_less[OF assms(1)] m by cases auto
qed

lemma queue_cmp_Less:
  "queue_cmp a b = Less \<longleftrightarrow>
     holder_owned (qe_kind a) \<and> \<not> holder_owned (qe_kind b)
     \<or> holder_owned (qe_kind a) = holder_owned (qe_kind b)
       \<and> (qe_priority b < qe_priority a
          \<or> qe_priority a = qe_priority b \<and> qe_arrival_sequence a < qe_arrival_sequence b)"
  by (auto simp: queue_cmp_def cmp_def split: if_splits)

text \<open>C6: The pump grants the best entry: an eligible one, with the holder, connection, kind and
  TTL it queued with. Every other eligible entry of the instance ranks behind it: it is not
  holder-owned while the granted one is; or both are of one class and it has the lower priority
  (\<open>Normal\<close> against \<open>High\<close>) or, at the same priority, arrived later.\<close>

theorem pump_grants_best:
  assumes r: "reachable (s, P, T)"
    and p: "prepare_queued_grant i gate now s = (Inr (Some p), s')"
  shows "\<exists>e\<in>set (queue_of s i). eligible e gate now
     \<and> pl_acquire_request_id p = qe_request_id e \<and> pl_connection_id p = qe_connection_id e
     \<and> pl_kind p = qe_kind e \<and> lt_holder_id (pl_token p) = qe_holder_id e
     \<and> unat (lt_expires_at (pl_token p)) = unat now + unat (qe_lease_ttl_ms e)
     \<and> (\<forall>e'\<in>set (queue_of s i). eligible e' gate now \<longrightarrow> e' = e
          \<or> holder_owned (qe_kind e) \<and> \<not> holder_owned (qe_kind e')
          \<or> holder_owned (qe_kind e) = holder_owned (qe_kind e')
            \<and> (qe_priority e' = Normal \<and> qe_priority e = High
               \<or> qe_priority e = qe_priority e' \<and> qe_arrival_sequence e < qe_arrival_sequence e'))"
proof -
  obtain st pos e where a: "bt_get (ss_instances s) i = Some st"
    "grant_position st gate now = Some pos" "e = is_queue st ! pos"
    "issue_token i (qe_holder_id e) now (qe_lease_ttl_ms e) s = (Inr (pl_token p), s')"
    "p = \<lparr>pl_token = pl_token p, pl_connection_id = qe_connection_id e,
           pl_acquire_request_id = qe_request_id e, pl_priority = qe_priority e,
           pl_resource_close_only = False, pl_kind = qe_kind e, pl_from_queue = True\<rparr>"
    using p by (rule prepare_queued_grant_Some)
  have q: "is_queue st = queue_of s i" using a(1) by (simp add: queue_of_def)
  have pos: "position (\<lambda>e. eligible e gate now) (queue_of s i) = Some pos"
    using a(2) by (simp add: grant_position_def first_eligible_def q split: if_splits)
  have srt: "sorted_wrt (\<lambda>a b. queue_cmp a b = Less) (queue_of s i)"
    using sched_inv_queue[OF reachable_sched_inv[OF r]] by (simp add: queue_ok_def)
  note t = issue_token_Inr[OF a(4)]
  show ?thesis
  proof (intro bexI[of _ e] conjI ballI impI)
    show "e \<in> set (queue_of s i)" "eligible e gate now"
      using position_SomeD[OF pos] a(3) q by simp_all
    show "e' = e \<or> holder_owned (qe_kind e) \<and> \<not> holder_owned (qe_kind e')
          \<or> holder_owned (qe_kind e) = holder_owned (qe_kind e')
            \<and> (qe_priority e' = Normal \<and> qe_priority e = High
               \<or> qe_priority e = qe_priority e' \<and> qe_arrival_sequence e < qe_arrival_sequence e')"
      if "e' \<in> set (queue_of s i)" "eligible e' gate now" for e'
      using first_in_order[OF srt pos that] a(3) q by (simp add: queue_cmp_Less)
  qed (use a(5) t in \<open>metis PreparedLease.select_convs\<close>)+
qed

theorem pump_grants_best_witness:
  "\<exists>e\<in>set (queue_of ex_s4 ex_inst). eligible e Open 4000
     \<and> pl_acquire_request_id ex_granted = qe_request_id e"
  using pump_grants_best[OF ex_reachable(5) ex_pump] by blast

end
