(* ===== verification/Queue_Properties.thy ===== *)
theory Queue_Properties
  imports Scheduler_Properties
begin

text \<open>
  The properties of granting and queueing: when an immediate try is granted, that the pump
  always makes progress on a free instance with an eligible entry, and where a queued claim lands.
\<close>

section \<open>Issuing a token\<close>

lemma checked_add_iff: "(\<exists>c. checked_add a b = Some c) \<longleftrightarrow> unat a + unat (b::u64) < 2 ^ 64"
  by (simp add: checked_add_def)

lemma expiry_from_ttl_iff: "(\<exists>e. expiry_from_ttl now ttl = Inr e) \<longleftrightarrow> unat now + unat ttl < 2 ^ 64"
  by (simp add: expiry_from_ttl_def result_simps checked_add_iff)

lemma mint_lease_id_iff:
  "(\<exists>l ii'. mint_lease_id ii = (Inr l, ii')) \<longleftrightarrow> unat (ii_next_sequence ii) + 1 < 2 ^ 64"
proof -
  have "unat (1::u64) = 1" by simp
  then show ?thesis
    by (auto simp: mint_lease_id_def next_bytes_def checked_add_def split: option.splits)
qed

lemma issue_token_iff:
  assumes "0 < ttl"
  shows "(\<exists>t s'. issue_token i h now ttl s = (Inr t, s')) \<longleftrightarrow>
    unat now + unat ttl < 2 ^ 64 \<and> unat (ii_next_sequence (ss_lease_issuer s)) + 1 < 2 ^ 64"
proof (cases "expiry_from_ttl now ttl")
  case (Inl e)
  then have "\<not> unat now + unat ttl < 2 ^ 64" using expiry_from_ttl_iff[of now ttl] by auto
  with Inl show ?thesis by (simp add: issue_token_def)
next
  case (Inr e)
  then have fits: "unat now + unat ttl < 2 ^ 64" using expiry_from_ttl_iff[of now ttl] by auto
  have "ttl \<le> e" using Inr checked_add_ge[of now ttl e] by (simp add: expiry_from_ttl_def result_simps)
  with assms have "e \<noteq> 0" by auto
  then have tok: "\<exists>t. token_new ep l i h e = Inr t" for ep l
    by (simp add: token_new_def token_validate_def)
  obtain r ii' where m: "mint_lease_id (ss_lease_issuer s) = (r, ii')" by fastforce
  show ?thesis
  proof (cases r)
    case (Inl x)
    then show ?thesis
      using Inr m mint_lease_id_iff[of "ss_lease_issuer s"] fits by (auto simp: issue_token_def)
  next
    case r: (Inr l)
    obtain t where "token_new (ss_owner_epoch s) l i h e = Inr t" using tok by blast
    then show ?thesis
      using Inr m r mint_lease_id_iff[of "ss_lease_issuer s"] fits
      by (auto simp: issue_token_def map_err_def)
  qed
qed

section \<open>Immediate grants\<close>

lemma first_eligible_None:
  "first_eligible st gate now = None \<longleftrightarrow> (\<forall>e\<in>set (is_queue st). \<not> eligible e gate now)"
  by (simp add: first_eligible_def position_None)

lemma issue_token_views:
  assumes "issue_token i h now ttl s = (r, s')"
  shows "ss_instances s' = ss_instances s" "ss_owner_epoch s' = ss_owner_epoch s"
    "ss_lease_locations s' = ss_lease_locations s"
  using assms
  by (cases "mint_lease_id (ss_lease_issuer s)"; cases "fst (mint_lease_id (ss_lease_issuer s))";
      auto simp: issue_token_def try_in_eq)+

lemma policy_grant_iff:
  assumes "0 < lap_lease_ttl_ms pol"
  shows "(\<exists>p s'. prepare_acquire_with_policy r i h c pol now s = (Inr (New p), s')) \<longleftrightarrow>
     lease_of s i = None \<and> cooldown_of s i \<le> now
     \<and> (\<forall>e\<in>set (queue_of s i). \<not> eligible e (lap_gate pol) now)
     \<and> (holds (lap_gate pol) (lap_kind pol) \<longrightarrow> lap_kind pol = PolicyDispatch)
     \<and> unat now + unat (lap_lease_ttl_ms pol) < 2 ^ 64
     \<and> unat (ii_next_sequence (ss_lease_issuer s)) + 1 < 2 ^ 64"
proof (cases "now < is_cooldown_until (entry_or_default i s)")
  case True
  then show ?thesis by (auto simp: prepare_acquire_with_policy_def Let_def cooldown_of_def)
next
  case False
  let ?s = "put_state i (entry_or_default i s\<lparr>is_cooldown_until := 0\<rparr>) s"
  obtain res s2 where t: "issue_token i h now (lap_lease_ttl_ms pol) ?s = (res, s2)" by fastforce
  have "(\<exists>t. res = Inr t) \<longleftrightarrow> unat now + unat (lap_lease_ttl_ms pol) < 2 ^ 64
      \<and> unat (ii_next_sequence (ss_lease_issuer s)) + 1 < 2 ^ 64"
    using issue_token_iff[OF assms, of i h now ?s] t by auto
  moreover have fe: "first_eligible (entry_or_default i s\<lparr>is_cooldown_until := 0\<rparr>) (lap_gate pol) now = None
      \<longleftrightarrow> (\<forall>e\<in>set (queue_of s i). \<not> eligible e (lap_gate pol) now)"
    by (simp add: first_eligible_None queue_of_def)
  ultimately show ?thesis
    using False t
    by (cases "first_eligible (entry_or_default i s\<lparr>is_cooldown_until := 0\<rparr>) (lap_gate pol) now";
        cases res; cases "is_lease (entry_or_default i s)")
      (auto simp: prepare_acquire_with_policy_def Let_def cooldown_of_def lease_of_def)
qed

text \<open>C8. An immediate try of a claim is granted exactly when its TTL is admissible, the instance
  is free and out of its takeover cooldown, no eligible entry waits (nobody jumps the queue), the
  gate does not hold the claim back (a policy dispatch passes), the expiry fits in 64 bits and the
  issuer is not exhausted.\<close>

theorem immediate_grant_exact:
  "(\<exists>p s'. prepare_claim_acquire cl gate now s = (Inr (New p), s')) \<longleftrightarrow>
     validate_claim_ttl (cr_lease_ttl_ms cl) s = Inr ()
     \<and> lease_of s (cr_instance_id cl) = None \<and> cooldown_of s (cr_instance_id cl) \<le> now
     \<and> (\<forall>e\<in>set (queue_of s (cr_instance_id cl)). \<not> eligible e gate now)
     \<and> (holds gate (cr_kind cl) \<longrightarrow> cr_kind cl = PolicyDispatch)
     \<and> unat now + unat (cr_lease_ttl_ms cl) < 2 ^ 64
     \<and> unat (ii_next_sequence (ss_lease_issuer s)) + 1 < 2 ^ 64"
proof (cases "validate_claim_ttl (cr_lease_ttl_ms cl) s")
  case (Inl e)
  then show ?thesis by (simp add: prepare_claim_acquire_def)
next
  case (Inr u)
  then have "0 < cr_lease_ttl_ms cl"
    by (auto simp: validate_claim_ttl_Inr word_neq_0_conv[symmetric])
  with Inr show ?thesis
    using policy_grant_iff[of "\<lparr>lap_priority = cr_priority cl, lap_lease_ttl_ms = cr_lease_ttl_ms cl,
      lap_kind = cr_kind cl, lap_gate = gate\<rparr>"]
    by (simp add: prepare_claim_acquire_def)
qed

definition ex_claim :: ClaimRequest where
  "ex_claim =
     \<lparr>cr_request_id = ex_req 4, cr_instance_id = ex_inst, cr_holder_id = ex_holder 4,
       cr_connection_id = 9, cr_kind = Ladder, cr_priority = High, cr_lease_ttl_ms = 60000\<rparr>"

lemma ex_claim_ttl: "validate_claim_ttl (cr_lease_ttl_ms ex_claim) (ex_state k st loc n) = Inr ()"
  by (simp add: validate_claim_ttl_def ex_claim_def ex_state_def ex_config checked_add_def)

theorem immediate_grant_exact_witness:
  "(\<exists>p s'. prepare_claim_acquire ex_claim Open 1000 ex_s1 = (Inr (New p), s'))
   \<and> \<not> (\<exists>p s'. prepare_claim_acquire ex_claim RoutineHeld 1000 ex_s1 = (Inr (New p), s'))
   \<and> \<not> (\<exists>p s'. prepare_claim_acquire ex_claim Open 1000 ex_s4 = (Inr (New p), s'))"
  unfolding immediate_grant_exact
  by (simp add: ex_s1_def ex_s4_def ex_claim_ttl)
    (simp add: ex_claim_def ex_state_def lease_of_def queue_of_def cooldown_of_def
      entry_or_default_def default_instance_def eligible_def ex_entry_def client_entry_def
      ex_request_def gated_by_pause_def)

section \<open>The pump makes progress\<close>

lemma prepare_queued_grant_ok:
  assumes inv: "sched_inv s" and free: "lease_of s i = None" "cooldown_of s i \<le> now"
    and e: "e \<in> set (queue_of s i)" "eligible e gate now"
    and fits: "\<And>e. e \<in> set (queue_of s i) \<Longrightarrow> unat now + unat (qe_lease_ttl_ms e) < 2 ^ 64"
      "unat (ii_next_sequence (ss_lease_issuer s)) + 1 < 2 ^ 64"
  obtains p s' where "prepare_queued_grant i gate now s = (Inr (Some p), s')"
proof -
  obtain st where st: "bt_get (ss_instances s) i = Some st"
    using e(1) by (cases "bt_get (ss_instances s) i") (simp_all add: queue_of_def default_instance_def)
  then have v: "lease_of s i = is_lease st" "queue_of s i = is_queue st"
    "cooldown_of s i = is_cooldown_until st"
    by (simp_all add: lease_of_def queue_of_def cooldown_of_def)
  have "first_eligible st gate now \<noteq> None"
    unfolding first_eligible_None using e v by auto
  then obtain pos where pos: "first_eligible st gate now = Some pos" by blast
  then have g: "grant_position st gate now = Some pos"
    using free by (simp add: grant_position_def v not_less)
  let ?e = "is_queue st ! pos"
  have mem: "?e \<in> set (queue_of s i)"
    using position_SomeD[of "\<lambda>e. eligible e gate now" "queue_of s i" pos] pos
    by (simp add: first_eligible_def v)
  have "sc_maximum_client_heartbeat_interval_ms (ss_config s) < qe_lease_ttl_ms ?e"
    using sched_inv_queue[OF inv, of i] mem by (simp add: queue_ok_def)
  then have "0 < qe_lease_ttl_ms ?e" by (rule le_less_trans[OF word_zero_le])
  then obtain t s' where "issue_token i (qe_holder_id ?e) now (qe_lease_ttl_ms ?e) s = (Inr t, s')"
    using issue_token_iff[of "qe_lease_ttl_ms ?e" i "qe_holder_id ?e" now s] fits(1)[OF mem] fits(2)
    by blast
  with st g have "\<exists>p s'. prepare_queued_grant i gate now s = (Inr (Some p), s')"
    by (simp add: prepare_queued_grant_def Let_def)
  with that show thesis by blast
qed

lemma commit_acquire_ok:
  assumes st: "bt_get (ss_instances s) (lt_instance_id (pl_token p)) = Some st"
    and "is_lease st = None" "is_cooldown_until st \<le> now" "now < lt_expires_at (pl_token p)"
    and "lt_owner_epoch (pl_token p) = ss_owner_epoch s" "pl_from_queue p"
    and pos: "position (\<lambda>e. qe_request_id e = pl_acquire_request_id p) (is_queue st) = Some pos"
  shows "\<exists>s'. commit_acquire (New p) now s = (Inr (pl_token p), s')
    \<and> queue_of s' (lt_instance_id (pl_token p)) = remove_at pos (is_queue st)"
  using assms
  by (simp add: commit_acquire_def Let_def validate_epoch_def get_state_def insert_location_def
      queue_of_put not_less)

text \<open>C7. The pump makes progress: when an instance of a reachable scheduler is free and out of its
  takeover cooldown and an eligible entry waits, it prepares a grant, and the commit that follows
  at once succeeds: the granted token holds the instance on the entry's connection and the queue
  is one entry shorter. Only an expiry beyond 64 bits or an exhausted issuer could prevent it.\<close>

theorem pump_progress:
  assumes r: "reachable (s, P, T)" and free: "lease_of s i = None" "cooldown_of s i \<le> now"
    and e: "e \<in> set (queue_of s i)" "eligible e gate now"
    and fits: "\<And>e. e \<in> set (queue_of s i) \<Longrightarrow> unat now + unat (qe_lease_ttl_ms e) < 2 ^ 64"
      "unat (ii_next_sequence (ss_lease_issuer s)) + 1 < 2 ^ 64"
  shows "\<exists>p s1 s2. prepare_queued_grant i gate now s = (Inr (Some p), s1)
    \<and> commit_acquire (New p) now s1 = (Inr (pl_token p), s2)
    \<and> held s2 i = Some (pl_token p, pl_connection_id p)
    \<and> length (queue_of s i) = Suc (length (queue_of s2 i))"
proof -
  have inv: "sched_inv s" by (rule reachable_sched_inv[OF r])
  obtain p s1 where g: "prepare_queued_grant i gate now s = (Inr (Some p), s1)"
    using prepare_queued_grant_ok[OF inv free e fits] by blast
  obtain st pos e0 where a: "bt_get (ss_instances s) i = Some st"
    "grant_position st gate now = Some pos" "e0 = is_queue st ! pos"
    "issue_token i (qe_holder_id e0) now (qe_lease_ttl_ms e0) s = (Inr (pl_token p), s1)"
    "p = \<lparr>pl_token = pl_token p, pl_connection_id = qe_connection_id e0,
           pl_acquire_request_id = qe_request_id e0, pl_priority = qe_priority e0,
           pl_resource_close_only = False, pl_kind = qe_kind e0, pl_from_queue = True\<rparr>"
    using g by (rule prepare_queued_grant_Some)
  have p: "pl_from_queue p" "pl_acquire_request_id p = qe_request_id e0"
    by (subst a(5), simp)+
  note t = issue_token_Inr[OF a(4)]
  have v: "lease_of s i = is_lease st" "queue_of s i = is_queue st" "cooldown_of s i = is_cooldown_until st"
    using a(1) by (simp_all add: lease_of_def queue_of_def cooldown_of_def)
  have len: "pos < length (is_queue st)"
    using a(2) position_SomeD[of "\<lambda>e. eligible e gate now" "is_queue st" pos]
    by (simp add: grant_position_def first_eligible_def split: if_splits)
  have mem: "e0 \<in> set (queue_of s i)" using len a(3) v by simp
  have "position (\<lambda>e. qe_request_id e = pl_acquire_request_id p) (is_queue st) \<noteq> None"
    using mem v p(2) by (auto simp: position_None)
  then obtain n where n: "position (\<lambda>e. qe_request_id e = pl_acquire_request_id p) (is_queue st) = Some n"
    by blast
  have "sc_maximum_client_heartbeat_interval_ms (ss_config s) < qe_lease_ttl_ms e0"
    using sched_inv_queue[OF inv, of i] mem by (simp add: queue_ok_def)
  then have "0 < unat (qe_lease_ttl_ms e0)" by (simp add: word_less_nat_alt)
  then have exp: "now < lt_expires_at (pl_token p)" using t(4) by (simp add: word_less_nat_alt)
  have ep: "lt_owner_epoch (pl_token p) = ss_owner_epoch s1"
    using t(1) issue_token_views(2)[OF a(4)] by (simp add: issued_def)
  obtain s2 where c: "commit_acquire (New p) now s1 = (Inr (pl_token p), s2)"
    "queue_of s2 i = remove_at n (is_queue st)"
    using commit_acquire_ok[of s1 p st now n] a(1) t(2,5) v free exp ep p(1) n by auto
  have ready: "token_ready s1 (pl_token p)"
    using prepare_queued_grant_safe(1)[OF inv, of i gate now] g t(1)
    by (intro token_ready_issued[OF inv]) (simp_all add: safe_def)
  have inv1: "sched_inv s1"
    using prepare_queued_grant_safe(1)[OF inv, of i gate now] g by (simp add: safe_def)
  have "held s2 i = Some (pl_token p, pl_connection_id p)"
    using c(1) by (rule commit_acquire_New_cases[OF inv1 ready]) (use t(2) in \<open>auto simp: lease_change_def\<close>)
  moreover have "length (queue_of s i) = Suc (length (queue_of s2 i))"
    using position_SomeD[OF n] c(2) v by (auto simp: length_remove_at)
  ultimately show ?thesis using g c(1) by blast
qed

theorem pump_progress_witness:
  "\<exists>p s1 s2. prepare_queued_grant ex_inst Open 4000 ex_s4 = (Inr (Some p), s1)
    \<and> commit_acquire (New p) 4000 s1 = (Inr (pl_token p), s2)
    \<and> held s2 ex_inst = Some (pl_token p, pl_connection_id p)
    \<and> length (queue_of ex_s4 ex_inst) = Suc (length (queue_of s2 ex_inst))"
  by (rule pump_progress[OF ex_reachable(5), of ex_inst 4000 ex_entry Open])
    (simp_all add: ex_views, simp_all add: ex_values eligible_def)

section \<open>The place of a queued claim\<close>

lemma filter_out_one:
  assumes "distinct (map f (xs @ x # ys))"
  shows "filter (\<lambda>z. f z \<noteq> f x) (xs @ x # ys) = xs @ ys"
proof -
  have "f z \<noteq> f x" if "z \<in> set xs \<or> z \<in> set ys" for z
    using assms that by (auto simp: image_iff)
  then have "filter (\<lambda>z. f z \<noteq> f x) xs = xs" "filter (\<lambda>z. f z \<noteq> f x) ys = ys"
    by (auto simp: filter_id_conv)
  then show ?thesis by simp
qed

lemma sort_queue_filter:
  assumes q: "queue_ok s q" and s': "queue_ok s' (sort_queue (q @ [e]))"
    and fresh: "qe_request_id e \<notin> requests q"
  shows "filter (\<lambda>x. qe_request_id x \<noteq> qe_request_id e) (sort_queue (q @ [e])) = q"
proof (rule qc.sorted_Less_unique)
  have set: "set (sort_queue (q @ [e])) = insert e (set q)"
    using arg_cong[OF mset_sort_by[of queue_cmp "q @ [e]"], of set_mset]
    by (simp add: sort_queue_def del: sort_by_simps)
  show "set (filter (\<lambda>x. qe_request_id x \<noteq> qe_request_id e) (sort_queue (q @ [e]))) = set q"
  proof -
    have "\<forall>x\<in>set q. qe_request_id x \<noteq> qe_request_id e"
      using fresh unfolding requests_def by (metis imageI)
    then show ?thesis by (auto simp: set)
  qed
  show "sorted_wrt (\<lambda>a b. queue_cmp a b = Less)
      (filter (\<lambda>x. qe_request_id x \<noteq> qe_request_id e) (sort_queue (q @ [e])))"
    using s' by (intro sorted_wrt_filter) (simp add: queue_ok_def)
  show "sorted_wrt (\<lambda>a b. queue_cmp a b = Less) q" using q by (simp add: queue_ok_def)
qed

lemma sorted_queue_place:
  assumes "sorted_wrt (\<lambda>a b. queue_cmp a b = Less) (before @ e # after)"
    and "\<And>x. x \<in> set (before @ after) \<Longrightarrow> qe_arrival_sequence x < qe_arrival_sequence e"
  shows "\<forall>x\<in>set after. holder_owned (qe_kind e) \<and> \<not> holder_owned (qe_kind x)
      \<or> holder_owned (qe_kind x) = holder_owned (qe_kind e) \<and> qe_priority x < qe_priority e"
    and "\<forall>x\<in>set before. \<not> (holder_owned (qe_kind e) \<and> \<not> holder_owned (qe_kind x)
      \<or> holder_owned (qe_kind x) = holder_owned (qe_kind e) \<and> qe_priority x < qe_priority e)"
proof -
  have "queue_cmp e x = Less" "\<not> qe_arrival_sequence e < qe_arrival_sequence x" if "x \<in> set after" for x
    using assms(1) assms(2)[of x] that by (simp_all add: sorted_wrt_append)
  then show "\<forall>x\<in>set after. holder_owned (qe_kind e) \<and> \<not> holder_owned (qe_kind x)
      \<or> holder_owned (qe_kind x) = holder_owned (qe_kind e) \<and> qe_priority x < qe_priority e"
    unfolding queue_cmp_Less by blast
  have "queue_cmp x e = Less" if "x \<in> set before" for x
    using assms(1) that by (simp add: sorted_wrt_append)
  then show "\<forall>x\<in>set before. \<not> (holder_owned (qe_kind e) \<and> \<not> holder_owned (qe_kind x)
      \<or> holder_owned (qe_kind x) = holder_owned (qe_kind e) \<and> qe_priority x < qe_priority e)"
    unfolding queue_cmp_Less by (metis less_irrefl less_asym)
qed

lemma enqueue_claim_Inr:
  assumes inv: "sched_inv s" and r: "enqueue_claim cl now s = (Inr q, s')"
  defines "i \<equiv> cr_instance_id cl"
    and "e \<equiv> (claim_entry cl)\<lparr>qe_arrival_sequence := ss_next_arrival_sequence s\<rparr>"
  shows "queue_of s' = (queue_of s)(i := sort_queue (queue_of s i @ [e]))"
    and "cr_request_id cl \<notin> requests (queue_of s i)"
    and "\<exists>st. is_queue st = sort_queue (queue_of s i @ [e])
           \<and> queued_by_request st i (cr_request_id cl) = Inr q"
proof -
  from r have nk: "\<not> request_known (cr_request_id cl) s"
    and ins: "insert_queue_entry i (claim_entry cl) s = (Inr q, s')"
    by (auto simp: enqueue_claim_def try_in_eq i_def split: if_splits)
  have id: "qe_request_id (claim_entry cl) = cr_request_id cl" by (simp add: claim_entry_def)
  show "cr_request_id cl \<notin> requests (queue_of s i)"
    using not_known[OF nk] by (auto elim!: requests_queue_of_cases)
  from ins show "queue_of s' = (queue_of s)(i := sort_queue (queue_of s i @ [e]))"
    by (auto simp: insert_queue_entry_def Let_def try_in_eq queue_of_put is_queue_entry e_def
        split: if_splits)
  from ins show "\<exists>st. is_queue st = sort_queue (queue_of s i @ [e])
           \<and> queued_by_request st i (cr_request_id cl) = Inr q"
    by (auto simp: insert_queue_entry_def Let_def try_in_eq is_queue_entry e_def id
        intro!: exI[of _ "refresh_preempt_requested (entry_or_default i s\<lparr>is_queue := sort_queue (queue_of s i @ [e])\<rparr>)"]
        split: if_splits)
qed

text \<open>C9. A claim that is queued lands behind every entry it does not outrank and ahead of all it
  outranks, where a holder-owned claim outranks any other and within a class the higher priority
  outranks the lower. The old queue is unchanged apart from the new entry, the answer reports the
  one-based place, and neither another queue nor any lease changes.\<close>

theorem enqueue_claim_place:
  assumes r: "reachable (s, P, T)" and q: "enqueue_claim cl now s = (Inr q, s')"
  defines "i \<equiv> cr_instance_id cl"
  shows "\<exists>before e after. queue_of s' i = before @ e # after \<and> queue_of s i = before @ after
    \<and> qe_request_id e = cr_request_id cl \<and> unat (ql_position q) = length before + 1
    \<and> (\<forall>x\<in>set after. holder_owned (cr_kind cl) \<and> \<not> holder_owned (qe_kind x)
         \<or> holder_owned (qe_kind x) = holder_owned (cr_kind cl) \<and> qe_priority x < cr_priority cl)
    \<and> (\<forall>x\<in>set before. \<not> (holder_owned (cr_kind cl) \<and> \<not> holder_owned (qe_kind x)
         \<or> holder_owned (qe_kind x) = holder_owned (cr_kind cl) \<and> qe_priority x < cr_priority cl))
    \<and> (\<forall>j. j \<noteq> i \<longrightarrow> queue_of s' j = queue_of s j) \<and> held s' = held s"
proof -
  have inv: "sched_inv s" by (rule reachable_sched_inv[OF r])
  let ?e = "(claim_entry cl)\<lparr>qe_arrival_sequence := ss_next_arrival_sequence s\<rparr>"
  let ?q = "sort_queue (queue_of s i @ [?e])"
  note enq = enqueue_claim_Inr[OF inv q, folded i_def]
  obtain st where st: "is_queue st = ?q" "queued_by_request st i (cr_request_id cl) = Inr q"
    using enq(3) by blast
  have safe: "safe s s'" using safe_enqueue_claim[OF inv, of cl now] q by simp
  then have ok': "queue_ok s' ?q" using sched_inv_queue[of s' i] enq(1) by (simp add: safe_def)
  have eid: "qe_request_id ?e = cr_request_id cl" by (simp add: claim_entry_def)
  obtain pos where pos: "position (\<lambda>x. qe_request_id x = cr_request_id cl) ?q = Some pos"
    and at: "queued_at_position st i pos = Inr q"
    using st by (auto simp: queued_by_request_def result_simps)
  note ps = position_SomeD[OF pos]
  let ?before = "take pos ?q" and ?after = "drop (Suc pos) ?q"
  have split: "?q = ?before @ ?q ! pos # ?after" using ps by (simp add: id_take_nth_drop)
  have "length ?q \<le> 4096" using queue_ok_depth[OF ok'] safe by (simp add: safe_def)
  then have "ql_position q = of_nat (Suc pos)"
    using queued_at_position_ok[of pos st i] st(1) ps at by (metis Inr_inject)
  then have "unat (ql_position q) = Suc pos mod 2 ^ 32" by (simp only: unat_of_nat) simp
  then have "unat (ql_position q) = pos + 1" using ps \<open>length ?q \<le> 4096\<close> by simp
  have dist: "distinct (map qe_request_id (?before @ ?q ! pos # ?after))"
    using ok' split by (metis queue_ok_def)
  have "queue_of s i = filter (\<lambda>x. qe_request_id x \<noteq> qe_request_id ?e) ?q"
    using sort_queue_filter[OF sched_inv_queue[OF inv] ok'] enq(2) eid by simp
  also have "\<dots> = ?before @ ?after"
  proof -
    have "filter (\<lambda>x. qe_request_id x \<noteq> qe_request_id ?e) (?before @ ?q ! pos # ?after) = ?before @ ?after"
      using filter_out_one[OF dist] ps eid by simp
    then show ?thesis using split by metis
  qed
  finally have old: "queue_of s i = ?before @ ?after" .
  have srt: "sorted_wrt (\<lambda>a b. queue_cmp a b = Less) (?before @ ?q ! pos # ?after)"
    using ok' split by (metis queue_ok_def)
  have "?q ! pos \<in> set (queue_of s i @ [?e])"
    using ps arg_cong[OF mset_sort_by[of queue_cmp "queue_of s i @ [?e]"], of set_mset]
    by (metis nth_mem set_mset_mset sort_queue_def)
  moreover have "?q ! pos \<notin> set (queue_of s i)"
    using ps enq(2) unfolding requests_def by (metis imageI)
  ultimately have new: "?q ! pos = ?e" by simp
  have "qe_arrival_sequence x < qe_arrival_sequence ?e" if "x \<in> set (?before @ ?after)" for x
    using sched_inv_queue[OF inv, of i] that unfolding old[symmetric] by (simp add: queue_ok_def)
  note place = sorted_queue_place[OF srt[unfolded new] this]
  have kind: "qe_kind ?e = cr_kind cl" "qe_priority ?e = cr_priority cl" by (simp_all add: claim_entry_def)
  note place = place[unfolded kind]
  show ?thesis
  proof (rule exI[of _ ?before], rule exI[of _ "?q ! pos"], rule exI[of _ ?after], intro conjI)
    show "queue_of s' i = ?before @ ?q ! pos # ?after" using split enq(1) by simp
    show "qe_request_id (?q ! pos) = cr_request_id cl" using ps by simp
    show "unat (ql_position q) = length ?before + 1"
      using \<open>unat (ql_position q) = pos + 1\<close> ps by (simp add: min_def)
    show "held s' = held s" using safe by (simp add: safe_def quiet_def)
  qed (use old place enq(1) in auto)
qed

theorem enqueue_claim_place_witness:
  "\<exists>q s' before e after. enqueue_claim ex_claim 2500 ex_s3 = (Inr q, s')
    \<and> queue_of s' ex_inst = before @ e # after \<and> queue_of ex_s3 ex_inst = before @ after
    \<and> qe_request_id e = ex_req 4 \<and> unat (ql_position q) = length before + 1"
proof -
  have "\<exists>q s'. enqueue_claim ex_claim 2500 ex_s3 = (Inr q, s')"
    by (simp add: enqueue_claim_def ex_s3_def ex_claim_ttl)
      (simp add: request_known_def queue_eval grant_eval ex_values ex_config ex_claim_def
        claim_entry_def holder_owned_def)
  then obtain q s' where q: "enqueue_claim ex_claim 2500 ex_s3 = (Inr q, s')" by blast
  show ?thesis
    using enqueue_claim_place[OF ex_reachable(4) q] q by (auto simp: ex_claim_def)
qed

end
