(* ===== verification/Sweep_Properties.thy ===== *)
theory Sweep_Properties
  imports Queue_Properties
begin

text \<open>
  The properties of what takes entries out of the queues, of the dedicated lease that closes a
  resource, and of the repetition of an answered request.
\<close>

section \<open>Removal sweeps\<close>

text \<open>The removal loop on one instance returns and splits its queue.\<close>

lemma remove_matching_effect:
  assumes inv: "sched_inv s"
  obtains qs s' where "remove_matching p i s = (Inr qs, s')" "safe s s'"
    "queue_of s' = (queue_of s)(i := filter (\<lambda>e. \<not> p e) (queue_of s i))"
    "map (\<lambda>q. (ql_instance_id q, ql_request_id q)) qs =
       map (\<lambda>e. (i, qe_request_id e)) (filter p (queue_of s i))"
proof (cases "bt_get (ss_instances s) i")
  case None
  then have "queue_of s i = []" by (simp add: queue_of_def entry_or_default_def default_instance_def)
  with None inv that[of "[]" s] show thesis by (simp add: remove_matching_None fun_upd_idem)
next
  case (Some st)
  then have q: "is_queue st = queue_of s i" by (simp add: queue_of_def)
  obtain qs where r: "remove_matching p i s =
       (Inr qs, put_state i (refresh_preempt_requested
                  (st\<lparr>is_queue := filter (\<lambda>e. \<not> p e) (is_queue st)\<rparr>)) s)"
    "map ql_request_id qs = map qe_request_id (filter p (is_queue st))"
    "\<forall>q\<in>set qs. ql_instance_id q = i"
    by (rule remove_matching_Some[OF inv Some])
  from r(3) have "map (\<lambda>q. (ql_instance_id q, ql_request_id q)) qs = map (Pair i) (map ql_request_id qs)"
    by simp
  with r(2) have ids: "map (\<lambda>q. (ql_instance_id q, ql_request_id q)) qs =
      map (\<lambda>e. (i, qe_request_id e)) (filter p (queue_of s i))"
    by (simp add: q comp_def)
  show thesis
    by (rule that[OF r(1) _ _ ids])
      (use safe_remove_matching[OF inv, of p i] r(1) in \<open>simp_all add: queue_of_put q\<close>)
qed

text \<open>So does the sweep over several instances.\<close>

lemma remove_matching_on_effect:
  assumes "sched_inv s" "distinct is"
  shows "\<exists>qs s'. remove_matching_on p is s = (Inr qs, s') \<and> safe s s'
    \<and> queue_of s' = (\<lambda>i. if i \<in> set is then filter (\<lambda>e. \<not> p e) (queue_of s i) else queue_of s i)
    \<and> map (\<lambda>q. (ql_instance_id q, ql_request_id q)) qs =
        concat (map (\<lambda>i. map (\<lambda>e. (i, qe_request_id e)) (filter p (queue_of s i))) is)"
  using assms
proof (induction "is" arbitrary: s)
  case (Cons i "is")
  obtain qs s1 where a: "remove_matching p i s = (Inr qs, s1)" "safe s s1"
      "queue_of s1 = (queue_of s)(i := filter (\<lambda>e. \<not> p e) (queue_of s i))"
      "map (\<lambda>q. (ql_instance_id q, ql_request_id q)) qs =
         map (\<lambda>e. (i, qe_request_id e)) (filter p (queue_of s i))"
    by (rule remove_matching_effect[OF Cons.prems(1)])
  have "sched_inv s1" using a(2) by (simp add: safe_def)
  from Cons.IH[OF this] Cons.prems(2) obtain rs s2 where b: "remove_matching_on p is s1 = (Inr rs, s2)" "safe s1 s2"
      "queue_of s2 = (\<lambda>i. if i \<in> set is then filter (\<lambda>e. \<not> p e) (queue_of s1 i) else queue_of s1 i)"
      "map (\<lambda>q. (ql_instance_id q, ql_request_id q)) rs =
         concat (map (\<lambda>i. map (\<lambda>e. (i, qe_request_id e)) (filter p (queue_of s1 i))) is)"
    by auto
  have "map (\<lambda>j. map (\<lambda>e. (j, qe_request_id e)) (filter p (queue_of s1 j))) is =
      map (\<lambda>j. map (\<lambda>e. (j, qe_request_id e)) (filter p (queue_of s j))) is"
    using Cons.prems(2) a(3) by (auto intro!: map_cong)
  note ids = b(4)[unfolded this]
  show ?case
    by (rule exI[of _ "qs @ rs"], rule exI[of _ s2])
      (use Cons.prems(2) a(1,4) b(1) ids safe_trans[OF a(2) b(2)] in \<open>auto simp: a(3) b(3)\<close>)
qed simp

lemma remove_everywhere:
  assumes "sched_inv s"
  obtains qs s' where "remove_matching_on p (map fst (ss_instances s)) s = (Inr qs, s')"
    "held s' = held s" "\<And>i. queue_of s' i = filter (\<lambda>e. \<not> p e) (queue_of s i)"
    "map (\<lambda>q. (ql_instance_id q, ql_request_id q)) qs =
       concat (map (\<lambda>i. map (\<lambda>e. (i, qe_request_id e)) (filter p (queue_of s i)))
         (map fst (ss_instances s)))"
proof -
  have d: "distinct (map fst (ss_instances s))"
    using assms by (simp add: sched_inv_def bt_wf_distinct)
  have "queue_of s i = []" if "i \<notin> set (map fst (ss_instances s))" for i
    using that map_of_eq_None_iff[of "ss_instances s" i]
    by (simp add: queue_of_def entry_or_default_def default_instance_def)
  with remove_matching_on_effect[OF assms d, of p] that show thesis
    by (fastforce simp: safe_def quiet_def)
qed

text \<open>C32. The expiry sweep returns: in a reachable state it always answers, every queue keeps exactly
  its entries whose deadline is later, in their order, nobody loses or gains a lease, and the
  answer lists the entries removed, by instance and then in queue order.\<close>

theorem expiry_sweep_returns:
  assumes "reachable (s, P, T)"
  shows "\<exists>qs s'. take_expired_queued now s = (Inr qs, s') \<and> held s' = held s
    \<and> (\<forall>i. queue_of s' i = filter (\<lambda>e. now < qe_deadline e) (queue_of s i))
    \<and> map (\<lambda>q. (ql_instance_id q, ql_request_id q)) qs =
        concat (map (\<lambda>i. map (\<lambda>e. (i, qe_request_id e)) (filter (\<lambda>e. qe_deadline e \<le> now) (queue_of s i)))
          (map fst (ss_instances s)))"
  unfolding take_expired_queued_def
  by (rule remove_everywhere[OF reachable_sched_inv[OF assms], of "\<lambda>e. qe_deadline e \<le> now"])
    (simp add: not_le)

lemma ex_s3_view:
  "queue_of ex_s3 ex_inst = [ex_entry]" "map fst (ss_instances ex_s3) = [ex_inst]"
  "qe_deadline ex_entry = 52000" "qe_connection_id ex_entry = 8" "qe_request_id ex_entry = ex_req 2"
  by (simp_all add: queue_of_def entry_or_default_def ex_values)

theorem expiry_sweep_returns_witness:
  "\<exists>qs s'. take_expired_queued 52000 ex_s3 = (Inr qs, s') \<and> queue_of s' ex_inst = []
     \<and> map ql_request_id qs = [ex_req 2] \<and> held s' = held ex_s3"
proof -
  obtain qs s' where r: "take_expired_queued 52000 ex_s3 = (Inr qs, s')" "held s' = held ex_s3"
      "\<forall>i. queue_of s' i = filter (\<lambda>e. 52000 < qe_deadline e) (queue_of ex_s3 i)"
      "map (\<lambda>q. (ql_instance_id q, ql_request_id q)) qs =
        concat (map (\<lambda>i. map (\<lambda>e. (i, qe_request_id e)) (filter (\<lambda>e. qe_deadline e \<le> 52000) (queue_of ex_s3 i)))
          (map fst (ss_instances ex_s3)))"
    using expiry_sweep_returns[OF ex_reachable(4), of 52000] by blast
  have "map ql_request_id qs = map snd (map (\<lambda>q. (ql_instance_id q, ql_request_id q)) qs)" by simp
  also have "\<dots> = [ex_req 2]" unfolding r(4) by (simp add: ex_s3_view)
  finally show ?thesis using r(1-3) by (auto simp: ex_s3_view)
qed

text \<open>C33. When a connection is lost, its waiting requests go, and only they: in a reachable state the
  removal always answers, every queue keeps the entries of other connections in their order, the
  leases stay, and the answer names the entries removed.\<close>

theorem disconnect_removes_own:
  assumes "reachable (s, P, T)"
  shows "\<exists>qs s'. remove_queued_for_connection c s = (Inr (map CancelledQueuedLease qs), s') \<and> held s' = held s
    \<and> (\<forall>i. queue_of s' i = filter (\<lambda>e. qe_connection_id e \<noteq> c) (queue_of s i))
    \<and> map (\<lambda>q. (ql_instance_id q, ql_request_id q)) qs =
        concat (map (\<lambda>i. map (\<lambda>e. (i, qe_request_id e)) (filter (\<lambda>e. qe_connection_id e = c) (queue_of s i)))
          (map fst (ss_instances s)))"
  unfolding remove_queued_for_connection_def cancelled_def
  by (rule remove_everywhere[OF reachable_sched_inv[OF assms], of "\<lambda>e. qe_connection_id e = c"]) auto

theorem disconnect_removes_own_witness:
  "\<exists>q s'. remove_queued_for_connection 8 ex_s3 = (Inr [CancelledQueuedLease q], s')
     \<and> ql_request_id q = ex_req 2 \<and> queue_of s' ex_inst = [] \<and> held s' = held ex_s3"
proof -
  obtain qs s' where r: "remove_queued_for_connection 8 ex_s3 = (Inr (map CancelledQueuedLease qs), s')"
      "held s' = held ex_s3" "\<forall>i. queue_of s' i = filter (\<lambda>e. qe_connection_id e \<noteq> 8) (queue_of ex_s3 i)"
      "map (\<lambda>q. (ql_instance_id q, ql_request_id q)) qs =
        concat (map (\<lambda>i. map (\<lambda>e. (i, qe_request_id e)) (filter (\<lambda>e. qe_connection_id e = 8) (queue_of ex_s3 i)))
          (map fst (ss_instances ex_s3)))"
    using disconnect_removes_own[OF ex_reachable(4), of 8] by blast
  have "map (\<lambda>q. (ql_instance_id q, ql_request_id q)) qs = [(ex_inst, ex_req 2)]"
    unfolding r(4) by (simp add: ex_s3_view)
  then obtain q0 where "qs = [q0]" "ql_request_id q0 = ex_req 2" by auto
  with r(1-3) show ?thesis by (auto simp: ex_s3_view)
qed

section \<open>Dedicated leases\<close>

lemma eligible_Open: "eligible e Open now \<longleftrightarrow> now < qe_deadline e"
  by (simp add: eligible_def)

lemma refusing_count_pos:
  "0 < refusing_count i gate now s \<longleftrightarrow>
     (\<exists>e\<in>set (queue_of s i). eligible e gate now \<and> \<not> holder_owned (qe_kind e))"
  by (auto simp: refusing_count_def queue_of_def entry_or_default_def default_instance_def
      filter_empty_conv split: option.splits)

lemma dedicated_New:
  assumes "prepare_dedicated_lease r i h c kind gate now s = (Inr (New p), s')"
  shows "pl_resource_close_only p" "pl_connection_id p = c" "lt_holder_id (pl_token p) = h"
  using assms
  by (auto simp: prepare_dedicated_lease_def prepare_acquire_with_policy_def Let_def
      dest!: issue_token_Inr(3) split: if_splits prod.splits sum.splits option.splits
        LeasePreparation.splits)

text \<open>What a committed preparation leaves on its instance.\<close>

lemma commit_acquire_lease:
  assumes "commit_acquire (New p) now s = (Inr t, s')"
  obtains st l where "t = pl_token p" "bt_get (ss_instances s') (lt_instance_id t) = Some st"
    "is_lease st = Some l" "is_cooldown_until st \<le> now" "now < lt_expires_at t"
    "le_token l = t" "le_connection_id l = pl_connection_id p" "le_destructive_step l = None"
    "le_resource_close_only l = pl_resource_close_only p"
    "bt_get (ss_lease_locations s') (lt_lease_id t) = Some (lt_instance_id t)"
    "lt_owner_epoch t = ss_owner_epoch s'"
proof -
  obtain st st1 where c: "t = pl_token p" "now < lt_expires_at (pl_token p)"
      "st1 = st \<or> (\<exists>pos. st1 = st\<lparr>is_queue := remove_at pos (is_queue st)\<rparr>)"
      "s' = insert_location (lt_lease_id (pl_token p)) (lt_instance_id (pl_token p))
        (put_state (lt_instance_id (pl_token p))
          ((refresh_preempt_requested (st1\<lparr>is_lease := Some (prepared_entry p)\<rparr>))
             \<lparr>is_last_release := None\<rparr>) s)"
      "is_cooldown_until st \<le> now" "lt_owner_epoch (pl_token p) = ss_owner_epoch s"
    using assms by (rule commit_acquire_New_Inr)
  from c(3,5) have "is_cooldown_until st1 \<le> now" by auto
  with that c show thesis by (simp add: sched_view refresh_lease prepared_entry_def insert_location_def)
qed

text \<open>A current lease without an open step admits a close, whose witness validates.\<close>

lemma close_admitted:
  assumes inv: "sched_inv s" and cur: "validate_current_lease t c now s = Inr l"
    and "le_destructive_step l = None" and step: "unat (ss_next_step_id s) + 1 < 2 ^ 64"
  shows "\<exists>w s'. begin_resource_close t c now s = (Inr w, s') \<and> fw_purpose w = ResourceCloseWrite
    \<and> validate_destructive_step w c now s' = Inr ()"
proof -
  obtain n where n: "checked_add (ss_next_step_id s) 1 = Some n"
    using step checked_add_iff[of "ss_next_step_id s" 1] by auto
  have "ss_next_step_id s \<noteq> 0" using inv by (simp add: sched_inv_def)
  moreover from cur obtain st where "bt_get (ss_instances s) (lt_instance_id t) = Some st" "is_lease st = Some l"
    by (auto simp: validate_current_lease_Inr)
  ultimately show ?thesis
    using cur assms(3) n
    by (auto simp: begin_resource_close_def open_step_def get_state_def get_lease_def non_zero_def
        issue_fenced_write_def validate_destructive_step_def result_simps sched_view)
qed

text \<open>C34. A dedicated lease is exclusive and serves only to close resources. It is prepared on a
  free instance; once it is committed it is the one lease that changed, no token on any connection
  validates a write on the instance (its own is answered \<open>ResourceCloseOnly\<close>), and the close it is
  meant for is admitted: \<open>begin_resource_close\<close> returns a witness of that purpose, which validates
  at once.\<close>

theorem dedicated_lease_close_only:
  assumes r: "reachable (s, P, T)"
    and p: "prepare_dedicated_lease req i h c kind gate now s = (Inr (New p), s1)"
    and cm: "commit_acquire (New p) at s1 = (Inr t, s2)"
    and step: "unat (ss_next_step_id s2) + 1 < 2 ^ 64"
  shows "held s i = None \<and> held s2 = (held s)(i \<mapsto> (t, c)) \<and> lt_holder_id t = h
    \<and> (\<forall>t' c' now'. lt_instance_id t' = i \<longrightarrow> validate_write t' c' now' s2 \<noteq> Inr ())
    \<and> validate_write t c at s2 = Inl ResourceCloseOnly
    \<and> (\<exists>w s3. begin_resource_close t c at s2 = (Inr w, s3) \<and> fw_purpose w = ResourceCloseWrite
         \<and> validate_destructive_step w c at s3 = Inr ())"
proof -
  have inv: "sched_inv s" by (rule reachable_sched_inv[OF r])
  have pr: "safe s s1" "issued s s1 (pl_token p)" "lt_instance_id (pl_token p) = i" "lease_of s i = None"
    using prepares_prepare_dedicated_lease[OF inv, of i req h c kind gate now] p by (simp_all add: prepares_def)
  note d = dedicated_New[OF p]
  have inv1: "sched_inv s1" and q: "quiet s s1" using pr(1) by (simp_all add: safe_def)
  have ch: "lease_change s1 s2 i (Some (t, c))"
    using cm d(2) pr(3)
    by (auto elim!: commit_acquire_New_cases[OF inv1 token_ready_issued[OF inv q pr(2)]])
  obtain st l where l: "t = pl_token p" "bt_get (ss_instances s2) (lt_instance_id t) = Some st"
      "is_lease st = Some l" "is_cooldown_until st \<le> at" "at < lt_expires_at t"
      "le_token l = t" "le_connection_id l = pl_connection_id p" "le_destructive_step l = None"
      "le_resource_close_only l = pl_resource_close_only p"
      "bt_get (ss_lease_locations s2) (lt_lease_id t) = Some (lt_instance_id t)"
      "lt_owner_epoch t = ss_owner_epoch s2"
    by (rule commit_acquire_lease[OF cm])
  have cur: "validate_current_lease t c at s2 = Inr l"
    using l d(2) by (simp add: validate_current_lease_Inr)
  have "validate_write t' c' now' s2 \<noteq> Inr ()" if "lt_instance_id t' = i" for t' c' now'
    using that l pr(3) d(1) by (auto simp: validate_write_Inr validate_current_lease_Inr)
  moreover have "validate_write t c at s2 = Inl ResourceCloseOnly"
    using cur l(9) d(1) by (simp add: validate_write_def)
  moreover have "\<exists>w s3. begin_resource_close t c at s2 = (Inr w, s3) \<and> fw_purpose w = ResourceCloseWrite
         \<and> validate_destructive_step w c at s3 = Inr ()"
    by (rule close_admitted[OF _ cur l(8) step]) (use ch in \<open>simp add: lease_change_def\<close>)
  ultimately show ?thesis
    using pr(4) q ch l(1) d(3) by (simp add: lease_change_def quiet_def held_def[of s])
qed

lemma ex_dedicated:
  "\<exists>p s1 t s2. prepare_dedicated_lease (ex_req 5) ex_inst (ex_holder 5) 9 ResourceClose RoutineHeld 1000 ex_s1
       = (Inr (New p), s1)
     \<and> commit_acquire (New p) 1000 s1 = (Inr t, s2) \<and> ss_next_step_id s2 = 1"
  by (simp add: prepare_dedicated_lease_def refusing_count_def grant_eval ex_values ex_config)

theorem dedicated_lease_close_only_witness:
  "\<exists>t s2 w s3. held s2 ex_inst = Some (t, 9) \<and> validate_write t 9 1000 s2 = Inl ResourceCloseOnly
     \<and> begin_resource_close t 9 1000 s2 = (Inr w, s3) \<and> validate_destructive_step w 9 1000 s3 = Inr ()"
proof -
  obtain p s1 t s2 where d:
      "prepare_dedicated_lease (ex_req 5) ex_inst (ex_holder 5) 9 ResourceClose RoutineHeld 1000 ex_s1
         = (Inr (New p), s1)"
      "commit_acquire (New p) 1000 s1 = (Inr t, s2)" "ss_next_step_id s2 = 1"
    using ex_dedicated by blast
  from d(3) have "unat (ss_next_step_id s2) + 1 < 2 ^ 64" by simp
  note close = dedicated_lease_close_only[OF ex_reachable(2) d(1,2) this]
  then obtain w s3 where "begin_resource_close t 9 1000 s2 = (Inr w, s3)" "validate_destructive_step w 9 1000 s3 = Inr ()"
    by blast
  with close show ?thesis by (intro exI[of _ t] exI[of _ s2] exI[of _ w] exI[of _ s3]) simp
qed

text \<open>C35. An entry that the gate holds back refuses a dedicated lease: on a free instance out of its
  cooldown, when the gate holds every entry and one is not past its deadline, the preparation fails
  with \<open>QueueAhead\<close>.\<close>

theorem held_entry_refuses_dedicated:
  assumes "lease_of s i = None" "cooldown_of s i \<le> now"
    and "list_all (\<lambda>e. holds gate (qe_kind e)) (queue_of s i)"
    and "list_ex (\<lambda>e. now < qe_deadline e) (queue_of s i)"
  shows "\<exists>k pos s'. prepare_dedicated_lease r i h c kind gate now s = (Inl (QueueAhead k pos), s')"
proof -
  have "refusing_count i gate now s = 0"
    using assms(3) refusing_count_pos[of i gate now s] by (fastforce simp: eligible_def list_all_iff)
  moreover obtain pos where "first_eligible (entry_or_default i s\<lparr>is_cooldown_until := 0\<rparr>) Open now = Some pos"
    using assms(4) first_eligible_None[of "entry_or_default i s\<lparr>is_cooldown_until := 0\<rparr>" Open now]
    by (cases "first_eligible (entry_or_default i s\<lparr>is_cooldown_until := 0\<rparr>) Open now")
      (auto simp: eligible_Open list_ex_iff queue_of_def)
  ultimately show ?thesis
    using assms(1,2)
    by (simp add: prepare_dedicated_lease_def prepare_acquire_with_policy_def Let_def lease_of_def
        cooldown_of_def queue_ahead_def)
qed

definition ex_waiting :: SeedScheduler where
  "ex_waiting = ex_state 2 (default_instance\<lparr>is_queue := [ex_entry\<lparr>qe_kind := Ladder\<rparr>]\<rparr>) [] 2"

lemma ex_waiting_view:
  "lease_of ex_waiting ex_inst = None" "cooldown_of ex_waiting ex_inst = 0"
  "queue_of ex_waiting ex_inst = [ex_entry\<lparr>qe_kind := Ladder\<rparr>]"
  by (simp_all add: ex_waiting_def ex_state_def lease_of_def cooldown_of_def queue_of_def
      entry_or_default_def default_instance_def)

theorem held_entry_refuses_dedicated_witness:
  "\<exists>k pos s'. prepare_dedicated_lease (ex_req 5) ex_inst (ex_holder 5) 9 ResourceClose RoutineHeld 1000 ex_waiting
     = (Inl (QueueAhead k pos), s')"
  by (rule held_entry_refuses_dedicated)
    (simp_all add: ex_waiting_view ex_s3_view gated_by_pause_def)

section \<open>Repeated requests\<close>

lemma locate_token_instance_of: "locate_token_instance t s = Inr i \<Longrightarrow> i = lt_instance_id t"
  by (auto simp: locate_token_instance_def split: option.splits if_splits)

lemma release_first:
  assumes "release request_id t c now s = (Inr x, s')" "replayed_release request_id t c s = Inr None"
  shows "replayed_release request_id t c s' = Inr (Some x)"
proof -
  obtain st where r: "validate_epoch t s = Inr ()"
      "s' = remove_location (lt_lease_id t) (put_state (lt_instance_id t)
        (st\<lparr>is_lease := None, is_last_release := Some \<lparr>rel_request_id = request_id, rel_submitted_token = t,
           rel_connection_id = c, rel_released = x\<rparr>\<rparr>) s)"
    using assms by (auto simp: release_def try_in_eq Let_def dest!: locate_token_instance_of)
  have "validate_epoch t s' = Inr ()" using r(1) by (simp add: r(2) validate_epoch_def sched_view)
  then show ?thesis by (simp add: replayed_release_def) (simp add: r(2) sched_view)
qed

text \<open>C36. A release is idempotent: the same request, sent again after it was answered and at whatever
  time, gets the same answer and changes nothing.\<close>

theorem release_repeats:
  assumes "release request_id t c now s = (Inr x, s')"
  shows "release request_id t c later s' = (Inr x, s')"
proof (cases "replayed_release request_id t c s = Inr None")
  case True
  then show ?thesis using release_first[OF assms] by (simp add: release_def)
next
  case False
  with assms have "replayed_release request_id t c s = Inr (Some x)" "s' = s"
    by (auto simp: release_def try_in_eq split: option.splits)
  then show ?thesis by (simp add: release_def)
qed

theorem release_repeats_witness:
  "release (ex_req 3) (ex_tok 1 1 121000) 7 99000 ex_s4 =
     (Inr \<lparr>rl_token = ex_tok 1 1 121000, rl_reason = ReleaseExplicit\<rparr>, ex_s4)"
  by (rule release_repeats[OF ex_release])

lemma renew_first:
  assumes "renew request_id t c now s = (Inr x, s')" "replayed_renew request_id t c s = Inr None"
  shows "replayed_renew request_id t c s' = Inr (Some x)"
proof -
  obtain st lease where r: "validate_epoch t s = Inr ()" "le_connection_id lease = c"
      "s' = put_state (lt_instance_id t)
        (st\<lparr>is_lease := Some (lease\<lparr>le_last_renew := Some \<lparr>rr_request_id = request_id,
           rr_submitted_token = t, rr_renewed_token = x\<rparr>, le_token := x\<rparr>)\<rparr>) s"
    using assms
    by (auto simp: renew_def try_in_eq validate_active_lease_def dest!: locate_token_instance_of
        split: if_splits)
  have "validate_epoch t s' = Inr ()" using r(1) by (simp add: r(3) validate_epoch_def sched_view)
  then show ?thesis by (simp add: replayed_renew_def) (simp add: r sched_view)
qed

text \<open>C37. So is a renewal: the repeated request gets the token it was given, and the lease is not
  extended a second time.\<close>

theorem renew_repeats:
  assumes "renew request_id t c now s = (Inr x, s')"
  shows "renew request_id t c later s' = (Inr x, s')"
proof (cases "replayed_renew request_id t c s = Inr None")
  case True
  then show ?thesis using renew_first[OF assms] by (simp add: renew_def)
next
  case False
  with assms have "replayed_renew request_id t c s = Inr (Some x)" "s' = s"
    by (auto simp: renew_def try_in_eq split: option.splits)
  then show ?thesis by (simp add: renew_def)
qed

lemma ex_renews: "\<exists>s'. renew (ex_req 6) (ex_tok 1 1 121000) 7 3000 ex_s2 = (Inr (ex_tok 1 1 123000), s')"
  by (simp add: renew_def replayed_renew_def release_eval grant_eval ex_values ex_config)

theorem renew_repeats_witness:
  "\<exists>s'. renew (ex_req 6) (ex_tok 1 1 121000) 7 3000 ex_s2 = (Inr (ex_tok 1 1 123000), s')
     \<and> renew (ex_req 6) (ex_tok 1 1 121000) 7 90000 s' = (Inr (ex_tok 1 1 123000), s')"
proof -
  obtain s' where "renew (ex_req 6) (ex_tok 1 1 121000) 7 3000 ex_s2 = (Inr (ex_tok 1 1 123000), s')"
    using ex_renews ..
  with renew_repeats[OF this] show ?thesis by blast
qed

end
