(* ===== verification/Rust_Text.thy ===== *)
theory Rust_Text
  imports Prelude
begin

text \<open>
  \<open>String\<close> and \<open>&str\<close> as lists of Unicode scalar values. Rust stores them as UTF-8 and
  compares them byte-wise; that order is the lexicographic order of the scalar values, so the
  list order of the library is \<open>Ord for str\<close>. \<open>str_len\<close> is the length in bytes that
  \<open>str::len\<close> returns.
\<close>

type_synonym str = "nat list"

definition ascii :: "string \<Rightarrow> str" where
  "ascii s = map of_char s"

definition utf8_width :: "nat \<Rightarrow> nat" where
  "utf8_width c = (if c < 128 then 1 else if c < 2048 then 2 else if c < 65536 then 3 else 4)"

definition str_len :: "str \<Rightarrow> nat" where
  "str_len s = sum_list (map utf8_width s)"

text \<open>\<open>char::is_control\<close> (the category Cc) and \<open>char::is_whitespace\<close> (the property
  White_Space).\<close>

definition char_is_control :: "nat \<Rightarrow> bool" where
  "char_is_control c \<longleftrightarrow> c < 32 \<or> 127 \<le> c \<and> c < 160"

definition char_is_whitespace :: "nat \<Rightarrow> bool" where
  "char_is_whitespace c \<longleftrightarrow>
     9 \<le> c \<and> c \<le> 13 \<or>
     c \<in> set [32, 133, 160, 5760, 8232, 8233, 8239, 8287, 12288] \<or>
     8192 \<le> c \<and> c \<le> 8202"

definition starts_with :: "str \<Rightarrow> str \<Rightarrow> bool" where
  "starts_with s prefix = (take (length prefix) s = prefix)"

definition strip_prefix :: "str \<Rightarrow> str \<Rightarrow> str option" where
  "strip_prefix s prefix =
     (if starts_with s prefix then Some (drop (length prefix) s) else None)"

text \<open>\<open>split_once\<close> on one character: the text before and after its first occurrence.\<close>

fun split_once :: "nat \<Rightarrow> str \<Rightarrow> (str \<times> str) option" where
  "split_once d [] = None"
| "split_once d (c # s) =
     (if c = d then Some ([], s)
      else map_option (\<lambda>(before, after). (c # before, after)) (split_once d s))"

lemma starts_with_iff: "starts_with s p \<longleftrightarrow> (\<exists>t. s = p @ t)"
proof
  assume "starts_with s p"
  then have "s = p @ drop (length p) s"
    unfolding starts_with_def using append_take_drop_id[of "length p" s] by simp
  then show "\<exists>t. s = p @ t" by blast
qed (auto simp: starts_with_def)

lemma strip_prefix_Some: "strip_prefix s p = Some t \<longleftrightarrow> s = p @ t"
  by (auto simp: strip_prefix_def starts_with_iff)

lemma strip_prefix_append [simp]: "strip_prefix (p @ t) p = Some t"
  by (simp add: strip_prefix_Some)

lemma strip_prefix_None: "strip_prefix s p = None \<longleftrightarrow> \<not> starts_with s p"
  by (simp add: strip_prefix_def)

lemma starts_with_append [simp]: "starts_with (p @ t) p"
  by (simp add: starts_with_def)

lemma starts_with_refl [simp]: "starts_with p p" "starts_with s []"
  by (simp_all add: starts_with_def)

lemma starts_with_append_cancel [simp]: "starts_with (p @ s) (p @ t) \<longleftrightarrow> starts_with s t"
  by (simp add: starts_with_def)

lemma strip_prefix_append_cancel [simp]: "strip_prefix (p @ s) (p @ t) = strip_prefix s t"
  by (simp add: strip_prefix_def)

lemma str_len_append [simp]: "str_len (s @ t) = str_len s + str_len t"
  by (simp add: str_len_def)

lemma ascii_append: "ascii (s @ t) = ascii s @ ascii t"
  by (simp add: ascii_def)

lemma split_once_Some: "split_once d s = Some (a, b) \<longleftrightarrow> s = a @ d # b \<and> d \<notin> set a"
proof (induction s arbitrary: a)
  case (Cons c s)
  show ?case
  proof (cases a)
    case (Cons x a')
    with Cons.IH[of a'] show ?thesis by auto
  qed auto
qed simp

end
