(* ===== verification/Runtime_Facts.thy ===== *)
theory Runtime_Facts
  imports Contract Rust_Text "HOL-Library.Product_Lexorder"
begin

text \<open>
  The Runtime's own facts: the record and snapshot types of
  \<open>crates/actingcommand-contract/src/runtime_fact.rs\<close> with their validation, the keys of the
  loaded-package table, the search for the newest complete snapshot set, and the memory-only
  store of \<open>crates/scheduler/src/facts.rs\<close> with every operation of it.
\<close>

named_theorems fact_simps \<open>evaluation of the fact store and its contract\<close>

section \<open>Contract types\<close>

definition RUNTIME_FACT_SCHEMA_VERSION :: str where
  "RUNTIME_FACT_SCHEMA_VERSION = ascii ''actingcommand.runtime-fact.v1''"

definition MAX_RUNTIME_FACTS :: nat where
  "MAX_RUNTIME_FACTS = 16384"

definition MAX_RUNTIME_FACT_KEY_BYTES :: nat where
  "MAX_RUNTIME_FACT_KEY_BYTES = 128"

definition MAX_RUNTIME_FACT_RECORD_ROWS :: nat where
  "MAX_RUNTIME_FACT_RECORD_ROWS = 256"

definition MAX_RUNTIME_FACT_RECORD_FIELDS :: nat where
  "MAX_RUNTIME_FACT_RECORD_FIELDS = 64"

definition RUNTIME_FACT_FAMILIES :: "str list" where
  "RUNTIME_FACT_FAMILIES =
     map ascii [''device.'', ''backend.'', ''task.'', ''host.'', ''lease.'', ''config.'',
                ''provider.'', ''eligible.'', ''application.'']"

text \<open>The module that produced a record (\<open>event/codes.rs\<close>).\<close>

datatype OriginModule =
    OmProvider | OmActingctl | OmActinglab | OmRuntime | OmScheduler | OmPolicy | OmDeviceProxy
  | OmCapture | OmCapturePipeline | OmRecognition | OmResourceTooling | OmArtifactStore
  | OmEvidenceExporter | OmGlobalLedger | OmPerformanceMonitor | OmFactStore | OmRuntimeFacts
  | OmGovernance | OmAgentDispatcher | OmProcessTest

text \<open>A refusal: a registered code, every one here of category \<open>error\<close>, and the refused
  field.\<close>

datatype SanitizationError = SanitizationError (se_code: code) (se_field: string)

definition refusal :: "string \<Rightarrow> string \<Rightarrow> SanitizationError" where
  "refusal c field = SanitizationError (Code c CatError) field"

datatype FactScalar =
    ScBoolean bool | ScInteger i64 | ScString str | ScTimestampMs u64 | ScDurationMs u64

datatype FactValue =
    FvBoolean bool | FvInteger i64 | FvString str | FvTimestampMs u64 | FvDurationMs u64
  | FvRecordList "(str, FactScalar) btree list"

datatype RuntimeFactScope = ScopeRuntime | ScopeInstance InstanceId

instantiation RuntimeFactScope :: linorder
begin

fun less_eq_RuntimeFactScope :: "RuntimeFactScope \<Rightarrow> RuntimeFactScope \<Rightarrow> bool" where
  "ScopeRuntime \<le> b = True"
| "ScopeInstance i \<le> ScopeRuntime = False"
| "ScopeInstance i \<le> ScopeInstance j = (i \<le> j)"

definition less_RuntimeFactScope :: "RuntimeFactScope \<Rightarrow> RuntimeFactScope \<Rightarrow> bool" where
  "less_RuntimeFactScope a b \<longleftrightarrow> a \<le> b \<and> \<not> b \<le> a"

instance
proof
  fix x y z :: RuntimeFactScope
  show "x < y \<longleftrightarrow> x \<le> y \<and> \<not> y \<le> x" by (rule less_RuntimeFactScope_def)
  show "x \<le> x" by (cases x) auto
  show "x \<le> y \<Longrightarrow> y \<le> z \<Longrightarrow> x \<le> z" by (cases x; cases y; cases z) auto
  show "x \<le> y \<Longrightarrow> y \<le> x \<Longrightarrow> x = y" by (cases x; cases y) auto
  show "x \<le> y \<or> y \<le> x" by (cases x; cases y) auto
qed

end

record RuntimeFactRecord =
  rf_scope :: RuntimeFactScope
  rf_key :: str
  rf_value :: FactValue
  rf_observed_at_unix_ms :: u64
  rf_source :: OriginModule
  rf_ttl_ms :: "u64 option"

section \<open>Validation\<close>

definition validate_runtime_fact_key :: "str \<Rightarrow> (SanitizationError, unit) result" where
  "validate_runtime_fact_key key =
     (if key = [] \<or> MAX_RUNTIME_FACT_KEY_BYTES < str_len key
         \<or> list_ex (\<lambda>c. char_is_control c \<or> char_is_whitespace c) key
      then Inl (refusal ''invalid_runtime_fact_key'' ''key'')
      else if \<not> list_ex (\<lambda>family. starts_with key family) RUNTIME_FACT_FAMILIES
      then Inl (refusal ''runtime_fact_family_unknown'' ''key'')
      else Inr ())"

definition record_list_too_large :: "FactValue \<Rightarrow> bool" where
  "record_list_too_large v =
     (case v of
        FvRecordList records \<Rightarrow>
          MAX_RUNTIME_FACT_RECORD_ROWS < length records
          \<or> list_ex (\<lambda>r. MAX_RUNTIME_FACT_RECORD_FIELDS < length r) records
      | _ \<Rightarrow> False)"

definition fact_record_validate :: "RuntimeFactRecord \<Rightarrow> (SanitizationError, unit) result" where
  "fact_record_validate r =
     and_then (validate_runtime_fact_key (rf_key r)) (\<lambda>_.
     if record_list_too_large (rf_value r)
     then Inl (refusal ''runtime_fact_record_list_too_large'' ''value'')
     else if rf_ttl_ms r = Some 0
     then Inl (refusal ''invalid_runtime_fact_ttl'' ''ttl_ms'')
     else Inr ())"

definition expires_at_unix_ms :: "RuntimeFactRecord \<Rightarrow> u64 option" where
  "expires_at_unix_ms r =
     (case rf_ttl_ms r of
        None \<Rightarrow> None
      | Some ttl \<Rightarrow> checked_add (rf_observed_at_unix_ms r) ttl)"

definition is_expired :: "RuntimeFactRecord \<Rightarrow> u64 \<Rightarrow> bool" where
  "is_expired r now =
     (case expires_at_unix_ms r of None \<Rightarrow> False | Some expires_at \<Rightarrow> expires_at \<le> now)"

section \<open>Invalidations and snapshots\<close>

datatype RuntimeFactInvalidationReason =
  RuntimeTakeover | DeviceClosed | AdbUnreachable | FactExpired | OperatorAsked

record RuntimeFactInvalidation =
  fi_scope :: RuntimeFactScope
  fi_key :: str
  fi_reason :: RuntimeFactInvalidationReason
  fi_at_unix_ms :: u64

definition invalidation_validate ::
  "RuntimeFactInvalidation \<Rightarrow> (SanitizationError, unit) result" where
  "invalidation_validate fi = validate_runtime_fact_key (fi_key fi)"

record RuntimeFactSnapshot =
  fs_schema_version :: str
  fs_ledger_position :: u64
  fs_taken_at_unix_ms :: u64
  fs_snapshot_id :: u64
  fs_part :: u16
  fs_parts :: u16
  fs_records :: "RuntimeFactRecord list"

fun try_for_each :: "('a \<Rightarrow> ('e, unit) result) \<Rightarrow> 'a list \<Rightarrow> ('e, unit) result" where
  "try_for_each f [] = Inr ()"
| "try_for_each f (x # xs) = and_then (f x) (\<lambda>_. try_for_each f xs)"

lemma try_for_each_Inr: "try_for_each f xs = Inr () \<longleftrightarrow> (\<forall>x\<in>set xs. f x = Inr ())"
  by (induction xs) (auto simp: and_then_def split: sum.splits)

definition snapshot_validate :: "RuntimeFactSnapshot \<Rightarrow> (SanitizationError, unit) result" where
  "snapshot_validate snap =
     (if fs_schema_version snap \<noteq> RUNTIME_FACT_SCHEMA_VERSION
      then Inl (refusal ''runtime_fact_schema_version_mismatch'' ''schema_version'')
      else if fs_ledger_position snap = 0
      then Inl (refusal ''runtime_fact_ledger_position_invalid'' ''ledger_position'')
      else if fs_part snap = 0 \<or> fs_parts snap < fs_part snap
      then Inl (refusal ''runtime_fact_snapshot_part_invalid'' ''part'')
      else if MAX_RUNTIME_FACTS < length (fs_records snap)
      then Inl (refusal ''runtime_fact_snapshot_too_large'' ''records'')
      else try_for_each fact_record_validate (fs_records snap))"

section \<open>The store\<close>

datatype RuntimeFactChange = Inserted | Updated | Unchanged

datatype RuntimeFactError =
    FactInvalid code | Stale u64 | CapacityExceeded nat | FactMissing

type_synonym fact_key = "RuntimeFactScope \<times> str"

record RuntimeFactStore =
  rs_active :: "(fact_key, RuntimeFactRecord) btree"

definition fact_store_new :: RuntimeFactStore where
  "fact_store_new = \<lparr>rs_active = []\<rparr>"

definition key_of :: "RuntimeFactRecord \<Rightarrow> fact_key" where
  "key_of r = (rf_scope r, rf_key r)"

definition invalid :: "SanitizationError \<Rightarrow> RuntimeFactError" where
  "invalid e = FactInvalid (se_code e)"

definition record_fact ::
  "RuntimeFactRecord \<Rightarrow> RuntimeFactStore \<Rightarrow>
     (RuntimeFactError, RuntimeFactChange) result \<times> RuntimeFactStore" where
  "record_fact r s =
     try_in (map_err invalid (fact_record_validate r)) s (\<lambda>_.
     case bt_get (rs_active s) (key_of r) of
       Some old \<Rightarrow>
         if old = r then (Inr Unchanged, s)
         else if rf_observed_at_unix_ms r \<le> rf_observed_at_unix_ms old
         then (Inl (Stale (rf_observed_at_unix_ms old)), s)
         else (Inr Updated, s\<lparr>rs_active := bt_insert (key_of r) r (rs_active s)\<rparr>)
     | None \<Rightarrow>
         if MAX_RUNTIME_FACTS \<le> length (rs_active s)
         then (Inl (CapacityExceeded MAX_RUNTIME_FACTS), s)
         else (Inr Inserted, s\<lparr>rs_active := bt_insert (key_of r) r (rs_active s)\<rparr>))"

definition invalidate ::
  "RuntimeFactScope \<Rightarrow> str \<Rightarrow> RuntimeFactInvalidationReason \<Rightarrow> u64 \<Rightarrow> RuntimeFactStore \<Rightarrow>
     (RuntimeFactError, RuntimeFactInvalidation) result \<times> RuntimeFactStore" where
  "invalidate scope key reason at s =
     (let s' = s\<lparr>rs_active := bt_remove (scope, key) (rs_active s)\<rparr> in
      try_in (ok_or FactMissing (bt_get (rs_active s) (scope, key))) s' (\<lambda>removed.
      (Inr \<lparr>fi_scope = rf_scope removed, fi_key = rf_key removed, fi_reason = reason,
            fi_at_unix_ms = at\<rparr>, s')))"

text \<open>The keys \<open>invalidate_instance\<close> collects: the range of the map that starts at the scope's
  first key, as long as the scope lasts, filtered by family.\<close>

definition family_keys :: "InstanceId \<Rightarrow> str list \<Rightarrow> RuntimeFactStore \<Rightarrow> str list" where
  "family_keys i families s =
     (let scope = ScopeInstance i in
      map (\<lambda>((_, key), _). key)
        (filter (\<lambda>((_, key), _). list_ex (\<lambda>family. starts_with key family) families)
          (takeWhile (\<lambda>((candidate, _), _). candidate = scope)
            (dropWhile (\<lambda>(k, _). k < (scope, [])) (rs_active s)))))"

definition invalidate_instance ::
  "InstanceId \<Rightarrow> str list \<Rightarrow> RuntimeFactInvalidationReason \<Rightarrow> u64 \<Rightarrow> RuntimeFactStore \<Rightarrow>
     RuntimeFactInvalidation list \<times> RuntimeFactStore" where
  "invalidate_instance i families reason at s =
     (let keys = family_keys i families s in
      (map (\<lambda>key. \<lparr>fi_scope = ScopeInstance i, fi_key = key, fi_reason = reason,
                    fi_at_unix_ms = at\<rparr>) keys,
       s\<lparr>rs_active := fold (\<lambda>key m. bt_remove (ScopeInstance i, key) m) keys (rs_active s)\<rparr>))"

definition get_fact :: "RuntimeFactScope \<Rightarrow> str \<Rightarrow> RuntimeFactStore \<Rightarrow> RuntimeFactRecord option" where
  "get_fact scope key s = bt_get (rs_active s) (scope, key)"

definition records :: "RuntimeFactStore \<Rightarrow> RuntimeFactRecord list" where
  "records s = map snd (rs_active s)"

definition store_len :: "RuntimeFactStore \<Rightarrow> nat" where
  "store_len s = length (rs_active s)"

definition store_is_empty :: "RuntimeFactStore \<Rightarrow> bool" where
  "store_is_empty s = (rs_active s = [])"

definition snapshot :: "u64 \<Rightarrow> u64 \<Rightarrow> RuntimeFactStore \<Rightarrow> RuntimeFactSnapshot" where
  "snapshot ledger_position taken_at s =
     \<lparr>fs_schema_version = RUNTIME_FACT_SCHEMA_VERSION, fs_ledger_position = ledger_position,
       fs_taken_at_unix_ms = taken_at, fs_snapshot_id = ledger_position, fs_part = 1, fs_parts = 1,
       fs_records = map snd (rs_active s)\<rparr>"

definition replay ::
  "RuntimeFactSnapshot \<Rightarrow> RuntimeFactStore \<Rightarrow>
     (RuntimeFactError, nat) result \<times> RuntimeFactStore" where
  "replay snap s =
     try_in (map_err invalid (snapshot_validate snap)) s (\<lambda>_.
     let s' = s\<lparr>rs_active := fold (\<lambda>r m. bt_insert (key_of r) r m) (fs_records snap) []\<rparr>
     in (Inr (length (rs_active s')), s'))"

section \<open>The newest complete snapshot set\<close>

type_synonym sealed = "u64 \<times> RuntimeFactSnapshot"

record SkippedRuntimeFactSnapshotSet =
  sk_snapshot_id :: u64
  sk_parts_found :: u16
  sk_parts :: u16

record RuntimeFactSnapshotSetSearch =
  fss_set :: "sealed list option"
  fss_skipped :: "SkippedRuntimeFactSnapshotSet list"

text \<open>The reader \<open>next_newest\<close> is the list of what its calls return, newest first: an error or a
  part. After the last one it returns \<open>Ok(None)\<close>.\<close>

type_synonym 'e source = "('e, sealed) result list"

fun next_newest :: "'e source \<Rightarrow> ('e, sealed option) result \<times> 'e source" where
  "next_newest [] = (Inr None, [])"
| "next_newest (Inl e # src) = (Inl e, src)"
| "next_newest (Inr part # src) = (Inr (Some part), src)"

text \<open>The inner loop: it extends \<open>set_parts\<close> as long as the next older part is the expected one. It
  returns the last part number reached, the parts, and the part it read past them.\<close>

fun collect_parts ::
  "u64 \<Rightarrow> u16 \<Rightarrow> u16 \<Rightarrow> sealed list \<Rightarrow> 'e source \<Rightarrow>
     ('e, u16 \<times> sealed list \<times> sealed option \<times> 'e source) result" where
  "collect_parts snapshot_id parts expected set_parts src =
     (if 1 < expected then
        (case src of
           [] \<Rightarrow> Inr (expected, set_parts, None, [])
         | Inl e # _ \<Rightarrow> Inl e
         | Inr older # src' \<Rightarrow>
             if fs_snapshot_id (snd older) = snapshot_id
                \<and> fs_part (snd older) = expected - 1 \<and> fs_parts (snd older) = parts
             then collect_parts snapshot_id parts (expected - 1) (set_parts @ [older]) src'
             else Inr (expected, set_parts, Some older, src'))
      else Inr (expected, set_parts, None, src))"

declare collect_parts.simps [simp del]

lemma collect_parts_consumes:
  "collect_parts i n e acc src = Inr (e', acc', pending, src') \<Longrightarrow>
     length src' + (if pending = None then 0 else 1) \<le> length src"
proof (induction src arbitrary: e acc)
  case Nil
  then show ?case by (subst (asm) collect_parts.simps) (auto split: if_splits)
next
  case (Cons r src)
  from Cons.prems[THEN trans[OF collect_parts.simps[symmetric]]] Cons.IH show ?case
    by (fastforce split: if_splits sum.splits)
qed

function search_sets ::
  "sealed option \<Rightarrow> RuntimeFactSnapshotSetSearch \<Rightarrow> 'e source \<Rightarrow>
     ('e, RuntimeFactSnapshotSetSearch) result" where
  "search_sets None search src = Inr search"
| "search_sets (Some newest) search src =
     (let snapshot_id = fs_snapshot_id (snd newest); part = fs_part (snd newest);
          parts = fs_parts (snd newest) in
      case collect_parts snapshot_id parts part [newest] src of
        Inl e \<Rightarrow> Inl e
      | Inr (expected, set_parts, pending, src') \<Rightarrow>
          (let skipped = search\<lparr>fss_skipped := fss_skipped search @
                 [\<lparr>sk_snapshot_id = snapshot_id, sk_parts_found = part - expected + 1,
                   sk_parts = parts\<rparr>]\<rparr> in
           if expected = 1 then
             if part = parts then Inr (search\<lparr>fss_set := Some (rev set_parts)\<rparr>)
             else (case next_newest src' of
                     (Inl e, _) \<Rightarrow> Inl e
                   | (Inr pending', src'') \<Rightarrow> search_sets pending' skipped src'')
           else search_sets pending skipped src'))"
  by pat_completeness auto

lemma next_newest_consumes:
  "next_newest src = (Inr pending, src') \<Longrightarrow>
     length src' + (if pending = None then 0 else 1) \<le> length src"
  by (cases src rule: next_newest.cases) auto

termination search_sets
  by (relation "measure (\<lambda>(pending, _, src). length src + (if pending = None then 0 else 1))")
    (auto dest!: collect_parts_consumes next_newest_consumes[OF sym] split: if_splits)

definition newest_complete_runtime_fact_snapshot_set ::
  "'e source \<Rightarrow> ('e, RuntimeFactSnapshotSetSearch) result" where
  "newest_complete_runtime_fact_snapshot_set src =
     (case next_newest src of
        (Inl e, _) \<Rightarrow> Inl e
      | (Inr pending, src') \<Rightarrow> search_sets pending \<lparr>fss_set = None, fss_skipped = []\<rparr> src')"

section \<open>The keys of the loaded-package table\<close>

definition PACK_REGISTRY_FACT_PREFIX :: str where
  "PACK_REGISTRY_FACT_PREFIX = ascii ''host.pack_registry.''"

definition PACK_REGISTRY_STARTUP_FACT_KEY :: str where
  "PACK_REGISTRY_STARTUP_FACT_KEY = ascii ''host.pack_registry.startup''"

definition PACK_REGISTRY_PREREQUISITE_FACT_PREFIX :: str where
  "PACK_REGISTRY_PREREQUISITE_FACT_PREFIX = ascii ''host.pack_registry.prerequisite.''"

datatype PackRegistryFactKey =
    Procedure str | Startup InstanceId | Prerequisite str

fun pack_key_scope :: "PackRegistryFactKey \<Rightarrow> RuntimeFactScope" where
  "pack_key_scope (Procedure _) = ScopeRuntime"
| "pack_key_scope (Prerequisite _) = ScopeRuntime"
| "pack_key_scope (Startup i) = ScopeInstance i"

definition package_id_text :: "str \<Rightarrow> str" where
  "package_id_text key =
     (case strip_prefix key PACK_REGISTRY_PREREQUISITE_FACT_PREFIX of
        Some package_id \<Rightarrow> package_id
      | None \<Rightarrow>
          (case strip_prefix key PACK_REGISTRY_FACT_PREFIX of
             Some package_id \<Rightarrow> package_id
           | None \<Rightarrow> []))"

definition invalid_key :: SanitizationError where
  "invalid_key = refusal ''invalid_runtime_fact_key'' ''key''"

definition pack_fact_key :: "PackRegistryFactKey \<Rightarrow> (SanitizationError, str) result" where
  "pack_fact_key entry =
     and_then
       (case entry of
          Procedure package_id \<Rightarrow>
            if starts_with package_id (ascii ''prerequisite.'') then Inl invalid_key
            else Inr (PACK_REGISTRY_FACT_PREFIX @ package_id)
        | Startup _ \<Rightarrow> Inr PACK_REGISTRY_STARTUP_FACT_KEY
        | Prerequisite package_id \<Rightarrow> Inr (PACK_REGISTRY_PREREQUISITE_FACT_PREFIX @ package_id))
       (\<lambda>key.
     if package_id_text key = [] then Inl invalid_key
     else and_then (validate_runtime_fact_key key) (\<lambda>_. Inr key))"

definition pack_from_fact ::
  "RuntimeFactScope \<Rightarrow> str \<Rightarrow> (SanitizationError, PackRegistryFactKey) result" where
  "pack_from_fact scope key =
     and_then (validate_runtime_fact_key key) (\<lambda>_.
     and_then (ok_or invalid_key (strip_prefix key PACK_REGISTRY_FACT_PREFIX)) (\<lambda>rest.
     case scope of
       ScopeInstance i \<Rightarrow>
         if key = PACK_REGISTRY_STARTUP_FACT_KEY then Inr (Startup i) else Inl invalid_key
     | ScopeRuntime \<Rightarrow>
         (case strip_prefix rest (ascii ''prerequisite.'') of
            Some package_id \<Rightarrow>
              if package_id \<noteq> [] then Inr (Prerequisite package_id) else Inl invalid_key
          | None \<Rightarrow> if rest \<noteq> [] then Inr (Procedure rest) else Inl invalid_key)))"

end
