(* ===== verification/Fact_Store.thy ===== *)
theory Fact_Store
  imports Runtime_Facts
begin

text \<open>
  What the fact store guarantees: its representation invariant over every sequence of
  operations, its specification as a register per key that keeps the newest observation, the
  exact effect of a family invalidation, that a sealed image rebuilds the store it was taken
  from, and that the search over a ledger returns the newest complete set.
\<close>

section \<open>The invariant\<close>

definition entry_ok :: "fact_key \<times> RuntimeFactRecord \<Rightarrow> bool" where
  "entry_ok kr \<longleftrightarrow> fst kr = key_of (snd kr) \<and> fact_record_validate (snd kr) = Inr ()"

definition store_ok :: "RuntimeFactStore \<Rightarrow> bool" where
  "store_ok s \<longleftrightarrow>
     bt_wf (rs_active s) \<and> (\<forall>kr\<in>set (rs_active s). entry_ok kr)
     \<and> length (rs_active s) \<le> MAX_RUNTIME_FACTS"

text \<open>The operations of the store, one step each.\<close>

inductive fact_step :: "RuntimeFactStore \<Rightarrow> RuntimeFactStore \<Rightarrow> bool" where
  step_record: "record_fact r s = (res, s') \<Longrightarrow> fact_step s s'"
| step_invalidate: "invalidate scope key reason at s = (res, s') \<Longrightarrow> fact_step s s'"
| step_invalidate_instance:
    "invalidate_instance i families reason at s = (dropped, s') \<Longrightarrow> fact_step s s'"
| step_replay: "replay snap s = (res, s') \<Longrightarrow> fact_step s s'"

inductive fact_reachable :: "RuntimeFactStore \<Rightarrow> bool" where
  "fact_reachable fact_store_new"
| "fact_reachable s \<Longrightarrow> fact_step s s' \<Longrightarrow> fact_reachable s'"

lemma set_bt_insert: "set (bt_insert k v m) \<subseteq> insert (k, v) (set m)"
  by (induction m) (auto split: if_splits)

lemma store_ok_new: "store_ok fact_store_new"
  by (simp add: store_ok_def fact_store_new_def)

lemma store_ok_insert:
  assumes "store_ok s" "fact_record_validate r = Inr ()"
    and "bt_get (rs_active s) (key_of r) \<noteq> None \<or> length (rs_active s) < MAX_RUNTIME_FACTS"
  shows "store_ok (s\<lparr>rs_active := bt_insert (key_of r) r (rs_active s)\<rparr>)"
proof -
  have "entry_ok kr" if "kr \<in> set (bt_insert (key_of r) r (rs_active s))" for kr
    using that assms(1,2) set_bt_insert[of "key_of r" r "rs_active s"]
    by (auto simp: store_ok_def entry_ok_def)
  moreover have "length (bt_insert (key_of r) r (rs_active s)) \<le> MAX_RUNTIME_FACTS"
    using assms(1,3)
    by (auto simp: store_ok_def length_bt_insert map_of_eq_None_iff)
  ultimately show ?thesis using assms(1) by (simp add: store_ok_def)
qed

lemma store_ok_subset:
  "store_ok s \<Longrightarrow> bt_wf m \<Longrightarrow> set m \<subseteq> set (rs_active s) \<Longrightarrow> store_ok (s\<lparr>rs_active := m\<rparr>)"
  unfolding store_ok_def
proof (elim conjE, intro conjI)
  assume "bt_wf m" "set m \<subseteq> set (rs_active s)" "length (rs_active s) \<le> MAX_RUNTIME_FACTS"
    "bt_wf (rs_active s)"
  moreover have "length m = card (set m)"
    using \<open>bt_wf m\<close> by (metis bt_wf_distinct distinct_card distinct_map)
  moreover have "card (set m) \<le> card (set (rs_active s))"
    using \<open>set m \<subseteq> set (rs_active s)\<close> by (rule card_mono[OF finite_set])
  moreover have "card (set (rs_active s)) \<le> length (rs_active s)" by (rule card_length)
  ultimately show "length (rs_active (s\<lparr>rs_active := m\<rparr>)) \<le> MAX_RUNTIME_FACTS" by simp
qed auto

lemma record_fact_ok:
  assumes "store_ok s" "record_fact r s = (res, s')"
  shows "store_ok s'"
proof (cases "fact_record_validate r")
  case (Inr u)
  with assms show ?thesis
    by (auto simp: record_fact_def map_err_def split: option.splits if_splits
        intro: store_ok_insert)
qed (use assms in \<open>auto simp: record_fact_def map_err_def\<close>)

lemma set_fold_remove:
  "set (fold (\<lambda>key. bt_remove (f key)) keys m) = {kr \<in> set m. fst kr \<notin> f ` set keys}"
  by (induction keys arbitrary: m) (auto simp: bt_remove_def)

lemma get_fold_remove:
  "bt_get (fold (\<lambda>key. bt_remove (f key)) keys m) k = (if k \<in> f ` set keys then None else bt_get m k)"
  by (induction keys arbitrary: m) auto

lemma bt_wf_fold_remove: "bt_wf m \<Longrightarrow> bt_wf (fold (\<lambda>key. bt_remove (f key)) keys m)"
  by (induction keys arbitrary: m) auto

definition replayed :: "RuntimeFactRecord list \<Rightarrow> (fact_key, RuntimeFactRecord) btree" where
  "replayed rs = fold (\<lambda>r m. bt_insert (key_of r) r m) rs []"

lemma fold_insert_wf:
  "bt_wf m \<Longrightarrow> bt_wf (fold (\<lambda>r m. bt_insert (key_of r) r m) rs m)"
  by (induction rs arbitrary: m) auto

lemma fold_insert_set:
  "set (fold (\<lambda>r m. bt_insert (key_of r) r m) rs m) \<subseteq> set m \<union> (\<lambda>r. (key_of r, r)) ` set rs"
proof (induction rs arbitrary: m)
  case (Cons r rs)
  show ?case using Cons[of "bt_insert (key_of r) r m"] set_bt_insert[of "key_of r" r m] by auto
qed simp

lemma fold_insert_length:
  "length (fold (\<lambda>r m. bt_insert (key_of r) r m) rs m) \<le> length m + length rs"
proof (induction rs arbitrary: m)
  case (Cons r rs)
  show ?case
    using Cons[of "bt_insert (key_of r) r m"] length_bt_insert_le[of "key_of r" r m] by simp
qed simp

lemma snapshot_validate_Inr:
  "snapshot_validate snap = Inr () \<longleftrightarrow>
     fs_schema_version snap = RUNTIME_FACT_SCHEMA_VERSION \<and> fs_ledger_position snap \<noteq> 0
     \<and> fs_part snap \<noteq> 0 \<and> fs_part snap \<le> fs_parts snap
     \<and> length (fs_records snap) \<le> MAX_RUNTIME_FACTS
     \<and> (\<forall>r\<in>set (fs_records snap). fact_record_validate r = Inr ())"
  by (auto simp: snapshot_validate_def try_for_each_Inr)

lemma replay_ok:
  assumes "store_ok s" "replay snap s = (res, s')"
  shows "store_ok s'"
proof (cases "snapshot_validate snap")
  case (Inr u)
  then have v: "length (fs_records snap) \<le> MAX_RUNTIME_FACTS"
    "\<forall>r\<in>set (fs_records snap). fact_record_validate r = Inr ()"
    using snapshot_validate_Inr[of snap] by auto
  have "entry_ok kr" if "kr \<in> set (replayed (fs_records snap))" for kr
    using that v(2) fold_insert_set[of "fs_records snap" "[]"]
    by (auto simp: replayed_def entry_ok_def)
  then have "store_ok (s\<lparr>rs_active := replayed (fs_records snap)\<rparr>)"
    using v(1) fold_insert_length[of "fs_records snap" "[]"] fold_insert_wf[of "[]"]
    by (auto simp: store_ok_def replayed_def)
  with assms(2) Inr show ?thesis
    by (auto simp: replay_def map_err_def replayed_def Let_def)
qed (use assms in \<open>auto simp: replay_def map_err_def\<close>)

lemma fact_step_ok: "fact_step s s' \<Longrightarrow> store_ok s \<Longrightarrow> store_ok s'"
proof (induction rule: fact_step.induct)
  case (step_invalidate scope key reason at s res s')
  then have "s' = s\<lparr>rs_active := bt_remove (scope, key) (rs_active s)\<rparr>"
    by (auto simp: invalidate_def Let_def ok_or_def split: option.splits)
  moreover have "bt_wf (rs_active s)" using step_invalidate.prems by (simp add: store_ok_def)
  ultimately show ?case
    by (auto simp: bt_remove_def intro!: store_ok_subset[OF step_invalidate.prems] bt_wf_filter)
next
  case (step_invalidate_instance i families reason at s dropped s')
  then show ?case
    by (auto simp: invalidate_instance_def Let_def set_fold_remove
        intro!: store_ok_subset bt_wf_fold_remove) (simp add: store_ok_def)
qed (auto intro: record_fact_ok replay_ok)

lemma fact_reachable_ok: "fact_reachable s \<Longrightarrow> store_ok s"
  by (induction rule: fact_reachable.induct) (auto intro: store_ok_new fact_step_ok)

section \<open>The newest observation wins\<close>

text \<open>A fold whose steps are idempotent and commute on the pairs a relation admits depends only
  on the set of its steps.\<close>

locale commuting_steps =
  fixes step :: "'a \<Rightarrow> 's \<Rightarrow> 's" and ok :: "'a \<Rightarrow> 'a \<Rightarrow> bool"
  assumes commute: "ok x y \<Longrightarrow> step x (step y s) = step y (step x s)"
    and idem: "step x (step x s) = step x s"
begin

lemma fold_move:
  assumes "x \<in> set ys" and "\<And>a b. a \<in> set ys \<Longrightarrow> b \<in> set ys \<Longrightarrow> ok a b"
  shows "fold step ys (step x s) = fold step ys s"
  using assms
proof (induction ys arbitrary: s)
  case (Cons y ys)
  then have "ok x y" "ok y x" by simp_all
  with Cons show ?case
    by (cases "x \<in> set ys") (auto simp: idem commute[of y x])
qed simp

lemma fold_remdups:
  "(\<And>a b. a \<in> set xs \<Longrightarrow> b \<in> set xs \<Longrightarrow> ok a b) \<Longrightarrow> fold step (remdups xs) s = fold step xs s"
  by (induction xs arbitrary: s) (auto simp: fold_move)

lemma fold_set:
  assumes "set xs = set ys" and "\<And>a b. a \<in> set xs \<Longrightarrow> b \<in> set xs \<Longrightarrow> ok a b"
  shows "fold step xs s = fold step ys s"
proof -
  have "mset (remdups xs) = mset (remdups ys)"
    using assms(1) by (metis set_eq_iff_mset_remdups_eq)
  then have "fold step (remdups xs) = fold step (remdups ys)"
    using assms(2) by (intro fold_multiset_equiv) (auto simp: commute fun_eq_iff)
  then show ?thesis
    using fold_remdups[of xs s] fold_remdups[of ys s] assms by (metis (no_types, lifting))
qed

end

text \<open>The specification: one register per key that keeps the newest valid observation.\<close>

definition newest :: "RuntimeFactRecord \<Rightarrow> RuntimeFactRecord option \<Rightarrow> RuntimeFactRecord" where
  "newest r old =
     (case old of
        None \<Rightarrow> r
      | Some e \<Rightarrow> if rf_observed_at_unix_ms e < rf_observed_at_unix_ms r then r else e)"

definition observe ::
  "RuntimeFactRecord \<Rightarrow> (fact_key \<Rightarrow> RuntimeFactRecord option) \<Rightarrow>
     (fact_key \<Rightarrow> RuntimeFactRecord option)" where
  "observe r m =
     (if fact_record_validate r = Inr () then m(key_of r \<mapsto> newest r (m (key_of r))) else m)"

text \<open>Two records are comparable unless they claim the same key at the same millisecond with
  different contents.\<close>

definition comparable :: "RuntimeFactRecord \<Rightarrow> RuntimeFactRecord \<Rightarrow> bool" where
  "comparable r q \<longleftrightarrow>
     r = q \<or> key_of r \<noteq> key_of q \<or> rf_observed_at_unix_ms r \<noteq> rf_observed_at_unix_ms q"

interpretation obs: commuting_steps observe comparable
proof
  fix x y :: RuntimeFactRecord and m
  show "comparable x y \<Longrightarrow> observe x (observe y m) = observe y (observe x m)"
    by (auto simp: comparable_def observe_def newest_def fun_eq_iff split: option.splits)
  show "observe x (observe x m) = observe x m"
    by (auto simp: observe_def newest_def fun_eq_iff split: option.splits)
qed

definition record_all :: "RuntimeFactRecord list \<Rightarrow> RuntimeFactStore \<Rightarrow> RuntimeFactStore" where
  "record_all rs s = fold (\<lambda>r s. snd (record_fact r s)) rs s"

lemma record_fact_observes:
  assumes "store_ok s" "length (rs_active s) < MAX_RUNTIME_FACTS"
  shows "bt_get (rs_active (snd (record_fact r s))) = observe r (bt_get (rs_active s))"
proof (cases "fact_record_validate r")
  case (Inr u)
  with assms show ?thesis
    by (auto simp: record_fact_def map_err_def observe_def newest_def fun_eq_iff
        split: option.splits)
qed (use assms in \<open>auto simp: record_fact_def map_err_def observe_def\<close>)

lemma record_fact_length: "length (rs_active (snd (record_fact r s))) \<le> Suc (length (rs_active s))"
proof (cases "fact_record_validate r")
  case (Inr u)
  then show ?thesis
    using length_bt_insert_le[of "key_of r" r "rs_active s"]
    by (auto simp: record_fact_def map_err_def split: option.splits)
qed (auto simp: record_fact_def map_err_def)

lemma record_all_observes:
  "store_ok s \<Longrightarrow> length (rs_active s) + length rs \<le> MAX_RUNTIME_FACTS \<Longrightarrow>
     store_ok (record_all rs s)
     \<and> bt_get (rs_active (record_all rs s)) = fold observe rs (bt_get (rs_active s))"
proof (induction rs arbitrary: s)
  case (Cons r rs)
  let ?s = "snd (record_fact r s)"
  have "store_ok ?s" using Cons.prems(1) record_fact_ok by (metis prod.collapse)
  moreover have "length (rs_active ?s) + length rs \<le> MAX_RUNTIME_FACTS"
    using Cons.prems(2) record_fact_length[of r s] by simp
  ultimately show ?case
    using Cons.IH[of ?s] record_fact_observes[of s r] Cons.prems by (simp add: record_all_def)
qed (simp add: record_all_def)

lemma observe_keeps:
  "\<exists>e. m (key_of r) = Some e \<and> rf_observed_at_unix_ms r \<le> rf_observed_at_unix_ms e \<Longrightarrow>
     \<exists>e. fold observe xs m (key_of r) = Some e \<and> rf_observed_at_unix_ms r \<le> rf_observed_at_unix_ms e"
proof (induction xs arbitrary: m)
  case (Cons x xs)
  have "\<exists>e. observe x m (key_of r) = Some e \<and> rf_observed_at_unix_ms r \<le> rf_observed_at_unix_ms e"
    using Cons.prems by (auto simp: observe_def newest_def)
  from Cons.IH[of "observe x m", OF this] show ?case by simp
qed simp

lemma observe_newest:
  "r \<in> set xs \<Longrightarrow> fact_record_validate r = Inr () \<Longrightarrow>
     \<exists>e. fold observe xs m (key_of r) = Some e \<and> rf_observed_at_unix_ms r \<le> rf_observed_at_unix_ms e"
proof (induction xs arbitrary: m)
  case (Cons x xs)
  show ?case
  proof (cases "x = r")
    case True
    have "\<exists>e. observe x m (key_of r) = Some e \<and> rf_observed_at_unix_ms r \<le> rf_observed_at_unix_ms e"
      using True Cons.prems(2) by (auto simp: observe_def newest_def split: option.split)
    from observe_keeps[of "observe x m", OF this] show ?thesis by simp
  qed (use Cons in simp)
qed simp

lemma store_eqI:
  "store_ok s \<Longrightarrow> store_ok t \<Longrightarrow> bt_get (rs_active s) = bt_get (rs_active t) \<Longrightarrow> s = t"
  by (auto simp: store_ok_def intro: RuntimeFactStore.equality bt_eqI)

section \<open>Sealing and rebuilding\<close>

lemma bt_insert_last: "\<forall>a\<in>fst ` set m. a < k \<Longrightarrow> bt_insert k v m = m @ [(k, v)]"
  by (induction m) auto

lemma replay_sorted:
  "bt_wf (acc @ m) \<Longrightarrow> \<forall>kr\<in>set m. fst kr = key_of (snd kr) \<Longrightarrow>
     fold (\<lambda>r m. bt_insert (key_of r) r m) (map snd m) acc = acc @ m"
proof (induction m arbitrary: acc)
  case (Cons kr m)
  obtain k r where kr: "kr = (k, r)" by (cases kr)
  with Cons.prems(1) have "\<forall>a\<in>fst ` set acc. a < k"
    by (auto simp: bt_wf_def sorted_wrt_append)
  with Cons kr show ?case
    using Cons.IH[of "acc @ [kr]"] by (simp add: bt_insert_last)
qed simp

lemma replay_snapshot:
  assumes "store_ok s" "ledger \<noteq> 0"
  shows "snapshot_validate (snapshot ledger at s) = Inr ()"
    and "replay (snapshot ledger at s) t = (Inr (store_len s), s)"
proof -
  show v: "snapshot_validate (snapshot ledger at s) = Inr ()"
    using assms
    by (auto simp: snapshot_validate_Inr snapshot_def store_ok_def entry_ok_def)
  have "fold (\<lambda>r m. bt_insert (key_of r) r m) (map snd (rs_active s)) [] = rs_active s"
    using replay_sorted[of "[]" "rs_active s"] assms(1) by (simp add: store_ok_def entry_ok_def)
  then show "replay (snapshot ledger at s) t = (Inr (store_len s), s)"
    using v by (simp add: replay_def map_err_def store_len_def Let_def) (simp add: snapshot_def)
qed

section \<open>Family invalidation\<close>

lemma takeWhile_scope:
  "bt_wf m \<Longrightarrow> \<forall>kr\<in>set m. c \<le> fst (fst kr) \<Longrightarrow>
     takeWhile (\<lambda>((candidate, _), _). candidate = c) m = filter (\<lambda>kr. fst (fst kr) = c) m"
proof (induction m)
  case (Cons kr m)
  obtain d k r where kr: "kr = ((d, k), r)" by (metis prod.collapse)
  show ?case
  proof (cases "d = c")
    case False
    with Cons.prems kr have "\<forall>kr\<in>set m. fst (fst kr) \<noteq> c"
      by (fastforce simp: bt_wf_Cons less_prod_def)
    with False kr show ?thesis by (simp add: filter_empty_conv)
  qed (use Cons kr in \<open>auto simp: bt_wf_Cons\<close>)
qed simp

lemma scope_range:
  fixes m :: "(fact_key, 'v) btree"
  shows "bt_wf m \<Longrightarrow>
     takeWhile (\<lambda>((candidate, _), _). candidate = c) (dropWhile (\<lambda>(k, _). k < (c, [])) m)
     = filter (\<lambda>kr. fst (fst kr) = c) m"
proof (induction m)
  case (Cons kr m)
  obtain d k r where kr: "kr = ((d, k), r)" by (metis prod.collapse)
  show ?case
  proof (cases "d < c")
    case False
    then have "\<forall>x\<in>set (kr # m). c \<le> fst (fst x)"
      using Cons.prems kr by (force simp: bt_wf_Cons less_prod_def)
    with False kr takeWhile_scope[OF Cons.prems] show ?thesis by (simp add: less_prod_def)
  qed (use Cons kr in \<open>auto simp: bt_wf_Cons less_prod_def\<close>)
qed simp

definition in_family :: "InstanceId \<Rightarrow> str list \<Rightarrow> fact_key \<Rightarrow> bool" where
  "in_family i families k \<longleftrightarrow>
     fst k = ScopeInstance i \<and> (\<exists>family\<in>set families. starts_with (snd k) family)"

lemma family_keys_exact:
  "bt_wf (rs_active s) \<Longrightarrow>
     map (Pair (ScopeInstance i)) (family_keys i families s)
     = filter (in_family i families) (map fst (rs_active s))"
  unfolding family_keys_def Let_def
  using scope_range[of "rs_active s" "ScopeInstance i"]
  by (simp add: filter_map comp_def case_prod_unfold in_family_def list_ex_iff)

section \<open>The newest complete set\<close>

definition is_part :: "u64 \<Rightarrow> u16 \<Rightarrow> nat \<Rightarrow> sealed \<Rightarrow> bool" where
  "is_part snapshot_id parts n x \<longleftrightarrow>
     fs_snapshot_id (snd x) = snapshot_id \<and> fs_parts (snd x) = parts
     \<and> unat (fs_part (snd x)) = n"

text \<open>The specification: a set starts at a place where the parts \<open>n\<close>, \<open>n - 1\<close>, ..., 1 of one
  image of \<open>n\<close> parts follow each other; the newest one is at the first such place.\<close>

definition set_at :: "sealed list \<Rightarrow> bool" where
  "set_at xs =
     (case xs of
        [] \<Rightarrow> False
      | x # _ \<Rightarrow>
          (let n = unat (fs_parts (snd x)) in
           n \<le> length xs
           \<and> (\<forall>j<n. is_part (fs_snapshot_id (snd x)) (fs_parts (snd x)) (n - j) (xs ! j))))"

fun newest_set :: "sealed list \<Rightarrow> sealed list option" where
  "newest_set [] = None"
| "newest_set (x # xs) =
     (if set_at (x # xs) then Some (rev (take (unat (fs_parts (snd x))) (x # xs)))
      else newest_set xs)"

definition part_ok :: "sealed \<Rightarrow> bool" where
  "part_ok x \<longleftrightarrow> fs_part (snd x) \<noteq> 0 \<and> fs_part (snd x) \<le> fs_parts (snd x)"

text \<open>How many parts below \<open>m + 1\<close> follow each other at the head of a list.\<close>

fun run_length :: "u64 \<Rightarrow> u16 \<Rightarrow> nat \<Rightarrow> sealed list \<Rightarrow> nat" where
  "run_length i n (Suc m) (x # xs) =
     (if is_part i n (Suc m) x then Suc (run_length i n m xs) else 0)"
| "run_length i n _ _ = 0"

lemma run_length_le: "run_length i n m xs \<le> m" "run_length i n m xs \<le> length xs"
  by (induction i n m xs rule: run_length.induct) auto

lemma run_length_parts:
  "j < run_length i n m xs \<Longrightarrow> is_part i n (m - j) (xs ! j)"
  by (induction i n m xs arbitrary: j rule: run_length.induct)
    (auto simp: nth_Cons less_Suc_eq_0_disj split: if_splits nat.splits)

lemma run_length_full:
  "run_length i n m xs = m \<longleftrightarrow> m \<le> length xs \<and> (\<forall>j<m. is_part i n (m - j) (xs ! j))"
proof (induction i n m xs rule: run_length.induct)
  case (1 i n m x xs)
  have "(\<forall>j<Suc m. is_part i n (Suc m - j) ((x # xs) ! j)) \<longleftrightarrow>
      is_part i n (Suc m) x \<and> (\<forall>j<m. is_part i n (m - j) (xs ! j))"
    by (auto simp: less_Suc_eq_0_disj)
  with 1 show ?case by simp
qed auto

definition stops :: "'e source \<Rightarrow> bool" where
  "stops rest \<longleftrightarrow> rest = [] \<or> (\<exists>err r. rest = Inl err # r)"

definition stop_with :: "'e source \<Rightarrow> u16 \<Rightarrow> sealed list \<Rightarrow>
    ('e, u16 \<times> sealed list \<times> sealed option \<times> 'e source) result" where
  "stop_with rest e acc = (case rest of Inl err # _ \<Rightarrow> Inl err | _ \<Rightarrow> Inr (e, acc, None, []))"

lemma collect_parts_run:
  assumes "stops rest" "unat e = Suc m"
  shows "collect_parts i n e acc (map Inr xs @ rest) =
    (let k = run_length i n m xs in
     if k = m then Inr (1, acc @ take k xs, None, map Inr (drop k xs) @ rest)
     else (case drop k xs of
             y # ys \<Rightarrow> Inr (e - of_nat k, acc @ take k xs, Some y, map Inr ys @ rest)
           | [] \<Rightarrow> stop_with rest (e - of_nat k) (acc @ xs)))"
  using assms(2) unfolding Let_def
proof (induction xs arbitrary: e acc m)
  case Nil
  show ?case
  proof (cases m)
    case 0
    with Nil have "e = 1" by (simp add: word_unat_eq_iff)
    with 0 show ?thesis by (simp add: collect_parts.simps)
  next
    case (Suc m')
    with Nil have "1 < e" by (simp add: word_less_nat_alt)
    with Suc assms(1) show ?thesis
      by (auto simp: stops_def stop_with_def collect_parts.simps)
  qed
next
  case (Cons x xs)
  show ?case
  proof (cases m)
    case 0
    with Cons.prems have "e = 1" by (simp add: word_unat_eq_iff)
    with 0 show ?thesis by (simp add: collect_parts.simps)
  next
    case (Suc m')
    with Cons.prems have e: "1 < e" "e \<noteq> 0" by (auto simp: word_less_nat_alt)
    then have u: "unat (e - 1) = Suc m'" using Suc Cons.prems unat_minus_one[of e] by simp
    have expected: "fs_part (snd x) = e - 1 \<longleftrightarrow> unat (fs_part (snd x)) = Suc m'"
      using u by (simp add: word_unat_eq_iff)
    show ?thesis
    proof (cases "is_part i n (Suc m') x")
      case True
      have "collect_parts i n e acc (map Inr (x # xs) @ rest)
        = collect_parts i n (e - 1) (acc @ [x]) (map Inr xs @ rest)"
        using True e expected by (subst collect_parts.simps) (simp add: is_part_def)
      also note Cons.IH[OF u, of "acc @ [x]"]
      finally show ?thesis using True Suc by (simp add: algebra_simps split: list.split)
    next
      case False
      have "collect_parts i n e acc (map Inr (x # xs) @ rest)
        = Inr (e, acc, Some x, map Inr xs @ rest)"
        using False e expected by (subst collect_parts.simps) (auto simp: is_part_def)
      with False Suc show ?thesis by simp
    qed
  qed
qed

lemma newest_set_skip:
  "(\<And>j. j < k \<Longrightarrow> \<not> set_at (drop j xs)) \<Longrightarrow> newest_set xs = newest_set (drop k xs)"
proof (induction k arbitrary: xs)
  case (Suc k)
  show ?case
  proof (cases xs)
    case (Cons x ys)
    with Suc.prems[of 0] have "newest_set xs = newest_set ys" by simp
    also have "\<dots> = newest_set (drop k ys)"
      using Suc.prems Cons by (intro Suc.IH) (metis Suc_less_eq drop_Suc_Cons)
    finally show ?thesis using Cons by simp
  qed simp
qed simp

lemma set_at_head: "set_at (x # xs) \<Longrightarrow> part_ok x \<Longrightarrow> fs_part (snd x) = fs_parts (snd x)"
proof -
  assume "set_at (x # xs)" and ok: "part_ok x"
  then have "\<forall>j<unat (fs_parts (snd x)). is_part (fs_snapshot_id (snd x)) (fs_parts (snd x))
      (unat (fs_parts (snd x)) - j) ((x # xs) ! j)"
    by (simp add: set_at_def Let_def)
  moreover have "0 < unat (fs_parts (snd x))"
    using ok unat_eq_zero[of "fs_part (snd x)"] by (auto simp: part_ok_def word_le_nat_alt)
  ultimately have "unat (fs_part (snd x)) = unat (fs_parts (snd x))"
    by (auto simp: is_part_def)
  then show ?thesis by (simp add: word_unat_eq_iff)
qed

lemma set_at_iff_run:
  assumes "part_ok x" "unat (fs_part (snd x)) = Suc m"
  shows "set_at (x # xs) \<longleftrightarrow>
    fs_part (snd x) = fs_parts (snd x)
    \<and> run_length (fs_snapshot_id (snd x)) (fs_parts (snd x)) m xs = m"
proof
  assume s: "set_at (x # xs)"
  from set_at_head[OF s assms(1)] have p: "fs_part (snd x) = fs_parts (snd x)" .
  with assms(2) have n: "unat (fs_parts (snd x)) = Suc m" by simp
  have "is_part (fs_snapshot_id (snd x)) (fs_parts (snd x)) (m - j) (xs ! j)" if "j < m" for j
    using s that n by (auto simp: set_at_def Let_def dest!: spec[of _ "Suc j"])
  moreover have "m \<le> length xs" using s n by (simp add: set_at_def Let_def)
  ultimately show "fs_part (snd x) = fs_parts (snd x)
    \<and> run_length (fs_snapshot_id (snd x)) (fs_parts (snd x)) m xs = m"
    using p by (simp add: run_length_full)
next
  assume r: "fs_part (snd x) = fs_parts (snd x)
    \<and> run_length (fs_snapshot_id (snd x)) (fs_parts (snd x)) m xs = m"
  then have "m \<le> length xs" "\<forall>j<m. is_part (fs_snapshot_id (snd x)) (fs_parts (snd x)) (m - j) (xs ! j)"
    by (simp_all add: run_length_full)
  moreover have "is_part (fs_snapshot_id (snd x)) (fs_parts (snd x)) (Suc m) x"
    using assms(2) by (simp add: is_part_def)
  ultimately show "set_at (x # xs)"
    using r assms(2) by (auto simp: set_at_def Let_def less_Suc_eq_0_disj)
qed

lemma newest_set_after_run:
  assumes "part_ok x" "\<forall>y\<in>set xs. part_ok y" "unat (fs_part (snd x)) = Suc m"
    and "\<not> set_at (x # xs)"
  shows "newest_set (x # xs)
    = newest_set (drop (run_length (fs_snapshot_id (snd x)) (fs_parts (snd x)) m xs) xs)"
proof -
  let ?k = "run_length (fs_snapshot_id (snd x)) (fs_parts (snd x)) m xs"
  have "\<not> set_at (drop j xs)" if j: "j < ?k" for j
  proof
    assume s: "set_at (drop j xs)"
    have len: "j < length xs" using j run_length_le(2) by (rule less_le_trans)
    then have d: "drop j xs = xs ! j # drop (Suc j) xs" by (simp add: Cons_nth_drop_Suc)
    from run_length_parts[OF j] have p: "fs_parts (snd (xs ! j)) = fs_parts (snd x)"
      "unat (fs_part (snd (xs ! j))) = m - j" by (simp_all add: is_part_def)
    have "fs_part (snd (xs ! j)) = fs_parts (snd (xs ! j))"
      using set_at_head s assms(2) len unfolding d by simp
    then have "m - j = unat (fs_parts (snd x))" using p by simp
    moreover have "Suc m \<le> unat (fs_parts (snd x))"
      using assms(1,3) by (simp add: part_ok_def word_le_nat_alt)
    ultimately show False by simp
  qed
  then have "newest_set xs = newest_set (drop ?k xs)" by (rule newest_set_skip)
  with assms(4) show ?thesis by simp
qed

text \<open>What the search over \<open>xs\<close> ends with, when the ledger ends or fails after them.\<close>

definition finds ::
  "('e, RuntimeFactSnapshotSetSearch) result \<Rightarrow> sealed list \<Rightarrow> 'e source \<Rightarrow> bool" where
  "finds res xs rest \<longleftrightarrow>
     (case newest_set xs of
        Some parts \<Rightarrow> \<exists>skipped. res = Inr \<lparr>fss_set = Some parts, fss_skipped = skipped\<rparr>
      | None \<Rightarrow>
          (case rest of
             Inl err # _ \<Rightarrow> res = Inl err
           | _ \<Rightarrow> \<exists>skipped. res = Inr \<lparr>fss_set = None, fss_skipped = skipped\<rparr>))"

lemma run_short:
  fixes x :: sealed
  assumes "unat (fs_part (snd x)) = Suc m" "k < m"
  shows "fs_part (snd x) - of_nat k \<noteq> 1"
proof
  assume "fs_part (snd x) - of_nat k = 1"
  then have "fs_part (snd x) = 1 + of_nat k" by (simp add: algebra_simps)
  moreover have "unat (fs_part (snd x)) < 2 ^ 16" using unsigned_less[of "fs_part (snd x)"] by simp
  ultimately have "unat (fs_part (snd x)) = Suc k"
    using assms by (simp add: unat_word_ariths unat_of_nat)
  with assms show False by simp
qed

lemma search_complete:
  assumes "stops rest" "part_ok x" "set_at (x # xs)" "fss_set s = None"
  shows "search_sets (Some x) s (map Inr xs @ rest) = Inr (s\<lparr>fss_set := newest_set (x # xs)\<rparr>)"
proof -
  obtain m where m: "unat (fs_part (snd x)) = Suc m"
    using assms(2) unat_eq_zero[of "fs_part (snd x)"] not0_implies_Suc by (auto simp: part_ok_def)
  with assms(2,3) have r: "fs_part (snd x) = fs_parts (snd x)"
    "run_length (fs_snapshot_id (snd x)) (fs_parts (snd x)) m xs = m"
    using set_at_iff_run[of x m xs] by auto
  have "collect_parts (fs_snapshot_id (snd x)) (fs_parts (snd x)) (fs_part (snd x)) [x] (map Inr xs @ rest)
      = Inr (1, x # take m xs, None, map Inr (drop m xs) @ rest)"
    using collect_parts_run[OF assms(1) m, where acc = "[x]" and xs = xs] r(2) by simp
  with r(1) assms(3) m show ?thesis by simp
qed

lemma search_incomplete:
  fixes xs :: "sealed list"
  assumes "stops rest" "part_ok x" "\<not> set_at (x # xs)" "fss_set s = None"
    and m: "unat (fs_part (snd x)) = Suc m"
  defines "k \<equiv> run_length (fs_snapshot_id (snd x)) (fs_parts (snd x)) m xs"
  shows "\<exists>t. fss_set t = None \<and> search_sets (Some x) s (map Inr xs @ rest) =
     (case drop k xs of
        y # ys \<Rightarrow> search_sets (Some y) t (map Inr ys @ rest)
      | [] \<Rightarrow> (case rest of Inl err # _ \<Rightarrow> Inl err | _ \<Rightarrow> Inr t))"
proof -
  let ?t = "\<lambda>e::u16. s\<lparr>fss_skipped := fss_skipped s @
    [\<lparr>sk_snapshot_id = fs_snapshot_id (snd x), sk_parts_found = fs_part (snd x) - e + 1,
      sk_parts = fs_parts (snd x)\<rparr>]\<rparr>"
  note run = collect_parts_run[OF assms(1) m, where acc = "[x]" and xs = xs
      and i = "fs_snapshot_id (snd x)" and n = "fs_parts (snd x)", folded k_def, unfolded Let_def]
  have k: "k \<le> m" unfolding k_def by (rule run_length_le)
  show ?thesis
  proof (cases "k = m")
    case True
    with assms(2,3) m have "fs_part (snd x) \<noteq> fs_parts (snd x)"
      using set_at_iff_run[of x m xs] by (simp add: k_def)
    with True run assms(1,4) show ?thesis
      by (intro exI[of _ "?t 1"]) (auto simp: Let_def stops_def split: list.split)
  next
    case False
    with k have "fs_part (snd x) - of_nat k \<noteq> 1" by (intro run_short[OF m]) simp
    with False run assms(1,4) show ?thesis
      by (intro exI[of _ "?t (fs_part (snd x) - of_nat k)"])
        (auto simp: Let_def stops_def stop_with_def split: list.split)
  qed
qed

lemma search_sets_finds:
  assumes "stops rest"
  shows "\<forall>y\<in>set (x # xs). part_ok y \<Longrightarrow> fss_set s = None \<Longrightarrow>
    finds (search_sets (Some x) s (map Inr xs @ rest)) (x # xs) rest"
proof (induction "length xs" arbitrary: x xs s rule: less_induct)
  case less
  then have ok: "part_ok x" "\<forall>y\<in>set xs. part_ok y" by simp_all
  show ?case
  proof (cases "set_at (x # xs)")
    case True
    with search_complete[OF assms ok(1) True less.prems(2)] show ?thesis
      by (cases s) (simp add: finds_def del: search_sets.simps)
  next
    case False
    obtain m where m: "unat (fs_part (snd x)) = Suc m"
      using ok(1) unat_eq_zero[of "fs_part (snd x)"] not0_implies_Suc by (auto simp: part_ok_def)
    define k where "k = run_length (fs_snapshot_id (snd x)) (fs_parts (snd x)) m xs"
    obtain t where t: "fss_set t = None" "search_sets (Some x) s (map Inr xs @ rest) =
     (case drop k xs of
        y # ys \<Rightarrow> search_sets (Some y) t (map Inr ys @ rest)
      | [] \<Rightarrow> (case rest of Inl err # _ \<Rightarrow> Inl err | _ \<Rightarrow> Inr t))"
      using search_incomplete[OF assms ok(1) False less.prems(2) m] unfolding k_def by blast
    have skip: "newest_set (x # xs) = newest_set (drop k xs)"
      unfolding k_def by (rule newest_set_after_run[OF ok m False])
    show ?thesis
    proof (cases "drop k xs")
      case Nil
      with t skip assms show ?thesis
        by (cases t) (auto simp: finds_def stops_def simp del: search_sets.simps)
    next
      case (Cons y ys)
      have "length ys < length xs" using arg_cong[OF Cons, of length] by simp
      moreover have "\<forall>y\<in>set (y # ys). part_ok y"
        using ok(2) Cons set_drop_subset[of k xs] by auto
      ultimately have "finds (search_sets (Some y) t (map Inr ys @ rest)) (y # ys) rest"
        using t(1) by (rule less.hyps)
      with t(2) skip Cons show ?thesis by (simp add: finds_def del: search_sets.simps)
    qed
  qed
qed

lemma newest_complete_finds:
  assumes "stops rest" "\<forall>y\<in>set xs. part_ok y"
  shows "finds (newest_complete_runtime_fact_snapshot_set (map Inr xs @ rest)) xs rest"
proof (cases xs)
  case Nil
  with assms(1) show ?thesis
    by (auto simp: stops_def finds_def newest_complete_runtime_fact_snapshot_set_def)
next
  case (Cons x ys)
  with assms search_sets_finds[OF assms(1), of x ys] show ?thesis
    by (simp add: newest_complete_runtime_fact_snapshot_set_def)
qed

end
