(* ===== verification/Config_Manifest.thy ===== *)
theory Config_Manifest
  imports Runtime_Facts
begin

text \<open>
  The configuration manifest of \<open>crates/actingcommand-contract/src/runtime_fact.rs\<close> and the
  facts the host records of it: the subsystem rows, one fact per parameter section, the
  configuration selection, and the active policy catalog with the reader that takes it back.
  The part of an \<open>Outcome\<close> (\<open>outcome.rs\<close>) a subsystem row reads is modelled as data.
\<close>

section \<open>Numbers as text\<close>

text \<open>\<open>u64::to_string\<close> and \<open>str::parse::<u64>\<close>: an optional plus sign, then at least one decimal
  digit, the value within the width.\<close>

fun decimal :: "nat \<Rightarrow> str" where
  "decimal n = (if n < 10 then [48 + n] else decimal (n div 10) @ [48 + n mod 10])"

declare decimal.simps [simp del]

definition u64_to_string :: "u64 \<Rightarrow> str" where
  "u64_to_string n = decimal (unat n)"

fun parse_digits :: "nat \<Rightarrow> str \<Rightarrow> nat option" where
  "parse_digits acc [] = Some acc"
| "parse_digits acc (c # s) =
     (if 48 \<le> c \<and> c \<le> 57 \<and> acc * 10 + (c - 48) < 2 ^ 64
      then parse_digits (acc * 10 + (c - 48)) s
      else None)"

definition u64_parse :: "str \<Rightarrow> u64 option" where
  "u64_parse s =
     (let digits = (case s of c # rest \<Rightarrow> if c = 43 then rest else s | [] \<Rightarrow> s) in
      if digits = [] then None else map_option of_nat (parse_digits 0 digits))"

section \<open>Outcomes\<close>

text \<open>\<open>serde_json::Value\<close>; \<open>Map\<close> keeps the order of insertion.\<close>

datatype json_number = PosInt u64 | NegInt i64 | Float "64 word"

datatype json =
    JsonNull | JsonBool bool | JsonNumber json_number | JsonString str
  | JsonArray "json list" | JsonObject "(str \<times> json) list"

fun as_i64 :: "json_number \<Rightarrow> i64 option" where
  "as_i64 (PosInt n) = (if unat n < 2 ^ 63 then Some n else None)"
| "as_i64 (NegInt n) = Some n"
| "as_i64 (Float _) = None"

fun json_as_str :: "json \<Rightarrow> str option" where
  "json_as_str (JsonString s) = Some s"
| "json_as_str _ = None"

datatype Outcome =
  Outcome (oc_code: str) (oc_category: category) (oc_values: "(str \<times> json) list")
    (oc_causes: "Link list") (oc_causes_total: "u64 option")
and Link = Link (lk_relation: str) (lk_outcome: Outcome)

definition outcome_value :: "Outcome \<Rightarrow> str \<Rightarrow> json option" where
  "outcome_value oc key = map_of (oc_values oc) key"

section \<open>The manifest\<close>

definition CONFIG_SUBSYSTEMS_FACT_KEY :: str where
  "CONFIG_SUBSYSTEMS_FACT_KEY = ascii ''config.subsystems''"

definition CONFIG_PARAMETERS_FACT_PREFIX :: str where
  "CONFIG_PARAMETERS_FACT_PREFIX = ascii ''config.parameters.''"

definition CONFIG_TOP_LEVEL_SECTION :: str where
  "CONFIG_TOP_LEVEL_SECTION = ascii ''top_level''"

definition CONFIG_SELECTION_FACT_KEY :: str where
  "CONFIG_SELECTION_FACT_KEY = ascii ''config.selection''"

definition CONFIG_CATALOG_FACT_KEY :: str where
  "CONFIG_CATALOG_FACT_KEY = ascii ''config.catalog''"

definition MAX_CONFIG_MANIFEST_SUBSYSTEMS :: nat where
  "MAX_CONFIG_MANIFEST_SUBSYSTEMS = 64"

definition MAX_CONFIG_MANIFEST_PARAMETERS :: nat where
  "MAX_CONFIG_MANIFEST_PARAMETERS = 256"

definition MAX_CONFIG_MANIFEST_NAME_BYTES :: nat where
  "MAX_CONFIG_MANIFEST_NAME_BYTES = 128"

definition CONFIG_SUBSYSTEM_IGNORED_VARIABLES_FIELD :: str where
  "CONFIG_SUBSYSTEM_IGNORED_VARIABLES_FIELD = ascii ''ignored_variables''"

definition NOTED_VARIABLE_KEY :: str where
  "NOTED_VARIABLE_KEY = ascii ''variable''"

record ConfigSubsystem =
  cs_name :: str
  cs_enabled :: bool
  cs_outcome :: Outcome

datatype ConfigParameterSource = SrcExplicit | SrcDefault | SrcDiscovered | SrcInstruction

fun parameter_source_as_str :: "ConfigParameterSource \<Rightarrow> str" where
  "parameter_source_as_str SrcExplicit = ascii ''explicit''"
| "parameter_source_as_str SrcDefault = ascii ''default''"
| "parameter_source_as_str SrcDiscovered = ascii ''discovered''"
| "parameter_source_as_str SrcInstruction = ascii ''instruction''"

record ConfigParameter =
  cp_key :: str
  cp_value :: FactScalar
  cp_source :: ConfigParameterSource
  cp_settable :: bool

record RuntimeConfigManifest =
  cm_subsystems :: "ConfigSubsystem list"
  cm_parameters :: "ConfigParameter list"

definition config_parameter_section :: "str \<Rightarrow> str" where
  "config_parameter_section key =
     (case split_once 46 key of None \<Rightarrow> CONFIG_TOP_LEVEL_SECTION | Some (section, _) \<Rightarrow> section)"

definition config_parameters_fact_key :: "str \<Rightarrow> str" where
  "config_parameters_fact_key section = CONFIG_PARAMETERS_FACT_PREFIX @ section"

definition manifest_text_ok :: "str \<Rightarrow> nat \<Rightarrow> bool" where
  "manifest_text_ok v max_bytes \<longleftrightarrow>
     v \<noteq> [] \<and> str_len v \<le> max_bytes \<and> \<not> list_ex char_is_control v"

fun validate_subsystem_names :: "ConfigSubsystem list \<Rightarrow> (SanitizationError, unit) result" where
  "validate_subsystem_names [] = Inr ()"
| "validate_subsystem_names (c # cs) =
     (if \<not> manifest_text_ok (cs_name c) MAX_CONFIG_MANIFEST_NAME_BYTES
      then Inl (refusal ''invalid_config_subsystem_name'' ''subsystems'')
      else validate_subsystem_names cs)"

fun validate_parameters ::
  "(str, nat) btree \<Rightarrow> ConfigParameter list \<Rightarrow> (SanitizationError, unit) result" where
  "validate_parameters per_section [] = Inr ()"
| "validate_parameters per_section (p # ps) =
     (let section = config_parameter_section (cp_key p);
          count = (case bt_get per_section section of None \<Rightarrow> 0 | Some n \<Rightarrow> n) + 1 in
      if \<not> manifest_text_ok (cp_key p) MAX_CONFIG_MANIFEST_NAME_BYTES
         \<or> \<not> is_ok (validate_runtime_fact_key (config_parameters_fact_key section))
      then Inl (refusal ''invalid_config_parameter_key'' ''parameters'')
      else if MAX_CONFIG_MANIFEST_PARAMETERS < count
      then Inl (refusal ''config_manifest_parameters_too_many'' ''parameters'')
      else validate_parameters (bt_insert section count per_section) ps)"

definition manifest_validate :: "RuntimeConfigManifest \<Rightarrow> (SanitizationError, unit) result" where
  "manifest_validate m =
     (if MAX_CONFIG_MANIFEST_SUBSYSTEMS < length (cm_subsystems m)
      then Inl (refusal ''config_manifest_subsystems_too_many'' ''subsystems'')
      else and_then (validate_subsystem_names (cm_subsystems m)) (\<lambda>_.
           validate_parameters [] (cm_parameters m)))"

text \<open>A \<open>BTreeSet\<close> of the sections, listed in order.\<close>

definition parameter_sections :: "RuntimeConfigManifest \<Rightarrow> str list" where
  "parameter_sections m =
     map fst (fold (\<lambda>p. bt_insert (config_parameter_section (cp_key p)) ()) (cm_parameters m) [])"

text \<open>\<open>BTreeMap::from\<close> an array: the pairs inserted in order.\<close>

definition bt_from :: "('k::linorder \<times> 'v) list \<Rightarrow> ('k, 'v) btree" where
  "bt_from kvs = fold (\<lambda>(k, v). bt_insert k v) kvs []"

lemma bt_get_fold: "bt_get (fold (\<lambda>(k, v). bt_insert k v) kvs m) = bt_get m ++ map_of (rev kvs)"
proof (induction kvs arbitrary: m)
  case (Cons kv kvs)
  then show ?case by (cases kv) (auto simp: map_add_def fun_eq_iff split: option.splits)
qed simp

lemma bt_get_from:
  assumes "distinct (map fst kvs)"
  shows "bt_get (bt_from kvs) = map_of kvs"
proof -
  have "map_of (rev kvs) = map_of kvs"
    using assms map_of_inject_set[of "rev kvs" kvs] by (simp add: rev_map[symmetric])
  then show ?thesis by (simp add: bt_from_def bt_get_fold)
qed

definition parameter_row :: "ConfigParameter \<Rightarrow> (str, FactScalar) btree" where
  "parameter_row p =
     bt_from [(ascii ''key'', ScString (cp_key p)), (ascii ''value'', cp_value p),
              (ascii ''source'', ScString (parameter_source_as_str (cp_source p))),
              (ascii ''settable'', ScBoolean (cp_settable p))]"

definition parameter_section_fact_record ::
  "RuntimeConfigManifest \<Rightarrow> str \<Rightarrow> u64 \<Rightarrow> OriginModule \<Rightarrow> RuntimeFactRecord" where
  "parameter_section_fact_record m section observed_at src =
     \<lparr>rf_scope = ScopeRuntime, rf_key = config_parameters_fact_key section,
       rf_value = FvRecordList (map parameter_row
         (filter (\<lambda>p. config_parameter_section (cp_key p) = section) (cm_parameters m))),
       rf_observed_at_unix_ms = observed_at, rf_source = src, rf_ttl_ms = None\<rparr>"

definition parameter_fact_records ::
  "RuntimeConfigManifest \<Rightarrow> u64 \<Rightarrow> OriginModule \<Rightarrow> RuntimeFactRecord list" where
  "parameter_fact_records m observed_at src =
     map (\<lambda>section. parameter_section_fact_record m section observed_at src)
       (parameter_sections m)"

fun outcome_scalar :: "json \<Rightarrow> FactScalar option" where
  "outcome_scalar (JsonBool b) = Some (ScBoolean b)"
| "outcome_scalar (JsonNumber n) = map_option ScInteger (as_i64 n)"
| "outcome_scalar (JsonString s) = Some (ScString s)"
| "outcome_scalar _ = None"

text \<open>The loop over the outcome's values: \<open>continue\<close> on a value that is no scalar, and
  \<open>entry(key).or_insert(scalar)\<close> on the others.\<close>

definition add_outcome_value ::
  "str \<times> json \<Rightarrow> (str, FactScalar) btree \<Rightarrow> (str, FactScalar) btree" where
  "add_outcome_value kv row =
     (case outcome_scalar (snd kv) of
        None \<Rightarrow> row
      | Some scalar \<Rightarrow> bt_or_insert (fst kv) scalar row)"

definition noted_variables :: "Outcome \<Rightarrow> str list" where
  "noted_variables oc =
     List.map_filter
       (\<lambda>link. case outcome_value (lk_outcome link) NOTED_VARIABLE_KEY of
                 None \<Rightarrow> None
               | Some v \<Rightarrow> json_as_str v)
       (filter (\<lambda>link. lk_relation link = ascii ''note'') (oc_causes oc))"

fun join_comma :: "str list \<Rightarrow> str" where
  "join_comma [] = []"
| "join_comma [s] = s"
| "join_comma (s # t # rest) = s @ [44] @ join_comma (t # rest)"

definition subsystem_row :: "ConfigSubsystem \<Rightarrow> (str, FactScalar) btree" where
  "subsystem_row c =
     (let row = bt_from [(ascii ''name'', ScString (cs_name c)),
                         (ascii ''enabled'', ScBoolean (cs_enabled c)),
                         (ascii ''code'', ScString (oc_code (cs_outcome c)))];
          row = fold add_outcome_value (oc_values (cs_outcome c)) row;
          noted = noted_variables (cs_outcome c) in
      if noted = [] then row
      else bt_insert CONFIG_SUBSYSTEM_IGNORED_VARIABLES_FIELD (ScString (join_comma noted)) row)"

definition subsystems_fact_record ::
  "RuntimeConfigManifest \<Rightarrow> u64 \<Rightarrow> OriginModule \<Rightarrow> RuntimeFactRecord" where
  "subsystems_fact_record m observed_at src =
     \<lparr>rf_scope = ScopeRuntime, rf_key = CONFIG_SUBSYSTEMS_FACT_KEY,
       rf_value = FvRecordList (map subsystem_row (cm_subsystems m)),
       rf_observed_at_unix_ms = observed_at, rf_source = src, rf_ttl_ms = None\<rparr>"

section \<open>The configuration selection and the active catalog\<close>

record ConfigSelection =
  csel_generation :: "u64 option"
  csel_config_sha256 :: str
  csel_defaults_sha256 :: str

definition one_row_fact ::
  "str \<Rightarrow> (str, FactScalar) btree \<Rightarrow> u64 \<Rightarrow> OriginModule \<Rightarrow> RuntimeFactRecord" where
  "one_row_fact key row observed_at src =
     \<lparr>rf_scope = ScopeRuntime, rf_key = key, rf_value = FvRecordList [row],
       rf_observed_at_unix_ms = observed_at, rf_source = src, rf_ttl_ms = None\<rparr>"

definition selection_to_fact_record ::
  "ConfigSelection \<Rightarrow> u64 \<Rightarrow> OriginModule \<Rightarrow> RuntimeFactRecord" where
  "selection_to_fact_record c observed_at src =
     (let row = bt_from [(ascii ''config_sha256'', ScString (csel_config_sha256 c)),
                         (ascii ''defaults_sha256'', ScString (csel_defaults_sha256 c))];
          row = (case csel_generation c of
                   None \<Rightarrow> row
                 | Some generation \<Rightarrow>
                     bt_insert (ascii ''config_generation'')
                       (ScString (u64_to_string generation)) row)
      in one_row_fact CONFIG_SELECTION_FACT_KEY row observed_at src)"

datatype ApprovalDisposition = Approved | Rejected | Pinned | Revoked

fun disposition_as_str :: "ApprovalDisposition \<Rightarrow> str" where
  "disposition_as_str Approved = ascii ''approved''"
| "disposition_as_str Rejected = ascii ''rejected''"
| "disposition_as_str Pinned = ascii ''pinned''"
| "disposition_as_str Revoked = ascii ''revoked''"

record ConfigCatalog =
  cc_catalog_id :: str
  cc_catalog_version :: u64
  cc_catalog_hash :: str
  cc_activated_event_id :: str
  cc_approval_id :: "str option"
  cc_approval_disposition :: "ApprovalDisposition option"
  cc_previous_catalog_id :: "str option"
  cc_previous_catalog_version :: "u64 option"

definition insert_present ::
  "string \<times> str option \<Rightarrow> (str, FactScalar) btree \<Rightarrow> (str, FactScalar) btree" where
  "insert_present fv row =
     (case snd fv of None \<Rightarrow> row | Some v \<Rightarrow> bt_insert (ascii (fst fv)) (ScString v) row)"

definition catalog_row :: "ConfigCatalog \<Rightarrow> (str, FactScalar) btree" where
  "catalog_row c =
     fold insert_present
       [(''approval_id'', cc_approval_id c),
        (''approval_disposition'', map_option disposition_as_str (cc_approval_disposition c)),
        (''previous_catalog_id'', cc_previous_catalog_id c),
        (''previous_catalog_version'', map_option u64_to_string (cc_previous_catalog_version c))]
       (bt_from
          [(ascii ''catalog_id'', ScString (cc_catalog_id c)),
           (ascii ''catalog_version'', ScString (u64_to_string (cc_catalog_version c))),
           (ascii ''catalog_hash'', ScString (cc_catalog_hash c)),
           (ascii ''activated_event_id'', ScString (cc_activated_event_id c))])"

definition catalog_to_fact_record ::
  "ConfigCatalog \<Rightarrow> u64 \<Rightarrow> OriginModule \<Rightarrow> RuntimeFactRecord" where
  "catalog_to_fact_record c observed_at src =
     one_row_fact CONFIG_CATALOG_FACT_KEY (catalog_row c) observed_at src"

definition catalog_refused :: SanitizationError where
  "catalog_refused = refusal ''invalid_fact_snapshot_record'' ''config_catalog''"

definition row_text ::
  "(str, FactScalar) btree \<Rightarrow> string \<Rightarrow> (SanitizationError, str option) result" where
  "row_text row field =
     (case bt_get row (ascii field) of
        None \<Rightarrow> Inr None
      | Some (ScString v) \<Rightarrow> Inr (Some v)
      | Some _ \<Rightarrow> Inl catalog_refused)"

definition row_version ::
  "(str, FactScalar) btree \<Rightarrow> string \<Rightarrow> (SanitizationError, u64 option) result" where
  "row_version row field =
     and_then (row_text row field) (\<lambda>v.
     case v of
       None \<Rightarrow> Inr None
     | Some t \<Rightarrow> and_then (ok_or catalog_refused (u64_parse t)) (\<lambda>n. Inr (Some n)))"

definition row_disposition ::
  "(str, FactScalar) btree \<Rightarrow> (SanitizationError, ApprovalDisposition option) result" where
  "row_disposition row =
     and_then (row_text row ''approval_disposition'') (\<lambda>v.
     case v of
       None \<Rightarrow> Inr None
     | Some t \<Rightarrow>
         and_then
           (ok_or catalog_refused
              (find (\<lambda>d. disposition_as_str d = t) [Approved, Rejected, Pinned, Revoked]))
           (\<lambda>d. Inr (Some d)))"

definition catalog_from_row ::
  "(str, FactScalar) btree \<Rightarrow> (SanitizationError, ConfigCatalog) result" where
  "catalog_from_row row =
     and_then (row_disposition row) (\<lambda>disposition.
     and_then (and_then (row_text row ''catalog_id'') (ok_or catalog_refused)) (\<lambda>cid.
     and_then (and_then (row_version row ''catalog_version'') (ok_or catalog_refused)) (\<lambda>version.
     and_then (and_then (row_text row ''catalog_hash'') (ok_or catalog_refused)) (\<lambda>hash.
     and_then (and_then (row_text row ''activated_event_id'') (ok_or catalog_refused)) (\<lambda>activated.
     and_then (row_text row ''approval_id'') (\<lambda>approval.
     and_then (row_text row ''previous_catalog_id'') (\<lambda>previous.
     and_then (row_version row ''previous_catalog_version'') (\<lambda>previous_version.
     Inr \<lparr>cc_catalog_id = cid, cc_catalog_version = version, cc_catalog_hash = hash,
           cc_activated_event_id = activated, cc_approval_id = approval,
           cc_approval_disposition = disposition, cc_previous_catalog_id = previous,
           cc_previous_catalog_version = previous_version\<rparr>))))))))"

definition catalog_from_fact_record ::
  "RuntimeFactRecord \<Rightarrow> (SanitizationError, ConfigCatalog) result" where
  "catalog_from_fact_record r =
     (case rf_value r of
        FvRecordList rows \<Rightarrow>
          (case rows of [row] \<Rightarrow> catalog_from_row row | _ \<Rightarrow> Inl catalog_refused)
      | _ \<Rightarrow> Inl catalog_refused)"

end
