(* ===== verification/Fact_Properties.thy ===== *)
theory Fact_Properties
  imports Fact_Store Config_Manifest
begin

text \<open>
  The properties of the Runtime's facts: the store over every sequence of operations, the
  convergence of recording, sealing and rebuilding, family invalidation, the search for the
  newest complete image, and the records the configuration manifest and the active catalog
  are written as.
\<close>

section \<open>The configuration facts\<close>

lemma ascii_eq [simp]: "ascii s = ascii t \<longleftrightarrow> s = t"
  by (auto simp: ascii_def inj_map_eq_map[OF inj_of_char])

lemma ascii_Nil: "ascii s = [] \<longleftrightarrow> s = []"
  by (simp add: ascii_def)

lemmas key_eval = validate_runtime_fact_key_def ascii_def str_len_def utf8_width_def
  char_is_control_def char_is_whitespace_def MAX_RUNTIME_FACT_KEY_BYTES_def
  RUNTIME_FACT_FAMILIES_def starts_with_def

lemma parse_decimal: "n < 2 ^ 64 \<Longrightarrow> parse_digits 0 (decimal n @ s) = parse_digits n s"
proof (induction n arbitrary: s rule: decimal.induct)
  case (1 n)
  show ?case
  proof (cases "n < 10")
    case False
    with 1 have "parse_digits 0 (decimal (n div 10) @ (48 + n mod 10) # s)
        = parse_digits (n div 10) ((48 + n mod 10) # s)" by simp
    moreover have "n mod 10 \<le> 9" by presburger
    ultimately show ?thesis using False 1(2) by (simp add: decimal.simps[of n])
  qed (simp add: decimal.simps[of n])
qed

lemma decimal_head: "\<exists>c s. decimal n = c # s \<and> 48 \<le> c"
proof (induction n rule: decimal.induct)
  case (1 n)
  then show ?case by (cases "n < 10") (auto simp: decimal.simps[of n])
qed

lemma u64_parse_to_string [simp]: "u64_parse (u64_to_string n) = Some n"
proof -
  have "unat n < 2 ^ 64" using unsigned_less[of n] by simp
  then have "parse_digits 0 (decimal (unat n)) = Some (unat n)"
    using parse_decimal[of "unat n" "[]"] by simp
  with decimal_head[of "unat n"] show ?thesis by (auto simp: u64_parse_def u64_to_string_def)
qed

lemma length_bt_from: "length (bt_from kvs) \<le> length kvs"
proof -
  have "length (fold (\<lambda>(k, v). bt_insert k v) kvs m) \<le> length m + length kvs"
    for m :: "('a, 'b) btree"
  proof (induction kvs arbitrary: m)
    case (Cons kv kvs)
    show ?case
      using Cons[of "bt_insert (fst kv) (snd kv) m"] length_bt_insert_le[of "fst kv" "snd kv" m]
      by (simp add: case_prod_unfold)
  qed simp
  from this[of "[]"] show ?thesis by (simp add: bt_from_def)
qed

lemma length_add_values:
  "length (fold add_outcome_value kvs row) \<le> length row + length kvs"
proof (induction kvs arbitrary: row)
  case (Cons kv kvs)
  have "length (add_outcome_value kv row) \<le> Suc (length row)"
    by (auto simp: add_outcome_value_def bt_or_insert_def length_bt_insert_le split: option.splits)
  then show ?case using Cons[of "add_outcome_value kv row"] by simp
qed simp

lemma length_subsystem_row: "length (subsystem_row c) \<le> 4 + length (oc_values (cs_outcome c))"
proof -
  let ?row = "bt_from [(ascii ''name'', ScString (cs_name c)),
    (ascii ''enabled'', ScBoolean (cs_enabled c)),
    (ascii ''code'', ScString (oc_code (cs_outcome c)))]"
  have "length (fold add_outcome_value (oc_values (cs_outcome c)) ?row)
      \<le> 3 + length (oc_values (cs_outcome c))"
    using length_bt_from[of "[(ascii ''name'', ScString (cs_name c)),
      (ascii ''enabled'', ScBoolean (cs_enabled c)),
      (ascii ''code'', ScString (oc_code (cs_outcome c)))]"]
      length_add_values[of "oc_values (cs_outcome c)" ?row] by simp
  then show ?thesis
    using length_bt_insert_le[of CONFIG_SUBSYSTEM_IGNORED_VARIABLES_FIELD
        "ScString (join_comma (noted_variables (cs_outcome c)))"
        "fold add_outcome_value (oc_values (cs_outcome c)) ?row"]
    by (simp add: subsystem_row_def Let_def)
qed

lemma validate_parameters_section:
  "validate_parameters counts ps = Inr () \<Longrightarrow>
     \<exists>q\<in>set ps. config_parameter_section (cp_key q) = sec \<Longrightarrow>
     validate_runtime_fact_key (config_parameters_fact_key sec) = Inr ()
     \<and> (case bt_get counts sec of None \<Rightarrow> 0 | Some n \<Rightarrow> n)
        + length (filter (\<lambda>q. config_parameter_section (cp_key q) = sec) ps)
        \<le> MAX_CONFIG_MANIFEST_PARAMETERS"
proof (induction ps arbitrary: counts)
  case (Cons q ps)
  let ?q = "config_parameter_section (cp_key q)"
  let ?n = "(case bt_get counts ?q of None \<Rightarrow> 0 | Some n \<Rightarrow> n) + 1"
  from Cons.prems(1) have v: "validate_parameters (bt_insert ?q ?n counts) ps = Inr ()"
    and key: "validate_runtime_fact_key (config_parameters_fact_key ?q) = Inr ()"
    and n: "?n \<le> MAX_CONFIG_MANIFEST_PARAMETERS"
    by (auto simp: Let_def is_ok_iff split: if_splits)
  show ?case
  proof (cases "\<exists>r\<in>set ps. config_parameter_section (cp_key r) = sec")
    case True
    with Cons.IH[OF v] show ?thesis by (auto split: option.splits)
  next
    case False
    with Cons.prems(2) have "?q = sec" by simp
    moreover have "filter (\<lambda>q. config_parameter_section (cp_key q) = sec) ps = []"
      using False by (simp add: filter_empty_conv)
    ultimately show ?thesis using key n by simp
  qed
qed simp

lemma parameter_sections_set:
  "set (parameter_sections m) = (\<lambda>p. config_parameter_section (cp_key p)) ` set (cm_parameters m)"
proof -
  have "fst ` set (fold (\<lambda>p. bt_insert (config_parameter_section (cp_key p)) ()) ps acc)
      = fst ` set acc \<union> (\<lambda>p. config_parameter_section (cp_key p)) ` set ps" for ps acc
    by (induction ps arbitrary: acc) auto
  from this[of "cm_parameters m" "[]"] show ?thesis by (simp add: parameter_sections_def)
qed

lemma manifest_validate_Inr:
  "manifest_validate m = Inr () \<longleftrightarrow>
     length (cm_subsystems m) \<le> MAX_CONFIG_MANIFEST_SUBSYSTEMS
     \<and> validate_subsystem_names (cm_subsystems m) = Inr ()
     \<and> validate_parameters [] (cm_parameters m) = Inr ()"
  by (auto simp: manifest_validate_def and_then_def split: sum.splits)

lemma section_record_valid:
  assumes "manifest_validate m = Inr ()" "sec \<in> set (parameter_sections m)"
  shows "fact_record_validate (parameter_section_fact_record m sec at src) = Inr ()"
proof -
  have "\<exists>q\<in>set (cm_parameters m). config_parameter_section (cp_key q) = sec"
    using assms(2) by (auto simp: parameter_sections_set)
  then have "validate_runtime_fact_key (config_parameters_fact_key sec) = Inr ()"
    "length (filter (\<lambda>q. config_parameter_section (cp_key q) = sec) (cm_parameters m)) \<le> 256"
    using validate_parameters_section[of "[]" "cm_parameters m" sec] assms(1)
    by (simp_all add: manifest_validate_Inr MAX_CONFIG_MANIFEST_PARAMETERS_def)
  moreover have "length (parameter_row p) \<le> 64" for p
    using length_bt_from[of "[(ascii ''key'', ScString (cp_key p)), (ascii ''value'', cp_value p),
      (ascii ''source'', ScString (parameter_source_as_str (cp_source p))),
      (ascii ''settable'', ScBoolean (cp_settable p))]"]
    by (simp add: parameter_row_def)
  ultimately show ?thesis
    by (auto simp: fact_record_validate_def parameter_section_fact_record_def
        record_list_too_large_def MAX_RUNTIME_FACT_RECORD_ROWS_def
        MAX_RUNTIME_FACT_RECORD_FIELDS_def list_ex_iff not_less)
qed

lemma subsystems_record_valid:
  assumes "manifest_validate m = Inr ()"
    and "\<forall>c\<in>set (cm_subsystems m). length (oc_values (cs_outcome c)) \<le> 60"
  shows "fact_record_validate (subsystems_fact_record m at src) = Inr ()"
proof -
  have "validate_runtime_fact_key CONFIG_SUBSYSTEMS_FACT_KEY = Inr ()"
    by (simp add: key_eval CONFIG_SUBSYSTEMS_FACT_KEY_def)
  moreover have "length (subsystem_row c) \<le> 64" if "c \<in> set (cm_subsystems m)" for c
    using that assms(2) length_subsystem_row[of c] by fastforce
  ultimately show ?thesis
    using assms(1)
    by (auto simp: fact_record_validate_def subsystems_fact_record_def manifest_validate_Inr
        record_list_too_large_def MAX_RUNTIME_FACT_RECORD_ROWS_def
        MAX_CONFIG_MANIFEST_SUBSYSTEMS_def
        MAX_RUNTIME_FACT_RECORD_FIELDS_def list_ex_iff not_less)
qed

lemma catalog_row_get:
  "bt_get (catalog_row c) (ascii ''catalog_id'') = Some (ScString (cc_catalog_id c))"
  "bt_get (catalog_row c) (ascii ''catalog_version'')
     = Some (ScString (u64_to_string (cc_catalog_version c)))"
  "bt_get (catalog_row c) (ascii ''catalog_hash'') = Some (ScString (cc_catalog_hash c))"
  "bt_get (catalog_row c) (ascii ''activated_event_id'') = Some (ScString (cc_activated_event_id c))"
  "bt_get (catalog_row c) (ascii ''approval_id'') = map_option ScString (cc_approval_id c)"
  "bt_get (catalog_row c) (ascii ''approval_disposition'')
     = map_option (ScString \<circ> disposition_as_str) (cc_approval_disposition c)"
  "bt_get (catalog_row c) (ascii ''previous_catalog_id'')
     = map_option ScString (cc_previous_catalog_id c)"
  "bt_get (catalog_row c) (ascii ''previous_catalog_version'')
     = map_option (ScString \<circ> u64_to_string) (cc_previous_catalog_version c)"
  by (simp_all add: catalog_row_def insert_present_def bt_from_def del: bt_insert.simps
      split: option.split)

lemma disposition_found:
  "find (\<lambda>d. disposition_as_str d = disposition_as_str e) [Approved, Rejected, Pinned, Revoked]
     = Some e"
  by (cases e) simp_all

lemma catalog_row_read:
  "row_text (catalog_row c) ''catalog_id'' = Inr (Some (cc_catalog_id c))"
  "row_version (catalog_row c) ''catalog_version'' = Inr (Some (cc_catalog_version c))"
  "row_text (catalog_row c) ''catalog_hash'' = Inr (Some (cc_catalog_hash c))"
  "row_text (catalog_row c) ''activated_event_id'' = Inr (Some (cc_activated_event_id c))"
  "row_text (catalog_row c) ''approval_id'' = Inr (cc_approval_id c)"
  "row_disposition (catalog_row c) = Inr (cc_approval_disposition c)"
  "row_text (catalog_row c) ''previous_catalog_id'' = Inr (cc_previous_catalog_id c)"
  "row_version (catalog_row c) ''previous_catalog_version'' = Inr (cc_previous_catalog_version c)"
  by (simp_all add: row_text_def row_version_def row_disposition_def catalog_row_get ok_or_def
      disposition_found del: find.simps split: option.split)

lemma catalog_roundtrip: "catalog_from_fact_record (catalog_to_fact_record c at src) = Inr c"
  by (simp add: catalog_from_fact_record_def catalog_to_fact_record_def one_row_fact_def
      catalog_from_row_def catalog_row_read ok_or_def)

section \<open>The keys of the loaded-package table\<close>

lemma prerequisite_prefix:
  "PACK_REGISTRY_PREREQUISITE_FACT_PREFIX = PACK_REGISTRY_FACT_PREFIX @ ascii ''prerequisite.''"
  by (simp add: PACK_REGISTRY_PREREQUISITE_FACT_PREFIX_def PACK_REGISTRY_FACT_PREFIX_def ascii_def)

lemma startup_key:
  "PACK_REGISTRY_STARTUP_FACT_KEY = PACK_REGISTRY_FACT_PREFIX @ ascii ''startup''"
  by (simp add: PACK_REGISTRY_STARTUP_FACT_KEY_def PACK_REGISTRY_FACT_PREFIX_def ascii_def)

lemma startup_not_prerequisite: "strip_prefix (ascii ''startup'') (ascii ''prerequisite.'') = None"
  by (simp add: strip_prefix_def starts_with_def ascii_def)

lemma package_id_text_registry:
  "package_id_text (PACK_REGISTRY_FACT_PREFIX @ t) =
     (case strip_prefix t (ascii ''prerequisite.'') of Some p \<Rightarrow> p | None \<Rightarrow> t)"
  by (simp add: package_id_text_def prerequisite_prefix split: option.split)

lemma pack_fact_key_Inr:
  "pack_fact_key entry = Inr key \<longleftrightarrow>
     pack_from_fact (pack_key_scope entry) key = Inr entry"
proof (cases entry)
  case (Procedure p)
  show ?thesis
    unfolding Procedure
    by (auto simp: pack_fact_key_def pack_from_fact_def package_id_text_registry strip_prefix_Some
        strip_prefix_None and_then_def ok_or_def split: sum.splits option.splits if_splits)
next
  case (Startup i)
  show ?thesis
    unfolding Startup
    by (auto simp: pack_fact_key_def pack_from_fact_def package_id_text_registry startup_key
        startup_not_prerequisite ascii_Nil strip_prefix_Some strip_prefix_None and_then_def ok_or_def
        split: sum.splits option.splits if_splits)
next
  case (Prerequisite p)
  show ?thesis
    unfolding Prerequisite
    by (auto simp: pack_fact_key_def pack_from_fact_def package_id_text_registry
        prerequisite_prefix strip_prefix_Some
        strip_prefix_None and_then_def ok_or_def split: sum.splits option.splits if_splits)
qed

section \<open>Properties of the store\<close>

text \<open>Two observations of one key and one of another, used by the witnesses.\<close>

definition ex_fact :: "InstanceId \<Rightarrow> string \<Rightarrow> u64 \<Rightarrow> RuntimeFactRecord" where
  "ex_fact i key at =
     \<lparr>rf_scope = ScopeInstance i, rf_key = ascii key, rf_value = FvBoolean True,
       rf_observed_at_unix_ms = at, rf_source = OmRuntime, rf_ttl_ms = None\<rparr>"

definition ex_store :: RuntimeFactStore where
  "ex_store = record_all [ex_fact (InstanceId [1]) ''device.a'' 5,
     ex_fact (InstanceId [1]) ''task.b'' 6] fact_store_new"

lemma ex_fact_valid:
  "fact_record_validate (ex_fact i ''device.a'' at) = Inr ()"
  "fact_record_validate (ex_fact i ''task.b'' at) = Inr ()"
  by (simp_all add: fact_record_validate_def ex_fact_def record_list_too_large_def key_eval)

lemma ex_less: "ascii ''device.a'' < ascii ''task.b''" "\<not> ascii ''task.b'' < ascii ''device.a''"
  by (simp_all add: ascii_def)

lemma ex_fact_key: "rf_scope (ex_fact i key at) = ScopeInstance i" "rf_key (ex_fact i key at) = ascii key"
  by (simp_all add: ex_fact_def)

lemma ex_store_eq:
  "ex_store = \<lparr>rs_active =
     [((ScopeInstance (InstanceId [1]), ascii ''device.a''), ex_fact (InstanceId [1]) ''device.a'' 5),
      ((ScopeInstance (InstanceId [1]), ascii ''task.b''), ex_fact (InstanceId [1]) ''task.b'' 6)]\<rparr>"
  by (simp add: ex_store_def record_all_def fact_store_new_def record_fact_def ex_fact_valid map_err_def
      MAX_RUNTIME_FACTS_def key_of_def ex_fact_key less_prod_def ex_less)

lemma record_all_reachable: "fact_reachable s \<Longrightarrow> fact_reachable (record_all rs s)"
proof (induction rs arbitrary: s)
  case (Cons r rs)
  have "fact_step s (snd (record_fact r s))" by (rule step_record[OF prod.collapse[symmetric]])
  with Cons show ?case by (simp add: record_all_def fact_reachable.intros(2))
qed (simp add: record_all_def)

lemma ex_store_reachable: "fact_reachable ex_store"
  unfolding ex_store_def by (rule record_all_reachable) (rule fact_reachable.intros(1))

text \<open>C11. After any sequence of records, invalidations and replays, the fact store holds its
  records once each and in scope and key order, every record is filed under its own scope and
  key and passes the contract's validation, and there are at most \<open>MAX_RUNTIME_FACTS\<close> of them.\<close>

theorem fact_store_invariant:
  assumes "fact_reachable s"
  shows "sorted_wrt (<) (map fst (rs_active s))
    \<and> (\<forall>(k, r)\<in>set (rs_active s).
          k = (rf_scope r, rf_key r) \<and> fact_record_validate r = Inr ())
    \<and> store_len s \<le> 16384"
  using fact_reachable_ok[OF assms]
  by (auto simp: store_ok_def bt_wf_def entry_ok_def key_of_def store_len_def
      MAX_RUNTIME_FACTS_def)

theorem fact_store_invariant_witness:
  "sorted_wrt (<) (map fst (rs_active ex_store)) \<and> store_len ex_store \<le> 16384
   \<and> store_len ex_store = 2"
  using fact_store_invariant[OF ex_store_reachable]
  by (simp add: store_len_def ex_store_eq ex_fact_key ex_less)

text \<open>C10. Recording converges: as long as the store has room, the result of recording a batch
  depends only on the set of its records (not on their order or on repetitions), provided no
  two of them claim one key at one millisecond with different contents; and afterwards no
  valid record of the batch is newer than what the store holds under its key, so a late writer
  never rolls a value back.\<close>

theorem fact_recording_converges:
  assumes "fact_reachable s" and "set rs = set qs"
    and "\<forall>a\<in>set rs. \<forall>b\<in>set rs. comparable a b"
    and "store_len s + length rs \<le> MAX_RUNTIME_FACTS" "store_len s + length qs \<le> MAX_RUNTIME_FACTS"
  shows "record_all rs s = record_all qs s
    \<and> (\<forall>r\<in>set rs. fact_record_validate r = Inr () \<longrightarrow>
      (\<exists>e. get_fact (rf_scope r) (rf_key r) (record_all rs s) = Some e
         \<and> rf_observed_at_unix_ms r \<le> rf_observed_at_unix_ms e))"
proof (intro conjI)
  note ok = fact_reachable_ok[OF assms(1)]
  note rs = record_all_observes[OF ok assms(4)[unfolded store_len_def]]
  note qs = record_all_observes[OF ok assms(5)[unfolded store_len_def]]
  have "fold observe rs (bt_get (rs_active s)) = fold observe qs (bt_get (rs_active s))"
    by (rule obs.fold_set) (use assms(2,3) in auto)
  with rs qs show "record_all rs s = record_all qs s" by (intro store_eqI) auto
  show "\<forall>r\<in>set rs. fact_record_validate r = Inr () \<longrightarrow>
      (\<exists>e. get_fact (rf_scope r) (rf_key r) (record_all rs s) = Some e
         \<and> rf_observed_at_unix_ms r \<le> rf_observed_at_unix_ms e)"
    using rs observe_newest unfolding get_fact_def key_of_def by auto
qed

lemma ex_comparable:
  "comparable a b" if "a \<in> set [ex_fact i ''device.a'' 5, ex_fact i ''device.a'' 7]"
    "b \<in> set [ex_fact i ''device.a'' 5, ex_fact i ''device.a'' 7]"
  using that by (auto simp: comparable_def ex_fact_def)

theorem fact_recording_converges_witness:
  "record_all [ex_fact (InstanceId [2]) ''device.a'' 5, ex_fact (InstanceId [2]) ''device.a'' 7] ex_store
   = record_all [ex_fact (InstanceId [2]) ''device.a'' 7, ex_fact (InstanceId [2]) ''device.a'' 5] ex_store"
  by (rule fact_recording_converges[OF ex_store_reachable, THEN conjunct1])
    (auto simp: store_len_def ex_store_eq MAX_RUNTIME_FACTS_def intro: ex_comparable)

text \<open>C12. A sealed image of a reachable store passes the snapshot validation and rebuilds exactly
  that store in any other one, reporting its number of records; so a restart that replays the
  image starts where the sealed store stood.\<close>

theorem sealed_image_rebuilds:
  assumes "fact_reachable s" "ledger_position \<noteq> 0"
  shows "snapshot_validate (snapshot ledger_position at s) = Inr ()
    \<and> replay (snapshot ledger_position at s) t = (Inr (store_len s), s)"
  using replay_snapshot[OF fact_reachable_ok[OF assms(1)] assms(2)] by simp_all

theorem sealed_image_rebuilds_witness:
  "replay (snapshot 9 100 ex_store) fact_store_new = (Inr 2, ex_store) \<and> ex_store \<noteq> fact_store_new"
  using sealed_image_rebuilds[OF ex_store_reachable, of 9 100 fact_store_new]
  by (simp add: store_len_def ex_store_eq fact_store_new_def)

text \<open>C14. A family invalidation drops exactly the records of its instance whose key starts with
  one of the families, reports each of them once in key order, and leaves every other record
  as it was.\<close>

theorem invalidate_instance_exact:
  assumes "fact_reachable s" "invalidate_instance i families reason at s = (dropped, s')"
  shows "get_fact scope key s' =
      (if scope = ScopeInstance i \<and> (\<exists>family\<in>set families. starts_with key family) then None
       else get_fact scope key s)
    \<and> map (\<lambda>d. (fi_scope d, fi_key d)) dropped =
      filter (\<lambda>k. fst k = ScopeInstance i \<and> (\<exists>family\<in>set families. starts_with (snd k) family))
        (map fst (rs_active s))"
proof (rule conjI)
  have wf: "bt_wf (rs_active s)" using fact_reachable_ok[OF assms(1)] by (simp add: store_ok_def)
  note keys = family_keys_exact[OF wf, of i families]
  from assms(2) have d: "dropped = map (\<lambda>key. \<lparr>fi_scope = ScopeInstance i, fi_key = key,
      fi_reason = reason, fi_at_unix_ms = at\<rparr>) (family_keys i families s)"
    and s': "rs_active s' = fold (\<lambda>key m. bt_remove (ScopeInstance i, key) m)
      (family_keys i families s) (rs_active s)"
    by (auto simp: invalidate_instance_def Let_def)
  show "map (\<lambda>d. (fi_scope d, fi_key d)) dropped =
      filter (\<lambda>k. fst k = ScopeInstance i \<and> (\<exists>family\<in>set families. starts_with (snd k) family))
        (map fst (rs_active s))"
    using keys unfolding d by (simp add: comp_def in_family_def[abs_def])
  have "bt_get (rs_active s') k = (if in_family i families k then None else bt_get (rs_active s) k)" for k
  proof -
    have "bt_get (rs_active s') k
      = (if k \<in> Pair (ScopeInstance i) ` set (family_keys i families s) then None
         else bt_get (rs_active s) k)"
      unfolding s' by (rule get_fold_remove)
    moreover have "Pair (ScopeInstance i) ` set (family_keys i families s)
      = {k \<in> fst ` set (rs_active s). in_family i families k}"
      using arg_cong[OF keys, of set] by simp
    ultimately show ?thesis
      using map_of_eq_None_iff[of "rs_active s" k] by auto
  qed
  then show "get_fact scope key s' =
      (if scope = ScopeInstance i \<and> (\<exists>family\<in>set families. starts_with key family) then None
       else get_fact scope key s)"
    by (auto simp: get_fact_def in_family_def)
qed

theorem invalidate_instance_exact_witness:
  "\<exists>dropped s'.
     invalidate_instance (InstanceId [1]) [ascii ''device.''] RuntimeTakeover 9 ex_store = (dropped, s')
     \<and> get_fact (ScopeInstance (InstanceId [1])) (ascii ''device.a'') s' = None
     \<and> get_fact (ScopeInstance (InstanceId [1])) (ascii ''task.b'') s'
        = Some (ex_fact (InstanceId [1]) ''task.b'' 6)
     \<and> length dropped = 1"
proof -
  obtain dropped s' where r:
    "invalidate_instance (InstanceId [1]) [ascii ''device.''] RuntimeTakeover 9 ex_store = (dropped, s')"
    by (metis surj_pair)
  have p: "starts_with (ascii ''device.a'') (ascii ''device.'')"
    "\<not> starts_with (ascii ''task.b'') (ascii ''device.'')"
    by (simp_all add: starts_with_def ascii_def)
  note exact = invalidate_instance_exact[OF ex_store_reachable r]
  have "length (map (\<lambda>d. (fi_scope d, fi_key d)) dropped) = 1"
    unfolding exact[THEN conjunct2] by (simp add: ex_store_eq p)
  with r exact[of "ScopeInstance (InstanceId [1])" "ascii ''device.a''"]
    exact[of "ScopeInstance (InstanceId [1])" "ascii ''task.b''"]
  show ?thesis by (auto simp: p get_fact_def ex_store_eq)
qed

text \<open>C13. The search over the sealed parts of a ledger, newest first, returns the newest complete
  set: where the parts \<open>n\<close> down to 1 of one image of \<open>n\<close> parts first follow each other, in part
  order. It reads nothing older than that set, so a later read error cannot change the answer;
  when there is no complete set it returns none, or the first read error.\<close>

theorem newest_complete_set_found:
  assumes "\<forall>x\<in>set xs. fs_part (snd x) \<noteq> 0 \<and> fs_part (snd x) \<le> fs_parts (snd x)"
    and "rest = [] \<or> (\<exists>err r. rest = Inl err # r)"
  shows "case newest_set xs of
      Some parts \<Rightarrow> \<exists>skipped. newest_complete_runtime_fact_snapshot_set (map Inr xs @ rest)
        = Inr \<lparr>fss_set = Some parts, fss_skipped = skipped\<rparr>
    | None \<Rightarrow>
        (case rest of
           Inl err # _ \<Rightarrow> newest_complete_runtime_fact_snapshot_set (map Inr xs @ rest) = Inl err
         | _ \<Rightarrow> \<exists>skipped. newest_complete_runtime_fact_snapshot_set (map Inr xs @ rest)
             = Inr \<lparr>fss_set = None, fss_skipped = skipped\<rparr>)"
  using newest_complete_finds[of rest xs] assms by (simp add: finds_def stops_def part_ok_def)

definition ex_part :: "u64 \<Rightarrow> u16 \<Rightarrow> u16 \<Rightarrow> sealed" where
  "ex_part img part parts =
     (img, \<lparr>fs_schema_version = RUNTIME_FACT_SCHEMA_VERSION, fs_ledger_position = img,
       fs_taken_at_unix_ms = 1, fs_snapshot_id = img, fs_part = part, fs_parts = parts,
       fs_records = []\<rparr>)"

text \<open>A stop while image 8 was sealed: its part 1 of 2 is skipped, and image 7 is returned even
  though the ledger cannot be read further back.\<close>

theorem newest_complete_set_found_witness:
  "\<exists>skipped. newest_complete_runtime_fact_snapshot_set
       (map Inr [ex_part 8 1 2, ex_part 7 2 2, ex_part 7 1 2] @ [Inl (404::nat)])
     = Inr \<lparr>fss_set = Some [ex_part 7 1 2, ex_part 7 2 2], fss_skipped = skipped\<rparr>"
proof -
  have "newest_set [ex_part 8 1 2, ex_part 7 2 2, ex_part 7 1 2] = Some [ex_part 7 1 2, ex_part 7 2 2]"
    by (auto simp: set_at_def is_part_def ex_part_def Let_def less_2_cases_iff)
  moreover have "\<forall>x\<in>set [ex_part 8 1 2, ex_part 7 2 2, ex_part 7 1 2].
      fs_part (snd x) \<noteq> 0 \<and> fs_part (snd x) \<le> fs_parts (snd x)"
    by (simp add: ex_part_def)
  ultimately show ?thesis
    using newest_complete_set_found[of "[ex_part 8 1 2, ex_part 7 2 2, ex_part 7 1 2]" "[Inl (404::nat)]"]
    by (simp del: newest_set.simps)
qed

section \<open>Properties of the contract\<close>

text \<open>C15. The key of a loaded-package entry and its reader are inverse: the reader of an entry's
  scope accepts a key and returns that entry exactly when the entry writes that key, so two
  entries of one scope never share a key and a key never reads back as another entry.\<close>

theorem pack_registry_key_roundtrip:
  "pack_fact_key entry = Inr key \<longleftrightarrow> pack_from_fact (pack_key_scope entry) key = Inr entry"
  by (rule pack_fact_key_Inr)

text \<open>C16. The \<open>config.catalog\<close> fact is read back as the catalog generation it was written of.\<close>

theorem catalog_fact_roundtrip:
  "catalog_from_fact_record (catalog_to_fact_record c at src) = Inr c"
  by (rule catalog_roundtrip)

text \<open>C17. A manifest that passes its validation yields one fact per parameter section, and every
  one of these records passes the validation of a fact record; so does its subsystem record,
  as long as no outcome of a subsystem carries more than sixty values.\<close>

theorem manifest_records_valid:
  assumes "manifest_validate m = Inr ()"
  shows "(\<forall>r\<in>set (parameter_fact_records m at src). fact_record_validate r = Inr ())
    \<and> ((\<forall>c\<in>set (cm_subsystems m). length (oc_values (cs_outcome c)) \<le> 60) \<longrightarrow>
      fact_record_validate (subsystems_fact_record m at src) = Inr ())"
  using section_record_valid[OF assms] subsystems_record_valid[OF assms]
  by (auto simp: parameter_fact_records_def)

definition ex_manifest :: "(str \<times> json) list \<Rightarrow> RuntimeConfigManifest" where
  "ex_manifest values =
     \<lparr>cm_subsystems = [\<lparr>cs_name = ascii ''a'', cs_enabled = True,
        cs_outcome = Outcome (ascii ''ok'') CatInfo values [] None\<rparr>],
       cm_parameters = [\<lparr>cp_key = ascii ''b.c'', cp_value = ScBoolean True,
        cp_source = SrcDefault, cp_settable = True\<rparr>]\<rparr>"

lemma ex_manifest_valid: "manifest_validate (ex_manifest values) = Inr ()"
  by (simp add: manifest_validate_def ex_manifest_def MAX_CONFIG_MANIFEST_SUBSYSTEMS_def
      MAX_CONFIG_MANIFEST_NAME_BYTES_def MAX_CONFIG_MANIFEST_PARAMETERS_def manifest_text_ok_def
      config_parameter_section_def config_parameters_fact_key_def
      CONFIG_PARAMETERS_FACT_PREFIX_def key_eval Let_def)

theorem manifest_records_valid_witness:
  "list_all (\<lambda>r. fact_record_validate r = Inr ()) (parameter_fact_records (ex_manifest []) 1 OmRuntime)
   \<and> fact_record_validate (subsystems_fact_record (ex_manifest []) 1 OmRuntime) = Inr ()"
  using manifest_records_valid[OF ex_manifest_valid[of "[]"], of 1 OmRuntime]
  by (simp add: list_all_iff) (simp add: ex_manifest_def)

lemma length_flags:
  "distinct ns \<Longrightarrow> bt_wf row \<Longrightarrow> \<forall>n\<in>set ns. [n] \<notin> fst ` set row \<Longrightarrow>
     length (fold add_outcome_value (map (\<lambda>n. ([n], JsonBool True)) ns) row) = length row + length ns"
proof (induction ns arbitrary: row)
  case (Cons n ns)
  let ?row = "bt_insert [n] (ScBoolean True) row"
  have "bt_get row [n] = None" using Cons.prems(3) by (simp add: map_of_eq_None_iff)
  then have "add_outcome_value ([n], JsonBool True) row = ?row"
    by (simp add: add_outcome_value_def bt_or_insert_def)
  moreover have "\<forall>m\<in>set ns. [m] \<notin> fst ` set ?row" using Cons.prems by auto
  then have "length (fold add_outcome_value (map (\<lambda>n. ([n], JsonBool True)) ns) ?row)
      = length ?row + length ns"
    using Cons.IH[of ?row] Cons.prems by simp
  ultimately show ?case using Cons.prems by (simp add: length_bt_insert)
qed simp

text \<open>C18. The bound of sixty values is needed: a manifest with one subsystem whose outcome carries
  sixty-two values passes its validation, and its subsystem record is refused as too large.\<close>

theorem manifest_subsystems_record_refused:
  "manifest_validate (ex_manifest (map (\<lambda>n. ([n], JsonBool True)) [200..<262])) = Inr ()
   \<and> fact_record_validate
       (subsystems_fact_record (ex_manifest (map (\<lambda>n. ([n], JsonBool True)) [200..<262])) at src)
     = Inl (refusal ''runtime_fact_record_list_too_large'' ''value'')"
proof -
  let ?row = "bt_from [(ascii ''name'', ScString (ascii ''a'')), (ascii ''enabled'', ScBoolean True),
    (ascii ''code'', ScString (ascii ''ok''))]"
  have row: "bt_wf ?row" "fst ` set ?row = {ascii ''name'', ascii ''enabled'', ascii ''code''}"
    "length ?row = 3"
    by (auto simp: bt_from_def bt_wf_Cons length_bt_insert ascii_def)
  have "length (subsystem_row \<lparr>cs_name = ascii ''a'', cs_enabled = True,
      cs_outcome = Outcome (ascii ''ok'') CatInfo (map (\<lambda>n. ([n], JsonBool True)) [200..<262]) [] None\<rparr>)
      = 65"
    using length_flags[of "[200..<262]" ?row] row
    by (simp add: subsystem_row_def Let_def noted_variables_def ascii_def)
  moreover have "validate_runtime_fact_key CONFIG_SUBSYSTEMS_FACT_KEY = Inr ()"
    by (simp add: key_eval CONFIG_SUBSYSTEMS_FACT_KEY_def)
  ultimately show ?thesis
    by (simp add: ex_manifest_valid fact_record_validate_def subsystems_fact_record_def)
      (simp add: ex_manifest_def record_list_too_large_def MAX_RUNTIME_FACT_RECORD_FIELDS_def
        MAX_RUNTIME_FACT_RECORD_ROWS_def)
qed

end
