(* ===== verification/Rust_Int.thy ===== *)
theory Rust_Int
  imports Prelude "HOL-Library.Signed_Division"
begin

text \<open>
  Signed integers of the source. An \<open>i64\<close> is a 64-bit word read with \<open>sint\<close>; an \<open>i128\<close> is an
  integer, which is faithful as long as every intermediate value stays within 128 bits. The
  functions here are the conversions between the two and the division \<open>/\<close>, which truncates
  towards zero.
\<close>

named_theorems i64_simps \<open>signed reading of 64-bit words\<close>

definition i64_try_from :: "int \<Rightarrow> i64 option" where
  "i64_try_from n = (if - (2 ^ 63) \<le> n \<and> n < 2 ^ 63 then Some (word_of_int n) else None)"

definition i64_try_from_u64 :: "u64 \<Rightarrow> i64 option" where
  "i64_try_from_u64 n = (if unat n < 2 ^ 63 then Some n else None)"

definition unsigned_abs :: "i64 \<Rightarrow> u64" where
  "unsigned_abs a = of_int \<bar>sint a\<bar>"

definition in_i128 :: "int \<Rightarrow> bool" where
  "in_i128 n \<longleftrightarrow> - (2 ^ 127) \<le> n \<and> n < 2 ^ 127"

lemma sint_i64_bounds: "- (2 ^ 63) \<le> sint (a :: i64)" "sint (a :: i64) < 2 ^ 63"
  using sint_ge[of a] sint_less[of a] by simp_all

lemma sint_i64_abs: "\<bar>sint (a :: i64)\<bar> \<le> 2 ^ 63"
  using sint_i64_bounds[of a] by linarith

lemma sint_word_of_int_i64:
  "- (2 ^ 63) \<le> n \<Longrightarrow> n < 2 ^ 63 \<Longrightarrow> sint (word_of_int n :: i64) = n"
  by (simp add: sint_sbintrunc' signed_take_bit_int_eq_self)

lemma i64_try_from_Some: "i64_try_from n = Some a \<longleftrightarrow> sint a = n"
  using sint_i64_bounds[of a] sint_word_of_int_i64[of n]
  by (auto simp: i64_try_from_def split: if_splits)

lemma i64_try_from_None: "i64_try_from n = None \<longleftrightarrow> n < - (2 ^ 63) \<or> 2 ^ 63 \<le> n"
  by (auto simp: i64_try_from_def)

lemma i64_try_from_sint [simp]: "i64_try_from (sint a) = Some a"
  by (simp add: i64_try_from_Some)

lemma sint_i64_inject: "sint (a :: i64) = sint b \<longleftrightarrow> a = b"
  by (metis i64_try_from_Some option.inject)

text \<open>The contribution of a term, \<open>output * weight / 1000\<close>, is monotone in the output for a
  weight of one sign.\<close>

lemma sdiv_pos: "0 \<le> a \<Longrightarrow> 0 < (b :: int) \<Longrightarrow> a sdiv b = a div b"
  by (simp add: signed_divide_int_def sgn_if)

lemma sdiv_neg: "a \<le> 0 \<Longrightarrow> 0 < (b :: int) \<Longrightarrow> a sdiv b = - ((- a) div b)"
  by (auto simp: signed_divide_int_def sgn_if)

lemma sdiv_mono: "a \<le> b \<Longrightarrow> 0 < (k :: int) \<Longrightarrow> a sdiv k \<le> b sdiv k"
proof (cases "0 \<le> a"; cases "0 \<le> b")
  assume "a \<le> b" "0 < k" "\<not> 0 \<le> a" "0 \<le> b"
  moreover from this have "0 \<le> (- a) div k" "0 \<le> b div k"
    by (simp_all add: pos_imp_zdiv_nonneg_iff)
  ultimately show ?thesis by (simp add: sdiv_pos sdiv_neg)
qed (auto simp: sdiv_pos sdiv_neg zdiv_mono1)

lemma sdiv_abs: "0 < k \<Longrightarrow> \<bar>a sdiv k\<bar> \<le> \<bar>a :: int\<bar>"
proof -
  assume k: "0 < k"
  have *: "0 \<le> n div k \<and> n div k \<le> n" if "0 \<le> n" for n :: int
    using that k zdiv_mono2[of n 1 k] by (simp add: pos_imp_zdiv_nonneg_iff)
  show ?thesis using *[of a] *[of "- a"] k by (cases "0 \<le> a") (auto simp: sdiv_pos sdiv_neg)
qed

end
