(* ===== verification/Selection_Schema.thy ===== *)
theory Selection_Schema
  imports Config_Manifest Rust_Int "HOL-Library.Option_ord"
begin

text \<open>
  The selection-policy document of \<open>crates/selection-policy/src/schema.rs\<close>: the declared fields,
  facts and tables, the hard gates, the scoring terms, the selection requirement and the
  tie-break keys, with the validation of a document. A refusal carries its code and its text.
  Maps and sets the source only looks up are ordered maps and lists.
\<close>

named_theorems selection_simps \<open>evaluation of selection documents\<close>

section \<open>Limits\<close>

definition SELECTION_POLICY_SCHEMA_VERSION :: str where
  "SELECTION_POLICY_SCHEMA_VERSION = ascii ''actingcommand.selection-policy.v1''"

definition MAX_CANDIDATES :: nat where "MAX_CANDIDATES = 4096"

definition MAX_FIELDS :: nat where "MAX_FIELDS = 128"

definition MAX_FACTS :: nat where "MAX_FACTS = 128"

definition MAX_GATES :: nat where "MAX_GATES = 128"

definition MAX_SCORING_TERMS :: nat where "MAX_SCORING_TERMS = 512"

definition MAX_TIE_BREAK_KEYS :: nat where "MAX_TIE_BREAK_KEYS = 16"

definition MAX_LOOKUP_ENTRIES :: nat where "MAX_LOOKUP_ENTRIES = 512"

definition MAX_PREDICATE_DEPTH :: nat where "MAX_PREDICATE_DEPTH = 16"

definition MAX_PREDICATE_NODES :: nat where "MAX_PREDICATE_NODES = 512"

definition MAX_ID_BYTES :: nat where "MAX_ID_BYTES = 128"

definition MAX_ENUM_VALUES :: nat where "MAX_ENUM_VALUES = 1024"

definition MAX_RECORD_LIST_COLUMNS :: nat where "MAX_RECORD_LIST_COLUMNS = 63"

definition MAX_TABLES :: nat where "MAX_TABLES = 8"

definition MAX_TABLE_PINS :: nat where "MAX_TABLE_PINS = 7"

definition MAX_INTEGER_COMPARE_MUL :: u64 where "MAX_INTEGER_COMPARE_MUL = 1000000"

definition MAX_INTEGER_COMPARE_ADD :: u64 where "MAX_INTEGER_COMPARE_ADD = 2 ^ 53 - 1"

lemmas selection_limits [selection_simps] =
  MAX_CANDIDATES_def MAX_FIELDS_def MAX_FACTS_def MAX_GATES_def MAX_SCORING_TERMS_def
  MAX_TIE_BREAK_KEYS_def MAX_LOOKUP_ENTRIES_def MAX_PREDICATE_DEPTH_def MAX_PREDICATE_NODES_def
  MAX_ID_BYTES_def MAX_ENUM_VALUES_def MAX_RECORD_LIST_COLUMNS_def MAX_TABLES_def
  MAX_TABLE_PINS_def MAX_INTEGER_COMPARE_MUL_def MAX_INTEGER_COMPARE_ADD_def

text \<open>The reserved directory and the limits of a shared table, and the grammar of a table id or a
  column name (\<open>standard_pack_table.rs\<close>, \<open>standard_pack.rs\<close>).\<close>

definition STANDARD_PACK_TABLES_DIRECTORY :: str where
  "STANDARD_PACK_TABLES_DIRECTORY = ascii ''tables''"

definition MAX_STANDARD_PACK_TABLE_COLUMNS :: nat where
  "MAX_STANDARD_PACK_TABLE_COLUMNS = 32"

definition MAX_STANDARD_PACK_TABLE_ROW_KEY :: nat where
  "MAX_STANDARD_PACK_TABLE_ROW_KEY = 8"

definition MAX_STANDARD_PACK_PAGE_ID_BYTES :: nat where
  "MAX_STANDARD_PACK_PAGE_ID_BYTES = 64"

definition is_ascii_lowercase :: "nat \<Rightarrow> bool" where
  "is_ascii_lowercase c \<longleftrightarrow> 97 \<le> c \<and> c \<le> 122"

definition is_ascii_digit :: "nat \<Rightarrow> bool" where
  "is_ascii_digit c \<longleftrightarrow> 48 \<le> c \<and> c \<le> 57"

definition standard_pack_page_id :: "str \<Rightarrow> bool" where
  "standard_pack_page_id i \<longleftrightarrow>
     str_len i \<le> MAX_STANDARD_PACK_PAGE_ID_BYTES \<and>
     (case i of [] \<Rightarrow> False
      | first # rest \<Rightarrow>
          is_ascii_lowercase first
          \<and> list_all (\<lambda>c. is_ascii_lowercase c \<or> is_ascii_digit c \<or> c = 95) rest)"

definition standard_pack_table_id :: "str \<Rightarrow> bool" where
  "standard_pack_table_id i = standard_pack_page_id i"

definition is_rule_id :: "str \<Rightarrow> bool" where
  "is_rule_id i \<longleftrightarrow>
     i \<noteq> [] \<and> str_len i \<le> MAX_ID_BYTES
     \<and> list_all (\<lambda>c. is_ascii_lowercase c \<or> is_ascii_digit c \<or> c \<in> set (ascii ''_.:-'')) i"

section \<open>Errors\<close>

datatype SelectionErrorCode =
    SelArithmeticOverflow | SelDanglingReference | SelDocumentTooLarge | SelDuplicateId
  | SelDuplicateKey | SelFloatRejected | SelIntegerOutOfRange | SelInvalidArguments
  | SelInvalidJson | SelLimitExceeded | SelMissingRequiredField | SelReadFailed
  | SelTypeMismatch | SelUnsupportedSchemaVersion

fun selection_error_code :: "SelectionErrorCode \<Rightarrow> code" where
  "selection_error_code SelArithmeticOverflow = Code ''arithmetic_overflow'' CatError"
| "selection_error_code SelDanglingReference = Code ''dangling_reference'' CatError"
| "selection_error_code SelDocumentTooLarge = Code ''document_too_large'' CatError"
| "selection_error_code SelDuplicateId = Code ''duplicate_id'' CatError"
| "selection_error_code SelDuplicateKey = Code ''duplicate_key'' CatError"
| "selection_error_code SelFloatRejected = Code ''float_rejected'' CatError"
| "selection_error_code SelIntegerOutOfRange = Code ''integer_out_of_range'' CatError"
| "selection_error_code SelInvalidArguments = Code ''invalid_arguments'' CatError"
| "selection_error_code SelInvalidJson = Code ''invalid_json'' CatError"
| "selection_error_code SelLimitExceeded = Code ''limit_exceeded'' CatError"
| "selection_error_code SelMissingRequiredField = Code ''missing_required_field'' CatError"
| "selection_error_code SelReadFailed = Code ''read_failed'' CatError"
| "selection_error_code SelTypeMismatch = Code ''type_mismatch'' CatError"
| "selection_error_code SelUnsupportedSchemaVersion = Code ''unsupported_schema_version'' CatError"

datatype SelectionError = SelectionError (sel_code: SelectionErrorCode) (sel_detail: str)

text \<open>The texts of refusals are concatenations (\<open>format!\<close>).\<close>

definition refuse_with :: "SelectionErrorCode \<Rightarrow> str list \<Rightarrow> (SelectionError, 'a) result" where
  "refuse_with c parts = Inl (SelectionError c (concat parts))"

lemma refuse_with_simps [simp]:
  "refuse_with c ps \<noteq> Inr v" "Inr v \<noteq> refuse_with c ps" "and_then (refuse_with c ps) f = refuse_with c ps"
  by (simp_all add: refuse_with_def)

section \<open>Values and references\<close>

datatype ScalarValue = SvInteger i64 | SvBoolean bool | SvString str

text \<open>The derived order of \<open>ScalarValue\<close>: integers by their signed value, then booleans, then
  strings.\<close>

fun scalar_key :: "ScalarValue \<Rightarrow> nat \<times> int \<times> bool \<times> str" where
  "scalar_key (SvInteger i) = (0, sint i, False, [])"
| "scalar_key (SvBoolean b) = (1, 0, b, [])"
| "scalar_key (SvString s) = (2, 0, False, s)"

lemma scalar_key_inject [simp]: "scalar_key a = scalar_key b \<longleftrightarrow> a = b"
  by (cases a; cases b) (auto simp: sint_i64_inject)

instantiation ScalarValue :: linorder
begin

definition less_eq_ScalarValue :: "ScalarValue \<Rightarrow> ScalarValue \<Rightarrow> bool" where
  "a \<le> b \<longleftrightarrow> scalar_key a \<le> scalar_key b"

definition less_ScalarValue :: "ScalarValue \<Rightarrow> ScalarValue \<Rightarrow> bool" where
  "a < b \<longleftrightarrow> scalar_key a < scalar_key b"

instance
proof
  fix x y z :: ScalarValue
  show "x < y \<longleftrightarrow> x \<le> y \<and> \<not> y \<le> x" "x \<le> x" "x \<le> y \<or> y \<le> x"
    by (auto simp: less_eq_ScalarValue_def less_ScalarValue_def order_less_le)
  show "x \<le> y \<Longrightarrow> y \<le> z \<Longrightarrow> x \<le> z" "x \<le> y \<Longrightarrow> y \<le> x \<Longrightarrow> x = y"
    by (auto simp: less_eq_ScalarValue_def dest: order.antisym)
qed

end

datatype ValueType =
    VtInteger | VtBoolean | VtEnumString "str list"
  | VtRecordList str "(str \<times> ValueType) list"

fun scalar_matches :: "ScalarValue \<Rightarrow> ValueType \<Rightarrow> bool" where
  "scalar_matches (SvInteger _) VtInteger = True"
| "scalar_matches (SvBoolean _) VtBoolean = True"
| "scalar_matches (SvString v) (VtEnumString allowed) = (v \<in> set allowed)"
| "scalar_matches _ _ = False"

text \<open>Selects the rows of one kind: those whose enumerated column equals a value.\<close>

datatype RowFilter = RowFilter (rf_column: str) (rf_equals: str)

instantiation RowFilter :: linorder
begin

definition less_eq_RowFilter :: "RowFilter \<Rightarrow> RowFilter \<Rightarrow> bool" where
  "a \<le> b \<longleftrightarrow> (rf_column a, rf_equals a) \<le> (rf_column b, rf_equals b)"

definition less_RowFilter :: "RowFilter \<Rightarrow> RowFilter \<Rightarrow> bool" where
  "a < b \<longleftrightarrow> (rf_column a, rf_equals a) < (rf_column b, rf_equals b)"

instance
  by standard (auto simp: less_eq_RowFilter_def less_RowFilter_def RowFilter.expand)

end

record TablePinOtherwise =
  ow_equals :: "ScalarValue option"
  ow_equals_fact :: "str option"

record TablePin =
  tp_column :: str
  tp_equals :: "ScalarValue option"
  tp_equals_fact :: "str option"
  tp_otherwise :: "TablePinOtherwise option"

text \<open>Where a term or a predicate reads its value from: a candidate field, a scalar fact, the
  column of the row of a record list the candidate's key selects, or the column of the row of a
  shared table that the key and the pins select.\<close>

datatype ValueRef =
    VrField str
  | VrFact str
  | VrKeyedFact str str str "RowFilter option" ScalarValue
  | VrTable str str "TablePin list" str "str option" "ScalarValue option"

fun is_keyed_fact :: "ValueRef \<Rightarrow> bool" where
  "is_keyed_fact (VrKeyedFact _ _ _ _ _) = True"
| "is_keyed_fact _ = False"

fun is_table :: "ValueRef \<Rightarrow> bool" where
  "is_table (VrTable _ _ _ _ _ _) = True"
| "is_table _ = False"

fun same_table_row :: "ValueRef \<Rightarrow> ValueRef \<Rightarrow> bool" where
  "same_table_row (VrTable lt lk lp _ _ _) (VrTable rt rk rp _ _ _) =
     (lt = rt \<and> lk = rk \<and> length lp = length rp \<and> list_all (\<lambda>p. p \<in> set rp) lp)"
| "same_table_row _ _ = False"

fun declares_absent :: "ValueRef \<Rightarrow> bool" where
  "declares_absent (VrTable _ _ _ _ _ (Some _)) = True"
| "declares_absent _ = False"

fun declares_fallback :: "ValueRef \<Rightarrow> bool" where
  "declares_fallback (VrTable _ _ _ _ (Some _) _) = True"
| "declares_fallback _ = False"

section \<open>The document\<close>

record OutcomeKeys =
  ok_selected :: str
  ok_empty :: str
  ok_insufficient :: str
  ok_ambiguous :: str
  ok_unknown :: str

definition each :: "OutcomeKeys \<Rightarrow> str list" where
  "each k = [ok_selected k, ok_empty k, ok_insufficient k, ok_ambiguous k, ok_unknown k]"

record AppliesTo =
  at_candidate_layout_id :: str
  at_outcome_keys :: OutcomeKeys

record FieldDeclaration =
  fd_name :: str
  fd_value_type :: ValueType

record FactDeclaration =
  fc_fact_key :: str
  fc_value_type :: ValueType
  fc_max_age_ms :: u64
  fc_minimum_confidence_milli :: u16

record TableDeclaration =
  td_table_id :: str
  td_path :: str
  td_row_key :: "str list"
  td_columns :: "(str, ValueType) btree"

datatype LookupKey = LkInteger i64 | LkBoolean bool | LkString str

record LookupEntry =
  lu_key :: LookupKey
  lu_value_milli :: i64

datatype Transform =
    TfIdentity
  | TfThreshold i64 i64 i64
  | TfLookup "LookupEntry list" "i64 option"

datatype TermUnknownHandling = TermDropCandidate | TermAbortEvaluation | SubstituteMilli i64

datatype GateUnknownHandling = GateDropCandidate | GateAbortEvaluation | SubstituteVerdict bool

datatype IntegerCompareOp = CmpEq | CmpNe | CmpLt | CmpLe | CmpGt | CmpGe

text \<open>The comparison of a value test (\<open>taskflow.rs\<close>), which an \<open>integer_compare\<close> shares.\<close>

datatype ValueTestOp = VtoEq | VtoNe | VtoLt | VtoLe | VtoGt | VtoGe | VtoParses

fun value_test_holds :: "ValueTestOp \<Rightarrow> int \<Rightarrow> int \<Rightarrow> bool" where
  "value_test_holds VtoEq l r = (l = r)"
| "value_test_holds VtoNe l r = (l \<noteq> r)"
| "value_test_holds VtoLt l r = (l < r)"
| "value_test_holds VtoLe l r = (l \<le> r)"
| "value_test_holds VtoGt l r = (r < l)"
| "value_test_holds VtoGe l r = (r \<le> l)"
| "value_test_holds VtoParses l r = True"

definition compare_holds :: "IntegerCompareOp \<Rightarrow> int \<Rightarrow> int \<Rightarrow> bool" where
  "compare_holds c l r =
     value_test_holds
       (case c of CmpEq \<Rightarrow> VtoEq | CmpNe \<Rightarrow> VtoNe | CmpLt \<Rightarrow> VtoLt | CmpLe \<Rightarrow> VtoLe
        | CmpGt \<Rightarrow> VtoGt | CmpGe \<Rightarrow> VtoGe) l r"

datatype Predicate =
    IntegerAtLeast ValueRef i64
  | IntegerAtMost ValueRef i64
  | IntegerEquals ValueRef i64
  | BooleanEquals ValueRef bool
  | StringIn ValueRef "str list"
  | IntegerCompare ValueRef IntegerCompareOp ValueRef "u64 option" "i64 option"
  | PredAll "Predicate list"
  | PredAny "Predicate list"
  | PredNot Predicate

fun collect_values :: "Predicate \<Rightarrow> ValueRef list" where
  "collect_values (IntegerAtLeast v _) = [v]"
| "collect_values (IntegerAtMost v _) = [v]"
| "collect_values (IntegerEquals v _) = [v]"
| "collect_values (BooleanEquals v _) = [v]"
| "collect_values (StringIn v _) = [v]"
| "collect_values (IntegerCompare l _ r _ _) = [l, r]"
| "collect_values (PredAll ps) = concat (map collect_values ps)"
| "collect_values (PredAny ps) = concat (map collect_values ps)"
| "collect_values (PredNot p) = collect_values p"

definition reads_keyed_fact :: "Predicate \<Rightarrow> bool" where
  "reads_keyed_fact p = list_ex is_keyed_fact (collect_values p)"

definition reads_table :: "Predicate \<Rightarrow> bool" where
  "reads_table p = list_ex is_table (collect_values p)"

record HardGate =
  hg_gate_id :: str
  hg_predicate :: Predicate
  hg_on_unknown :: GateUnknownHandling

record ScoringTerm =
  sg_term_id :: str
  sg_value :: ValueRef
  sg_transform :: Transform
  sg_weight_milli :: i64
  sg_on_unknown :: TermUnknownHandling

datatype SelectionMode = TopK | ExactlyOne | NoneAllowed

record SelectionRequirement =
  sr_mode :: SelectionMode
  sr_required_count :: u32

datatype SortDirection = HighestFirst | LowestFirst

datatype TieBreakKey = TbValue ValueRef SortDirection | TbCandidateId SortDirection

record SelectionPolicy =
  sp_schema_version :: str
  sp_policy_id :: str
  sp_applies_to :: AppliesTo
  sp_fields :: "FieldDeclaration list"
  sp_facts :: "FactDeclaration list"
  sp_tables :: "TableDeclaration list"
  sp_gates :: "HardGate list"
  sp_scoring :: "ScoringTerm list"
  sp_selection :: SelectionRequirement
  sp_tie_break :: "TieBreakKey list"

end
