(* ===== verification/Selection_Validate.thy ===== *)
theory Selection_Validate
  imports Selection_Schema
begin

text \<open>
  The validation of a selection document (\<open>SelectionPolicy::validate\<close> and the checks it calls in
  \<open>crates/selection-policy/src/schema.rs\<close>), in the order the source makes the checks, and the
  questions other components ask of a document: its record lists, its tables and the values it
  reads.
\<close>

section \<open>Names, limits and types\<close>

definition check_id :: "str \<Rightarrow> string \<Rightarrow> (SelectionError, unit) result" where
  "check_id v label =
     (if v = [] then refuse_with SelMissingRequiredField [ascii label, ascii '' is empty'']
      else if MAX_ID_BYTES < str_len v
      then refuse_with SelLimitExceeded
             [ascii label, ascii '' exceeds '', decimal MAX_ID_BYTES, ascii '' bytes'']
      else Inr ())"

definition check_limit :: "nat \<Rightarrow> nat \<Rightarrow> str \<Rightarrow> (SelectionError, unit) result" where
  "check_limit actual limit label =
     (if limit < actual
      then refuse_with SelLimitExceeded
             [label, ascii '' holds '', decimal actual, ascii '' entries above the '',
              decimal limit, ascii '' limit'']
      else Inr ())"

fun check_enum_members :: "str list \<Rightarrow> str list \<Rightarrow> str \<Rightarrow> (SelectionError, unit) result" where
  "check_enum_members seen [] owner = Inr ()"
| "check_enum_members seen (m # ms) owner =
     and_then (check_id m ''enum_string member'') (\<lambda>_.
     if m \<in> set seen
     then refuse_with SelDuplicateId
            [ascii ''`'', owner, ascii ''` repeats enum_string member `'', m, ascii ''`'']
     else check_enum_members (m # seen) ms owner)"

fun check_value_type :: "ValueType \<Rightarrow> str \<Rightarrow> (SelectionError, unit) result"
  and check_columns :: "(str \<times> ValueType) list \<Rightarrow> str \<Rightarrow> str \<Rightarrow> (SelectionError, unit) result" where
  "check_value_type VtInteger owner = Inr ()"
| "check_value_type VtBoolean owner = Inr ()"
| "check_value_type (VtEnumString allowed) owner =
     and_then (check_limit (length allowed) MAX_ENUM_VALUES owner) (\<lambda>_.
     if allowed = []
     then refuse_with SelMissingRequiredField
            [ascii ''`'', owner, ascii ''` declares an empty enum_string'']
     else check_enum_members [] allowed owner)"
| "check_value_type (VtRecordList key_column columns) owner =
     and_then (check_id key_column ''key_column'') (\<lambda>_.
     and_then (check_limit (length columns) MAX_RECORD_LIST_COLUMNS owner) (\<lambda>_.
     check_columns columns key_column owner))"
| "check_columns [] key_column owner = Inr ()"
| "check_columns ((column, t) # columns) key_column owner =
     and_then (check_id column ''column name'') (\<lambda>_.
     if column = key_column
     then refuse_with SelDuplicateId
            [ascii ''fact='', owner, ascii '' column='', column, ascii '' key_column'']
     else if (case t of VtRecordList _ _ \<Rightarrow> True | _ \<Rightarrow> False)
     then refuse_with SelTypeMismatch
            [ascii ''fact='', owner, ascii '' column='', column, ascii '' value_type=record_list'']
     else and_then (check_value_type t owner) (\<lambda>_. check_columns columns key_column owner))"

definition is_record_list :: "ValueType \<Rightarrow> bool" where
  "is_record_list t = (case t of VtRecordList _ _ \<Rightarrow> True | _ \<Rightarrow> False)"

definition is_enum_string :: "ValueType \<Rightarrow> bool" where
  "is_enum_string t = (case t of VtEnumString _ \<Rightarrow> True | _ \<Rightarrow> False)"

fun same_scalar_kind :: "ValueType \<Rightarrow> ValueType \<Rightarrow> bool" where
  "same_scalar_kind VtInteger VtInteger = True"
| "same_scalar_kind VtBoolean VtBoolean = True"
| "same_scalar_kind (VtEnumString _) (VtEnumString _) = True"
| "same_scalar_kind _ _ = False"

section \<open>Tables\<close>

fun check_row_key :: "str list \<Rightarrow> str list \<Rightarrow> str \<Rightarrow> (SelectionError, unit) result" where
  "check_row_key seen [] table_id = Inr ()"
| "check_row_key seen (c # cs) table_id =
     (if \<not> standard_pack_table_id c
      then refuse_with SelInvalidArguments [ascii ''table='', table_id, ascii '' declaration=row_key'']
      else if c \<in> set seen
      then refuse_with SelDuplicateId [ascii ''table='', table_id, ascii '' declaration=row_key'']
      else check_row_key (c # seen) cs table_id)"

definition check_table_column ::
  "TableDeclaration \<Rightarrow> str \<times> ValueType \<Rightarrow> (SelectionError, unit) result" where
  "check_table_column d ct =
     (let refuse = (\<lambda>c member. refuse_with c
            [ascii ''table='', td_table_id d, ascii '' declaration='', ascii member]) in
      if \<not> standard_pack_table_id (fst ct) then refuse SelInvalidArguments ''column''
      else if td_row_key d \<noteq> [] \<and> hd (td_row_key d) = fst ct
      then refuse SelDuplicateId ''key_column''
      else if is_record_list (snd ct) then refuse SelTypeMismatch ''column''
      else check_value_type (snd ct) (td_table_id d))"

definition check_table_declaration :: "TableDeclaration \<Rightarrow> (SelectionError, unit) result" where
  "check_table_declaration d =
     (let refuse = (\<lambda>c member. refuse_with c
            [ascii ''table='', td_table_id d, ascii '' declaration='', ascii member]) in
      if \<not> standard_pack_table_id (td_table_id d) then refuse SelInvalidArguments ''table_id''
      else if td_path d \<noteq>
                concat [STANDARD_PACK_TABLES_DIRECTORY, ascii ''/'', td_table_id d, ascii ''.json'']
      then refuse SelInvalidArguments ''path''
      else if td_row_key d = [] then refuse SelInvalidArguments ''row_key''
      else
        and_then (check_limit (length (td_row_key d)) MAX_STANDARD_PACK_TABLE_ROW_KEY
                    (ascii ''row_key'')) (\<lambda>_.
        and_then (check_limit (length (td_columns d)) MAX_STANDARD_PACK_TABLE_COLUMNS
                    (ascii ''columns'')) (\<lambda>_.
        and_then (check_row_key [] (td_row_key d) (td_table_id d)) (\<lambda>_.
        and_then (try_for_each (check_table_column d) (td_columns d)) (\<lambda>_.
        if list_ex (\<lambda>c. bt_get (td_columns d) c = None) (drop 1 (td_row_key d))
        then refuse SelDanglingReference ''row_key''
        else Inr ())))))"

section \<open>References\<close>

record Scope =
  scp_fields :: "(str, ValueType) btree"
  scp_facts :: "(str, ValueType) btree"
  scp_tables :: "(str, TableDeclaration) btree"

definition scope_field :: "Scope \<Rightarrow> str \<Rightarrow> str \<Rightarrow> (SelectionError, ValueType) result" where
  "scope_field scope field owner =
     ok_or (SelectionError SelDanglingReference
              (concat [ascii ''`'', owner, ascii ''` reads undeclared field `'', field, ascii ''`'']))
       (bt_get (scp_fields scope) field)"

definition scope_fact :: "Scope \<Rightarrow> str \<Rightarrow> str \<Rightarrow> (SelectionError, ValueType) result" where
  "scope_fact scope fact_key owner =
     ok_or (SelectionError SelDanglingReference
              (concat [ascii ''`'', owner, ascii ''` reads undeclared fact `'', fact_key, ascii ''`'']))
       (bt_get (scp_facts scope) fact_key)"

definition check_pin_fact ::
  "Scope \<Rightarrow> str \<Rightarrow> ValueType \<Rightarrow> str \<Rightarrow> (SelectionError, unit) result" where
  "check_pin_fact scope fact_key column owner =
     and_then (scope_fact scope fact_key owner) (\<lambda>t.
     if (case (t, column) of
           (VtInteger, VtInteger) \<Rightarrow> True
         | (VtBoolean, VtBoolean) \<Rightarrow> True
         | (VtEnumString members, VtEnumString allowed) \<Rightarrow> list_all (\<lambda>m. m \<in> set allowed) members
         | _ \<Rightarrow> False)
     then Inr ()
     else refuse_with SelTypeMismatch
            [ascii ''owner='', owner, ascii '' fact='', fact_key, ascii '' table_read=pin_fact''])"

definition table_refuse ::
  "str \<Rightarrow> str \<Rightarrow> SelectionErrorCode \<Rightarrow> string \<Rightarrow> (SelectionError, 'a) result" where
  "table_refuse table_id owner c member =
     refuse_with c [ascii ''owner='', owner, ascii '' table='', table_id,
                    ascii '' table_read='', ascii member]"

definition keyed_refuse ::
  "str \<Rightarrow> str \<Rightarrow> SelectionErrorCode \<Rightarrow> string \<Rightarrow> (SelectionError, 'a) result" where
  "keyed_refuse fact_key owner c member =
     refuse_with c [ascii ''owner='', owner, ascii '' fact='', fact_key,
                    ascii '' keyed_fact='', ascii member]"

lemma table_refuse_simps [simp]:
  "table_refuse t w c m \<noteq> Inr v" "keyed_refuse t w c m \<noteq> Inr v"
  by (simp_all add: table_refuse_def keyed_refuse_def)

definition check_pin ::
  "Scope \<Rightarrow> TableDeclaration \<Rightarrow> str \<Rightarrow> TablePin \<Rightarrow> ValueType \<Rightarrow> (SelectionError, unit) result" where
  "check_pin scope table owner pin column =
     (case (tp_equals pin, tp_equals_fact pin, tp_otherwise pin) of
        (Some literal, None, None) \<Rightarrow>
          if scalar_matches literal column then Inr ()
          else table_refuse (td_table_id table) owner SelTypeMismatch ''pin_equals''
      | (None, Some fact_key, otherwise) \<Rightarrow>
          and_then (check_pin_fact scope fact_key column owner) (\<lambda>_.
          case otherwise of
            None \<Rightarrow> Inr ()
          | Some ow \<Rightarrow>
              (case (ow_equals ow, ow_equals_fact ow) of
                 (Some literal, None) \<Rightarrow>
                   if scalar_matches literal column then Inr ()
                   else table_refuse (td_table_id table) owner SelTypeMismatch ''otherwise''
               | (None, Some other) \<Rightarrow> check_pin_fact scope other column owner
               | _ \<Rightarrow> table_refuse (td_table_id table) owner SelInvalidArguments ''otherwise''))
      | _ \<Rightarrow> table_refuse (td_table_id table) owner SelInvalidArguments ''pin'')"

fun check_pin_list ::
  "Scope \<Rightarrow> TableDeclaration \<Rightarrow> str \<Rightarrow> str list \<Rightarrow> TablePin list \<Rightarrow> (SelectionError, str list) result"
where
  "check_pin_list scope table owner seen [] = Inr seen"
| "check_pin_list scope table owner seen (pin # pins) =
     (if tp_column pin \<notin> set (drop 1 (td_row_key table))
      then table_refuse (td_table_id table) owner SelTypeMismatch ''pin_column''
      else if tp_column pin \<in> set seen
      then table_refuse (td_table_id table) owner SelDuplicateId ''pin_column''
      else case bt_get (td_columns table) (tp_column pin) of
             None \<Rightarrow> table_refuse (td_table_id table) owner SelDanglingReference ''pin_column''
           | Some column \<Rightarrow>
               and_then (check_pin scope table owner pin column) (\<lambda>_.
               check_pin_list scope table owner (tp_column pin # seen) pins))"

definition check_pins ::
  "Scope \<Rightarrow> TableDeclaration \<Rightarrow> TablePin list \<Rightarrow> str \<Rightarrow> (SelectionError, unit) result" where
  "check_pins scope table pins owner =
     and_then (check_limit (length pins) MAX_TABLE_PINS owner) (\<lambda>_.
     and_then (check_pin_list scope table owner [] pins) (\<lambda>seen.
     if length seen \<noteq> length (remdups (drop 1 (td_row_key table)))
     then table_refuse (td_table_id table) owner SelTypeMismatch ''pins_incomplete''
     else Inr ()))"

fun resolve_ref :: "Scope \<Rightarrow> ValueRef \<Rightarrow> str \<Rightarrow> (SelectionError, ValueType) result" where
  "resolve_ref scope (VrField field) owner = scope_field scope field owner"
| "resolve_ref scope (VrFact fact_key) owner =
     and_then (scope_fact scope fact_key owner) (\<lambda>t.
     if is_record_list t
     then refuse_with SelTypeMismatch
            [ascii ''owner='', owner, ascii '' fact='', fact_key, ascii '' value_type=record_list'']
     else Inr t)"
| "resolve_ref scope (VrKeyedFact fact_key key_field value_column row_filter absent) owner =
     and_then (scope_fact scope fact_key owner) (\<lambda>list_type.
      case list_type of
        VtRecordList _ columns \<Rightarrow>
          and_then (scope_field scope key_field owner) (\<lambda>key_type.
          if \<not> is_enum_string key_type then keyed_refuse fact_key owner SelTypeMismatch ''key_field''
          else case bt_get columns value_column of
            None \<Rightarrow> keyed_refuse fact_key owner SelDanglingReference ''value_column''
          | Some column \<Rightarrow>
              and_then
                (case row_filter of
                   None \<Rightarrow> Inr ()
                 | Some rows \<Rightarrow>
                     (case bt_get columns (rf_column rows) of
                        None \<Rightarrow> keyed_refuse fact_key owner SelDanglingReference ''where''
                      | Some (VtEnumString allowed) \<Rightarrow>
                          if rf_equals rows \<in> set allowed then Inr ()
                          else keyed_refuse fact_key owner SelTypeMismatch ''where''
                      | Some _ \<Rightarrow> keyed_refuse fact_key owner SelTypeMismatch ''where''))
                (\<lambda>_. if scalar_matches absent column then Inr column
                      else keyed_refuse fact_key owner SelTypeMismatch ''absent''))
      | _ \<Rightarrow> keyed_refuse fact_key owner SelTypeMismatch ''fact_key'')"
| "resolve_ref scope (VrTable table_id key_field pins value_column fallback_column absent) owner =
     (case bt_get (scp_tables scope) table_id of
        None \<Rightarrow> table_refuse table_id owner SelDanglingReference ''table_id''
      | Some table \<Rightarrow>
          and_then (scope_field scope key_field owner) (\<lambda>key_type.
          if \<not> is_enum_string key_type then table_refuse table_id owner SelTypeMismatch ''key_field''
          else
            and_then (check_pins scope table pins owner) (\<lambda>_.
            case bt_get (td_columns table) value_column of
              None \<Rightarrow> table_refuse table_id owner SelDanglingReference ''value_column''
            | Some column \<Rightarrow>
                and_then
                  (case fallback_column of
                     None \<Rightarrow> Inr ()
                   | Some fallback \<Rightarrow>
                       (case bt_get (td_columns table) fallback of
                          None \<Rightarrow> table_refuse table_id owner SelDanglingReference ''fallback_column''
                        | Some other \<Rightarrow>
                            if fallback = value_column \<or> \<not> same_scalar_kind other column
                            then table_refuse table_id owner SelTypeMismatch ''fallback_column''
                            else Inr ()))
                  (\<lambda>_. case absent of
                     None \<Rightarrow> Inr column
                   | Some a \<Rightarrow>
                       if scalar_matches a column then Inr column
                       else table_refuse table_id owner SelTypeMismatch ''absent''))))"


section \<open>Predicates and transforms\<close>

definition expect :: "Scope \<Rightarrow> str \<Rightarrow> ValueRef \<Rightarrow> string \<Rightarrow> (SelectionError, unit) result" where
  "expect scope owner v wanted =
     and_then (resolve_ref scope v owner) (\<lambda>t.
     if wanted = ''integer'' \<and> t = VtInteger \<or> wanted = ''boolean'' \<and> t = VtBoolean
        \<or> wanted = ''string'' \<and> is_enum_string t
     then Inr ()
     else refuse_with SelTypeMismatch
            [ascii ''gate `'', owner, ascii ''` compares a non-'', ascii wanted, ascii '' value''])"

text \<open>Counting a node and the limits on depth and nodes, on entry to every predicate.\<close>

definition enter_predicate :: "nat \<Rightarrow> nat \<Rightarrow> str \<Rightarrow> (SelectionError, nat) result" where
  "enter_predicate depth nodes owner =
     (if MAX_PREDICATE_DEPTH < depth
      then refuse_with SelLimitExceeded
             [ascii ''gate `'', owner, ascii ''` nests deeper than '', decimal MAX_PREDICATE_DEPTH]
      else if MAX_PREDICATE_NODES < nodes + 1
      then refuse_with SelLimitExceeded
             [ascii ''gate `'', owner, ascii ''` holds more than '', decimal MAX_PREDICATE_NODES,
              ascii '' nodes'']
      else Inr (nodes + 1))"

definition check_string_in ::
  "Scope \<Rightarrow> str \<Rightarrow> ValueRef \<Rightarrow> str list \<Rightarrow> (SelectionError, unit) result" where
  "check_string_in scope owner v allowed =
     and_then (expect scope owner v ''string'') (\<lambda>_.
     and_then (check_limit (length allowed) MAX_ENUM_VALUES owner) (\<lambda>_.
     and_then (resolve_ref scope v owner) (\<lambda>t.
     case t of
       VtEnumString declared \<Rightarrow>
         try_for_each (\<lambda>m.
           if m \<in> set declared then Inr ()
           else refuse_with SelTypeMismatch
                  [ascii ''gate `'', owner, ascii ''` lists `'', m,
                   ascii ''` outside the value type'']) allowed
     | _ \<Rightarrow> Inr ())))"

definition check_integer_compare ::
  "Scope \<Rightarrow> str \<Rightarrow> ValueRef \<Rightarrow> ValueRef \<Rightarrow> u64 option \<Rightarrow> i64 option \<Rightarrow> (SelectionError, unit) result"
where
  "check_integer_compare scope owner left right mul add =
     and_then (expect scope owner left ''integer'') (\<lambda>_.
     and_then (expect scope owner right ''integer'') (\<lambda>_.
     if (case mul of None \<Rightarrow> False | Some m \<Rightarrow> \<not> (1 \<le> m \<and> m \<le> MAX_INTEGER_COMPARE_MUL))
     then refuse_with SelIntegerOutOfRange [ascii ''gate='', owner, ascii '' integer_compare=mul'']
     else if (case add of None \<Rightarrow> False | Some a \<Rightarrow> MAX_INTEGER_COMPARE_ADD < unsigned_abs a)
     then refuse_with SelIntegerOutOfRange [ascii ''gate='', owner, ascii '' integer_compare=add'']
     else Inr ()))"

definition empty_predicate_list :: "str \<Rightarrow> (SelectionError, nat) result" where
  "empty_predicate_list owner =
     refuse_with SelMissingRequiredField
       [ascii ''gate `'', owner, ascii ''` holds an empty predicate list'']"

text \<open>The result is the node counter after the predicate.\<close>

fun check_predicate ::
    "Predicate \<Rightarrow> Scope \<Rightarrow> nat \<Rightarrow> nat \<Rightarrow> str \<Rightarrow> (SelectionError, nat) result"
  and check_predicates ::
    "Predicate list \<Rightarrow> Scope \<Rightarrow> nat \<Rightarrow> nat \<Rightarrow> str \<Rightarrow> (SelectionError, nat) result" where
  "check_predicate (IntegerAtLeast v _) scope depth nodes owner =
     and_then (enter_predicate depth nodes owner) (\<lambda>n.
     and_then (expect scope owner v ''integer'') (\<lambda>_. Inr n))"
| "check_predicate (IntegerAtMost v _) scope depth nodes owner =
     and_then (enter_predicate depth nodes owner) (\<lambda>n.
     and_then (expect scope owner v ''integer'') (\<lambda>_. Inr n))"
| "check_predicate (IntegerEquals v _) scope depth nodes owner =
     and_then (enter_predicate depth nodes owner) (\<lambda>n.
     and_then (expect scope owner v ''integer'') (\<lambda>_. Inr n))"
| "check_predicate (BooleanEquals v _) scope depth nodes owner =
     and_then (enter_predicate depth nodes owner) (\<lambda>n.
     and_then (expect scope owner v ''boolean'') (\<lambda>_. Inr n))"
| "check_predicate (StringIn v allowed) scope depth nodes owner =
     and_then (enter_predicate depth nodes owner) (\<lambda>n.
     and_then (check_string_in scope owner v allowed) (\<lambda>_. Inr n))"
| "check_predicate (IntegerCompare left _ right mul add) scope depth nodes owner =
     and_then (enter_predicate depth nodes owner) (\<lambda>n.
     and_then (check_integer_compare scope owner left right mul add) (\<lambda>_. Inr n))"
| "check_predicate (PredAll ps) scope depth nodes owner =
     and_then (enter_predicate depth nodes owner) (\<lambda>n.
     if ps = [] then empty_predicate_list owner
     else check_predicates ps scope (depth + 1) n owner)"
| "check_predicate (PredAny ps) scope depth nodes owner =
     and_then (enter_predicate depth nodes owner) (\<lambda>n.
     if ps = [] then empty_predicate_list owner
     else check_predicates ps scope (depth + 1) n owner)"
| "check_predicate (PredNot p) scope depth nodes owner =
     and_then (enter_predicate depth nodes owner) (\<lambda>n.
     check_predicate p scope (depth + 1) n owner)"
| "check_predicates [] scope depth nodes owner = Inr nodes"
| "check_predicates (p # ps) scope depth nodes owner =
     and_then (check_predicate p scope depth nodes owner) (\<lambda>n.
     check_predicates ps scope depth n owner)"

fun lookup_key_matches :: "LookupKey \<Rightarrow> ValueType \<Rightarrow> bool" where
  "lookup_key_matches (LkInteger _) VtInteger = True"
| "lookup_key_matches (LkBoolean _) VtBoolean = True"
| "lookup_key_matches (LkString m) (VtEnumString allowed) = (m \<in> set allowed)"
| "lookup_key_matches _ _ = False"

fun check_lookup_entries ::
  "LookupKey list \<Rightarrow> LookupEntry list \<Rightarrow> ValueType \<Rightarrow> str \<Rightarrow> (SelectionError, unit) result" where
  "check_lookup_entries seen [] t owner = Inr ()"
| "check_lookup_entries seen (e # es) t owner =
     (if lu_key e \<in> set seen
      then refuse_with SelDuplicateId [ascii ''term `'', owner, ascii ''` repeats a lookup key'']
      else if \<not> lookup_key_matches (lu_key e) t
      then refuse_with SelTypeMismatch
             [ascii ''term `'', owner, ascii ''` declares a lookup key outside the value type'']
      else check_lookup_entries (lu_key e # seen) es t owner)"

fun check_transform :: "Transform \<Rightarrow> ValueType \<Rightarrow> str \<Rightarrow> (SelectionError, unit) result" where
  "check_transform (TfLookup entries _) t owner =
     and_then (check_limit (length entries) MAX_LOOKUP_ENTRIES owner) (\<lambda>_.
     if entries = []
     then refuse_with SelMissingRequiredField
            [ascii ''term `'', owner, ascii ''` declares an empty lookup'']
     else check_lookup_entries [] entries t owner)"
| "check_transform _ t owner =
     (if t \<noteq> VtInteger
      then refuse_with SelTypeMismatch
             [ascii ''term `'', owner, ascii ''` needs a lookup for a non-integer value'']
      else Inr ())"

section \<open>Gates, terms and tie-break keys\<close>

definition check_class_gate ::
  "ValueRef \<Rightarrow> HardGate list \<Rightarrow> str \<Rightarrow> (SelectionError, unit) result" where
  "check_class_gate v earlier owner =
     (case v of
        VrTable _ _ pins _ _ absent \<Rightarrow>
          if pins = [] \<or> absent \<noteq> None then Inr ()
          else if list_ex (\<lambda>gate.
                 list_ex (\<lambda>r. same_table_row r v \<and> declares_absent r)
                   (collect_values (hg_predicate gate))) earlier
          then Inr ()
          else refuse_with SelTypeMismatch
                 [ascii ''owner='', owner, ascii '' table_read=class_gate'']
      | _ \<Rightarrow> Inr ())"

definition check_gate :: "Scope \<Rightarrow> HardGate list \<Rightarrow> HardGate \<Rightarrow> (SelectionError, unit) result" where
  "check_gate scope earlier gate =
     (let owner = hg_gate_id gate; p = hg_predicate gate in
      and_then (check_id owner ''gate_id'') (\<lambda>_.
      if owner \<in> set (map hg_gate_id earlier)
      then refuse_with SelDuplicateId [ascii ''gate `'', owner, ascii ''` is declared twice'']
      else and_then (check_predicate p scope 1 0 owner) (\<lambda>_.
      if reads_keyed_fact p \<and> hg_on_unknown gate \<noteq> GateAbortEvaluation
      then refuse_with SelTypeMismatch
             [ascii ''gate='', owner, ascii '' reads=keyed_fact on_unknown'']
      else if reads_table p
              \<and> (case hg_on_unknown gate of SubstituteVerdict _ \<Rightarrow> True | _ \<Rightarrow> False)
      then refuse_with SelTypeMismatch [ascii ''gate='', owner, ascii '' reads=table on_unknown'']
      else try_for_each (\<lambda>v.
             if declares_fallback v
             then refuse_with SelTypeMismatch
                    [ascii ''gate='', owner, ascii '' table_read=fallback_column'']
             else check_class_gate v earlier owner) (collect_values p))))"

fun check_gates :: "Scope \<Rightarrow> HardGate list \<Rightarrow> HardGate list \<Rightarrow> (SelectionError, unit) result" where
  "check_gates scope earlier [] = Inr ()"
| "check_gates scope earlier (gate # gates) =
     and_then (check_gate scope earlier gate) (\<lambda>_. check_gates scope (earlier @ [gate]) gates)"

definition check_term ::
  "Scope \<Rightarrow> HardGate list \<Rightarrow> str list \<Rightarrow> ScoringTerm \<Rightarrow> (SelectionError, unit) result" where
  "check_term scope gates seen trm =
     (let owner = sg_term_id trm; v = sg_value trm in
      and_then (check_id owner ''term_id'') (\<lambda>_.
      if owner \<in> set seen
      then refuse_with SelDuplicateId [ascii ''term `'', owner, ascii ''` is declared twice'']
      else and_then (resolve_ref scope v owner) (\<lambda>t.
      and_then (check_transform (sg_transform trm) t owner) (\<lambda>_.
      if is_keyed_fact v \<and> sg_on_unknown trm \<noteq> TermAbortEvaluation
      then refuse_with SelTypeMismatch
             [ascii ''term='', owner, ascii '' reads=keyed_fact on_unknown'']
      else if is_table v
      then
        if (case sg_on_unknown trm of SubstituteMilli _ \<Rightarrow> True | _ \<Rightarrow> False)
        then refuse_with SelTypeMismatch [ascii ''term='', owner, ascii '' reads=table on_unknown'']
        else if declares_absent v
        then refuse_with SelTypeMismatch [ascii ''term='', owner, ascii '' table_read=absent'']
        else check_class_gate v gates owner
      else Inr ()))))"

fun check_terms ::
  "Scope \<Rightarrow> HardGate list \<Rightarrow> str list \<Rightarrow> ScoringTerm list \<Rightarrow> (SelectionError, unit) result" where
  "check_terms scope gates seen [] = Inr ()"
| "check_terms scope gates seen (trm # trms) =
     and_then (check_term scope gates seen trm) (\<lambda>_.
     check_terms scope gates (sg_term_id trm # seen) trms)"

definition check_table_tie_break :: "SelectionPolicy \<Rightarrow> ValueRef \<Rightarrow> (SelectionError, unit) result" where
  "check_table_tie_break p v =
     (if declares_absent v \<or> declares_fallback v
      then refuse_with SelTypeMismatch [ascii ''tie_break table_read=absent_or_fallback'']
      else and_then (check_class_gate v (sp_gates p) (ascii ''tie_break'')) (\<lambda>_.
      if list_ex (\<lambda>gate. list_ex (\<lambda>r. same_table_row r v) (collect_values (hg_predicate gate)))
           (sp_gates p)
         \<or> list_ex (\<lambda>trm. same_table_row (sg_value trm) v) (sp_scoring p)
      then Inr ()
      else refuse_with SelTypeMismatch [ascii ''tie_break table_read=row_unread'']))"

definition check_tie_break ::
  "SelectionPolicy \<Rightarrow> Scope \<Rightarrow> TieBreakKey \<Rightarrow> (SelectionError, unit) result" where
  "check_tie_break p scope k =
     (case k of
        TbCandidateId _ \<Rightarrow> Inr ()
      | TbValue v _ \<Rightarrow>
          and_then (if is_table v then check_table_tie_break p v else Inr ()) (\<lambda>_.
          and_then (resolve_ref scope v (ascii ''tie_break'')) (\<lambda>t.
          if is_enum_string t
          then refuse_with SelTypeMismatch
                 [ascii ''a tie-break key cannot order an enum_string value'']
          else Inr ())))"

section \<open>The document\<close>

fun declare_fields ::
  "(str, ValueType) btree \<Rightarrow> FieldDeclaration list \<Rightarrow> (SelectionError, (str, ValueType) btree) result"
where
  "declare_fields m [] = Inr m"
| "declare_fields m (d # ds) =
     and_then (check_id (fd_name d) ''field name'') (\<lambda>_.
     if is_record_list (fd_value_type d)
     then refuse_with SelTypeMismatch
            [ascii ''field='', fd_name d, ascii '' value_type=record_list'']
     else and_then (check_value_type (fd_value_type d) (fd_name d)) (\<lambda>_.
     if bt_get m (fd_name d) \<noteq> None
     then refuse_with SelDuplicateId
            [ascii ''field `'', fd_name d, ascii ''` is declared twice'']
     else declare_fields (bt_insert (fd_name d) (fd_value_type d) m) ds))"

fun declare_facts ::
  "(str, ValueType) btree \<Rightarrow> FactDeclaration list \<Rightarrow> (SelectionError, (str, ValueType) btree) result"
where
  "declare_facts m [] = Inr m"
| "declare_facts m (d # ds) =
     and_then (check_id (fc_fact_key d) ''fact_key'') (\<lambda>_.
     and_then (check_value_type (fc_value_type d) (fc_fact_key d)) (\<lambda>_.
     if fc_max_age_ms d = 0
     then refuse_with SelMissingRequiredField
            [ascii ''fact `'', fc_fact_key d, ascii ''` declares a zero max_age_ms'']
     else if 1000 < fc_minimum_confidence_milli d
     then refuse_with SelIntegerOutOfRange
            [ascii ''fact `'', fc_fact_key d,
             ascii ''` declares a confidence above one thousand milli'']
     else if bt_get m (fc_fact_key d) \<noteq> None
     then refuse_with SelDuplicateId
            [ascii ''fact `'', fc_fact_key d, ascii ''` is declared twice'']
     else declare_facts (bt_insert (fc_fact_key d) (fc_value_type d) m) ds))"

fun declare_tables ::
  "(str, TableDeclaration) btree \<Rightarrow> TableDeclaration list
     \<Rightarrow> (SelectionError, (str, TableDeclaration) btree) result" where
  "declare_tables m [] = Inr m"
| "declare_tables m (d # ds) =
     and_then (check_table_declaration d) (\<lambda>_.
     if bt_get m (td_table_id d) \<noteq> None
     then refuse_with SelDuplicateId
            [ascii ''table `'', td_table_id d, ascii ''` is declared twice'']
     else declare_tables (bt_insert (td_table_id d) d m) ds)"

definition check_requirement :: "SelectionRequirement \<Rightarrow> (SelectionError, unit) result" where
  "check_requirement r =
     and_then
       (case sr_mode r of
          TopK \<Rightarrow>
            if sr_required_count r = 0
            then refuse_with SelMissingRequiredField
                   [ascii ''top_k requires a required_count of at least one'']
            else Inr ()
        | ExactlyOne \<Rightarrow>
            if sr_required_count r \<noteq> 1
            then refuse_with SelTypeMismatch
                   [ascii ''exactly_one requires a required_count of one'']
            else Inr ()
        | NoneAllowed \<Rightarrow> Inr ()) (\<lambda>_.
     if MAX_CANDIDATES < unat (sr_required_count r)
     then refuse_with SelLimitExceeded
            [ascii ''required_count exceeds the '', decimal MAX_CANDIDATES,
             ascii '' candidate limit'']
     else Inr ())"

text \<open>The part of the validation that builds the scope the references are resolved in.\<close>

definition policy_scope :: "SelectionPolicy \<Rightarrow> (SelectionError, Scope) result" where
  "policy_scope p =
     and_then (declare_fields [] (sp_fields p)) (\<lambda>fields.
     and_then (declare_facts [] (sp_facts p)) (\<lambda>facts.
     and_then (check_limit (length (sp_tables p)) MAX_TABLES (ascii ''tables'')) (\<lambda>_.
     and_then (declare_tables [] (sp_tables p)) (\<lambda>tables.
     Inr \<lparr>scp_fields = fields, scp_facts = facts, scp_tables = tables\<rparr>))))"

definition policy_validate :: "SelectionPolicy \<Rightarrow> (SelectionError, unit) result" where
  "policy_validate p =
     (if sp_schema_version p \<noteq> SELECTION_POLICY_SCHEMA_VERSION
      then refuse_with SelUnsupportedSchemaVersion
             [ascii ''`'', sp_schema_version p, ascii ''` is not `'',
              SELECTION_POLICY_SCHEMA_VERSION, ascii ''`'']
      else
        and_then (check_id (sp_policy_id p) ''policy_id'') (\<lambda>_.
        and_then (check_id (at_candidate_layout_id (sp_applies_to p)) ''candidate_layout_id'') (\<lambda>_.
        and_then (try_for_each (\<lambda>k. check_id k ''outcome_key'')
                    (each (at_outcome_keys (sp_applies_to p)))) (\<lambda>_.
        and_then (check_limit (length (sp_fields p)) MAX_FIELDS (ascii ''fields'')) (\<lambda>_.
        and_then (check_limit (length (sp_facts p)) MAX_FACTS (ascii ''facts'')) (\<lambda>_.
        and_then (check_limit (length (sp_gates p)) MAX_GATES (ascii ''gates'')) (\<lambda>_.
        and_then (check_limit (length (sp_scoring p)) MAX_SCORING_TERMS (ascii ''scoring'')) (\<lambda>_.
        and_then (check_limit (length (sp_tie_break p)) MAX_TIE_BREAK_KEYS (ascii ''tie_break'')) (\<lambda>_.
        and_then (policy_scope p) (\<lambda>scope.
        and_then (check_gates scope [] (sp_gates p)) (\<lambda>_.
        and_then (check_terms scope (sp_gates p) [] (sp_scoring p)) (\<lambda>_.
        and_then (try_for_each (check_tie_break p scope) (sp_tie_break p)) (\<lambda>_.
        check_requirement (sp_selection p))))))))))))))"

text \<open>What other components ask of a document.\<close>

definition record_list_keys :: "SelectionPolicy \<Rightarrow> str list" where
  "record_list_keys p =
     map fc_fact_key (filter (\<lambda>d. is_record_list (fc_value_type d)) (sp_facts p))"

definition uses_record_lists :: "SelectionPolicy \<Rightarrow> bool" where
  "uses_record_lists p \<longleftrightarrow> record_list_keys p \<noteq> []"

definition uses_tables :: "SelectionPolicy \<Rightarrow> bool" where
  "uses_tables p \<longleftrightarrow> sp_tables p \<noteq> []"

definition value_refs :: "SelectionPolicy \<Rightarrow> ValueRef list" where
  "value_refs p =
     concat (map (\<lambda>g. collect_values (hg_predicate g)) (sp_gates p))
     @ map sg_value (sp_scoring p)
     @ List.map_filter (\<lambda>k. case k of TbValue v _ \<Rightarrow> Some v | TbCandidateId _ \<Rightarrow> None) (sp_tie_break p)"

definition table_key_fields :: "SelectionPolicy \<Rightarrow> str list" where
  "table_key_fields p =
     List.map_filter (\<lambda>v. case v of VrTable _ key_field _ _ _ _ \<Rightarrow> Some key_field | _ \<Rightarrow> None)
       (value_refs p)"

definition table_read_aborts :: "SelectionPolicy \<Rightarrow> str \<Rightarrow> bool" where
  "table_read_aborts p table_id =
     (let reads = (\<lambda>v. case v of VrTable t _ _ _ _ _ \<Rightarrow> t = table_id | _ \<Rightarrow> False) in
      list_ex (\<lambda>g. hg_on_unknown g = GateAbortEvaluation
                 \<and> list_ex reads (collect_values (hg_predicate g))) (sp_gates p)
      \<or> list_ex (\<lambda>t. sg_on_unknown t = TermAbortEvaluation \<and> reads (sg_value t)) (sp_scoring p))"

end
