(* ===== verification/Instance_Facts.thy ===== *)
theory Instance_Facts
  imports Runtime_Facts Rust_Int
begin

text \<open>
  The instance facts of \<open>crates/actingcommand-contract/src/fact.rs\<close>: records scoped to an instance,
  a server or a game, their validation, observations and invalidations, the snapshot projection
  with the resolution of a key to its most specific record, and the texts that name a fact's key
  and its source. The artifact reference a fact may carry is the one of
  \<open>src/event/artifact.rs\<close>.
\<close>

section \<open>Limits and event types\<close>

definition MAX_FACT_KEY_BYTES :: nat where "MAX_FACT_KEY_BYTES = 192"

definition MAX_FACT_TEXT_BYTES :: nat where "MAX_FACT_TEXT_BYTES = 1024"

definition MAX_FACT_RECORDS :: nat where "MAX_FACT_RECORDS = 256"

definition MAX_FACT_RECORD_FIELDS :: nat where "MAX_FACT_RECORD_FIELDS = 64"

definition MAX_INVALIDATION_EVENTS :: nat where "MAX_INVALIDATION_EVENTS = 32"

definition MIN_FACT_TTL_MS :: u64 where "MIN_FACT_TTL_MS = 1"

definition MAX_FACT_TTL_MS :: u64 where "MAX_FACT_TTL_MS = 31536000000"

definition MAX_FACT_OBSERVATION_BYTES :: nat where "MAX_FACT_OBSERVATION_BYTES = 512 * 1024"

definition MAX_INSTANCE_ALIAS_BYTES :: nat where "MAX_INSTANCE_ALIAS_BYTES = 256"

definition PRIORITY_OFFSET_KEY_PREFIX :: str where
  "PRIORITY_OFFSET_KEY_PREFIX = ascii ''session.task.''"

definition PRIORITY_OFFSET_KEY_SUFFIX :: str where
  "PRIORITY_OFFSET_KEY_SUFFIX = ascii ''.priority_offset''"

definition REMEDY_CHOICES_FACT_KEY :: str where
  "REMEDY_CHOICES_FACT_KEY = ascii ''session.remedy.choices''"

definition REMEDY_CHOICES_SNAPSHOT_PREFIX :: str where
  "REMEDY_CHOICES_SNAPSHOT_PREFIX = ascii ''remedy-choices:''"

text \<open>An event type is named by its wire spelling (\<open>EventType\<close> in \<open>event.rs\<close>).\<close>

type_synonym EventType = string

definition event_type_names :: "EventType list" where
  "event_type_names =
     [''provider.startup_observed'', ''runtime.started'', ''runtime.takeover'',
      ''runtime.failed'', ''runtime.lifecycle_observed'', ''runtime.instance_bound'',
      ''runtime.fact_recorded'', ''runtime.fact_invalidated'', ''runtime.fact_snapshot'',
      ''monitor.probe_requested'', ''monitor.probe_started'', ''monitor.probe_completed'',
      ''monitor.probe_failed'', ''monitor.recovery_admitted'', ''monitor.recovery_deferred'',
      ''perf.pressure_started'', ''perf.pressure_ended'', ''perf.stutter_detected'',
      ''perf.summary'', ''perf.monitor_degraded'', ''perf.monitor_recovered'',
      ''perf.balance_changed'', ''perf.pacing_changed'', ''perf.dispatch_share_changed'',
      ''perf.run_hold'', ''fact.published'', ''fact.invalidated'', ''approval.decision'',
      ''command.received'', ''command.validated'', ''command.rejected'', ''scheduler.admitted'',
      ''scheduler.queued'', ''scheduler.denied'', ''scheduler.preempted'',
      ''policy.dispatch_intent'', ''policy.dispatch_admitted'', ''policy.dispatch_rejected'',
      ''policy.dispatch_completed'', ''policy.execution_recorded'',
      ''policy.planning_signal_observed'', ''policy.control_state_recorded'',
      ''policy.activity_state_recorded'', ''policy.fact_refresh_transition'',
      ''policy.not_run_changed'', ''catalog.transition_intent'', ''catalog.activated'',
      ''catalog.rolled_back'', ''catalog.transition_failed'', ''lease.requested'',
      ''lease.granted'', ''lease.transferred'', ''lease.renewed'', ''lease.released'',
      ''lease.expired'', ''lease.transition_intent'', ''lease.transition_failed'',
      ''task.requested'', ''task.started'', ''task.step_started'', ''task.evidence_indexed'',
      ''task.geometry_observed'', ''task.recognition_started'', ''task.recognition_completed'',
      ''task.entry_preflight'', ''task.selection_evaluated'', ''task.effect_intent'',
      ''task.effect_completed'', ''task.effect_refused'', ''task.operation_capped'',
      ''task.step_finished'', ''task.completed'', ''task.failed'', ''task.cancelled'',
      ''task.terminal_intent'', ''task.terminal_commit_failed'', ''task.terminal_rejected'',
      ''application.intent'', ''application.completed'', ''application.failed'',
      ''input.intent'', ''input.committed'', ''input.completed'', ''input.failed'',
      ''capture.requested'', ''capture.completed'', ''capture.failed'',
      ''capture.pressure_changed'', ''capture.dedup_window'', ''capture.policy_changed'',
      ''capture.summary_committed'', ''recognition.requested'', ''recognition.completed'',
      ''recognition.failed'', ''artifact.pin_recorded'', ''artifact.pin_released'',
      ''artifact.eviction_intent'', ''artifact.eviction_outcome'', ''artifact.created'',
      ''artifact.verified'', ''artifact.store_failed'', ''artifact.verification_failed'',
      ''artifact.export_completed'', ''artifact.export_failed'', ''resource.authoring_started'',
      ''resource.draft_built'', ''resource.validation_completed'', ''resource.promote_intent'',
      ''resource.promoted'', ''resource.promote_failed'', ''ui.action'', ''client.action'',
      ''cli.command'', ''lab.request'', ''governance.identity_declared'', ''state.migrated'',
      ''release.staged'', ''release.transition_intent'', ''release.activated'',
      ''release.rolled_back'', ''release.transition_failed'', ''agent.wake_requested'',
      ''agent.session_started'', ''agent.session_resumed'', ''agent.response_recorded'',
      ''agent.session_completed'', ''agent.session_escalated'',
      ''agent.wake_obligation_recorded'', ''ledger.recovered'', ''ledger.gap_recorded'',
      ''ledger.health_observed'', ''ledger.dump_imported'', ''signature.registered'',
      ''signature.matched'', ''signature.retired'']"

section \<open>Artifact references\<close>

datatype ArtifactId = ArtifactId (artifact_bytes: "u8 list")

datatype RunId = RunId (run_bytes: "u8 list")

datatype FrameId = FrameId (frame_bytes: "u8 list")

datatype CorrelationId = CorrelationId (correlation_bytes: "u8 list")

datatype EventId = EventId (event_bytes: "u8 list")

datatype ArtifactKind =
    CaptureFrame | DiagnosticJson | EvidenceArchive | EvidenceManifest | TextReport
  | StrategyReport

datatype ArtifactMediaType = ImagePng | ApplicationJson | ApplicationZip | TextPlain

fun media_type :: "ArtifactKind \<Rightarrow> ArtifactMediaType" where
  "media_type CaptureFrame = ImagePng"
| "media_type DiagnosticJson = ApplicationJson"
| "media_type EvidenceManifest = ApplicationJson"
| "media_type StrategyReport = ApplicationJson"
| "media_type EvidenceArchive = ApplicationZip"
| "media_type TextReport = TextPlain"

fun extension :: "ArtifactKind \<Rightarrow> string" where
  "extension CaptureFrame = ''png''"
| "extension DiagnosticJson = ''json''"
| "extension EvidenceManifest = ''json''"
| "extension StrategyReport = ''json''"
| "extension EvidenceArchive = ''zip''"
| "extension TextReport = ''txt''"

datatype ArtifactProducer = CaptureStore | CapturePipeline | ArtifactStore | EvidenceExporter

datatype RetentionClass = DebugFull | Adaptive | Light

datatype ArtifactRedactionState = NotRequired | Applied | Pending

record ProjectedArtifactReference =
  ar_artifact_id :: ArtifactId
  ar_kind :: ArtifactKind
  ar_run_id :: "RunId option"
  ar_frame_id :: "FrameId option"
  ar_correlation_id :: "CorrelationId option"
  ar_object_key :: "str option"
  ar_media_type :: ArtifactMediaType
  ar_byte_count :: u64
  ar_sha256 :: str
  ar_created_at_unix_ms :: u64
  ar_producer :: ArtifactProducer
  ar_retention_class :: RetentionClass
  ar_redaction_state :: ArtifactRedactionState

definition lower_hex :: "nat \<Rightarrow> bool" where
  "lower_hex c \<longleftrightarrow> 48 \<le> c \<and> c \<le> 57 \<or> 97 \<le> c \<and> c \<le> 102"

definition is_sha256 :: "str \<Rightarrow> bool" where
  "is_sha256 v =
     (case strip_prefix v (ascii ''sha256:'') of
        None \<Rightarrow> False
      | Some hex \<Rightarrow> str_len hex = 64 \<and> list_all lower_hex hex)"

text \<open>Called only after \<open>is_sha256\<close>, so bytes and characters of the digest coincide.\<close>

definition object_key_for :: "ArtifactId \<Rightarrow> ArtifactKind \<Rightarrow> str \<Rightarrow> str" where
  "object_key_for i kind sha256 =
     concat [ascii ''artifacts/'', take 2 (drop 7 sha256), ascii ''/'',
             ascii (id_canonical ''artifact_'' (artifact_bytes i)), ascii ''.'',
             ascii (extension kind)]"

definition artifact_validate :: "ProjectedArtifactReference \<Rightarrow> (SanitizationError, unit) result" where
  "artifact_validate a =
     (if 0 < ar_byte_count a \<and> 0 < ar_created_at_unix_ms a \<and> is_sha256 (ar_sha256 a)
         \<and> ar_media_type a = media_type (ar_kind a)
         \<and> (case ar_object_key a of
              None \<Rightarrow> True
            | Some k \<Rightarrow> k = object_key_for (ar_artifact_id a) (ar_kind a) (ar_sha256 a))
      then Inr ()
      else Inl (refusal ''invalid_projected_artifact_reference'' ''artifact''))"

section \<open>Records\<close>

datatype FactScope = FactInstance str | FactServer str | FactGame str

datatype FactContent = Inline FactValue | Artifact ProjectedArtifactReference

datatype FactTtlSource = DetectorContract | CatalogPolicy | RuntimeDefault

record FactTtlPolicy =
  ft_minimum_ms :: u64
  ft_maximum_ms :: u64
  ft_source :: FactTtlSource

record FactRecord =
  fr_scope :: FactScope
  fr_key :: str
  fr_content :: FactContent
  fr_observed_at_unix_ms :: u64
  fr_expires_at_unix_ms :: "u64 option"
  fr_ttl_policy :: "FactTtlPolicy option"
  fr_confidence_milli :: u16
  fr_source_detector :: str
  fr_source_snapshot_id :: str
  fr_schema_version :: str
  fr_resource_bundle_hash :: str
  fr_invalidate_on :: "EventType list"

record FactInvalidationEventData =
  fe_scope :: FactScope
  fe_key :: str
  fe_source_snapshot_id :: str
  fe_invalidated_at_unix_ms :: u64
  fe_invalidated_by_event_id :: EventId
  fe_invalidated_by_event_type :: EventType

record InstanceFactContext =
  fx_instance_id :: str
  fx_server_id :: str
  fx_game_id :: str

record InstanceFactSnapshot =
  is_snapshot_id :: str
  is_ledger_position :: u64
  is_context :: InstanceFactContext
  is_records :: "FactRecord list"

section \<open>Validation\<close>

definition validate_token :: "str \<Rightarrow> string \<Rightarrow> (SanitizationError, unit) result" where
  "validate_token v field =
     (if v = [] \<or> MAX_FACT_TEXT_BYTES < str_len v \<or> list_ex char_is_control v
      then Inl (refusal ''invalid_fact_token'' field)
      else Inr ())"

definition validate_text :: "str \<Rightarrow> string \<Rightarrow> (SanitizationError, unit) result" where
  "validate_text v field =
     (if MAX_FACT_TEXT_BYTES < str_len v \<or> list_ex char_is_control v
      then Inl (refusal ''invalid_fact_text'' field)
      else Inr ())"

definition is_ascii_hexdigit :: "nat \<Rightarrow> bool" where
  "is_ascii_hexdigit c \<longleftrightarrow> 48 \<le> c \<and> c \<le> 57 \<or> 97 \<le> c \<and> c \<le> 102 \<or> 65 \<le> c \<and> c \<le> 70"

definition validate_sha256 :: "str \<Rightarrow> string \<Rightarrow> (SanitizationError, unit) result" where
  "validate_sha256 v field =
     (if str_len v = 64 \<and> list_all is_ascii_hexdigit v then Inr ()
      else Inl (refusal ''invalid_fact_hash'' field))"

definition FAMILIES :: "str list" where
  "FAMILIES =
     map ascii [''identity.'', ''display.'', ''session.'', ''resource.'', ''inventory.'',
                ''timeline.'', ''health.'', ''env.'']"

definition validate_fact_key :: "str \<Rightarrow> (SanitizationError, unit) result" where
  "validate_fact_key v =
     (if MAX_FACT_KEY_BYTES < str_len v \<or> \<not> list_ex (\<lambda>prefix. starts_with v prefix) FAMILIES
      then Inl (refusal ''invalid_fact_key'' ''fact_key'')
      else validate_token v ''fact_key'')"

definition validate_instance_alias :: "str \<Rightarrow> bool" where
  "validate_instance_alias v \<longleftrightarrow>
     \<not> (v = [] \<or> MAX_INSTANCE_ALIAS_BYTES < str_len v \<or> list_ex char_is_control v)"

definition validate_alias_token :: "str \<Rightarrow> string \<Rightarrow> (SanitizationError, unit) result" where
  "validate_alias_token v field =
     (if validate_instance_alias v then Inr () else Inl (refusal ''invalid_fact_token'' field))"

fun scope_validate :: "FactScope \<Rightarrow> (SanitizationError, unit) result" where
  "scope_validate (FactInstance i) = validate_alias_token i ''instance_id''"
| "scope_validate (FactServer i) = validate_token i ''server_id''"
| "scope_validate (FactGame i) = validate_token i ''game_id''"

fun scope_matches :: "FactScope \<Rightarrow> InstanceFactContext \<Rightarrow> bool" where
  "scope_matches (FactInstance i) c = (i = fx_instance_id c)"
| "scope_matches (FactServer i) c = (i = fx_server_id c)"
| "scope_matches (FactGame i) c = (i = fx_game_id c)"

fun specificity :: "FactScope \<Rightarrow> nat" where
  "specificity (FactInstance _) = 3"
| "specificity (FactServer _) = 2"
| "specificity (FactGame _) = 1"

definition ttl_policy_validate :: "FactTtlPolicy \<Rightarrow> (SanitizationError, unit) result" where
  "ttl_policy_validate p =
     (if ft_minimum_ms p < MIN_FACT_TTL_MS \<or> MAX_FACT_TTL_MS < ft_maximum_ms p
         \<or> ft_maximum_ms p < ft_minimum_ms p
      then Inl (refusal ''fact_ttl_policy_invalid'' ''ttl_policy'')
      else Inr ())"

definition validate_field :: "str \<times> FactScalar \<Rightarrow> (SanitizationError, unit) result" where
  "validate_field kv =
     and_then (validate_token (fst kv) ''fact_field'') (\<lambda>_.
     case snd kv of
       ScString v \<Rightarrow> validate_text v ''fact_field_value''
     | _ \<Rightarrow> Inr ())"

definition validate_fields :: "(str, FactScalar) btree \<Rightarrow> (SanitizationError, unit) result" where
  "validate_fields r =
     (if MAX_FACT_RECORD_FIELDS < length r
      then Inl (refusal ''fact_field_limit_exceeded'' ''fact_value'')
      else try_for_each validate_field r)"

definition value_validate :: "FactValue \<Rightarrow> (SanitizationError, unit) result" where
  "value_validate v =
     (case v of
        FvString s \<Rightarrow> validate_text s ''fact_value''
      | FvRecordList rs \<Rightarrow>
          if MAX_FACT_RECORDS < length rs
          then Inl (refusal ''fact_record_limit_exceeded'' ''fact_value'')
          else try_for_each validate_fields rs
      | _ \<Rightarrow> Inr ())"

fun content_validate :: "FactContent \<Rightarrow> (SanitizationError, unit) result" where
  "content_validate (Inline v) = value_validate v"
| "content_validate (Artifact a) = artifact_validate a"

definition is_fact_event :: "EventType \<Rightarrow> bool" where
  "is_fact_event t \<longleftrightarrow> t = ''fact.published'' \<or> t = ''fact.invalidated''"

definition ttl_validate :: "FactRecord \<Rightarrow> (SanitizationError, unit) result" where
  "ttl_validate r =
     (case (fr_expires_at_unix_ms r, fr_ttl_policy r) of
        (None, None) \<Rightarrow> Inr ()
      | (Some expires, Some policy) \<Rightarrow>
          and_then (ttl_policy_validate policy) (\<lambda>_.
          and_then (ok_or (refusal ''fact_ttl_expiry_invalid'' ''expires_at_unix_ms'')
                      (checked_sub expires (fr_observed_at_unix_ms r))) (\<lambda>ttl.
          if ft_minimum_ms policy \<le> ttl \<and> ttl \<le> ft_maximum_ms policy then Inr ()
          else Inl (refusal ''fact_ttl_out_of_bounds'' ''expires_at_unix_ms'')))
      | _ \<Rightarrow> Inl (refusal ''fact_ttl_policy_missing'' ''ttl_policy''))"

definition record_validate :: "FactRecord \<Rightarrow> (SanitizationError, unit) result" where
  "record_validate r =
     and_then (scope_validate (fr_scope r)) (\<lambda>_.
     and_then (validate_fact_key (fr_key r)) (\<lambda>_.
     and_then (validate_token (fr_source_detector r) ''source_detector'') (\<lambda>_.
     and_then (validate_token (fr_source_snapshot_id r) ''source_snapshot_id'') (\<lambda>_.
     and_then (validate_token (fr_schema_version r) ''schema_version'') (\<lambda>_.
     and_then (validate_sha256 (fr_resource_bundle_hash r) ''resource_bundle_hash'') (\<lambda>_.
     if fr_observed_at_unix_ms r = 0 \<or> 1000 < fr_confidence_milli r
        \<or> MAX_INVALIDATION_EVENTS < length (fr_invalidate_on r)
        \<or> \<not> distinct (fr_invalidate_on r) \<or> list_ex is_fact_event (fr_invalidate_on r)
     then Inl (refusal ''invalid_fact_record'' ''fact'')
     else and_then (ttl_validate r) (\<lambda>_. content_validate (fr_content r))))))))"

definition record_is_expired :: "FactRecord \<Rightarrow> u64 \<Rightarrow> bool" where
  "record_is_expired r now =
     (case fr_expires_at_unix_ms r of None \<Rightarrow> False | Some expires \<Rightarrow> expires < now)"

definition context_validate :: "InstanceFactContext \<Rightarrow> (SanitizationError, unit) result" where
  "context_validate c =
     and_then (validate_alias_token (fx_instance_id c) ''instance_id'') (\<lambda>_.
     and_then (validate_token (fx_server_id c) ''server_id'') (\<lambda>_.
     validate_token (fx_game_id c) ''game_id''))"

section \<open>Snapshots and views\<close>

text \<open>The loop over the records of a snapshot or a view: each valid, applying to the instance, and
  named once by scope and key.\<close>

fun validate_records ::
  "(FactScope \<Rightarrow> bool) \<Rightarrow> (FactScope \<times> str) list \<Rightarrow> FactRecord list
     \<Rightarrow> (SanitizationError, unit) result" where
  "validate_records applies seen [] = Inr ()"
| "validate_records applies seen (r # rs) =
     and_then (record_validate r) (\<lambda>_.
     if \<not> applies (fr_scope r) \<or> (fr_scope r, fr_key r) \<in> set seen
     then Inl (refusal ''invalid_fact_snapshot_record'' ''fact_snapshot'')
     else validate_records applies ((fr_scope r, fr_key r) # seen) rs)"

definition instance_snapshot_validate ::
  "InstanceFactSnapshot \<Rightarrow> (SanitizationError, unit) result" where
  "instance_snapshot_validate s =
     and_then (validate_token (is_snapshot_id s) ''fact_snapshot_id'') (\<lambda>_.
     and_then (context_validate (is_context s)) (\<lambda>_.
     if is_ledger_position s = 0 \<or> MAX_FACT_RECORDS < length (is_records s)
     then Inl (refusal ''invalid_fact_snapshot'' ''fact_snapshot'')
     else validate_records (\<lambda>scope. scope_matches scope (is_context s)) [] (is_records s)))"

datatype FactUnknownReason = FuMissing | FuExpired | FuLowConfidence | FuNonInline | FuTypeMismatch

datatype FactResolution = Known FactRecord | Unknown FactUnknownReason str

text \<open>\<open>Iterator::max_by_key\<close>: the last of the largest elements.\<close>

fun max_by_key :: "('a \<Rightarrow> nat) \<Rightarrow> 'a list \<Rightarrow> 'a option" where
  "max_by_key f [] = None"
| "max_by_key f (x # xs) =
     (case max_by_key f xs of
        None \<Rightarrow> Some x
      | Some y \<Rightarrow> if f y < f x then Some x else Some y)"

definition resolve_fact :: "InstanceFactSnapshot \<Rightarrow> str \<Rightarrow> u64 \<Rightarrow> FactResolution" where
  "resolve_fact s key now =
     (case max_by_key (\<lambda>r. specificity (fr_scope r))
             (filter (\<lambda>r. fr_key r = key \<and> scope_matches (fr_scope r) (is_context s)) (is_records s)) of
        None \<Rightarrow> Unknown FuMissing key
      | Some r \<Rightarrow>
          if record_is_expired r now then Unknown FuExpired key
          else if fr_confidence_milli r = 0 then Unknown FuLowConfidence key
          else Known r)"

text \<open>No text that passes the earlier conditions of \<open>path_safe_string\<close> is an absolute path, so its
  last condition is not restated.\<close>

fun contains_pair :: "nat \<Rightarrow> str \<Rightarrow> bool" where
  "contains_pair c (a # b # s) = (a = c \<and> b = c \<or> contains_pair c (b # s))"
| "contains_pair c _ = False"

definition path_safe_string :: "str \<Rightarrow> bool" where
  "path_safe_string v \<longleftrightarrow>
     v \<noteq> [] \<and> v \<noteq> ascii ''.'' \<and> 47 \<notin> set v \<and> 92 \<notin> set v \<and> 58 \<notin> set v \<and> \<not> contains_pair 46 v"

definition resolve_environment_string ::
  "InstanceFactSnapshot \<Rightarrow> str \<Rightarrow> u64 \<Rightarrow> (FactUnknownReason, str) result" where
  "resolve_environment_string s key now =
     (case resolve_fact s (ascii ''env.'' @ key) now of
        Unknown reason _ \<Rightarrow> Inl reason
      | Known r \<Rightarrow>
          (case fr_content r of
             Inline (FvString v) \<Rightarrow> if path_safe_string v then Inr v else Inl FuTypeMismatch
           | Artifact _ \<Rightarrow> Inl FuNonInline
           | Inline _ \<Rightarrow> Inl FuTypeMismatch))"

record InstanceFactView =
  iv_instance_alias :: str
  iv_server_id :: "str option"
  iv_game_id :: "str option"
  iv_records :: "FactRecord list"

fun view_applies :: "InstanceFactView \<Rightarrow> FactScope \<Rightarrow> bool" where
  "view_applies v (FactInstance i) = (i = iv_instance_alias v)"
| "view_applies v (FactServer i) = (iv_server_id v = Some i)"
| "view_applies v (FactGame i) = (iv_game_id v = Some i)"

definition view_validate :: "InstanceFactView \<Rightarrow> (SanitizationError, unit) result" where
  "view_validate v =
     and_then (validate_alias_token (iv_instance_alias v) ''instance_alias'') (\<lambda>_.
     and_then
       (case (iv_server_id v, iv_game_id v) of
          (Some server_id, Some game_id) \<Rightarrow>
            and_then (validate_token server_id ''server_id'') (\<lambda>_. validate_token game_id ''game_id'')
        | (None, None) \<Rightarrow> Inr ()
        | _ \<Rightarrow> Inl (refusal ''invalid_fact_snapshot'' ''fact_snapshot'')) (\<lambda>_.
     if MAX_FACT_RECORDS < length (iv_records v)
     then Inl (refusal ''invalid_fact_snapshot'' ''fact_snapshot'')
     else validate_records (view_applies v) [] (iv_records v)))"

section \<open>Observations and invalidations\<close>

definition same_observation :: "FactRecord \<Rightarrow> FactRecord \<Rightarrow> bool" where
  "same_observation r first \<longleftrightarrow>
     fr_scope r = fr_scope first \<and> fr_source_snapshot_id r = fr_source_snapshot_id first
     \<and> fr_observed_at_unix_ms r = fr_observed_at_unix_ms first
     \<and> fr_expires_at_unix_ms r = fr_expires_at_unix_ms first
     \<and> fr_ttl_policy r = fr_ttl_policy first \<and> fr_source_detector r = fr_source_detector first
     \<and> fr_resource_bundle_hash r = fr_resource_bundle_hash first
     \<and> fr_schema_version r = fr_schema_version first
     \<and> fr_invalidate_on r = fr_invalidate_on first"

fun validate_observed ::
  "FactRecord \<Rightarrow> str list \<Rightarrow> FactRecord list \<Rightarrow> (SanitizationError, unit) result" where
  "validate_observed first keys [] = Inr ()"
| "validate_observed first keys (r # rs) =
     and_then (record_validate r) (\<lambda>_.
     if fr_key r \<in> set keys \<or> MAX_FACT_RECORDS < length (fr_key r # keys)
        \<or> \<not> same_observation r first
     then Inl (refusal ''inconsistent_fact_observation'' ''records'')
     else validate_observed first (fr_key r # keys) rs)"

definition validate_fact_observation :: "FactRecord list \<Rightarrow> (SanitizationError, unit) result" where
  "validate_fact_observation rs =
     (case rs of
        [] \<Rightarrow> Inl (refusal ''empty_fact_observation'' ''records'')
      | first # _ \<Rightarrow> validate_observed first [] rs)"

text \<open>\<open>FactObservation::validate\<close>; the length of the JSON encoding, if there is one, is an
  argument.\<close>

definition observation_validate ::
  "(FactRecord list \<Rightarrow> nat option) \<Rightarrow> FactRecord list \<Rightarrow> (SanitizationError, unit) result" where
  "observation_validate encoded_len rs =
     and_then (validate_fact_observation rs) (\<lambda>_.
     and_then (ok_or (refusal ''invalid_fact_observation'' ''records'') (encoded_len rs)) (\<lambda>n.
     if MAX_FACT_OBSERVATION_BYTES < n
     then Inl (refusal ''fact_observation_too_large'' ''records'')
     else Inr ()))"

definition validate_fact_invalidation ::
  "FactInvalidationEventData \<Rightarrow> (SanitizationError, unit) result" where
  "validate_fact_invalidation d =
     and_then (scope_validate (fe_scope d)) (\<lambda>_.
     and_then (validate_fact_key (fe_key d)) (\<lambda>_.
     and_then (validate_token (fe_source_snapshot_id d) ''source_snapshot_id'') (\<lambda>_.
     if fe_invalidated_at_unix_ms d = 0 \<or> is_fact_event (fe_invalidated_by_event_type d)
     then Inl (refusal ''invalid_fact_invalidation'' ''fact_invalidation'')
     else Inr ())))"

definition is_adjustment_invalidation :: "FactInvalidationEventData \<Rightarrow> bool" where
  "is_adjustment_invalidation d \<longleftrightarrow>
     fe_invalidated_by_event_type d = ''task.step_finished''
     \<and> (case fe_scope d of FactInstance _ \<Rightarrow> True | _ \<Rightarrow> False)
     \<and> (starts_with (fe_key d) (ascii ''resource.'') \<or> starts_with (fe_key d) (ascii ''inventory.''))"

section \<open>Keys and sources as text\<close>

definition strip_suffix :: "str \<Rightarrow> str \<Rightarrow> str option" where
  "strip_suffix s suffix = map_option rev (strip_prefix (rev s) (rev suffix))"

definition priority_offset_task_id :: "str \<Rightarrow> str option" where
  "priority_offset_task_id key =
     Option.bind (strip_prefix key PRIORITY_OFFSET_KEY_PREFIX) (\<lambda>rest.
     Option.bind (strip_suffix rest PRIORITY_OFFSET_KEY_SUFFIX) (\<lambda>task_id.
     if task_id = [] then None else Some task_id))"

definition priority_offset_fact_key :: "str \<Rightarrow> str" where
  "priority_offset_fact_key task_id =
     PRIORITY_OFFSET_KEY_PREFIX @ task_id @ PRIORITY_OFFSET_KEY_SUFFIX"

datatype FactKeyFamily = PriorityOffset | RemedyChoices | InstanceInformation

fun takes_origin_exception :: "FactKeyFamily \<Rightarrow> bool" where
  "takes_origin_exception PriorityOffset = True"
| "takes_origin_exception RemedyChoices = True"
| "takes_origin_exception InstanceInformation = False"

definition fact_key_family :: "str \<Rightarrow> FactKeyFamily" where
  "fact_key_family key =
     (if priority_offset_task_id key \<noteq> None then PriorityOffset
      else if key = REMEDY_CHOICES_FACT_KEY then RemedyChoices
      else InstanceInformation)"

definition resource_reading_snapshot_id :: "str \<Rightarrow> str \<Rightarrow> str \<Rightarrow> str" where
  "resource_reading_snapshot_id run frame reading_id =
     concat [ascii ''run:'', run, ascii ''/frame:'', frame, ascii ''/'', reading_id]"

definition resource_reading_capacity_snapshot_id :: "str \<Rightarrow> str \<Rightarrow> str \<Rightarrow> str" where
  "resource_reading_capacity_snapshot_id run frame reading_id =
     resource_reading_snapshot_id run frame reading_id @ ascii ''/capacity''"

definition resource_adjustment_snapshot_id :: "str \<Rightarrow> str \<Rightarrow> str \<Rightarrow> str \<Rightarrow> str" where
  "resource_adjustment_snapshot_id run frame adjustment_id base_event =
     concat [ascii ''run:'', run, ascii ''/frame:'', frame, ascii ''/'', adjustment_id,
             ascii ''/base:'', base_event]"

text \<open>\<open>split_once\<close> on a text: the parts before and after its first occurrence.\<close>

fun split_once_str :: "str \<Rightarrow> str \<Rightarrow> (str \<times> str) option" where
  "split_once_str d s =
     (if starts_with s d then Some ([], drop (length d) s)
      else case s of
             [] \<Rightarrow> None
           | c # rest \<Rightarrow> map_option (\<lambda>(a, b). (c # a, b)) (split_once_str d rest))"

declare split_once_str.simps [simp del]

text \<open>A typed identifier from a text; a text with a character outside ASCII has none.\<close>

definition id_of_str :: "string \<Rightarrow> str \<Rightarrow> u8 list option" where
  "id_of_str prefix s =
     (if list_all (\<lambda>c. c < 128) s then id_parse prefix (map char_of s) else None)"

definition parse_resource_reading_snapshot_id :: "str \<Rightarrow> (RunId \<times> FrameId) option" where
  "parse_resource_reading_snapshot_id v =
     Option.bind (strip_prefix v (ascii ''run:'')) (\<lambda>tail.
     Option.bind (split_once_str (ascii ''/frame:'') tail) (\<lambda>(run, rest).
     Option.bind (split_once 47 rest) (\<lambda>(frame, reading_id).
     if reading_id = [] then None
     else
       Option.bind (id_of_str ''run_'' run) (\<lambda>r.
       Option.bind (id_of_str ''frame_'' frame) (\<lambda>f. Some (RunId r, FrameId f))))))"

text \<open>The records the Runtime builds itself; the digest of the identity (JSON, then SHA-256 in
  lower-case hexadecimal) is an argument, absent when the encoding fails.\<close>

definition priority_offset ::
  "(FactScope \<Rightarrow> str \<Rightarrow> i64 \<Rightarrow> u64 \<Rightarrow> str \<Rightarrow> str option) \<Rightarrow> FactScope \<Rightarrow> str \<Rightarrow> i64 \<Rightarrow> u64 \<Rightarrow> str
     \<Rightarrow> (SanitizationError, FactRecord) result" where
  "priority_offset digest_of scope task_id offset_milli at detector =
     (let key = priority_offset_fact_key task_id in
      and_then (ok_or (refusal ''invalid_fact_record'' ''priority_offset'')
                  (digest_of scope key offset_milli at detector)) (\<lambda>digest.
      let r = \<lparr>fr_scope = scope, fr_key = key, fr_content = Inline (FvInteger offset_milli),
               fr_observed_at_unix_ms = at, fr_expires_at_unix_ms = None, fr_ttl_policy = None,
               fr_confidence_milli = 1000, fr_source_detector = detector,
               fr_source_snapshot_id = ascii ''snapshot:priority-offset:'' @ digest,
               fr_schema_version = ascii ''fact.v1'', fr_resource_bundle_hash = digest,
               fr_invalidate_on = []\<rparr> in
      and_then (record_validate r) (\<lambda>_. Inr r)))"

definition remedy_choices ::
  "(FactScope \<Rightarrow> (str, FactScalar) btree list \<Rightarrow> u64 \<Rightarrow> str option) \<Rightarrow> FactScope
     \<Rightarrow> (str, FactScalar) btree list \<Rightarrow> u64 \<Rightarrow> str \<Rightarrow> (SanitizationError, FactRecord) result" where
  "remedy_choices digest_of scope rows at detector =
     and_then (ok_or (refusal ''invalid_fact_record'' ''remedy_choices'') (digest_of scope rows at))
       (\<lambda>digest.
        let r = \<lparr>fr_scope = scope, fr_key = REMEDY_CHOICES_FACT_KEY,
                 fr_content = Inline (FvRecordList rows), fr_observed_at_unix_ms = at,
                 fr_expires_at_unix_ms = None, fr_ttl_policy = None, fr_confidence_milli = 1000,
                 fr_source_detector = detector,
                 fr_source_snapshot_id = REMEDY_CHOICES_SNAPSHOT_PREFIX @ digest,
                 fr_schema_version = ascii ''fact.v1'', fr_resource_bundle_hash = digest,
                 fr_invalidate_on = []\<rparr> in
        and_then (record_validate r) (\<lambda>_. Inr r))"

end
