(* ===== verification/Selection_Facts.thy ===== *)
theory Selection_Facts
  imports Selection_Validate Instance_Facts
begin

text \<open>
  The inputs of a selection (\<open>crates/selection-policy/src/facts.rs\<close>): candidates, the fact snapshot
  built of published records with the most specific scope per key, and the reading of a declared
  scalar fact or record list, which is a value or the reason it is unknown.
\<close>

type_synonym RecordRow = "(str, ScalarValue) btree"

record Candidate =
  ca_candidate_id :: str
  ca_fields :: "(str, ScalarValue) btree"

datatype UnknownReason =
    UrFactMissing | UrFactExpired | UrFactStale | UrFactLowConfidence | UrFactNotScalar
  | UrFieldMissing | UrTypeMismatch | UrLookupMiss

datatype SelectionFactEntry =
    Published ScalarValue u64 "u64 option" u16
  | Unusable UnknownReason
  | RecordList "RecordRow list" u64 "u64 option" u16

record SelectionFactSnapshot =
  sf_snapshot_id :: str
  sf_snapshot_at_unix_ms :: u64
  sf_facts :: "(str, SelectionFactEntry) btree"

section \<open>Building a snapshot\<close>

fun scope_specificity :: "FactScope \<Rightarrow> u8" where
  "scope_specificity (FactInstance _) = 3"
| "scope_specificity (FactServer _) = 2"
| "scope_specificity (FactGame _) = 1"

definition integer_of_u64 :: "u64 \<Rightarrow> (UnknownReason, ScalarValue) result" where
  "integer_of_u64 n = map_err (\<lambda>_. UrTypeMismatch) (ok_or () (map_option SvInteger (i64_try_from_u64 n)))"

fun row_cell :: "FactScalar \<Rightarrow> (UnknownReason, ScalarValue) result" where
  "row_cell (ScBoolean b) = Inr (SvBoolean b)"
| "row_cell (ScInteger i) = Inr (SvInteger i)"
| "row_cell (ScString s) = Inr (SvString s)"
| "row_cell (ScTimestampMs n) = integer_of_u64 n"
| "row_cell (ScDurationMs n) = integer_of_u64 n"

text \<open>\<open>collect\<close> into a \<open>Result\<close>: the first error, or every value.\<close>

fun try_map :: "('a \<Rightarrow> ('e, 'b) result) \<Rightarrow> 'a list \<Rightarrow> ('e, 'b list) result" where
  "try_map f [] = Inr []"
| "try_map f (x # xs) = and_then (f x) (\<lambda>y. and_then (try_map f xs) (\<lambda>ys. Inr (y # ys)))"

definition row_cells :: "(str, FactScalar) btree \<Rightarrow> (UnknownReason, RecordRow) result" where
  "row_cells row = try_map (\<lambda>(column, cell). and_then (row_cell cell) (\<lambda>v. Inr (column, v))) row"

definition entry_for :: "FactRecord \<Rightarrow> bool \<Rightarrow> SelectionFactEntry" where
  "entry_for r declared_list =
     (let published = (\<lambda>v. Published v (fr_observed_at_unix_ms r) (fr_expires_at_unix_ms r)
                              (fr_confidence_milli r)) in
      case fr_content r of
        Artifact _ \<Rightarrow> Unusable UrFactNotScalar
      | Inline v \<Rightarrow>
          (case v of
             FvBoolean b \<Rightarrow> published (SvBoolean b)
           | FvInteger i \<Rightarrow> published (SvInteger i)
           | FvString s \<Rightarrow> published (SvString s)
           | FvTimestampMs n \<Rightarrow>
               (case integer_of_u64 n of Inl reason \<Rightarrow> Unusable reason | Inr v \<Rightarrow> published v)
           | FvDurationMs n \<Rightarrow>
               (case integer_of_u64 n of Inl reason \<Rightarrow> Unusable reason | Inr v \<Rightarrow> published v)
           | FvRecordList rows \<Rightarrow>
               if declared_list
               then (case try_map row_cells rows of
                       Inr rows \<Rightarrow>
                         RecordList rows (fr_observed_at_unix_ms r) (fr_expires_at_unix_ms r)
                           (fr_confidence_milli r)
                     | Inl reason \<Rightarrow> Unusable reason)
               else Unusable UrFactNotScalar))"

definition choose_record ::
  "str list \<Rightarrow> (str, u8 \<times> SelectionFactEntry) btree \<Rightarrow> FactRecord
     \<Rightarrow> (str, u8 \<times> SelectionFactEntry) btree" where
  "choose_record record_lists chosen r =
     (let spec = scope_specificity (fr_scope r);
          entry = entry_for r (fr_key r \<in> set record_lists) in
      case bt_get chosen (fr_key r) of
        Some (previous, _) \<Rightarrow>
          if spec \<le> previous then chosen else bt_insert (fr_key r) (spec, entry) chosen
      | None \<Rightarrow> bt_insert (fr_key r) (spec, entry) chosen)"

definition from_fact_records_with_lists ::
  "str \<Rightarrow> u64 \<Rightarrow> FactRecord list \<Rightarrow> str list \<Rightarrow> SelectionFactSnapshot" where
  "from_fact_records_with_lists snapshot_id at rs record_lists =
     \<lparr>sf_snapshot_id = snapshot_id, sf_snapshot_at_unix_ms = at,
      sf_facts = map (\<lambda>(k, (_, entry)). (k, entry)) (foldl (choose_record record_lists) [] rs)\<rparr>"

definition from_fact_records :: "str \<Rightarrow> u64 \<Rightarrow> FactRecord list \<Rightarrow> SelectionFactSnapshot" where
  "from_fact_records snapshot_id at rs =
     from_fact_records_with_lists snapshot_id at rs []"

definition from_instance_snapshot_with_lists ::
  "InstanceFactSnapshot \<Rightarrow> u64 \<Rightarrow> str list \<Rightarrow> SelectionFactSnapshot" where
  "from_instance_snapshot_with_lists s at record_lists =
     from_fact_records_with_lists (is_snapshot_id s) at
       (filter (\<lambda>r. scope_matches (fr_scope r) (is_context s)) (is_records s)) record_lists"

definition from_instance_snapshot :: "InstanceFactSnapshot \<Rightarrow> u64 \<Rightarrow> SelectionFactSnapshot" where
  "from_instance_snapshot s at = from_instance_snapshot_with_lists s at []"

section \<open>Reading a declared fact\<close>

definition check_freshness ::
  "FactDeclaration \<Rightarrow> u64 \<Rightarrow> u64 \<Rightarrow> u64 option \<Rightarrow> u16 \<Rightarrow> (UnknownReason, unit) result" where
  "check_freshness d now published expires confidence =
     (if (case expires of None \<Rightarrow> False | Some expiry \<Rightarrow> expiry < now) then Inl UrFactExpired
      else if fc_max_age_ms d < saturating_sub now published then Inl UrFactStale
      else if confidence < fc_minimum_confidence_milli d \<or> confidence = 0
      then Inl UrFactLowConfidence
      else Inr ())"

definition resolve_scalar ::
  "SelectionFactSnapshot \<Rightarrow> FactDeclaration \<Rightarrow> u64 \<Rightarrow> (UnknownReason, ScalarValue) result" where
  "resolve_scalar s d now =
     and_then (ok_or UrFactMissing (bt_get (sf_facts s) (fc_fact_key d))) (\<lambda>entry.
     case entry of
       Unusable reason \<Rightarrow> Inl reason
     | RecordList _ _ _ _ \<Rightarrow> Inl UrFactNotScalar
     | Published v published expires confidence \<Rightarrow>
         and_then (check_freshness d now published expires confidence) (\<lambda>_.
         if scalar_matches v (fc_value_type d) then Inr v else Inl UrTypeMismatch))"

definition well_formed_row :: "str \<Rightarrow> (str \<times> ValueType) list \<Rightarrow> RecordRow \<Rightarrow> bool" where
  "well_formed_row key_column columns row \<longleftrightarrow>
     (case bt_get row key_column of Some (SvString _) \<Rightarrow> True | _ \<Rightarrow> False)
     \<and> list_all (\<lambda>(column, t).
          case bt_get row column of None \<Rightarrow> False | Some cell \<Rightarrow> scalar_matches cell t) columns"

definition resolve_list ::
  "SelectionFactSnapshot \<Rightarrow> FactDeclaration \<Rightarrow> u64 \<Rightarrow> (UnknownReason, RecordRow list) result" where
  "resolve_list s d now =
     (case fc_value_type d of
        VtRecordList key_column columns \<Rightarrow>
          and_then (ok_or UrFactMissing (bt_get (sf_facts s) (fc_fact_key d))) (\<lambda>entry.
          and_then
            (case entry of
               Unusable UrFactNotScalar \<Rightarrow> Inl UrTypeMismatch
             | Unusable reason \<Rightarrow> Inl reason
             | Published _ published expires confidence \<Rightarrow>
                 Inr (None, published, expires, confidence)
             | RecordList rows published expires confidence \<Rightarrow>
                 Inr (Some rows, published, expires, confidence))
            (\<lambda>(rows, published, expires, confidence).
               and_then (check_freshness d now published expires confidence) (\<lambda>_.
               and_then (ok_or UrTypeMismatch rows) (\<lambda>rows.
               if list_all (well_formed_row key_column columns) rows then Inr rows
               else Inl UrTypeMismatch))))
      | _ \<Rightarrow> Inl UrTypeMismatch)"

end
