(* ===== verification/Selection_Tables.thy ===== *)
theory Selection_Tables
  imports Selection_Facts
begin

text \<open>
  The shared tables a document reads (\<open>crates/selection-policy/src/tables.rs\<close>, the table type of
  \<open>crates/actingcommand-contract/src/standard_pack_table.rs\<close>): a table fixed at one instant and
  indexed by key, the tables bound to a document, and the one rule by which a reference reads a
  cell. The \<open>Arc\<close> that shares a loaded table is not modelled.
\<close>

section \<open>Tables\<close>

datatype StandardPackTableColumnType =
    ColKey | ColInteger i64 i64 | ColBoolean | ColEnumString "str list"

record StandardPackTableColumn =
  cl_name :: str
  cl_column_type :: StandardPackTableColumnType
  cl_nullable :: bool
  cl_valid_until_unix_s :: "i64 option"

datatype StandardPackTableCell = CellNull | CellInteger i64 | CellBoolean bool | CellText str

fun cell_key :: "StandardPackTableCell \<Rightarrow> nat \<times> int \<times> bool \<times> str" where
  "cell_key CellNull = (0, 0, False, [])"
| "cell_key (CellInteger i) = (1, sint i, False, [])"
| "cell_key (CellBoolean b) = (2, 0, b, [])"
| "cell_key (CellText s) = (3, 0, False, s)"

lemma cell_key_inject [simp]: "cell_key a = cell_key b \<longleftrightarrow> a = b"
  by (cases a; cases b) (auto simp: sint_i64_inject)

instantiation StandardPackTableCell :: linorder
begin

definition less_eq_StandardPackTableCell ::
  "StandardPackTableCell \<Rightarrow> StandardPackTableCell \<Rightarrow> bool" where
  "a \<le> b \<longleftrightarrow> cell_key a \<le> cell_key b"

definition less_StandardPackTableCell ::
  "StandardPackTableCell \<Rightarrow> StandardPackTableCell \<Rightarrow> bool" where
  "a < b \<longleftrightarrow> cell_key a < cell_key b"

instance
proof
  fix x y z :: StandardPackTableCell
  show "x < y \<longleftrightarrow> x \<le> y \<and> \<not> y \<le> x" "x \<le> x" "x \<le> y \<or> y \<le> x"
    by (auto simp: less_eq_StandardPackTableCell_def less_StandardPackTableCell_def order_less_le)
  show "x \<le> y \<Longrightarrow> y \<le> z \<Longrightarrow> x \<le> z" "x \<le> y \<Longrightarrow> y \<le> x \<Longrightarrow> x = y"
    by (auto simp: less_eq_StandardPackTableCell_def dest: order.antisym)
qed

end

record StandardPackTable =
  tb_game :: str
  tb_table_id :: str
  tb_row_key :: "str list"
  tb_columns :: "StandardPackTableColumn list"
  tb_rows :: "StandardPackTableCell list list"

definition column_expired :: "i64 \<Rightarrow> u64 \<Rightarrow> bool" where
  "column_expired until now \<longleftrightarrow> sint until < int (unat now div 1000)"

definition expired_columns :: "StandardPackTable \<Rightarrow> u64 \<Rightarrow> str list" where
  "expired_columns t now =
     map cl_name
       (filter (\<lambda>c. case cl_valid_until_unix_s c of None \<Rightarrow> False | Some until \<Rightarrow> column_expired until now)
         (tb_columns t))"

datatype TableMismatch = TmRowKey | TmColumnAbsent | TmColumnType | TmAllowedNotSubset

section \<open>A loaded table\<close>

record LoadedTable =
  ld_table :: StandardPackTable
  ld_positions :: "(str, nat) btree"
  ld_by_key :: "(str, nat list) btree"

text \<open>\<open>slice::get\<close>.\<close>

definition get_at :: "'a list \<Rightarrow> nat \<Rightarrow> 'a option" where
  "get_at xs n = (if n < length xs then Some (xs ! n) else None)"

definition null_column ::
  "(str, nat) btree \<Rightarrow> StandardPackTableCell list list \<Rightarrow> str \<Rightarrow> StandardPackTableCell list list" where
  "null_column positions rows column =
     (case bt_get positions column of
        None \<Rightarrow> rows
      | Some pos \<Rightarrow> map (\<lambda>row. row[pos := CellNull]) rows)"

definition index_row ::
  "nat \<Rightarrow> (str, nat list) btree \<Rightarrow> nat \<times> StandardPackTableCell list \<Rightarrow> (str, nat list) btree" where
  "index_row key_position by_key ir =
     (case get_at (snd ir) key_position of
        Some (CellText key) \<Rightarrow>
          bt_insert key ((case bt_get by_key key of None \<Rightarrow> [] | Some is \<Rightarrow> is) @ [fst ir]) by_key
      | _ \<Rightarrow> by_key)"

definition load :: "StandardPackTable \<Rightarrow> u64 \<Rightarrow> LoadedTable" where
  "load t now =
     (let positions = bt_from (map (\<lambda>(pos, c). (cl_name c, pos)) (enumerate 0 (tb_columns t)));
          rows = foldl (null_column positions) (tb_rows t) (expired_columns t now);
          key_position =
            (case tb_row_key t of [] \<Rightarrow> None | column # _ \<Rightarrow> bt_get positions column);
          by_key =
            (case key_position of
               None \<Rightarrow> []
             | Some pos \<Rightarrow> foldl (index_row pos) [] (enumerate 0 rows)) in
      \<lparr>ld_table = t\<lparr>tb_rows := rows\<rparr>, ld_positions = positions, ld_by_key = by_key\<rparr>)"

definition loaded_table_id :: "LoadedTable \<Rightarrow> str" where
  "loaded_table_id l = tb_table_id (ld_table l)"

definition loaded_keys :: "LoadedTable \<Rightarrow> str list" where
  "loaded_keys l = map fst (ld_by_key l)"

definition loaded_cell :: "LoadedTable \<Rightarrow> nat \<Rightarrow> str \<Rightarrow> StandardPackTableCell option" where
  "loaded_cell l row column =
     Option.bind (bt_get (ld_positions l) column) (\<lambda>pos.
     Option.bind (get_at (tb_rows (ld_table l)) row) (\<lambda>cells. get_at cells pos))"

fun cell_holds :: "StandardPackTableCell \<Rightarrow> ScalarValue \<Rightarrow> bool" where
  "cell_holds (CellInteger c) (SvInteger v) = (c = v)"
| "cell_holds (CellBoolean c) (SvBoolean v) = (c = v)"
| "cell_holds (CellText c) (SvString v) = (c = v)"
| "cell_holds _ _ = False"

fun cell_value :: "StandardPackTableCell \<Rightarrow> ScalarValue option" where
  "cell_value CellNull = None"
| "cell_value (CellInteger v) = Some (SvInteger v)"
| "cell_value (CellBoolean v) = Some (SvBoolean v)"
| "cell_value (CellText v) = Some (SvString v)"

fun cell_json :: "StandardPackTableCell \<Rightarrow> json" where
  "cell_json CellNull = JsonNull"
| "cell_json (CellInteger v) = JsonNumber (if 0 \<le> sint v then PosInt v else NegInt v)"
| "cell_json (CellBoolean v) = JsonBool v"
| "cell_json (CellText v) = JsonString v"

definition pins_hold :: "LoadedTable \<Rightarrow> (str \<times> ScalarValue) list \<Rightarrow> nat \<Rightarrow> bool" where
  "pins_hold l pins row =
     list_all (\<lambda>(column, v).
       case loaded_cell l row column of None \<Rightarrow> False | Some cell \<Rightarrow> cell_holds cell v) pins"

definition row_of :: "LoadedTable \<Rightarrow> str \<Rightarrow> (str \<times> ScalarValue) list \<Rightarrow> nat option" where
  "row_of l key pins =
     Option.bind (bt_get (ld_by_key l) key) (\<lambda>rows. List.find (pins_hold l pins) rows)"

section \<open>Bound tables\<close>

record TableBindRefusal =
  tr_table_id :: str
  tr_path :: str
  tr_mismatch :: TableMismatch
  tr_column :: "str option"

record BoundTable =
  bn_loaded :: LoadedTable
  bn_declaration :: TableDeclaration

type_synonym SelectionTables = "(str, BoundTable) btree"

definition no_tables :: SelectionTables where
  "no_tables = []"

definition check_declared_column ::
  "TableDeclaration \<Rightarrow> LoadedTable \<Rightarrow> str \<times> ValueType \<Rightarrow> (TableBindRefusal, unit) result" where
  "check_declared_column d l nt =
     (let refuse = (\<lambda>mismatch. Inl \<lparr>tr_table_id = td_table_id d, tr_path = td_path d,
                                   tr_mismatch = mismatch, tr_column = Some (fst nt)\<rparr>) in
      case List.find (\<lambda>c. cl_name c = fst nt) (tb_columns (ld_table l)) of
        None \<Rightarrow> refuse TmColumnAbsent
      | Some column \<Rightarrow>
          (case (snd nt, cl_column_type column) of
             (VtInteger, ColInteger _ _) \<Rightarrow> Inr ()
           | (VtBoolean, ColBoolean) \<Rightarrow> Inr ()
           | (VtEnumString allowed, ColEnumString file) \<Rightarrow>
               if list_all (\<lambda>m. m \<in> set file) allowed then Inr () else refuse TmAllowedNotSubset
           | _ \<Rightarrow> refuse TmColumnType))"

definition check_declaration :: "TableDeclaration \<Rightarrow> LoadedTable \<Rightarrow> (TableBindRefusal, unit) result" where
  "check_declaration d l =
     (if tb_row_key (ld_table l) \<noteq> td_row_key d
      then Inl \<lparr>tr_table_id = td_table_id d, tr_path = td_path d, tr_mismatch = TmRowKey,
                tr_column = None\<rparr>
      else try_for_each (check_declared_column d l) (td_columns d))"

fun bind_declarations ::
  "LoadedTable list \<Rightarrow> SelectionTables \<Rightarrow> TableDeclaration list
     \<Rightarrow> (TableBindRefusal, SelectionTables) result" where
  "bind_declarations tables bound [] = Inr bound"
| "bind_declarations tables bound (d # ds) =
     (case List.find (\<lambda>l. loaded_table_id l = td_table_id d) tables of
        None \<Rightarrow> bind_declarations tables bound ds
      | Some l \<Rightarrow>
          and_then (check_declaration d l) (\<lambda>_.
          bind_declarations tables
            (bt_insert (td_table_id d) \<lparr>bn_loaded = l, bn_declaration = d\<rparr> bound) ds))"

definition bind_tables ::
  "SelectionPolicy \<Rightarrow> LoadedTable list \<Rightarrow> (TableBindRefusal, SelectionTables) result" where
  "bind_tables p tables = bind_declarations tables [] (sp_tables p)"

definition check_bound :: "SelectionTables \<Rightarrow> SelectionPolicy \<Rightarrow> (SelectionError, unit) result" where
  "check_bound T p =
     (case List.find (\<lambda>d. bt_get T (td_table_id d) = None) (sp_tables p) of
        Some d \<Rightarrow>
          refuse_with SelDanglingReference [ascii ''table_id='', td_table_id d, ascii '' unbound'']
      | None \<Rightarrow> Inr ())"

section \<open>Reading a cell\<close>

record TableReading =
  rd_value :: "(UnknownReason, ScalarValue) result"
  rd_used_fallback :: bool
  rd_otherwise_column :: "str option"
  rd_static_unknown :: bool

definition reading_known :: "ScalarValue \<Rightarrow> TableReading" where
  "reading_known v =
     \<lparr>rd_value = Inr v, rd_used_fallback = False, rd_otherwise_column = None,
      rd_static_unknown = False\<rparr>"

definition reading_unknown :: "UnknownReason \<Rightarrow> bool \<Rightarrow> TableReading" where
  "reading_unknown reason static_unknown =
     \<lparr>rd_value = Inl reason, rd_used_fallback = False, rd_otherwise_column = None,
      rd_static_unknown = static_unknown\<rparr>"

type_synonym fact_reader = "str \<Rightarrow> (UnknownReason, ScalarValue) result"

text \<open>A pin's value, and the first column whose pin used its \<open>otherwise\<close>.\<close>

definition pin_value ::
  "TablePin \<Rightarrow> fact_reader \<Rightarrow> str option \<Rightarrow> (UnknownReason, ScalarValue) result \<times> str option" where
  "pin_value pin read_fact otherwise_column =
     (case tp_equals pin of
        Some literal \<Rightarrow> (Inr literal, otherwise_column)
      | None \<Rightarrow>
          (case tp_equals_fact pin of
             None \<Rightarrow> (Inl UrTypeMismatch, otherwise_column)
           | Some fact_key \<Rightarrow>
               (case read_fact fact_key of
                  Inr v \<Rightarrow> (Inr v, otherwise_column)
                | Inl reason \<Rightarrow>
                    (case (case tp_otherwise pin of
                             None \<Rightarrow> Inl reason
                           | Some ow \<Rightarrow>
                               (case (ow_equals ow, ow_equals_fact ow) of
                                  (Some literal, _) \<Rightarrow> Inr literal
                                | (None, Some other_key) \<Rightarrow> read_fact other_key
                                | (None, None) \<Rightarrow> Inl reason)) of
                       Inr v \<Rightarrow>
                         (Inr v,
                          case otherwise_column of None \<Rightarrow> Some (tp_column pin) | Some c \<Rightarrow> Some c)
                     | Inl _ \<Rightarrow> (Inl reason, otherwise_column)))))"

fun pin_values ::
  "fact_reader \<Rightarrow> str option \<Rightarrow> TablePin list
     \<Rightarrow> (UnknownReason, (str \<times> ScalarValue) list) result \<times> str option" where
  "pin_values read_fact oc [] = (Inr [], oc)"
| "pin_values read_fact oc (pin # pins) =
     (case pin_value pin read_fact oc of
        (Inl reason, oc) \<Rightarrow> (Inl reason, oc)
      | (Inr v, oc) \<Rightarrow>
          (case pin_values read_fact oc pins of
             (Inl reason, oc) \<Rightarrow> (Inl reason, oc)
           | (Inr vs, oc) \<Rightarrow> (Inr ((tp_column pin, v) # vs), oc)))"

definition is_null :: "StandardPackTableCell option \<Rightarrow> bool" where
  "is_null c \<longleftrightarrow> c = None \<or> c = Some CellNull"

text \<open>The column read and its cell: the value column, or the fallback when the value is null and
  the fallback is not.\<close>

definition read_column ::
  "LoadedTable \<Rightarrow> nat \<Rightarrow> str \<Rightarrow> str option \<Rightarrow> bool \<times> str \<times> StandardPackTableCell option" where
  "read_column l row value_column fallback_column =
     (let cell = loaded_cell l row value_column in
      if is_null cell
      then (case fallback_column of
              None \<Rightarrow> (False, value_column, cell)
            | Some fallback \<Rightarrow>
                (let other = loaded_cell l row fallback in
                 if is_null other then (False, value_column, cell) else (True, fallback, other)))
      else (False, value_column, cell))"

definition read_row ::
  "BoundTable \<Rightarrow> nat \<Rightarrow> str \<Rightarrow> str option \<Rightarrow> str option \<Rightarrow> TableReading" where
  "read_row b row value_column fallback_column otherwise_column =
     (let (used_fallback, column, cell) = read_column (bn_loaded b) row value_column fallback_column in
      case Option.bind cell cell_value of
        None \<Rightarrow> (reading_unknown UrLookupMiss True)\<lparr>rd_otherwise_column := otherwise_column\<rparr>
      | Some v \<Rightarrow>
          if (case bt_get (td_columns (bn_declaration b)) column of
                None \<Rightarrow> False
              | Some declared \<Rightarrow> scalar_matches v declared)
          then (reading_known v)\<lparr>rd_used_fallback := used_fallback,
                                 rd_otherwise_column := otherwise_column\<rparr>
          else (reading_unknown UrTypeMismatch True)\<lparr>rd_otherwise_column := otherwise_column\<rparr>)"

definition read_table :: "SelectionTables \<Rightarrow> ValueRef \<Rightarrow> str \<Rightarrow> fact_reader \<Rightarrow> TableReading" where
  "read_table T r key read_fact =
     (case r of
        VrTable table_id _ pins value_column fallback_column absent \<Rightarrow>
          (case bt_get T table_id of
             None \<Rightarrow> reading_unknown UrTypeMismatch False
           | Some b \<Rightarrow>
               (case pin_values read_fact None pins of
                  (Inl reason, _) \<Rightarrow> reading_unknown reason False
                | (Inr pinned, otherwise_column) \<Rightarrow>
                    if bt_get (ld_by_key (bn_loaded b)) key = None
                    then (reading_unknown UrLookupMiss True)\<lparr>rd_otherwise_column := otherwise_column\<rparr>
                    else
                      (case row_of (bn_loaded b) key pinned of
                         None \<Rightarrow>
                           (case absent of
                              Some v \<Rightarrow> (reading_known v)\<lparr>rd_otherwise_column := otherwise_column\<rparr>
                            | None \<Rightarrow>
                                (reading_unknown UrLookupMiss False)
                                  \<lparr>rd_otherwise_column := otherwise_column\<rparr>)
                       | Some row \<Rightarrow>
                           read_row b row value_column fallback_column otherwise_column)))
      | _ \<Rightarrow> reading_unknown UrTypeMismatch False)"

section \<open>The rows of the input identity\<close>

text \<open>Sets of row numbers are ascending lists (\<open>BTreeSet\<close>).\<close>

definition add_row :: "nat \<Rightarrow> nat list \<Rightarrow> nat list" where
  "add_row n ns = (if n \<in> set ns then ns else insort n ns)"

definition projection :: "BoundTable \<Rightarrow> nat \<Rightarrow> StandardPackTableCell list" where
  "projection b row =
     map (\<lambda>column. case loaded_cell (bn_loaded b) row column of None \<Rightarrow> CellNull | Some c \<Rightarrow> c)
       (td_row_key (bn_declaration b))"

definition row_object :: "BoundTable \<Rightarrow> nat \<Rightarrow> (str, json) btree" where
  "row_object b row =
     bt_from (map (\<lambda>column.
       (column, case loaded_cell (bn_loaded b) row column of None \<Rightarrow> JsonNull | Some c \<Rightarrow> cell_json c))
       (take 1 (td_row_key (bn_declaration b)) @ map fst (td_columns (bn_declaration b))))"

definition read_reference ::
  "SelectionTables \<Rightarrow> Candidate list \<Rightarrow> (str \<Rightarrow> Candidate \<Rightarrow> str option) \<Rightarrow> fact_reader
     \<Rightarrow> (str, nat list) btree \<Rightarrow> ValueRef \<Rightarrow> (str, nat list) btree" where
  "read_reference T candidates key_of_candidate read_fact rows r =
     (case r of
        VrTable table_id key_field pins _ _ _ \<Rightarrow>
          (case bt_get T table_id of
             None \<Rightarrow> rows
           | Some b \<Rightarrow>
               (case fst (pin_values read_fact None pins) of
                  Inl _ \<Rightarrow> rows
                | Inr pinned \<Rightarrow>
                    foldl (\<lambda>rows candidate.
                        case Option.bind (key_of_candidate key_field candidate)
                               (\<lambda>key. row_of (bn_loaded b) key pinned) of
                          None \<Rightarrow> rows
                        | Some row \<Rightarrow>
                            bt_insert table_id
                              (add_row row
                                (case bt_get rows table_id of None \<Rightarrow> [] | Some ns \<Rightarrow> ns)) rows)
                      rows candidates))
      | _ \<Rightarrow> rows)"

definition read_rows ::
  "SelectionTables \<Rightarrow> SelectionPolicy \<Rightarrow> Candidate list \<Rightarrow> (str \<Rightarrow> Candidate \<Rightarrow> str option)
     \<Rightarrow> fact_reader \<Rightarrow> (str, (str, json) btree list) btree" where
  "read_rows T p candidates key_of_candidate read_fact =
     (let rows = foldl (read_reference T candidates key_of_candidate read_fact) [] (value_refs p) in
      bt_from (List.map_filter (\<lambda>d.
        case bt_get T (td_table_id d) of
          None \<Rightarrow> None
        | Some b \<Rightarrow>
            Some (td_table_id d,
              map (row_object b)
                (sort_by (\<lambda>a c. cmp (projection b a) (projection b c))
                  (case bt_get rows (td_table_id d) of None \<Rightarrow> [] | Some ns \<Rightarrow> ns)))) (sp_tables p)))"

end
