(* ===== verification/Selection_Evaluator.thy ===== *)
theory Selection_Evaluator
  imports Selection_Tables
begin

text \<open>
  The evaluator of a selection document (\<open>crates/selection-policy/src/evaluator.rs\<close>): reading of
  values, three-valued truth of predicates, the assessment of one candidate, the ranking and the
  decision (\<open>evaluate\<close>), and the collect option of a scheduling layer (\<open>evaluate_collect\<close>).

  The identities of the document and of the inputs (canonical JSON, then SHA-256) are an argument
  of the evaluation. Scores are summed in \<open>i128\<close>, modelled by integers.
\<close>

section \<open>Reasons\<close>

datatype SelectionPolicyCode =
    SpcArithmeticOverflow | SpcFloatRejected | SpcIntegerOutOfRange | SpcReadFailed
  | SpcSelectionPolicyIdentity | SpcSelectionInputsIdentity | SpcSelectionRequirementDeclared
  | SpcSelectionUnknown | SpcCandidateRanked | SpcSelectionSelected | SpcSelectionEmpty
  | SpcSelectionInsufficient | SpcSelectionAmbiguous | SpcCandidateSelected
  | SpcSelectionOutcomeKeyChosen | SpcGateUnknownAborted | SpcGateUnknownSubstituted
  | SpcGateUnknownDropped | SpcGateRejected | SpcTermUnknownAborted | SpcTermUnknownSubstituted
  | SpcTermUnknownDropped | SpcTermFallbackUsed | SpcCandidateScored | SpcTieBreakUnknown

fun selection_policy_code :: "SelectionPolicyCode \<Rightarrow> code" where
  "selection_policy_code SpcArithmeticOverflow = Code ''arithmetic_overflow'' CatError"
| "selection_policy_code SpcFloatRejected = Code ''float_rejected'' CatError"
| "selection_policy_code SpcIntegerOutOfRange = Code ''integer_out_of_range'' CatError"
| "selection_policy_code SpcReadFailed = Code ''read_failed'' CatError"
| "selection_policy_code SpcSelectionPolicyIdentity = Code ''selection_policy_identity'' CatInfo"
| "selection_policy_code SpcSelectionInputsIdentity = Code ''selection_inputs_identity'' CatInfo"
| "selection_policy_code SpcSelectionRequirementDeclared =
     Code ''selection_requirement_declared'' CatInfo"
| "selection_policy_code SpcSelectionUnknown = Code ''selection_unknown'' CatInfo"
| "selection_policy_code SpcCandidateRanked = Code ''candidate_ranked'' CatInfo"
| "selection_policy_code SpcSelectionSelected = Code ''selection_selected'' CatInfo"
| "selection_policy_code SpcSelectionEmpty = Code ''selection_empty'' CatInfo"
| "selection_policy_code SpcSelectionInsufficient = Code ''selection_insufficient'' CatInfo"
| "selection_policy_code SpcSelectionAmbiguous = Code ''selection_ambiguous'' CatInfo"
| "selection_policy_code SpcCandidateSelected = Code ''candidate_selected'' CatInfo"
| "selection_policy_code SpcSelectionOutcomeKeyChosen =
     Code ''selection_outcome_key_chosen'' CatInfo"
| "selection_policy_code SpcGateUnknownAborted = Code ''gate_unknown_aborted'' CatInfo"
| "selection_policy_code SpcGateUnknownSubstituted = Code ''gate_unknown_substituted'' CatInfo"
| "selection_policy_code SpcGateUnknownDropped = Code ''gate_unknown_dropped'' CatInfo"
| "selection_policy_code SpcGateRejected = Code ''gate_rejected'' CatInfo"
| "selection_policy_code SpcTermUnknownAborted = Code ''term_unknown_aborted'' CatInfo"
| "selection_policy_code SpcTermUnknownSubstituted = Code ''term_unknown_substituted'' CatInfo"
| "selection_policy_code SpcTermUnknownDropped = Code ''term_unknown_dropped'' CatInfo"
| "selection_policy_code SpcTermFallbackUsed = Code ''term_fallback_used'' CatInfo"
| "selection_policy_code SpcCandidateScored = Code ''candidate_scored'' CatInfo"
| "selection_policy_code SpcTieBreakUnknown = Code ''tie_break_unknown'' CatInfo"

fun unknown_reason_token :: "UnknownReason \<Rightarrow> string" where
  "unknown_reason_token UrFactMissing = ''fact_missing''"
| "unknown_reason_token UrFactExpired = ''fact_expired''"
| "unknown_reason_token UrFactStale = ''fact_stale''"
| "unknown_reason_token UrFactLowConfidence = ''fact_low_confidence''"
| "unknown_reason_token UrFactNotScalar = ''fact_not_scalar''"
| "unknown_reason_token UrFieldMissing = ''field_missing''"
| "unknown_reason_token UrTypeMismatch = ''type_mismatch''"
| "unknown_reason_token UrLookupMiss = ''lookup_miss''"

text \<open>The derived \<open>Debug\<close> texts.\<close>

fun unknown_reason_debug :: "UnknownReason \<Rightarrow> string" where
  "unknown_reason_debug UrFactMissing = ''FactMissing''"
| "unknown_reason_debug UrFactExpired = ''FactExpired''"
| "unknown_reason_debug UrFactStale = ''FactStale''"
| "unknown_reason_debug UrFactLowConfidence = ''FactLowConfidence''"
| "unknown_reason_debug UrFactNotScalar = ''FactNotScalar''"
| "unknown_reason_debug UrFieldMissing = ''FieldMissing''"
| "unknown_reason_debug UrTypeMismatch = ''TypeMismatch''"
| "unknown_reason_debug UrLookupMiss = ''LookupMiss''"

fun mode_debug :: "SelectionMode \<Rightarrow> string" where
  "mode_debug TopK = ''TopK''"
| "mode_debug ExactlyOne = ''ExactlyOne''"
| "mode_debug NoneAllowed = ''NoneAllowed''"

definition i64_to_string :: "i64 \<Rightarrow> str" where
  "i64_to_string i = (if sint i < 0 then 45 # decimal (nat (- sint i)) else decimal (nat (sint i)))"

definition outcome_new :: "SelectionPolicyCode \<Rightarrow> Outcome" where
  "outcome_new c =
     (case selection_policy_code c of Code s cat \<Rightarrow> Outcome (ascii s) cat [] [] None)"

text \<open>The setters of an outcome's values append a key the outcome does not hold.\<close>

definition with_value :: "string \<Rightarrow> str \<Rightarrow> Outcome \<Rightarrow> Outcome" where
  "with_value k v oc =
     Outcome (oc_code oc) (oc_category oc)
       ((if map_of (oc_values oc) (ascii k) = None then oc_values oc @ [(ascii k, JsonString v)]
         else map (\<lambda>(j, w). if j = ascii k then (j, JsonString v) else (j, w)) (oc_values oc)))
       (oc_causes oc) (oc_causes_total oc)"

record DecisionReason =
  dr_outcome :: Outcome
  dr_detail :: str

definition reason_new :: "SelectionPolicyCode \<Rightarrow> str list \<Rightarrow> DecisionReason" where
  "reason_new c parts = \<lparr>dr_outcome = outcome_new c, dr_detail = concat parts\<rparr>"

definition reason_rule :: "SelectionPolicyCode \<Rightarrow> str \<Rightarrow> str list \<Rightarrow> DecisionReason" where
  "reason_rule c rule_id parts =
     \<lparr>dr_outcome = with_value ''rule_id'' rule_id (outcome_new c), dr_detail = concat parts\<rparr>"

definition reason_unknown :: "UnknownReason \<Rightarrow> str \<Rightarrow> DecisionReason" where
  "reason_unknown reason detail =
     \<lparr>dr_outcome = with_value ''unknown_reason'' (ascii (unknown_reason_token reason))
                     (outcome_new SpcSelectionUnknown),
      dr_detail = detail\<rparr>"

section \<open>Verdicts and decisions\<close>

datatype GateOutcome =
    GatePassed | GateFailed | GateUnknownSubstituted UnknownReason bool
  | GateUnknownDropped UnknownReason

record GateResult =
  gr_gate_id :: str
  gr_outcome :: GateOutcome

datatype TermOutcome =
    Scored i64 | TermUnknownSubstituted UnknownReason i64 | TermUnknownDropped UnknownReason

record TermResult =
  te_term_id :: str
  te_outcome :: TermOutcome
  te_weight_milli :: i64
  te_contribution_milli :: i64

datatype CandidateStatus = StRanked | StGateRejected | StUnknownDropped

record CandidateVerdict =
  cv_candidate_id :: str
  cv_status :: CandidateStatus
  cv_score_milli :: "i64 option"
  cv_rank :: "u32 option"
  cv_gates :: "GateResult list"
  cv_terms :: "TermResult list"
  cv_reasons :: "DecisionReason list"
  cv_static_table_drop :: bool

datatype SelectionOutcome =
    OutSelected u32
  | OutEmpty
  | OutInsufficient u32 u32
  | OutAmbiguous "str list"
  | OutUnknown UnknownReason str

fun outcome_key :: "SelectionOutcome \<Rightarrow> OutcomeKeys \<Rightarrow> str" where
  "outcome_key (OutSelected _) k = ok_selected k"
| "outcome_key OutEmpty k = ok_empty k"
| "outcome_key (OutInsufficient _ _) k = ok_insufficient k"
| "outcome_key (OutAmbiguous _) k = ok_ambiguous k"
| "outcome_key (OutUnknown _ _) k = ok_unknown k"

record SelectionDecision =
  sd_schema_version :: str
  sd_policy_id :: str
  sd_policy_sha256 :: str
  sd_input_sha256 :: str
  sd_candidate_layout_id :: str
  sd_fact_snapshot_id :: str
  sd_evaluated_at_unix_ms :: u64
  sd_outcome :: SelectionOutcome
  sd_outcome_key :: str
  sd_selected :: "str list"
  sd_candidates :: "CandidateVerdict list"
  sd_reasons :: "DecisionReason list"

section \<open>Record lists\<close>

type_synonym ListIndex = "(str \<times> RowFilter option, (str, RecordRow) btree) btree"

datatype ListUnreadable = ListUnreadable (lr_reason: UnknownReason) (lr_detail: str)

fun declared_lists ::
  "SelectionFactSnapshot \<Rightarrow> u64 \<Rightarrow> (str, str \<times> RecordRow list) btree \<Rightarrow> FactDeclaration list
     \<Rightarrow> (ListUnreadable, (str, str \<times> RecordRow list) btree) result" where
  "declared_lists snap now rls [] = Inr rls"
| "declared_lists snap now rls (d # ds) =
     (case fc_value_type d of
        VtRecordList key_column _ \<Rightarrow>
          and_then
            (map_err (\<lambda>reason. ListUnreadable reason (ascii ''fact_key='' @ fc_fact_key d))
              (resolve_list snap d now))
            (\<lambda>rows. declared_lists snap now (bt_insert (fc_fact_key d) (key_column, rows) rls) ds)
      | _ \<Rightarrow> declared_lists snap now rls ds)"

definition row_selected :: "RowFilter option \<Rightarrow> RecordRow \<Rightarrow> bool" where
  "row_selected row_filter row =
     (case row_filter of
        None \<Rightarrow> True
      | Some f \<Rightarrow>
          (case bt_get row (rf_column f) of Some (SvString v) \<Rightarrow> v = rf_equals f | _ \<Rightarrow> False))"

fun key_rows ::
  "str \<Rightarrow> str \<Rightarrow> RowFilter option \<Rightarrow> (str, RecordRow) btree \<Rightarrow> RecordRow list
     \<Rightarrow> (ListUnreadable, (str, RecordRow) btree) result" where
  "key_rows fact_key key_column row_filter keyed [] = Inr keyed"
| "key_rows fact_key key_column row_filter keyed (row # rows) =
     (if \<not> row_selected row_filter row then key_rows fact_key key_column row_filter keyed rows
      else case bt_get row key_column of
             Some (SvString key) \<Rightarrow>
               if bt_get keyed key \<noteq> None
               then Inl (ListUnreadable UrTypeMismatch
                           (concat [ascii ''fact_key='', fact_key, ascii '' duplicated_key='', key]))
               else key_rows fact_key key_column row_filter (bt_insert key row keyed) rows
           | _ \<Rightarrow> Inl (ListUnreadable UrTypeMismatch (ascii ''fact_key='' @ fact_key)))"

fun index_lists ::
  "(str, str \<times> RecordRow list) btree \<Rightarrow> ListIndex \<Rightarrow> ValueRef list \<Rightarrow> (ListUnreadable, ListIndex) result"
where
  "index_lists rls index [] = Inr index"
| "index_lists rls index (v # vs) =
     (case v of
        VrKeyedFact fact_key _ _ row_filter _ \<Rightarrow>
          if bt_get index (fact_key, row_filter) \<noteq> None then index_lists rls index vs
          else
            and_then
              (ok_or (ListUnreadable UrTypeMismatch (ascii ''fact_key='' @ fact_key))
                (bt_get rls fact_key))
              (\<lambda>(key_column, rows).
                 and_then (key_rows fact_key key_column row_filter [] rows) (\<lambda>keyed.
                 index_lists rls (bt_insert (fact_key, row_filter) keyed index) vs))
      | _ \<Rightarrow> index_lists rls index vs)"

definition read_lists ::
  "SelectionPolicy \<Rightarrow> SelectionFactSnapshot \<Rightarrow> u64 \<Rightarrow> (ListUnreadable, ListIndex) result" where
  "read_lists p snap now =
     and_then (declared_lists snap now [] (sp_facts p)) (\<lambda>rls. index_lists rls [] (value_refs p))"

section \<open>Reading values\<close>

record Resolver =
  rv_fields :: "(str, ValueType) btree"
  rv_facts :: "(str, FactDeclaration) btree"
  rv_snapshot :: SelectionFactSnapshot
  rv_lists :: ListIndex
  rv_tables :: SelectionTables
  rv_now_unix_ms :: u64

definition resolver_new ::
  "SelectionPolicy \<Rightarrow> SelectionFactSnapshot \<Rightarrow> ListIndex \<Rightarrow> SelectionTables \<Rightarrow> u64 \<Rightarrow> Resolver" where
  "resolver_new p snap rls T now =
     \<lparr>rv_fields = bt_from (map (\<lambda>d. (fd_name d, fd_value_type d)) (sp_fields p)),
      rv_facts = bt_from (map (\<lambda>d. (fc_fact_key d, d)) (sp_facts p)),
      rv_snapshot = snap, rv_lists = rls, rv_tables = T, rv_now_unix_ms = now\<rparr>"

definition read_fact :: "Resolver \<Rightarrow> str \<Rightarrow> (UnknownReason, ScalarValue) result" where
  "read_fact r fact_key =
     and_then (ok_or UrFactMissing (bt_get (rv_facts r) fact_key)) (\<lambda>declared.
     resolve_scalar (rv_snapshot r) declared (rv_now_unix_ms r))"

definition read_field :: "Resolver \<Rightarrow> str \<Rightarrow> Candidate \<Rightarrow> (UnknownReason, ScalarValue) result" where
  "read_field r field c =
     and_then (ok_or UrFieldMissing (bt_get (rv_fields r) field)) (\<lambda>declared.
     and_then (ok_or UrFieldMissing (bt_get (ca_fields c) field)) (\<lambda>v.
     if scalar_matches v declared then Inr v else Inl UrTypeMismatch))"

definition table_reading :: "Resolver \<Rightarrow> ValueRef \<Rightarrow> Candidate \<Rightarrow> (UnknownReason, TableReading) result" where
  "table_reading r v c =
     (case v of
        VrTable _ key_field _ _ _ _ \<Rightarrow>
          and_then (read_field r key_field c) (\<lambda>k.
          case k of
            SvString key \<Rightarrow> Inr (read_table (rv_tables r) v key (read_fact r))
          | _ \<Rightarrow> Inl UrTypeMismatch)
      | _ \<Rightarrow> Inl UrTypeMismatch)"

definition read_value :: "Resolver \<Rightarrow> ValueRef \<Rightarrow> Candidate \<Rightarrow> (UnknownReason, ScalarValue) result" where
  "read_value r v c =
     (case v of
        VrField field \<Rightarrow> read_field r field c
      | VrFact fact_key \<Rightarrow> read_fact r fact_key
      | VrTable _ _ _ _ _ _ \<Rightarrow> and_then (table_reading r v c) rd_value
      | VrKeyedFact fact_key key_field value_column row_filter absent \<Rightarrow>
          and_then (read_field r key_field c) (\<lambda>k.
          case k of
            SvString key \<Rightarrow>
              and_then (ok_or UrFactMissing (bt_get (rv_lists r) (fact_key, row_filter))) (\<lambda>rows.
              case bt_get rows key of
                Some row \<Rightarrow> ok_or UrTypeMismatch (bt_get row value_column)
              | None \<Rightarrow> Inr absent)
          | _ \<Rightarrow> Inl UrTypeMismatch))"

definition known_until :: "Resolver \<Rightarrow> ValueRef \<Rightarrow> u64 option" where
  "known_until r v =
     (case v of
        VrFact fact_key \<Rightarrow>
          Option.bind (bt_get (rv_facts r) fact_key) (\<lambda>declared.
          Option.bind (bt_get (sf_facts (rv_snapshot r)) fact_key) (\<lambda>entry.
          case entry of
            Published _ published expires _ \<Rightarrow>
              (let fresh_until = saturating_add published (fc_max_age_ms declared) in
               Some (case expires of None \<Rightarrow> fresh_until | Some expiry \<Rightarrow> min expiry fresh_until))
          | _ \<Rightarrow> None))
      | _ \<Rightarrow> None)"

record TableMarks =
  mk_used_fallback :: bool
  mk_otherwise_column :: "str option"
  mk_static_unknown :: bool
  mk_other_unknown :: bool

definition marks_default :: TableMarks where
  "marks_default =
     \<lparr>mk_used_fallback = False, mk_otherwise_column = None, mk_static_unknown = False,
      mk_other_unknown = False\<rparr>"

definition marks_note ::
  "TableReading \<Rightarrow> TableMarks \<Rightarrow> (UnknownReason, ScalarValue) result \<times> TableMarks" where
  "marks_note reading m =
     (let m = m\<lparr>mk_used_fallback := mk_used_fallback m \<or> rd_used_fallback reading,
               mk_otherwise_column :=
                 (case mk_otherwise_column m of None \<Rightarrow> rd_otherwise_column reading | Some c \<Rightarrow> Some c)\<rparr> in
      case rd_value reading of
        Inr v \<Rightarrow> (Inr v, m)
      | Inl reason \<Rightarrow>
          (Inl reason,
           if rd_static_unknown reading then m\<lparr>mk_static_unknown := True\<rparr>
           else m\<lparr>mk_other_unknown := True\<rparr>))"

definition only_static :: "TableMarks \<Rightarrow> bool" where
  "only_static m \<longleftrightarrow> mk_static_unknown m \<and> \<not> mk_other_unknown m"

definition fallback_reason :: "TableMarks \<Rightarrow> str \<Rightarrow> DecisionReason list" where
  "fallback_reason m rule_id =
     (if \<not> mk_used_fallback m \<and> mk_otherwise_column m = None then []
      else
        [\<lparr>dr_outcome =
            (let oc = with_value ''rule_id'' rule_id (outcome_new SpcTermFallbackUsed) in
             case mk_otherwise_column m of
               Some column \<Rightarrow> with_value ''table_column'' column oc
             | None \<Rightarrow> oc),
          dr_detail = concat [ascii ''rule `'', rule_id, ascii ''` read a declared fallback'']\<rparr>])"

record KnownInput =
  ki_input :: ValueRef
  ki_known_until_unix_ms :: "u64 option"

record Reads =
  re_recording :: bool
  re_known :: "KnownInput list"
  re_unknown :: "(ValueRef \<times> UnknownReason) list"
  re_marks :: TableMarks

definition reads_recording :: Reads where
  "reads_recording =
     \<lparr>re_recording = True, re_known = [], re_unknown = [], re_marks = marks_default\<rparr>"

definition reads_ignored :: Reads where
  "reads_ignored =
     \<lparr>re_recording = False, re_known = [], re_unknown = [], re_marks = marks_default\<rparr>"

definition record_known :: "Resolver \<Rightarrow> ValueRef \<Rightarrow> Reads \<Rightarrow> Reads" where
  "record_known r v reads =
     (if re_recording reads \<and> v \<notin> set (map ki_input (re_known reads))
      then reads\<lparr>re_known := re_known reads
                   @ [\<lparr>ki_input = v, ki_known_until_unix_ms = known_until r v\<rparr>]\<rparr>
      else reads)"

definition record_unknown :: "ValueRef \<Rightarrow> UnknownReason \<Rightarrow> Reads \<Rightarrow> Reads" where
  "record_unknown v reason reads =
     (if re_recording reads then reads\<lparr>re_unknown := re_unknown reads @ [(v, reason)]\<rparr> else reads)"

definition read_noting ::
  "Resolver \<Rightarrow> ValueRef \<Rightarrow> Candidate \<Rightarrow> Reads \<Rightarrow> (UnknownReason, ScalarValue) result \<times> Reads" where
  "read_noting r v c reads =
     (let other = reads\<lparr>re_marks := (re_marks reads)\<lparr>mk_other_unknown := True\<rparr>\<rparr> in
      if \<not> is_table v
      then (case read_value r v c of
              Inr x \<Rightarrow> (Inr x, reads)
            | Inl reason \<Rightarrow> (Inl reason, other))
      else case table_reading r v c of
             Inr reading \<Rightarrow>
               (case marks_note reading (re_marks reads) of
                  (value, marks) \<Rightarrow> (value, reads\<lparr>re_marks := marks\<rparr>))
           | Inl reason \<Rightarrow> (Inl reason, other))"

section \<open>Truth\<close>

datatype Truth = TruthTrue | TruthFalse | TruthUnknown UnknownReason

definition bool_truth :: "bool \<Rightarrow> Truth" where
  "bool_truth b = (if b then TruthTrue else TruthFalse)"

definition leaf ::
  "ValueRef \<Rightarrow> Candidate \<Rightarrow> Resolver \<Rightarrow> Reads \<Rightarrow> (ScalarValue \<Rightarrow> bool option) \<Rightarrow> Truth \<times> Reads" where
  "leaf v c r reads decide =
     (case read_noting r v c reads of
        (value, reads) \<Rightarrow>
          (case and_then value (\<lambda>x. ok_or UrTypeMismatch (decide x)) of
             Inr holds \<Rightarrow> (bool_truth holds, record_known r v reads)
           | Inl reason \<Rightarrow> (TruthUnknown reason, record_unknown v reason reads)))"

definition integer_side ::
  "ValueRef \<Rightarrow> Candidate \<Rightarrow> Resolver \<Rightarrow> Reads \<Rightarrow> (UnknownReason, i64) result \<times> Reads" where
  "integer_side v c r reads =
     (case read_noting r v c reads of
        (value, reads) \<Rightarrow>
          (case and_then value (\<lambda>x. case x of SvInteger i \<Rightarrow> Inr i | _ \<Rightarrow> Inl UrTypeMismatch) of
             Inr i \<Rightarrow> (Inr i, record_known r v reads)
           | Inl reason \<Rightarrow> (Inl reason, record_unknown v reason reads)))"

definition decide_integer :: "(int \<Rightarrow> bool) \<Rightarrow> ScalarValue \<Rightarrow> bool option" where
  "decide_integer P x = (case x of SvInteger i \<Rightarrow> Some (P (sint i)) | _ \<Rightarrow> None)"

definition decide_boolean :: "(bool \<Rightarrow> bool) \<Rightarrow> ScalarValue \<Rightarrow> bool option" where
  "decide_boolean P x = (case x of SvBoolean b \<Rightarrow> Some (P b) | _ \<Rightarrow> None)"

definition decide_string :: "(str \<Rightarrow> bool) \<Rightarrow> ScalarValue \<Rightarrow> bool option" where
  "decide_string P x = (case x of SvString s \<Rightarrow> Some (P s) | _ \<Rightarrow> None)"

text \<open>The right side of an \<open>integer_compare\<close>: \<open>right * mul + add\<close> in 128 bits.\<close>

definition scale :: "u64 option \<Rightarrow> i64 option \<Rightarrow> i64 \<Rightarrow> int" where
  "scale mul add v =
     sint v * (case mul of None \<Rightarrow> 1 | Some m \<Rightarrow> int (unat m))
     + (case add of None \<Rightarrow> 0 | Some a \<Rightarrow> sint a)"

definition first_unknown :: "UnknownReason option \<Rightarrow> UnknownReason \<Rightarrow> UnknownReason option" where
  "first_unknown unknown reason = (case unknown of None \<Rightarrow> Some reason | Some u \<Rightarrow> Some u)"

definition truncate_unknown :: "nat \<Rightarrow> Reads \<Rightarrow> Reads" where
  "truncate_unknown start reads = reads\<lparr>re_unknown := take start (re_unknown reads)\<rparr>"

fun truth_not :: "Truth \<Rightarrow> Truth" where
  "truth_not TruthTrue = TruthFalse"
| "truth_not TruthFalse = TruthTrue"
| "truth_not (TruthUnknown reason) = TruthUnknown reason"

fun truth :: "Predicate \<Rightarrow> Candidate \<Rightarrow> Resolver \<Rightarrow> Reads \<Rightarrow> Truth \<times> Reads"
  and truth_all ::
    "Predicate list \<Rightarrow> Candidate \<Rightarrow> Resolver \<Rightarrow> nat \<Rightarrow> UnknownReason option \<Rightarrow> Reads \<Rightarrow> Truth \<times> Reads"
  and truth_any ::
    "Predicate list \<Rightarrow> Candidate \<Rightarrow> Resolver \<Rightarrow> nat \<Rightarrow> UnknownReason option \<Rightarrow> Reads \<Rightarrow> Truth \<times> Reads"
where
  "truth (IntegerAtLeast v threshold) c r reads =
     leaf v c r reads (decide_integer (\<lambda>x. sint threshold \<le> x))"
| "truth (IntegerAtMost v threshold) c r reads =
     leaf v c r reads (decide_integer (\<lambda>x. x \<le> sint threshold))"
| "truth (IntegerEquals v expected) c r reads =
     leaf v c r reads (decide_integer (\<lambda>x. x = sint expected))"
| "truth (BooleanEquals v expected) c r reads =
     leaf v c r reads (decide_boolean (\<lambda>x. x = expected))"
| "truth (StringIn v allowed) c r reads =
     leaf v c r reads (decide_string (\<lambda>x. x \<in> set allowed))"
| "truth (IntegerCompare left cop right mul add) c r reads =
     (case integer_side left c r reads of
        (l, reads) \<Rightarrow>
          (case integer_side right c r reads of
             (rt, reads) \<Rightarrow>
               (case (l, rt) of
                  (Inl reason, _) \<Rightarrow> (TruthUnknown reason, reads)
                | (Inr _, Inl reason) \<Rightarrow> (TruthUnknown reason, reads)
                | (Inr a, Inr b) \<Rightarrow>
                    (bool_truth (compare_holds cop (sint a) (scale mul add b)), reads))))"
| "truth (PredAll ps) c r reads = truth_all ps c r (length (re_unknown reads)) None reads"
| "truth (PredAny ps) c r reads = truth_any ps c r (length (re_unknown reads)) None reads"
| "truth (PredNot p) c r reads =
     (case truth p c r reads of (t, reads) \<Rightarrow> (truth_not t, reads))"
| "truth_all [] c r start unknown reads =
     (case unknown of None \<Rightarrow> TruthTrue | Some reason \<Rightarrow> TruthUnknown reason, reads)"
| "truth_all (p # ps) c r start unknown reads =
     (case truth p c r reads of
        (t, reads) \<Rightarrow>
          (case t of
             TruthFalse \<Rightarrow> (TruthFalse, truncate_unknown start reads)
           | TruthUnknown reason \<Rightarrow>
               truth_all ps c r start (first_unknown unknown reason) reads
           | TruthTrue \<Rightarrow> truth_all ps c r start unknown reads))"
| "truth_any [] c r start unknown reads =
     (case unknown of None \<Rightarrow> TruthFalse | Some reason \<Rightarrow> TruthUnknown reason, reads)"
| "truth_any (p # ps) c r start unknown reads =
     (case truth p c r reads of
        (t, reads) \<Rightarrow>
          (case t of
             TruthTrue \<Rightarrow> (TruthTrue, truncate_unknown start reads)
           | TruthUnknown reason \<Rightarrow>
               truth_any ps c r start (first_unknown unknown reason) reads
           | TruthFalse \<Rightarrow> truth_any ps c r start unknown reads))"

fun lookup_key :: "ScalarValue \<Rightarrow> LookupKey" where
  "lookup_key (SvInteger i) = LkInteger i"
| "lookup_key (SvBoolean b) = LkBoolean b"
| "lookup_key (SvString s) = LkString s"

fun transform :: "Transform \<Rightarrow> ScalarValue \<Rightarrow> (UnknownReason, i64) result" where
  "transform TfIdentity x =
     (case x of SvInteger i \<Rightarrow> Inr i | _ \<Rightarrow> Inl UrTypeMismatch)"
| "transform (TfThreshold at_least then_milli otherwise_milli) x =
     (case x of
        SvInteger i \<Rightarrow> Inr (if sint at_least \<le> sint i then then_milli else otherwise_milli)
      | _ \<Rightarrow> Inl UrTypeMismatch)"
| "transform (TfLookup entries default_milli) x =
     (case List.find (\<lambda>e. lu_key e = lookup_key x) entries of
        Some e \<Rightarrow> Inr (lu_value_milli e)
      | None \<Rightarrow> ok_or UrLookupMiss default_milli)"

end
