(* ===== verification/Selection_Decision.thy ===== *)
theory Selection_Decision
  imports Selection_Evaluator
begin

text \<open>
  The second half of \<open>crates/selection-policy/src/evaluator.rs\<close>: the assessment of a candidate by
  the gates and the terms, the comparison of the survivors, the decision with its reason chain,
  and the collect option.
\<close>

section \<open>Assessing a candidate\<close>

record Ranked =
  rk_candidate_id :: str
  rk_score_milli :: i64
  rk_keys :: "((UnknownReason, ScalarValue) result \<times> SortDirection) list"

datatype Assessment =
    Aborted CandidateVerdict UnknownReason str
  | Settled CandidateVerdict "Ranked option"

definition push_reasons :: "DecisionReason list \<Rightarrow> CandidateVerdict \<Rightarrow> CandidateVerdict" where
  "push_reasons rs v = v\<lparr>cv_reasons := cv_reasons v @ rs\<rparr>"

definition push_gate :: "GateResult \<Rightarrow> CandidateVerdict \<Rightarrow> CandidateVerdict" where
  "push_gate g v = v\<lparr>cv_gates := cv_gates v @ [g]\<rparr>"

definition push_term :: "TermResult \<Rightarrow> CandidateVerdict \<Rightarrow> CandidateVerdict" where
  "push_term t v = v\<lparr>cv_terms := cv_terms v @ [t]\<rparr>"

definition verdict_new :: "Candidate \<Rightarrow> CandidateVerdict" where
  "verdict_new c =
     \<lparr>cv_candidate_id = ca_candidate_id c, cv_status = StRanked, cv_score_milli = None,
      cv_rank = None, cv_gates = [], cv_terms = [], cv_reasons = [],
      cv_static_table_drop = False\<rparr>"

text \<open>Recording a gate's outcome. A candidate the gate does not keep is settled (\<open>Inl\<close>).\<close>

definition settle_gate ::
  "HardGate \<Rightarrow> GateOutcome \<Rightarrow> bool \<Rightarrow> TableMarks \<Rightarrow> CandidateVerdict \<Rightarrow> (Assessment, CandidateVerdict) result"
where
  "settle_gate gate outcome keep marks v =
     (let i = hg_gate_id gate;
          v = push_gate \<lparr>gr_gate_id = i, gr_outcome = outcome\<rparr> v;
          v = (case outcome of
                 GateUnknownSubstituted _ _ \<Rightarrow>
                   push_reasons
                     [reason_rule SpcGateUnknownSubstituted i
                        [ascii ''gate `'', i, ascii ''` used the declared verdict'']] v
               | _ \<Rightarrow> v);
          v = push_reasons (fallback_reason marks i) v in
      if keep then Inr v
      else
        (case outcome of
           GateUnknownDropped _ \<Rightarrow>
             Inl (Settled
               ((push_reasons
                  [reason_rule SpcGateUnknownDropped i
                     [ascii ''gate `'', i, ascii ''` met an unknown input'']] v)
                \<lparr>cv_static_table_drop := only_static marks, cv_status := StUnknownDropped\<rparr>) None)
         | _ \<Rightarrow>
             Inl (Settled
               ((push_reasons
                  [reason_rule SpcGateRejected i
                     [ascii ''gate `'', i, ascii ''` does not hold'']] v)
                \<lparr>cv_status := StGateRejected\<rparr>) None)))"

definition assess_gate ::
  "Candidate \<Rightarrow> Resolver \<Rightarrow> CandidateVerdict \<Rightarrow> HardGate \<Rightarrow> (Assessment, CandidateVerdict) result" where
  "assess_gate c r v gate =
     (case truth (hg_predicate gate) c r reads_ignored of
        (t, reads) \<Rightarrow>
          (let marks = re_marks reads in
           case t of
             TruthTrue \<Rightarrow> settle_gate gate GatePassed True marks v
           | TruthFalse \<Rightarrow> settle_gate gate GateFailed False marks v
           | TruthUnknown reason \<Rightarrow>
               (case hg_on_unknown gate of
                  GateDropCandidate \<Rightarrow> settle_gate gate (GateUnknownDropped reason) False marks v
                | SubstituteVerdict passes \<Rightarrow>
                    settle_gate gate (GateUnknownSubstituted reason passes) passes marks v
                | GateAbortEvaluation \<Rightarrow>
                    (let i = hg_gate_id gate;
                         detail = [ascii ''candidate `'', ca_candidate_id c, ascii ''` gate `'', i,
                                   ascii ''`: '', ascii (unknown_reason_debug reason)];
                         v = (push_gate \<lparr>gr_gate_id = i, gr_outcome = GateUnknownDropped reason\<rparr> v)
                               \<lparr>cv_status := StUnknownDropped\<rparr> in
                     Inl (Aborted (push_reasons [reason_rule SpcGateUnknownAborted i detail] v)
                            reason (concat detail))))))"

fun assess_gates ::
  "Candidate \<Rightarrow> Resolver \<Rightarrow> CandidateVerdict \<Rightarrow> HardGate list \<Rightarrow> (Assessment, CandidateVerdict) result"
where
  "assess_gates c r v [] = Inr v"
| "assess_gates c r v (gate # gates) =
     and_then (assess_gate c r v gate) (\<lambda>v. assess_gates c r v gates)"

text \<open>A term's contribution, \<open>transformed * weight / 1000\<close> truncated toward zero.\<close>

definition contribution :: "i64 \<Rightarrow> i64 \<Rightarrow> int" where
  "contribution transformed weight = sint transformed * sint weight sdiv 1000"

definition term_contribution :: "ScoringTerm \<Rightarrow> i64 \<Rightarrow> (SelectionError, i64) result" where
  "term_contribution trm transformed =
     ok_or (SelectionError SelArithmeticOverflow
              (concat [ascii ''term `'', sg_term_id trm, ascii ''` overflows a 64-bit milli score'']))
       (i64_try_from (contribution transformed (sg_weight_milli trm)))"

definition keep_term ::
  "ScoringTerm \<Rightarrow> TermOutcome \<Rightarrow> i64 \<Rightarrow> TableMarks \<Rightarrow> CandidateVerdict \<Rightarrow> int
     \<Rightarrow> (SelectionError, (Assessment, CandidateVerdict \<times> int) result) result" where
  "keep_term trm outcome transformed marks v tot =
     and_then (term_contribution trm transformed) (\<lambda>contribution_milli.
     let i = sg_term_id trm;
         v = (case outcome of
                TermUnknownSubstituted _ _ \<Rightarrow>
                  push_reasons
                    [reason_rule SpcTermUnknownSubstituted i
                       [ascii ''term `'', i, ascii ''` used the declared value'']] v
              | _ \<Rightarrow> v);
         v = push_reasons (fallback_reason marks i) v;
         v = push_term \<lparr>te_term_id = i, te_outcome = outcome, te_weight_milli = sg_weight_milli trm,
                        te_contribution_milli = contribution_milli\<rparr> v in
     Inr (Inr (v, tot + sint contribution_milli)))"

definition drop_term ::
  "ScoringTerm \<Rightarrow> UnknownReason \<Rightarrow> bool \<Rightarrow> CandidateVerdict \<Rightarrow> Assessment" where
  "drop_term trm reason static_unknown v =
     (let i = sg_term_id trm;
          v = push_term \<lparr>te_term_id = i, te_outcome = TermUnknownDropped reason,
                         te_weight_milli = sg_weight_milli trm, te_contribution_milli = 0\<rparr> v;
          v = v\<lparr>cv_status := StUnknownDropped, cv_static_table_drop := static_unknown\<rparr> in
      Settled
        (push_reasons
           [reason_rule SpcTermUnknownDropped i
              [ascii ''term `'', i, ascii ''` met an unknown input'']] v) None)"

definition assess_term ::
  "Candidate \<Rightarrow> Resolver \<Rightarrow> CandidateVerdict \<Rightarrow> int \<Rightarrow> ScoringTerm
     \<Rightarrow> (SelectionError, (Assessment, CandidateVerdict \<times> int) result) result" where
  "assess_term c r v tot trm =
     (case read_noting r (sg_value trm) c reads_ignored of
        (value, reads) \<Rightarrow>
          (let marks = re_marks reads;
               static_unknown = \<not> is_ok value \<and> only_static marks in
           case and_then value (transform (sg_transform trm)) of
             Inr transformed \<Rightarrow> keep_term trm (Scored transformed) transformed marks v tot
           | Inl reason \<Rightarrow>
               (case sg_on_unknown trm of
                  TermDropCandidate \<Rightarrow> Inr (Inl (drop_term trm reason static_unknown v))
                | SubstituteMilli value_milli \<Rightarrow>
                    keep_term trm (TermUnknownSubstituted reason value_milli) value_milli marks v tot
                | TermAbortEvaluation \<Rightarrow>
                    (let i = sg_term_id trm;
                         detail = [ascii ''candidate `'', ca_candidate_id c, ascii ''` term `'', i,
                                   ascii ''`: '', ascii (unknown_reason_debug reason)];
                         v = (push_term \<lparr>te_term_id = i, te_outcome = TermUnknownDropped reason,
                                         te_weight_milli = sg_weight_milli trm,
                                         te_contribution_milli = 0\<rparr> v)
                               \<lparr>cv_status := StUnknownDropped\<rparr> in
                     Inr (Inl (Aborted
                       (push_reasons [reason_rule SpcTermUnknownAborted i detail] v)
                       reason (concat detail)))))))"

fun assess_terms ::
  "Candidate \<Rightarrow> Resolver \<Rightarrow> CandidateVerdict \<Rightarrow> int \<Rightarrow> ScoringTerm list
     \<Rightarrow> (SelectionError, (Assessment, CandidateVerdict \<times> int) result) result" where
  "assess_terms c r v tot [] = Inr (Inr (v, tot))"
| "assess_terms c r v tot (trm # trms) =
     and_then (assess_term c r v tot trm) (\<lambda>step.
     case step of
       Inl done \<Rightarrow> Inr (Inl done)
     | Inr (v, tot) \<Rightarrow> assess_terms c r v tot trms)"

definition tie_break_key ::
  "Candidate \<Rightarrow> Resolver \<Rightarrow> TieBreakKey \<Rightarrow> (UnknownReason, ScalarValue) result \<times> SortDirection" where
  "tie_break_key c r k =
     (case k of
        TbCandidateId d \<Rightarrow> (Inr (SvString (ca_candidate_id c)), d)
      | TbValue v d \<Rightarrow> (read_value r v c, d))"

fun tie_break_reasons ::
  "nat \<Rightarrow> ((UnknownReason, ScalarValue) result \<times> SortDirection) list \<Rightarrow> DecisionReason list" where
  "tie_break_reasons n [] = []"
| "tie_break_reasons n (k # ks) =
     (case fst k of
        Inr _ \<Rightarrow> []
      | Inl reason \<Rightarrow>
          [reason_new SpcTieBreakUnknown
             [ascii ''tie-break key '', decimal n, ascii '' is unknown ('',
              ascii (unknown_reason_debug reason), ascii '') and orders last'']])
     @ tie_break_reasons (Suc n) ks"

definition assess ::
  "SelectionPolicy \<Rightarrow> Candidate \<Rightarrow> Resolver \<Rightarrow> (SelectionError, Assessment) result" where
  "assess p c r =
     (case assess_gates c r (verdict_new c) (sp_gates p) of
        Inl done \<Rightarrow> Inr done
      | Inr v \<Rightarrow>
          and_then (assess_terms c r v 0 (sp_scoring p)) (\<lambda>step.
          case step of
            Inl done \<Rightarrow> Inr done
          | Inr (v, tot) \<Rightarrow>
              and_then
                (ok_or (SelectionError SelArithmeticOverflow
                          (concat [ascii ''candidate `'', ca_candidate_id c,
                                   ascii ''` overflows a 64-bit milli score'']))
                   (i64_try_from tot))
                (\<lambda>score.
                   let v = push_reasons
                             [reason_new SpcCandidateScored [ascii ''score_milli='', i64_to_string score]]
                             (v\<lparr>cv_score_milli := Some score\<rparr>);
                       keys = map (tie_break_key c r) (sp_tie_break p);
                       v = push_reasons (tie_break_reasons 0 keys) v in
                   Inr (Settled v
                     (Some \<lparr>rk_candidate_id = ca_candidate_id c, rk_score_milli = score,
                            rk_keys = keys\<rparr>)))))"

section \<open>Ranking\<close>

text \<open>The loop of \<open>compare_keys\<close> ends with the shorter list of keys.\<close>

fun compare_key_lists ::
  "((UnknownReason, ScalarValue) result \<times> SortDirection) list
     \<Rightarrow> ((UnknownReason, ScalarValue) result \<times> SortDirection) list \<Rightarrow> ordering" where
  "compare_key_lists ((x, d) # xs) ((y, _) # ys) =
     (let ordering =
        (case (x, y) of
           (Inr a, Inr b) \<Rightarrow> (case d of HighestFirst \<Rightarrow> cmp b a | LowestFirst \<Rightarrow> cmp a b)
         | (Inr _, Inl _) \<Rightarrow> Less
         | (Inl _, Inr _) \<Rightarrow> Greater
         | (Inl _, Inl _) \<Rightarrow> Equal) in
      if ordering \<noteq> Equal then ordering else compare_key_lists xs ys)"
| "compare_key_lists _ _ = Equal"

definition compare_keys :: "Ranked \<Rightarrow> Ranked \<Rightarrow> ordering" where
  "compare_keys left right = compare_key_lists (rk_keys left) (rk_keys right)"

definition compare :: "Ranked \<Rightarrow> Ranked \<Rightarrow> ordering" where
  "compare left right =
     then_with
       (then_with (cmp (sint (rk_score_milli right)) (sint (rk_score_milli left)))
          (compare_keys left right))
       (cmp (rk_candidate_id left) (rk_candidate_id right))"

definition tied :: "Ranked \<Rightarrow> Ranked \<Rightarrow> bool" where
  "tied left right \<longleftrightarrow>
     rk_score_milli left = rk_score_milli right \<and> compare_keys left right = Equal"

section \<open>The decision\<close>

fun check_candidate_ids :: "str list \<Rightarrow> Candidate list \<Rightarrow> (SelectionError, unit) result" where
  "check_candidate_ids seen [] = Inr ()"
| "check_candidate_ids seen (c # cs) =
     (if ca_candidate_id c = []
      then refuse_with SelMissingRequiredField [ascii ''a candidate carries an empty candidate_id'']
      else if ca_candidate_id c \<in> set seen
      then refuse_with SelDuplicateId
             [ascii ''candidate `'', ca_candidate_id c, ascii ''` appears twice'']
      else check_candidate_ids (ca_candidate_id c # seen) cs)"

definition check_candidate_set :: "Candidate list \<Rightarrow> (SelectionError, unit) result" where
  "check_candidate_set cs =
     (if MAX_CANDIDATES < length cs
      then refuse_with SelLimitExceeded
             [decimal (length cs), ascii '' candidates exceed the '', decimal MAX_CANDIDATES,
              ascii '' limit'']
      else check_candidate_ids [] cs)"

record EvaluationInput =
  ei_candidates :: "Candidate list"
  ei_facts :: SelectionFactSnapshot
  ei_now_unix_ms :: u64
  ei_tables :: "(str, (str, json) btree list) btree option"

text \<open>The identities of a document and of an evaluation's inputs.\<close>

record Canonical =
  cn_policy_sha256 :: "SelectionPolicy \<Rightarrow> (SelectionError, str) result"
  cn_input_sha256 :: "EvaluationInput \<Rightarrow> (SelectionError, str) result"

definition finish ::
  "SelectionPolicy \<Rightarrow> str \<Rightarrow> str \<Rightarrow> SelectionFactSnapshot \<Rightarrow> u64 \<Rightarrow> SelectionOutcome \<Rightarrow> str list
     \<Rightarrow> CandidateVerdict list \<Rightarrow> DecisionReason list \<Rightarrow> SelectionDecision" where
  "finish p policy_sha256 input_sha256 facts now outcome selected candidates reasons =
     (let key = outcome_key outcome (at_outcome_keys (sp_applies_to p)) in
      \<lparr>sd_schema_version = SELECTION_POLICY_SCHEMA_VERSION, sd_policy_id = sp_policy_id p,
       sd_policy_sha256 = policy_sha256, sd_input_sha256 = input_sha256,
       sd_candidate_layout_id = at_candidate_layout_id (sp_applies_to p),
       sd_fact_snapshot_id = sf_snapshot_id facts, sd_evaluated_at_unix_ms = now,
       sd_outcome = outcome, sd_outcome_key = key, sd_selected = selected,
       sd_candidates = candidates,
       sd_reasons = reasons @ [reason_new SpcSelectionOutcomeKeyChosen [key]]\<rparr>)"

text \<open>The loop over the candidates: \<open>Inl\<close> when an unknown input ends the evaluation, with the
  verdicts so far.\<close>

fun assess_all ::
  "SelectionPolicy \<Rightarrow> Resolver \<Rightarrow> CandidateVerdict list \<Rightarrow> Ranked list \<Rightarrow> Candidate list
     \<Rightarrow> (SelectionError,
         (CandidateVerdict list \<times> UnknownReason \<times> str, CandidateVerdict list \<times> Ranked list) result) result"
where
  "assess_all p r verdicts survivors [] = Inr (Inr (verdicts, survivors))"
| "assess_all p r verdicts survivors (c # cs) =
     and_then (assess p c r) (\<lambda>a.
     case a of
       Aborted v reason detail \<Rightarrow> Inr (Inl (verdicts @ [v], reason, detail))
     | Settled v ranked \<Rightarrow>
         assess_all p r (verdicts @ [v])
           (case ranked of None \<Rightarrow> survivors | Some k \<Rightarrow> survivors @ [k]) cs)"

fun rank_first :: "str \<Rightarrow> u32 \<Rightarrow> CandidateVerdict list \<Rightarrow> CandidateVerdict list" where
  "rank_first i rank [] = []"
| "rank_first i rank (v # vs) =
     (if cv_candidate_id v = i
      then push_reasons
             [reason_new SpcCandidateRanked [ascii ''rank='', decimal (unat rank)]]
             (v\<lparr>cv_rank := Some rank\<rparr>) # vs
      else v # rank_first i rank vs)"

fun rank_all :: "nat \<Rightarrow> Ranked list \<Rightarrow> CandidateVerdict list \<Rightarrow> CandidateVerdict list" where
  "rank_all n [] verdicts = verdicts"
| "rank_all n (k # ks) verdicts =
     rank_all (Suc n) ks (rank_first (rk_candidate_id k) (of_nat n + 1) verdicts)"

definition requested :: "SelectionRequirement \<Rightarrow> Ranked list \<Rightarrow> nat" where
  "requested q survivors =
     (case sr_mode q of
        ExactlyOne \<Rightarrow> 1
      | TopK \<Rightarrow> unat (sr_required_count q)
      | NoneAllowed \<Rightarrow> min (unat (sr_required_count q)) (length survivors))"

definition decide_outcome :: "SelectionRequirement \<Rightarrow> Ranked list \<Rightarrow> SelectionOutcome" where
  "decide_outcome q survivors =
     (let n = requested q survivors in
      if length survivors < n then OutInsufficient (of_nat (length survivors)) (of_nat n)
      else if n = 0 then OutEmpty
      else if n < length survivors \<and> tied (survivors ! (n - 1)) (survivors ! n)
      then OutAmbiguous [rk_candidate_id (survivors ! (n - 1)), rk_candidate_id (survivors ! n)]
      else OutSelected (of_nat n))"

definition selected_ids :: "SelectionOutcome \<Rightarrow> Ranked list \<Rightarrow> str list" where
  "selected_ids outcome survivors =
     (case outcome of
        OutSelected n \<Rightarrow> map rk_candidate_id (take (unat n) survivors)
      | _ \<Rightarrow> [])"

fun join_with :: "str \<Rightarrow> str list \<Rightarrow> str" where
  "join_with sep [] = []"
| "join_with sep [s] = s"
| "join_with sep (s # ss) = s @ sep @ join_with sep ss"

fun outcome_reasons :: "SelectionOutcome \<Rightarrow> nat \<Rightarrow> DecisionReason list" where
  "outcome_reasons (OutSelected n) surviving =
     [reason_new SpcSelectionSelected
        [decimal (unat n), ascii '' of '', decimal surviving, ascii '' surviving'']]"
| "outcome_reasons OutEmpty surviving =
     [reason_new SpcSelectionEmpty [decimal surviving, ascii '' surviving, none required'']]"
| "outcome_reasons (OutInsufficient s n) surviving =
     [reason_new SpcSelectionInsufficient
        [decimal (unat s), ascii '' surviving below required '', decimal (unat n)]]"
| "outcome_reasons (OutAmbiguous ids) surviving =
     [reason_new SpcSelectionAmbiguous
        [ascii ''tie-break leaves '', join_with (ascii '', '') ids, ascii '' at the cut'']]"
| "outcome_reasons (OutUnknown _ _) surviving = []"

definition mark_selected :: "str list \<Rightarrow> CandidateVerdict \<Rightarrow> CandidateVerdict" where
  "mark_selected selected v =
     (if cv_candidate_id v \<in> set selected
      then push_reasons [reason_new SpcCandidateSelected [ascii ''chosen'']] v
      else v)"

definition candidate_key :: "Resolver \<Rightarrow> str \<Rightarrow> Candidate \<Rightarrow> str option" where
  "candidate_key r key_field c =
     (case read_field r key_field c of Inr (SvString key) \<Rightarrow> Some key | _ \<Rightarrow> None)"

definition evaluation_input ::
  "SelectionPolicy \<Rightarrow> SelectionTables \<Rightarrow> Candidate list \<Rightarrow> SelectionFactSnapshot \<Rightarrow> u64 \<Rightarrow> EvaluationInput"
where
  "evaluation_input p T cs facts now =
     \<lparr>ei_candidates = cs, ei_facts = facts, ei_now_unix_ms = now,
      ei_tables =
        (if uses_tables p
         then let r = resolver_new p facts [] T now in
              Some (read_rows T p cs (candidate_key r) (read_fact r))
         else None)\<rparr>"

definition evaluate_with_tables ::
  "Canonical \<Rightarrow> SelectionPolicy \<Rightarrow> SelectionTables \<Rightarrow> Candidate list \<Rightarrow> SelectionFactSnapshot \<Rightarrow> u64
     \<Rightarrow> (SelectionError, SelectionDecision) result" where
  "evaluate_with_tables canon p T cs facts now =
     and_then (policy_validate p) (\<lambda>_.
     and_then (check_candidate_set cs) (\<lambda>_.
     and_then (check_bound T p) (\<lambda>_.
     and_then (cn_policy_sha256 canon p) (\<lambda>policy_sha256.
     and_then (cn_input_sha256 canon (evaluation_input p T cs facts now)) (\<lambda>input_sha256.
     let q = sp_selection p;
         reasons =
           [reason_new SpcSelectionPolicyIdentity [policy_sha256],
            reason_new SpcSelectionInputsIdentity [input_sha256],
            reason_new SpcSelectionRequirementDeclared
              [ascii (mode_debug (sr_mode q)), ascii '' required_count='',
               decimal (unat (sr_required_count q))]] in
     case read_lists p facts now of
       Inl (ListUnreadable reason detail) \<Rightarrow>
         Inr (finish p policy_sha256 input_sha256 facts now (OutUnknown reason detail) [] []
                (reasons @ [reason_unknown reason detail]))
     | Inr rls \<Rightarrow>
         and_then (assess_all p (resolver_new p facts rls T now) [] [] cs) (\<lambda>step.
         case step of
           Inl (verdicts, reason, detail) \<Rightarrow>
             Inr (finish p policy_sha256 input_sha256 facts now (OutUnknown reason detail) []
                    verdicts (reasons @ [reason_unknown reason detail]))
         | Inr (verdicts, ranked) \<Rightarrow>
             let survivors = sort_by compare ranked;
                 verdicts = rank_all 0 survivors verdicts;
                 outcome = decide_outcome q survivors;
                 selected = selected_ids outcome survivors in
             Inr (finish p policy_sha256 input_sha256 facts now outcome selected
                    (map (mark_selected selected) verdicts)
                    (reasons @ outcome_reasons outcome (length survivors)))))))))"

definition evaluate ::
  "Canonical \<Rightarrow> SelectionPolicy \<Rightarrow> Candidate list \<Rightarrow> SelectionFactSnapshot \<Rightarrow> u64
     \<Rightarrow> (SelectionError, SelectionDecision) result" where
  "evaluate canon p cs facts now = evaluate_with_tables canon p no_tables cs facts now"

section \<open>The collect option\<close>

record UnknownInput =
  ui_rule_id :: str
  ui_input :: ValueRef
  ui_reason :: UnknownReason

datatype CollectedVerdict =
    CollectedScored i64 | CollectedGateRejected str | CollectedUnknown "UnknownInput list"

record CollectedCandidate =
  cc_candidate_id :: str
  cc_verdict :: CollectedVerdict
  cc_known_inputs :: "KnownInput list"

definition note_unknown ::
  "str \<Rightarrow> UnknownInput list \<Rightarrow> ValueRef \<times> UnknownReason \<Rightarrow> UnknownInput list" where
  "note_unknown rule_id unknown ir =
     (let entry = \<lparr>ui_rule_id = rule_id, ui_input = fst ir, ui_reason = snd ir\<rparr> in
      if entry \<in> set unknown then unknown else unknown @ [entry])"

text \<open>The gates: \<open>Inl\<close> when one is decided against the candidate.\<close>

fun collect_gates ::
  "Candidate \<Rightarrow> Resolver \<Rightarrow> Reads \<Rightarrow> UnknownInput list \<Rightarrow> HardGate list
     \<Rightarrow> (CollectedCandidate, Reads \<times> UnknownInput list) result" where
  "collect_gates c r reads unknown [] = Inr (reads, unknown)"
| "collect_gates c r reads unknown (gate # gates) =
     (let start = length (re_unknown reads) in
      case truth (hg_predicate gate) c r reads of
        (t, reads) \<Rightarrow>
          (case t of
             TruthTrue \<Rightarrow> collect_gates c r (truncate_unknown start reads) unknown gates
           | TruthFalse \<Rightarrow>
               Inl \<lparr>cc_candidate_id = ca_candidate_id c,
                    cc_verdict = CollectedGateRejected (hg_gate_id gate),
                    cc_known_inputs = re_known reads\<rparr>
           | TruthUnknown _ \<Rightarrow>
               collect_gates c r (truncate_unknown start reads)
                 (foldl (note_unknown (hg_gate_id gate)) unknown (drop start (re_unknown reads)))
                 gates))"

fun collect_terms ::
  "Candidate \<Rightarrow> Resolver \<Rightarrow> Reads \<Rightarrow> UnknownInput list \<Rightarrow> int option \<Rightarrow> ScoringTerm list
     \<Rightarrow> (SelectionError, Reads \<times> UnknownInput list \<times> int option) result" where
  "collect_terms c r reads unknown tot [] = Inr (reads, unknown, tot)"
| "collect_terms c r reads unknown tot (trm # trms) =
     (case and_then (read_value r (sg_value trm) c) (transform (sg_transform trm)) of
        Inl reason \<Rightarrow>
          collect_terms c r reads (note_unknown (sg_term_id trm) unknown (sg_value trm, reason)) None
            trms
      | Inr transformed \<Rightarrow>
          (let reads = record_known r (sg_value trm) reads in
           case tot of
             None \<Rightarrow> collect_terms c r reads unknown None trms
           | Some s \<Rightarrow>
               and_then (term_contribution trm transformed) (\<lambda>m.
               collect_terms c r reads unknown (Some (s + sint m)) trms)))"

definition collect_candidate ::
  "SelectionPolicy \<Rightarrow> Resolver \<Rightarrow> Candidate \<Rightarrow> (SelectionError, CollectedCandidate) result" where
  "collect_candidate p r c =
     (case collect_gates c r reads_recording [] (sp_gates p) of
        Inl rejected \<Rightarrow> Inr rejected
      | Inr (reads, unknown) \<Rightarrow>
          and_then
            (collect_terms c r reads unknown (if unknown = [] then Some 0 else None) (sp_scoring p))
            (\<lambda>(reads, unknown, tot).
               and_then
                 (if unknown = []
                  then and_then
                         (ok_or (SelectionError SelArithmeticOverflow
                                   (concat [ascii ''candidate `'', ca_candidate_id c,
                                            ascii ''` overflows a 64-bit milli score'']))
                            (i64_try_from (case tot of None \<Rightarrow> 0 | Some s \<Rightarrow> s)))
                         (\<lambda>score. Inr (CollectedScored score))
                  else Inr (CollectedUnknown unknown))
                 (\<lambda>verdict.
                    Inr \<lparr>cc_candidate_id = ca_candidate_id c, cc_verdict = verdict,
                         cc_known_inputs = re_known reads\<rparr>)))"

definition evaluate_collect ::
  "SelectionPolicy \<Rightarrow> Candidate list \<Rightarrow> SelectionFactSnapshot \<Rightarrow> u64
     \<Rightarrow> (SelectionError, CollectedCandidate list) result" where
  "evaluate_collect p cs facts now =
     and_then (policy_validate p) (\<lambda>_.
     if uses_record_lists p
     then refuse_with SelTypeMismatch [ascii ''value_type=record_list option=collect'']
     else if uses_tables p
     then refuse_with SelTypeMismatch [ascii ''tables=declared option=collect'']
     else
       and_then (check_candidate_set cs) (\<lambda>_.
       try_map (collect_candidate p (resolver_new p facts [] no_tables now)) cs))"

end
