(* ===== verification/Selection_Bound.thy ===== *)
theory Selection_Bound
  imports Selection_Decision
begin

text \<open>
  The upper bound of what a candidate that was not read could score
  (\<open>crates/selection-policy/src/bound.rs\<close>): for each hypothetical identity, which truth values each
  gate can take and the largest contribution of each term, over the declared domains of the
  fields.
\<close>

datatype FieldDomain = DomIdentity | DomBoolean | DomInteger i64 i64

datatype UpperBound = NoneEligible | MaxScore i64 | Unbounded

datatype Score = ScoreExcluded | ScoreMax i64 | ScoreUnbounded

datatype Reading = Exact "ScalarValue option" | AnyBoolean | Range i64 i64

record Possible =
  ps_truth :: bool
  ps_falsity :: bool
  ps_unknown :: bool

definition possible_unknown :: Possible where
  "possible_unknown = \<lparr>ps_truth = False, ps_falsity = False, ps_unknown = True\<rparr>"

definition possible_exact :: "bool \<Rightarrow> Possible" where
  "possible_exact b = \<lparr>ps_truth = b, ps_falsity = \<not> b, ps_unknown = False\<rparr>"

definition possible_decided :: "bool \<times> bool \<Rightarrow> Possible" where
  "possible_decided tf = \<lparr>ps_truth = fst tf, ps_falsity = snd tf, ps_unknown = False\<rparr>"

record Hypothesis =
  hy_identity :: str
  hy_field_domains :: "(str, FieldDomain) btree"
  hy_facts :: "(str, FactDeclaration) btree"
  hy_snapshot :: SelectionFactSnapshot
  hy_lists :: ListIndex
  hy_tables :: SelectionTables
  hy_now_unix_ms :: u64

section \<open>Reading\<close>

definition hypothesis_fact :: "Hypothesis \<Rightarrow> str \<Rightarrow> (UnknownReason, ScalarValue) result" where
  "hypothesis_fact h fact_key =
     and_then (ok_or UrFactMissing (bt_get (hy_facts h) fact_key)) (\<lambda>declared.
     resolve_scalar (hy_snapshot h) declared (hy_now_unix_ms h))"

definition ok_value :: "('e, 'a) result \<Rightarrow> 'a option" where
  "ok_value r = (case r of Inl _ \<Rightarrow> None | Inr v \<Rightarrow> Some v)"

definition hypothesis_read :: "Hypothesis \<Rightarrow> ValueRef \<Rightarrow> Reading" where
  "hypothesis_read h v =
     (case v of
        VrField field \<Rightarrow>
          (case bt_get (hy_field_domains h) field of
             Some DomIdentity \<Rightarrow> Exact (Some (SvString (hy_identity h)))
           | Some DomBoolean \<Rightarrow> AnyBoolean
           | Some (DomInteger lo hi) \<Rightarrow> Range lo hi
           | None \<Rightarrow> Exact None)
      | VrFact fact_key \<Rightarrow> Exact (ok_value (hypothesis_fact h fact_key))
      | VrKeyedFact fact_key key_field value_column row_filter absent \<Rightarrow>
          if bt_get (hy_field_domains h) key_field \<noteq> Some DomIdentity then Exact None
          else
            Exact (Option.bind (bt_get (hy_lists h) (fact_key, row_filter)) (\<lambda>rows.
              case bt_get rows (hy_identity h) of
                Some row \<Rightarrow> bt_get row value_column
              | None \<Rightarrow> Some absent))
      | VrTable _ _ _ _ _ _ \<Rightarrow>
          Exact (ok_value (rd_value (read_table (hy_tables h) v (hy_identity h) (hypothesis_fact h)))))"

section \<open>Gates\<close>

definition integer_possible ::
  "Hypothesis \<Rightarrow> ValueRef \<Rightarrow> (int \<Rightarrow> bool) \<Rightarrow> (int \<Rightarrow> int \<Rightarrow> bool \<times> bool) \<Rightarrow> Possible" where
  "integer_possible h v exact rng =
     (case hypothesis_read h v of
        Exact (Some (SvInteger i)) \<Rightarrow> possible_exact (exact (sint i))
      | Range lo hi \<Rightarrow> possible_decided (rng (sint lo) (sint hi))
      | _ \<Rightarrow> possible_unknown)"

definition integer_range :: "Hypothesis \<Rightarrow> ValueRef \<Rightarrow> (i64 \<times> i64) option" where
  "integer_range h v =
     (case hypothesis_read h v of
        Exact (Some (SvInteger i)) \<Rightarrow> Some (i, i)
      | Range lo hi \<Rightarrow> Some (lo, hi)
      | _ \<Rightarrow> None)"

definition compare_possible :: "IntegerCompareOp \<Rightarrow> int \<Rightarrow> int \<Rightarrow> int \<Rightarrow> int \<Rightarrow> bool \<times> bool" where
  "compare_possible cop a b c d =
     (let meet = a \<le> d \<and> c \<le> b;
          single = a = b \<and> c = d \<and> a = c in
      case cop of
        CmpEq \<Rightarrow> (meet, \<not> single)
      | CmpNe \<Rightarrow> (\<not> single, meet)
      | CmpLt \<Rightarrow> (a < d, c \<le> b)
      | CmpLe \<Rightarrow> (a \<le> d, c < b)
      | CmpGt \<Rightarrow> (c < b, a \<le> d)
      | CmpGe \<Rightarrow> (c \<le> b, a < d))"

fun possible :: "Hypothesis \<Rightarrow> Predicate \<Rightarrow> Possible" where
  "possible h (IntegerAtLeast v threshold) =
     integer_possible h v (\<lambda>x. sint threshold \<le> x)
       (\<lambda>lo hi. (sint threshold \<le> hi, lo < sint threshold))"
| "possible h (IntegerAtMost v threshold) =
     integer_possible h v (\<lambda>x. x \<le> sint threshold)
       (\<lambda>lo hi. (lo \<le> sint threshold, sint threshold < hi))"
| "possible h (IntegerEquals v expected) =
     integer_possible h v (\<lambda>x. x = sint expected)
       (\<lambda>lo hi. (lo \<le> sint expected \<and> sint expected \<le> hi, lo \<noteq> sint expected \<or> hi \<noteq> sint expected))"
| "possible h (BooleanEquals v expected) =
     (case hypothesis_read h v of
        Exact (Some (SvBoolean b)) \<Rightarrow> possible_exact (b = expected)
      | AnyBoolean \<Rightarrow> possible_decided (True, True)
      | _ \<Rightarrow> possible_unknown)"
| "possible h (StringIn v allowed) =
     (case hypothesis_read h v of
        Exact (Some (SvString s)) \<Rightarrow> possible_exact (s \<in> set allowed)
      | _ \<Rightarrow> possible_unknown)"
| "possible h (IntegerCompare left cop right mul add) =
     (case (integer_range h left, integer_range h right) of
        (Some (a, b), Some (c, d)) \<Rightarrow>
          possible_decided
            (compare_possible cop (sint a) (sint b) (scale mul add c) (scale mul add d))
      | _ \<Rightarrow> possible_unknown)"
| "possible h (PredAll ps) =
     (let members = map (possible h) ps in
      \<lparr>ps_truth = list_all ps_truth members, ps_falsity = list_ex ps_falsity members,
       ps_unknown = list_all (\<lambda>m. ps_truth m \<or> ps_unknown m) members
                    \<and> list_ex ps_unknown members\<rparr>)"
| "possible h (PredAny ps) =
     (let members = map (possible h) ps in
      \<lparr>ps_truth = list_ex ps_truth members, ps_falsity = list_all ps_falsity members,
       ps_unknown = list_all (\<lambda>m. ps_falsity m \<or> ps_unknown m) members
                    \<and> list_ex ps_unknown members\<rparr>)"
| "possible h (PredNot p) =
     (let inner = possible h p in
      \<lparr>ps_truth = ps_falsity inner, ps_falsity = ps_truth inner, ps_unknown = ps_unknown inner\<rparr>)"

section \<open>Terms\<close>

definition key_reached :: "(i64 \<times> i64) option \<Rightarrow> LookupKey \<Rightarrow> bool" where
  "key_reached rng k =
     (case (k, rng) of
        (LkInteger i, Some (lo, hi)) \<Rightarrow> sint lo \<le> sint i \<and> sint i \<le> sint hi
      | (LkBoolean _, None) \<Rightarrow> True
      | _ \<Rightarrow> False)"

fun ranged_outputs :: "Transform \<Rightarrow> (i64 \<times> i64) option \<Rightarrow> i64 list \<times> bool" where
  "ranged_outputs TfIdentity rng =
     (case rng of Some (lo, hi) \<Rightarrow> ([lo, hi], False) | None \<Rightarrow> ([], True))"
| "ranged_outputs (TfThreshold at_least then_milli otherwise_milli) rng =
     (case rng of
        Some (lo, hi) \<Rightarrow>
          ((if sint at_least \<le> sint hi then [then_milli] else [])
           @ (if sint lo < sint at_least then [otherwise_milli] else []), False)
      | None \<Rightarrow> ([], True))"
| "ranged_outputs (TfLookup entries default_milli) rng =
     (let reached = map lu_value_milli (filter (\<lambda>e. key_reached rng (lu_key e)) entries);
          size = (case rng of Some (lo, hi) \<Rightarrow> sint hi - sint lo + 1 | None \<Rightarrow> 2) in
      if size \<le> int (length reached) then (reached, False)
      else case default_milli of
             Some d \<Rightarrow> (reached @ [d], False)
           | None \<Rightarrow> (reached, True))"

definition outputs :: "Hypothesis \<Rightarrow> ScoringTerm \<Rightarrow> (unit, i64 list) result" where
  "outputs h trm =
     (let (outs, unknown, ranged) =
        (case hypothesis_read h (sg_value trm) of
           Exact (Some v) \<Rightarrow>
             (case transform (sg_transform trm) v of
                Inr out \<Rightarrow> ([out], False, False)
              | Inl _ \<Rightarrow> ([], True, False))
         | Exact None \<Rightarrow> ([], True, False)
         | Range lo hi \<Rightarrow>
             (case ranged_outputs (sg_transform trm) (Some (lo, hi)) of
                (outs, miss) \<Rightarrow> (outs, miss, True))
         | AnyBoolean \<Rightarrow>
             (case ranged_outputs (sg_transform trm) None of (outs, miss) \<Rightarrow> (outs, miss, True))) in
      case sg_on_unknown trm of
        SubstituteMilli value_milli \<Rightarrow>
          Inr (if unknown \<or> ranged then outs @ [value_milli] else outs)
      | TermAbortEvaluation \<Rightarrow> if unknown then Inl () else Inr outs
      | TermDropCandidate \<Rightarrow> Inr outs)"

text \<open>The largest contribution of the outputs, \<open>None\<close> when one leaves the 64-bit range.\<close>

fun largest_contribution :: "i64 \<Rightarrow> int option \<Rightarrow> i64 list \<Rightarrow> int option option" where
  "largest_contribution weight largest [] = Some largest"
| "largest_contribution weight largest (out # outs) =
     (let m = contribution out weight in
      if i64_try_from m = None then None
      else largest_contribution weight (Some (case largest of None \<Rightarrow> m | Some l \<Rightarrow> max l m)) outs)"

fun score_gates :: "Hypothesis \<Rightarrow> HardGate list \<Rightarrow> Score option" where
  "score_gates h [] = None"
| "score_gates h (gate # gates) =
     (let possibly = possible h (hg_predicate gate) in
      if reads_table (hg_predicate gate)
      then
        if \<not> ps_truth possibly
        then
          if ps_unknown possibly \<and> hg_on_unknown gate = GateAbortEvaluation
          then Some ScoreUnbounded
          else Some ScoreExcluded
        else score_gates h gates
      else if \<not> ps_truth possibly \<and> \<not> ps_unknown possibly then Some ScoreExcluded
      else score_gates h gates)"

fun score_terms :: "Hypothesis \<Rightarrow> int \<Rightarrow> ScoringTerm list \<Rightarrow> (Score, int) result" where
  "score_terms h tot [] = Inr tot"
| "score_terms h tot (trm # trms) =
     (case outputs h trm of
        Inl _ \<Rightarrow> Inl ScoreUnbounded
      | Inr outs \<Rightarrow>
          if outs = [] then Inl ScoreExcluded
          else
            (case largest_contribution (sg_weight_milli trm) None outs of
               None \<Rightarrow> Inl ScoreUnbounded
             | Some largest \<Rightarrow>
                 score_terms h (tot + (case largest of None \<Rightarrow> 0 | Some l \<Rightarrow> l)) trms))"

definition hypothesis_score :: "Hypothesis \<Rightarrow> SelectionPolicy \<Rightarrow> Score" where
  "hypothesis_score h p =
     (case score_gates h (sp_gates p) of
        Some s \<Rightarrow> s
      | None \<Rightarrow>
          (case score_terms h 0 (sp_scoring p) of
             Inl s \<Rightarrow> s
           | Inr tot \<Rightarrow>
               (case i64_try_from tot of None \<Rightarrow> ScoreUnbounded | Some m \<Rightarrow> ScoreMax m)))"

section \<open>The bound\<close>

definition check_domain ::
  "str list \<Rightarrow> (str, FieldDomain) btree \<Rightarrow> FieldDeclaration \<Rightarrow> (SelectionError, unit) result" where
  "check_domain identities domains d =
     (let name = fd_name d in
      case bt_get domains name of
        None \<Rightarrow> refuse_with SelMissingRequiredField [ascii ''field='', name, ascii '' field_domain'']
      | Some domain \<Rightarrow>
          (case (domain, fd_value_type d) of
             (DomIdentity, VtEnumString allowed) \<Rightarrow>
               (case List.find (\<lambda>i. i \<notin> set allowed) identities of
                  Some identity \<Rightarrow>
                    refuse_with SelTypeMismatch [ascii ''field='', name, ascii '' identity='', identity]
                | None \<Rightarrow> Inr ())
           | (DomBoolean, VtBoolean) \<Rightarrow> Inr ()
           | (DomInteger lo hi, VtInteger) \<Rightarrow>
               if sint lo \<le> sint hi then Inr ()
               else refuse_with SelTypeMismatch [ascii ''field='', name, ascii '' field_domain'']
           | _ \<Rightarrow> refuse_with SelTypeMismatch [ascii ''field='', name, ascii '' field_domain'']))"

fun best_score :: "(str \<Rightarrow> Score) \<Rightarrow> i64 option \<Rightarrow> str list \<Rightarrow> UpperBound" where
  "best_score f best [] = (case best of None \<Rightarrow> NoneEligible | Some b \<Rightarrow> MaxScore b)"
| "best_score f best (i # is) =
     (case f i of
        ScoreExcluded \<Rightarrow> best_score f best is
      | ScoreUnbounded \<Rightarrow> Unbounded
      | ScoreMax s \<Rightarrow>
          best_score f
            (Some (case best of None \<Rightarrow> s | Some b \<Rightarrow> if sint b \<le> sint s then s else b)) is)"

definition hypothesis_of ::
  "SelectionPolicy \<Rightarrow> SelectionTables \<Rightarrow> SelectionFactSnapshot \<Rightarrow> u64 \<Rightarrow> (str, FieldDomain) btree
     \<Rightarrow> ListIndex \<Rightarrow> str \<Rightarrow> Hypothesis" where
  "hypothesis_of p T facts now domains rls identity =
     \<lparr>hy_identity = identity, hy_field_domains = domains,
      hy_facts = bt_from (map (\<lambda>d. (fc_fact_key d, d)) (sp_facts p)), hy_snapshot = facts,
      hy_lists = rls, hy_tables = T, hy_now_unix_ms = now\<rparr>"

definition upper_bound_with_tables ::
  "SelectionPolicy \<Rightarrow> SelectionTables \<Rightarrow> SelectionFactSnapshot \<Rightarrow> u64 \<Rightarrow> str list
     \<Rightarrow> (str, FieldDomain) btree \<Rightarrow> (SelectionError, UpperBound) result" where
  "upper_bound_with_tables p T facts now identities domains =
     and_then (policy_validate p) (\<lambda>_.
     and_then (check_bound T p) (\<lambda>_.
     and_then (try_for_each (check_domain identities domains) (sp_fields p)) (\<lambda>_.
     if list_ex (\<lambda>k. bt_get domains k \<noteq> Some DomIdentity) (table_key_fields p)
     then Inr Unbounded
     else
       (case read_lists p facts now of
          Inl _ \<Rightarrow> Inr Unbounded
        | Inr rls \<Rightarrow>
            Inr (best_score
                   (\<lambda>i. hypothesis_score (hypothesis_of p T facts now domains rls i) p)
                   None identities)))))"

definition upper_bound ::
  "SelectionPolicy \<Rightarrow> SelectionFactSnapshot \<Rightarrow> u64 \<Rightarrow> str list \<Rightarrow> (str, FieldDomain) btree
     \<Rightarrow> (SelectionError, UpperBound) result" where
  "upper_bound p facts now identities domains =
     upper_bound_with_tables p no_tables facts now identities domains"

end
