(* ===== verification/Selection_Meaning.thy ===== *)
theory Selection_Meaning
  imports Selection_Bound
begin

text \<open>
  A reference semantics of gates: Kleene's three-valued logic over the values the references
  read, with the first unknown member in document order as the reason. The evaluator's loops
  compute exactly this, whatever they have recorded so far, and a decided gate stays decided
  when more of its inputs become known.
\<close>

type_synonym reading_env = "ValueRef \<Rightarrow> (UnknownReason, ScalarValue) result"

section \<open>The reference semantics\<close>

definition is_unknown :: "Truth \<Rightarrow> bool" where
  "is_unknown t \<longleftrightarrow> t \<noteq> TruthTrue \<and> t \<noteq> TruthFalse"

lemma is_unknown_simps [simp]:
  "\<not> is_unknown TruthTrue" "\<not> is_unknown TruthFalse" "is_unknown (TruthUnknown reason)"
  by (simp_all add: is_unknown_def)

text \<open>A list of members decided by one value: \<open>absorbing\<close> wins, then the first unknown member,
  then \<open>neutral\<close>.\<close>

definition kleene :: "Truth \<Rightarrow> Truth \<Rightarrow> Truth list \<Rightarrow> Truth" where
  "kleene absorbing neutral ts =
     (if absorbing \<in> set ts then absorbing
      else case List.find is_unknown ts of Some t \<Rightarrow> t | None \<Rightarrow> neutral)"

definition decided :: "(UnknownReason, bool) result \<Rightarrow> Truth" where
  "decided x = (case x of Inr b \<Rightarrow> bool_truth b | Inl reason \<Rightarrow> TruthUnknown reason)"

definition leaf_value ::
  "(UnknownReason, ScalarValue) result \<Rightarrow> (ScalarValue \<Rightarrow> bool option) \<Rightarrow> Truth" where
  "leaf_value x decide = decided (and_then x (\<lambda>v. ok_or UrTypeMismatch (decide v)))"

definition side_value :: "(UnknownReason, ScalarValue) result \<Rightarrow> (UnknownReason, i64) result" where
  "side_value x = and_then x (\<lambda>v. case v of SvInteger i \<Rightarrow> Inr i | _ \<Rightarrow> Inl UrTypeMismatch)"

fun meaning :: "reading_env \<Rightarrow> Predicate \<Rightarrow> Truth" where
  "meaning env (IntegerAtLeast v threshold) =
     leaf_value (env v) (decide_integer (\<lambda>x. sint threshold \<le> x))"
| "meaning env (IntegerAtMost v threshold) =
     leaf_value (env v) (decide_integer (\<lambda>x. x \<le> sint threshold))"
| "meaning env (IntegerEquals v expected) =
     leaf_value (env v) (decide_integer (\<lambda>x. x = sint expected))"
| "meaning env (BooleanEquals v expected) =
     leaf_value (env v) (decide_boolean (\<lambda>x. x = expected))"
| "meaning env (StringIn v allowed) = leaf_value (env v) (decide_string (\<lambda>x. x \<in> set allowed))"
| "meaning env (IntegerCompare left cop right mul add) =
     decided (and_then (side_value (env left)) (\<lambda>a.
              and_then (side_value (env right)) (\<lambda>b.
              Inr (compare_holds cop (sint a) (scale mul add b)))))"
| "meaning env (PredAll ps) = kleene TruthFalse TruthTrue (map (meaning env) ps)"
| "meaning env (PredAny ps) = kleene TruthTrue TruthFalse (map (meaning env) ps)"
| "meaning env (PredNot p) = truth_not (meaning env p)"

abbreviation candidate_env :: "Resolver \<Rightarrow> Candidate \<Rightarrow> reading_env" where
  "candidate_env r c \<equiv> \<lambda>v. read_value r v c"

section \<open>The evaluator computes it\<close>

lemma fst_read_noting: "fst (read_noting r v c reads) = read_value r v c"
proof (cases "is_table v")
  case True
  then obtain t k ps vc fc ab where v: "v = VrTable t k ps vc fc ab" by (cases v) auto
  show ?thesis
    by (auto simp: v read_noting_def read_value_def marks_note_def Let_def split: sum.splits)
next
  case False
  then show ?thesis by (auto simp: read_noting_def Let_def split: sum.splits)
qed

lemma fst_leaf: "fst (leaf v c r reads decide) = leaf_value (read_value r v c) decide"
  using fst_read_noting[of r v c reads]
  by (auto simp: leaf_def leaf_value_def decided_def split: prod.splits sum.splits)

lemma fst_integer_side: "fst (integer_side v c r reads) = side_value (read_value r v c)"
  using fst_read_noting[of r v c reads]
  by (auto simp: integer_side_def side_value_def split: prod.splits sum.splits)

definition truth_loop :: "Truth \<Rightarrow> Truth \<Rightarrow> UnknownReason option \<Rightarrow> Truth list \<Rightarrow> Truth" where
  "truth_loop absorbing neutral unknown ts =
     (if absorbing \<in> set ts then absorbing
      else case unknown of
             Some reason \<Rightarrow> TruthUnknown reason
           | None \<Rightarrow> (case List.find is_unknown ts of Some t \<Rightarrow> t | None \<Rightarrow> neutral))"

lemma truth_loop_None: "truth_loop absorbing neutral None ts = kleene absorbing neutral ts"
  by (simp add: truth_loop_def kleene_def)

lemma truth_is_meaning:
  "fst (truth p c r reads) = meaning (candidate_env r c) p"
  "fst (truth_all ps c r start unknown reads) =
     truth_loop TruthFalse TruthTrue unknown (map (meaning (candidate_env r c)) ps)"
  "fst (truth_any ps c r start unknown reads) =
     truth_loop TruthTrue TruthFalse unknown (map (meaning (candidate_env r c)) ps)"
proof (induction p c r reads and ps c r start unknown reads and ps c r start unknown reads
       rule: truth_truth_all_truth_any.induct)
  case (6 left cop right mul add c r reads)
  obtain l reads1 where l: "integer_side left c r reads = (l, reads1)" by fastforce
  obtain rt reads2 where rt: "integer_side right c r reads1 = (rt, reads2)" by fastforce
  have "l = side_value (read_value r left c)" "rt = side_value (read_value r right c)"
    using fst_integer_side[of left c r reads] fst_integer_side[of right c r reads1] l rt
    by simp_all
  then show ?case
    by (cases "side_value (read_value r left c)"; cases "side_value (read_value r right c)")
       (simp_all add: l rt decided_def)
next
  case (9 p c r reads)
  then show ?case by (auto split: prod.splits)
next
  case (11 p ps c r start unknown reads)
  then show ?case
    by (cases "truth p c r reads"; cases "fst (truth p c r reads)")
       (auto simp: truth_loop_def first_unknown_def split: option.splits)
next
  case (13 p ps c r start unknown reads)
  then show ?case
    by (cases "truth p c r reads"; cases "fst (truth p c r reads)")
       (auto simp: truth_loop_def first_unknown_def split: option.splits)
next
  case (7 ps c r reads)
  then show ?case by (simp add: truth_loop_None)
next
  case (8 ps c r reads)
  then show ?case by (simp add: truth_loop_None)
qed (auto simp: fst_leaf truth_loop_def split: option.splits)

lemma side_value_Inr [simp]: "side_value x = Inr i \<longleftrightarrow> x = Inr (SvInteger i)"
  by (cases x) (auto simp: side_value_def split: ScalarValue.splits)

lemma side_value_Inl: "side_value x = Inl reason \<Longrightarrow> x = Inl reason \<or> reason = UrTypeMismatch"
  by (cases x) (auto simp: side_value_def split: ScalarValue.splits)

lemma leaf_value_unknown:
  "leaf_value x decide = TruthUnknown reason \<Longrightarrow> x = Inl reason \<or> reason = UrTypeMismatch"
  by (cases x) (auto simp: leaf_value_def decided_def bool_truth_def result_simps
      split: sum.splits if_splits)

lemma decided_unknown: "decided x = TruthUnknown reason \<longleftrightarrow> x = Inl reason"
  by (cases x) (auto simp: decided_def bool_truth_def)

lemma kleene_unknown:
  "kleene absorbing neutral ts = TruthUnknown reason \<Longrightarrow> \<not> is_unknown absorbing \<Longrightarrow> \<not> is_unknown neutral
     \<Longrightarrow> TruthUnknown reason \<in> set ts"
  by (auto simp: kleene_def find_Some_iff split: if_splits option.splits)

lemma meaning_unknown_input:
  "meaning env p = TruthUnknown reason \<Longrightarrow>
     (\<exists>v \<in> set (collect_values p). env v = Inl reason) \<or> reason = UrTypeMismatch"
proof (induction p)
  case (IntegerCompare left cop right mul add)
  then show ?case by (auto simp: decided_unknown result_simps dest: side_value_Inl)
next
  case (PredAll ps)
  from kleene_unknown[OF PredAll.prems[simplified]]
  have "TruthUnknown reason \<in> set (map (meaning env) ps)" by simp
  with PredAll.IH show ?case by fastforce
next
  case (PredAny ps)
  from kleene_unknown[OF PredAny.prems[simplified]]
  have "TruthUnknown reason \<in> set (map (meaning env) ps)" by simp
  with PredAny.IH show ?case by fastforce
next
  case (PredNot p)
  then show ?case by (cases "meaning env p") auto
qed (auto dest: leaf_value_unknown)

section \<open>More known inputs\<close>

text \<open>An environment that knows at least what another knows.\<close>

definition knows_more :: "reading_env \<Rightarrow> reading_env \<Rightarrow> bool" where
  "knows_more env env2 \<longleftrightarrow> (\<forall>v x. env v = Inr x \<longrightarrow> env2 v = Inr x)"

lemma kleene_decided:
  assumes "\<not> is_unknown absorbing" "\<not> is_unknown neutral"
    and "list_all2 (\<lambda>a b. is_unknown a \<or> b = a) ts us" "\<not> is_unknown (kleene absorbing neutral ts)"
  shows "kleene absorbing neutral us = kleene absorbing neutral ts"
proof (cases "absorbing \<in> set ts")
  case True
  with assms(1,3) have "absorbing \<in> set us" by (auto simp: list_all2_conv_all_nth in_set_conv_nth)
  with True show ?thesis by (simp add: kleene_def)
next
  case False
  with assms(4) have "List.find is_unknown ts = None"
    by (auto simp: kleene_def find_Some_iff split: option.splits)
  then have "\<forall>t\<in>set ts. \<not> is_unknown t" by (simp add: find_None_iff)
  with assms(3) have "us = ts" by (auto simp: list_all2_conv_all_nth intro!: nth_equalityI)
  then show ?thesis by simp
qed

lemma members_decided:
  "(\<And>p. p \<in> set ps \<Longrightarrow> \<not> is_unknown (f p) \<Longrightarrow> g p = f p)
     \<Longrightarrow> list_all2 (\<lambda>a b. is_unknown a \<or> b = a) (map f ps) (map g ps)"
  by (auto simp: list.rel_map intro!: list.rel_refl_strong)

lemma decided_step:
  "\<not> is_unknown (decided x) \<Longrightarrow> (\<And>b. x = Inr b \<Longrightarrow> y = Inr b) \<Longrightarrow> decided y = decided x"
  by (cases x) (auto simp: decided_def)

lemma meaning_decided:
  assumes "knows_more env env2"
  shows "\<not> is_unknown (meaning env p) \<Longrightarrow> meaning env2 p = meaning env p"
proof (induction p)
  case (IntegerCompare left cop right mul add)
  with assms show ?case by (auto simp: knows_more_def result_simps intro!: decided_step)
next
  case (PredAll ps)
  then show ?case by (simp add: kleene_decided members_decided)
next
  case (PredAny ps)
  then show ?case by (simp add: kleene_decided members_decided)
next
  case (PredNot p)
  then show ?case by (cases "meaning env p") auto
qed (use assms in \<open>auto simp: knows_more_def leaf_value_def result_simps intro!: decided_step\<close>)

end
