(* ===== verification/Selection_Assess.thy ===== *)
theory Selection_Assess
  imports Selection_Meaning
begin

text \<open>
  What it takes for a candidate to be ranked, stated over the values its references read: every
  gate keeps it, every term has an output, the contributions fit and the score is their sum.
  The assessment of the evaluator, with its early returns and its verdict, ranks exactly the
  candidates of this specification.
\<close>

section \<open>The specification\<close>

definition gate_keeps :: "reading_env \<Rightarrow> HardGate \<Rightarrow> bool" where
  "gate_keeps env gate =
     (case meaning env (hg_predicate gate) of
        TruthTrue \<Rightarrow> True
      | TruthFalse \<Rightarrow> False
      | TruthUnknown _ \<Rightarrow> hg_on_unknown gate = SubstituteVerdict True)"

definition term_resolved :: "reading_env \<Rightarrow> ScoringTerm \<Rightarrow> (UnknownReason, i64) result" where
  "term_resolved env trm = and_then (env (sg_value trm)) (transform (sg_transform trm))"

definition term_output :: "reading_env \<Rightarrow> ScoringTerm \<Rightarrow> i64 option" where
  "term_output env trm =
     (case term_resolved env trm of
        Inr out \<Rightarrow> Some out
      | Inl _ \<Rightarrow> (case sg_on_unknown trm of SubstituteMilli m \<Rightarrow> Some m | _ \<Rightarrow> None))"

text \<open>The contribution of a term with an output, when it fits 64 bits.\<close>

definition term_score :: "reading_env \<Rightarrow> ScoringTerm \<Rightarrow> i64 option" where
  "term_score env trm =
     Option.bind (term_output env trm) (\<lambda>out. i64_try_from (contribution out (sg_weight_milli trm)))"

fun scores_sum :: "reading_env \<Rightarrow> ScoringTerm list \<Rightarrow> int option" where
  "scores_sum env [] = Some 0"
| "scores_sum env (trm # trms) =
     Option.bind (term_score env trm) (\<lambda>m.
     map_option (\<lambda>s. sint m + s) (scores_sum env trms))"

definition rank_of :: "SelectionPolicy \<Rightarrow> Candidate \<Rightarrow> Resolver \<Rightarrow> Ranked option" where
  "rank_of p c r =
     (if list_all (gate_keeps (candidate_env r c)) (sp_gates p)
      then Option.bind (scores_sum (candidate_env r c) (sp_scoring p)) (\<lambda>s.
           map_option (\<lambda>score.
             \<lparr>rk_candidate_id = ca_candidate_id c, rk_score_milli = score,
              rk_keys = map (tie_break_key c r) (sp_tie_break p)\<rparr>) (i64_try_from s))
      else None)"

section \<open>Gates\<close>

lemma settle_gate_keep: "\<exists>w. settle_gate gate oc True marks v = Inr w"
  by (simp add: settle_gate_def Let_def)

lemma settle_gate_drop: "\<exists>w. settle_gate gate oc False marks v = Inl (Settled w None)"
  by (auto simp: settle_gate_def Let_def split: GateOutcome.splits)

lemma assess_gate_keeps:
  "(\<exists>w. assess_gate c r v gate = Inr w) \<longleftrightarrow> gate_keeps (candidate_env r c) gate"
proof -
  obtain t reads where t: "truth (hg_predicate gate) c r reads_ignored = (t, reads)" by fastforce
  have m: "meaning (candidate_env r c) (hg_predicate gate) = t"
    using truth_is_meaning(1)[of "hg_predicate gate" c r reads_ignored] t by simp
  note s = settle_gate_keep[of gate _ "re_marks reads" v] settle_gate_drop[of gate _ "re_marks reads" v]
  show ?thesis
  proof (cases t)
    case TruthTrue
    then show ?thesis using s(1)[of GatePassed] by (simp add: assess_gate_def t gate_keeps_def m)
  next
    case TruthFalse
    then show ?thesis using s(2)[of GateFailed] by (auto simp: assess_gate_def t gate_keeps_def m)
  next
    case (TruthUnknown reason)
    show ?thesis
    proof (cases "hg_on_unknown gate")
      case (SubstituteVerdict b)
      with TruthUnknown show ?thesis
        using s(1)[of "GateUnknownSubstituted reason b"] s(2)[of "GateUnknownSubstituted reason b"]
        by (cases b) (auto simp: assess_gate_def t gate_keeps_def m)
    qed (use TruthUnknown s(2)[of "GateUnknownDropped reason"] in
         \<open>auto simp: assess_gate_def t gate_keeps_def m Let_def\<close>)
  qed
qed

lemma settle_gate_stops: "settle_gate gate oc keep marks v = Inl (Settled w k) \<Longrightarrow> k = None"
  by (auto simp: settle_gate_def Let_def split: GateOutcome.splits if_splits)

lemma assess_gate_stops: "assess_gate c r v gate = Inl (Settled w k) \<Longrightarrow> k = None"
  by (auto simp: assess_gate_def Let_def dest!: settle_gate_stops
      split: prod.splits Truth.splits GateUnknownHandling.splits)

lemma assess_gates_keep:
  "(\<exists>w. assess_gates c r v gates = Inr w) \<longleftrightarrow> list_all (gate_keeps (candidate_env r c)) gates"
proof (induction gates arbitrary: v)
  case (Cons gate gates)
  show ?case
    using assess_gate_keeps[of c r v gate] Cons.IH
    by (cases "assess_gate c r v gate") auto
qed simp

lemma assess_gates_stop:
  "assess_gates c r v gates = Inl (Settled w k) \<Longrightarrow> k = None"
  by (induction gates arbitrary: v) (auto simp: result_simps dest: assess_gate_stops)

section \<open>Terms\<close>

lemma keep_term_score:
  "\<exists>w t. keep_term trm oc out marks v tot =
     (case i64_try_from (contribution out (sg_weight_milli trm)) of
        None \<Rightarrow> Inl (SelectionError SelArithmeticOverflow t)
      | Some m \<Rightarrow> Inr (Inr (w m, tot + sint m)))"
  by (auto simp: keep_term_def term_contribution_def Let_def split: option.splits)

lemma assess_term_score:
  "(\<exists>w. assess_term c r v tot trm = Inr (Inr (w, tot'))) \<longleftrightarrow>
     (\<exists>m. term_score (candidate_env r c) trm = Some m \<and> tot' = tot + sint m)"
proof -
  obtain x reads where x: "read_noting r (sg_value trm) c reads_ignored = (x, reads)" by fastforce
  have e: "read_value r (sg_value trm) c = x"
    using fst_read_noting[of r "sg_value trm" c reads_ignored] x by simp
  note k = keep_term_score[of trm _ _ "re_marks reads" v tot]
  show ?thesis
  proof (cases "and_then x (transform (sg_transform trm))")
    case (Inr out)
    with k[of "Scored out" out] show ?thesis
      by (auto simp: assess_term_def x e term_score_def term_output_def term_resolved_def Let_def
          split: option.splits)
  next
    case (Inl reason)
    show ?thesis
    proof (cases "sg_on_unknown trm")
      case (SubstituteMilli m)
      with k[of "TermUnknownSubstituted reason m" m] Inl show ?thesis
        by (auto simp: assess_term_def x e term_score_def term_output_def term_resolved_def Let_def
            split: option.splits)
    qed (use Inl in \<open>auto simp: assess_term_def x e term_score_def term_output_def
           term_resolved_def Let_def\<close>)
  qed
qed

lemma keep_term_stops: "keep_term trm oc out marks v tot \<noteq> Inr (Inl a)"
  by (auto simp: keep_term_def term_contribution_def Let_def result_simps)

lemma assess_term_stops: "assess_term c r v tot trm = Inr (Inl (Settled w k)) \<Longrightarrow> k = None"
  by (auto simp: assess_term_def drop_term_def keep_term_stops Let_def
      split: prod.splits sum.splits TermUnknownHandling.splits)

lemma assess_terms_stop: "assess_terms c r v tot trms = Inr (Inl (Settled w k)) \<Longrightarrow> k = None"
proof (induction trms arbitrary: v tot)
  case (Cons trm trms)
  then obtain step where "assess_term c r v tot trm = Inr step"
    by (cases "assess_term c r v tot trm") auto
  with Cons show ?case by (cases step) (auto dest: assess_term_stops)
qed simp

lemma assess_terms_score:
  "(\<exists>w. assess_terms c r v tot trms = Inr (Inr (w, tot'))) \<longleftrightarrow>
     (\<exists>s. scores_sum (candidate_env r c) trms = Some s \<and> tot' = tot + s)"
proof (induction trms arbitrary: v tot)
  case (Cons trm trms)
  show ?case
  proof (cases "\<exists>w u. assess_term c r v tot trm = Inr (Inr (w, u))")
    case True
    then obtain w u where w: "assess_term c r v tot trm = Inr (Inr (w, u))" by blast
    then obtain m where m: "term_score (candidate_env r c) trm = Some m" "u = tot + sint m"
      using assess_term_score[of c r v tot trm u] by blast
    show ?thesis using Cons.IH[of w u] by (auto simp: w m add.assoc)
  next
    case False
    then have "term_score (candidate_env r c) trm = None"
      using assess_term_score[of c r v tot trm] by (cases "term_score (candidate_env r c) trm") auto
    with False show ?thesis
      by (auto simp: result_simps split: sum.splits)
  qed
qed auto

text \<open>The assessment ranks a candidate exactly when, and exactly as, the specification does.\<close>

lemma assess_ranks:
  "(\<exists>v. assess p c r = Inr (Settled v (Some k))) \<longleftrightarrow> rank_of p c r = Some k"
proof (cases "assess_gates c r (verdict_new c) (sp_gates p)")
  case (Inl a)
  then have "\<not> list_all (gate_keeps (candidate_env r c)) (sp_gates p)"
    using assess_gates_keep[of c r "verdict_new c" "sp_gates p"] by auto
  with Inl show ?thesis by (auto simp: assess_def rank_of_def dest: assess_gates_stop)
next
  case (Inr v)
  then have g: "list_all (gate_keeps (candidate_env r c)) (sp_gates p)"
    using assess_gates_keep[of c r "verdict_new c" "sp_gates p"] by auto
  note s = assess_terms_score[of c r v 0 "sp_scoring p", simplified]
  show ?thesis
  proof (cases "\<exists>w u. assess_terms c r v 0 (sp_scoring p) = Inr (Inr (w, u))")
    case True
    then obtain w u where w: "assess_terms c r v 0 (sp_scoring p) = Inr (Inr (w, u))" by blast
    with s[of u] have "scores_sum (candidate_env r c) (sp_scoring p) = Some u" by blast
    with Inr g w show ?thesis
      by (cases "i64_try_from u") (auto simp: assess_def rank_of_def Let_def)
  next
    case False
    with s have "scores_sum (candidate_env r c) (sp_scoring p) = None"
      by (cases "scores_sum (candidate_env r c) (sp_scoring p)") auto
    with Inr False show ?thesis
      by (auto simp: assess_def rank_of_def result_simps dest: assess_terms_stop split: sum.splits)
  qed
qed

section \<open>Overflow\<close>

text \<open>An output of a term whose contribution does not fit 64 bits.\<close>

definition term_overflows :: "reading_env \<Rightarrow> ScoringTerm \<Rightarrow> bool" where
  "term_overflows env trm \<longleftrightarrow>
     (\<exists>out. term_output env trm = Some out \<and>
        (let n = sint out * sint (sg_weight_milli trm) sdiv 1000 in n < - (2 ^ 63) \<or> 2 ^ 63 \<le> n))"

lemma term_overflows_score:
  "term_overflows env trm \<longleftrightarrow> term_output env trm \<noteq> None \<and> term_score env trm = None"
  by (cases "term_output env trm")
    (auto simp: term_overflows_def term_score_def i64_try_from_None contribution_def Let_def)

lemma keep_term_overflow:
  "(\<exists>e. keep_term trm oc out marks v tot = Inl e) \<longleftrightarrow> i64_try_from (contribution out (sg_weight_milli trm)) = None"
  "keep_term trm oc out marks v tot = Inl e \<Longrightarrow> sel_code e = SelArithmeticOverflow"
  using keep_term_score[of trm oc out marks v tot] by (auto split: option.splits)

lemma assess_term_overflow:
  "(\<exists>e. assess_term c r v tot trm = Inl e) \<longleftrightarrow> term_overflows (candidate_env r c) trm"
  "assess_term c r v tot trm = Inl e \<Longrightarrow> sel_code e = SelArithmeticOverflow"
proof -
  obtain x reads where x: "read_noting r (sg_value trm) c reads_ignored = (x, reads)" by fastforce
  have e: "read_value r (sg_value trm) c = x"
    using fst_read_noting[of r "sg_value trm" c reads_ignored] x by simp
  note a = assess_term_def x e term_overflows_score term_score_def term_output_def term_resolved_def Let_def
  show "(\<exists>e. assess_term c r v tot trm = Inl e) \<longleftrightarrow> term_overflows (candidate_env r c) trm"
    by (cases "and_then x (transform (sg_transform trm))"; cases "sg_on_unknown trm")
      (simp_all add: a keep_term_overflow(1))
  show "assess_term c r v tot trm = Inl e \<Longrightarrow> sel_code e = SelArithmeticOverflow"
    by (cases "and_then x (transform (sg_transform trm))"; cases "sg_on_unknown trm")
      (auto simp: a dest: keep_term_overflow(2))
qed

text \<open>Some term overflows, and every term before it has a contribution.\<close>

definition terms_overflow :: "reading_env \<Rightarrow> ScoringTerm list \<Rightarrow> bool" where
  "terms_overflow env trms \<longleftrightarrow>
     (\<exists>before trm after. trms = before @ trm # after \<and> term_overflows env trm
        \<and> list_all (\<lambda>t. term_score env t \<noteq> None) before)"

lemma terms_overflow_Nil [simp]: "\<not> terms_overflow env []"
  by (simp add: terms_overflow_def)

lemma terms_overflow_Cons:
  "terms_overflow env (trm # trms) \<longleftrightarrow>
     term_overflows env trm \<or> term_score env trm \<noteq> None \<and> terms_overflow env trms"
proof
  assume "terms_overflow env (trm # trms)"
  then obtain before t after where b: "trm # trms = before @ t # after" "term_overflows env t"
      "list_all (\<lambda>t. term_score env t \<noteq> None) before"
    unfolding terms_overflow_def by blast
  then show "term_overflows env trm \<or> term_score env trm \<noteq> None \<and> terms_overflow env trms"
    unfolding terms_overflow_def by (cases before) auto
next
  assume "term_overflows env trm \<or> term_score env trm \<noteq> None \<and> terms_overflow env trms"
  then show "terms_overflow env (trm # trms)"
  proof (elim disjE conjE)
    assume "term_overflows env trm"
    then show ?thesis
      unfolding terms_overflow_def by (intro exI[of _ "[]"] exI[of _ trm] exI[of _ trms]) simp
  next
    assume score: "term_score env trm \<noteq> None" and "terms_overflow env trms"
    then obtain before t after where "trms = before @ t # after" "term_overflows env t"
        "list_all (\<lambda>t. term_score env t \<noteq> None) before"
      unfolding terms_overflow_def by blast
    with score show ?thesis
      unfolding terms_overflow_def by (intro exI[of _ "trm # before"] exI[of _ t] exI[of _ after]) simp
  qed
qed

lemma assess_terms_overflow:
  "(\<exists>e. assess_terms c r v tot trms = Inl e) \<longleftrightarrow> terms_overflow (candidate_env r c) trms"
proof (induction trms arbitrary: v tot)
  case (Cons trm trms)
  note over = assess_term_overflow(1)[of c r v tot trm] and score = assess_term_score[of c r v tot trm]
  show ?case
  proof (cases "assess_term c r v tot trm")
    case (Inl e)
    with over show ?thesis by (simp add: terms_overflow_Cons)
  next
    case (Inr step)
    with over have no: "\<not> term_overflows (candidate_env r c) trm" by simp
    show ?thesis
    proof (cases step)
      case (Inl a)
      with Inr score have "term_score (candidate_env r c) trm = None"
        by (cases "term_score (candidate_env r c) trm") auto
      with Inl Inr no show ?thesis by (simp add: terms_overflow_Cons)
    next
      case step: (Inr wt)
      obtain w t where wt: "wt = (w, t)" by fastforce
      with Inr step score[of t] have "term_score (candidate_env r c) trm \<noteq> None" by auto
      with Inr step wt no Cons.IH[of w t] show ?thesis by (simp add: terms_overflow_Cons)
    qed
  qed
qed simp

lemma assess_terms_code: "assess_terms c r v tot trms = Inl e \<Longrightarrow> sel_code e = SelArithmeticOverflow"
proof (induction trms arbitrary: v tot)
  case (Cons trm trms)
  show ?case
  proof (cases "assess_term c r v tot trm")
    case (Inl e')
    with Cons.prems assess_term_overflow(2)[OF Inl] show ?thesis by simp
  next
    case (Inr step)
    with Cons show ?thesis by (cases step) auto
  qed
qed simp

text \<open>The assessment fails exactly where the exact arithmetic leaves 64 bits.\<close>

lemma assess_overflow:
  "(\<exists>e. assess p c r = Inl e) \<longleftrightarrow>
     list_all (gate_keeps (candidate_env r c)) (sp_gates p)
     \<and> (terms_overflow (candidate_env r c) (sp_scoring p)
        \<or> (\<exists>s. scores_sum (candidate_env r c) (sp_scoring p) = Some s \<and> (s < - (2 ^ 63) \<or> 2 ^ 63 \<le> s)))"
proof (cases "assess_gates c r (verdict_new c) (sp_gates p)")
  case (Inl a)
  then have "\<not> list_all (gate_keeps (candidate_env r c)) (sp_gates p)"
    using assess_gates_keep[of c r "verdict_new c" "sp_gates p"] by auto
  with Inl show ?thesis by (simp add: assess_def)
next
  case (Inr v)
  then have g: "list_all (gate_keeps (candidate_env r c)) (sp_gates p)"
    using assess_gates_keep[of c r "verdict_new c" "sp_gates p"] by auto
  note score = assess_terms_score[of c r v 0 "sp_scoring p", simplified]
    and over = assess_terms_overflow[of c r v 0 "sp_scoring p"]
  show ?thesis
  proof (cases "assess_terms c r v 0 (sp_scoring p)")
    case (Inl e)
    with Inr g over show ?thesis by (simp add: assess_def)
  next
    case terms: (Inr step)
    show ?thesis
    proof (cases step)
      case (Inl a)
      with terms score have "scores_sum (candidate_env r c) (sp_scoring p) = None"
        by (cases "scores_sum (candidate_env r c) (sp_scoring p)") auto
      with Inl Inr terms over show ?thesis by (simp add: assess_def)
    next
      case step: (Inr wt)
      obtain w t where wt: "wt = (w, t)" by fastforce
      with step terms score[of t] have "scores_sum (candidate_env r c) (sp_scoring p) = Some t" by auto
      with Inr g step terms wt over show ?thesis
        using i64_try_from_None[of t] by (cases "i64_try_from t") (simp_all add: assess_def Let_def)
    qed
  qed
qed

lemma assess_code:
  assumes "assess p c r = Inl e"
  shows "sel_code e = SelArithmeticOverflow"
proof -
  from assms obtain v where v: "assess_gates c r (verdict_new c) (sp_gates p) = Inr v"
    by (cases "assess_gates c r (verdict_new c) (sp_gates p)") (simp_all add: assess_def)
  show ?thesis
  proof (cases "assess_terms c r v 0 (sp_scoring p)")
    case (Inl e')
    with assms v assess_terms_code[OF Inl] show ?thesis by (simp add: assess_def)
  next
    case (Inr step)
    with assms v show ?thesis
      by (cases step) (auto simp: assess_def Let_def and_then_Inl ok_or_Inl)
  qed
qed

section \<open>Width\<close>

text \<open>The 128-bit intermediate values are modelled as integers. A scaled side and a product fit by the
  width of their operands, a sum by the number of its terms, so nothing wraps before the narrowing.\<close>

lemma scale_fits: "in_i128 (scale mul add x)"
proof -
  define m where "m = (case mul of None \<Rightarrow> 1 | Some m \<Rightarrow> int (unat m))"
  define a where "a = (case add of None \<Rightarrow> 0 | Some a \<Rightarrow> sint a)"
  have u64_bound: "int (unat w) \<le> 2 ^ 64 - 1" for w :: u64
    using unsigned_less[of w, where ?'a = int] by simp
  have m: "0 \<le> m" "m \<le> 2 ^ 64 - 1"
    using u64_bound by (auto simp: m_def split: option.splits)
  have a: "- (2 ^ 63) \<le> a" "a < 2 ^ 63"
    using sint_i64_bounds by (auto simp: a_def split: option.splits)
  have "sint x * m \<le> (2 ^ 63 - 1) * (2 ^ 64 - 1)"
    using mult_mono[of "sint x" "2 ^ 63 - 1" m "2 ^ 64 - 1"] m sint_i64_bounds[of x] by simp
  moreover have "- (2 ^ 63) * (2 ^ 64 - 1) \<le> sint x * m"
    using mult_mono[of "- sint x" "2 ^ 63" m "2 ^ 64 - 1"] m sint_i64_bounds[of x] by simp
  ultimately show ?thesis using a by (simp add: in_i128_def scale_def m_def[symmetric] a_def[symmetric])
qed

lemma product_fits: "in_i128 (sint (a :: i64) * sint (b :: i64))"
proof -
  have "\<bar>sint a * sint b\<bar> \<le> 2 ^ 63 * 2 ^ 63"
    unfolding abs_mult using sint_i64_abs[of a] sint_i64_abs[of b] by (intro mult_mono) auto
  then show ?thesis by (simp add: in_i128_def) linarith
qed

lemma scores_sum_abs: "scores_sum env trms = Some s \<Longrightarrow> \<bar>s\<bar> \<le> int (length trms) * 2 ^ 63"
proof (induction trms arbitrary: s)
  case (Cons trm trms)
  then obtain m where m: "term_score env trm = Some m" by (cases "term_score env trm") auto
  with Cons.prems obtain s' where s': "scores_sum env trms = Some s'" "s = sint m + s'" by auto
  have "\<bar>s\<bar> \<le> \<bar>sint m\<bar> + \<bar>s'\<bar>" using s'(2) by simp
  also have "\<dots> \<le> 2 ^ 63 + int (length trms) * 2 ^ 63"
    using Cons.IH[OF s'(1)] sint_i64_abs[of m] by (rule add_mono[rotated])
  finally show ?case by (simp add: algebra_simps)
qed simp

lemma scores_sum_fits:
  assumes "scores_sum env trms = Some s" "length trms < 2 ^ 63"
  shows "in_i128 s"
proof -
  have "\<bar>s\<bar> \<le> int (length trms) * 2 ^ 63" by (rule scores_sum_abs[OF assms(1)])
  also have "\<dots> \<le> (2 ^ 63 - 1) * 2 ^ 63" using assms(2) by simp
  finally show ?thesis by (simp add: in_i128_def) linarith
qed

end
