(* ===== verification/Selection_Ranking.thy ===== *)
theory Selection_Ranking
  imports Selection_Assess
begin

text \<open>
  The order of the survivors. The keys of two candidates of one document have the same
  directions, so the comparison of the evaluator agrees with one that takes its directions from
  the document; that one is a lawful comparator. From it: the sorted survivors do not depend on
  the order of the candidates, and a selection is cut where the score or a tie-break key, never
  the candidate id alone, tells the candidates apart.
\<close>

section \<open>Comparators\<close>

lemma comparator_cmp: "comparator (\<lambda>x y. cmp (f x) (f y))"
  by unfold_locales (auto simp: cmp_def split: if_splits)

lemma comparator_flip:
  assumes "comparator c"
  shows "comparator (\<lambda>x y. c y x)"
proof -
  from assms have s: "c y x = reverse (c x y)" for x y by (rule comparator.swap)
  show ?thesis
  proof
    show "c x y = reverse (c y x)" for x y by (rule s)
    show "c z x \<noteq> Greater" if "c y x \<noteq> Greater" "c z y \<noteq> Greater" for x y z
      using comparator.le_trans[OF assms] that by blast
  qed
qed

lemma comparator_then:
  assumes "comparator c1" "comparator c2"
  shows "comparator (\<lambda>x y. then_with (c1 x y) (c2 x y))"
proof
  have swap1: "c1 b a = reverse (c1 a b)" for a b by (rule comparator.swap[OF assms(1)])
  have swap2: "c2 b a = reverse (c2 a b)" for a b by (rule comparator.swap[OF assms(2)])
  show "then_with (c1 y x) (c2 y x) = reverse (then_with (c1 x y) (c2 x y))" for x y
    unfolding reverse_then_with by (simp only: swap1[where a = x and b = y] swap2[where a = x and b = y])
  fix x y z
  assume xy: "then_with (c1 x y) (c2 x y) \<noteq> Greater" and yz: "then_with (c1 y z) (c2 y z) \<noteq> Greater"
  then have g: "c1 x y \<noteq> Greater" "c1 y z \<noteq> Greater" by auto
  then have xz: "c1 x z \<noteq> Greater" by (rule comparator.le_trans[OF assms(1)])
  show "then_with (c1 x z) (c2 x z) \<noteq> Greater"
  proof (cases "c1 x z = Equal")
    case True
    then have zx: "c1 z x \<noteq> Greater" by (simp add: swap1[where a = x and b = z])
    have "c1 z y \<noteq> Greater" using comparator.le_trans[OF assms(1) zx g(1)] .
    moreover have "c1 y x \<noteq> Greater" using comparator.le_trans[OF assms(1) g(2) zx] .
    ultimately have "c1 x y = Equal" "c1 y z = Equal"
      using g swap1[where a = x and b = y] swap1[where a = y and b = z]
      by (cases "c1 x y"; cases "c1 y z"; simp)+
    with xy yz have "c2 x y \<noteq> Greater" "c2 y z \<noteq> Greater" by auto
    with comparator.le_trans[OF assms(2)] True show ?thesis by auto
  qed (use xz in auto)
qed

lemma comparator_on: "comparator c \<Longrightarrow> comparator (\<lambda>x y. c (f x) (f y))"
  unfolding comparator_def by blast

lemma insert_by_cong:
  "(\<And>y. y \<in> set ys \<Longrightarrow> c x y = d x y) \<Longrightarrow> insert_by c x ys = insert_by d x ys"
  by (induction ys) auto

lemma sort_by_cong:
  "(\<And>x y. x \<in> set xs \<Longrightarrow> y \<in> set xs \<Longrightarrow> c x y = d x y) \<Longrightarrow> sort_by c xs = sort_by d xs"
proof (induction xs)
  case (Cons x xs)
  then have "sort_by c xs = sort_by d xs" by simp
  moreover have "insert_by c x (sort_by d xs) = insert_by d x (sort_by d xs)"
    by (rule insert_by_cong) (use Cons.prems in simp)
  ultimately show ?case by simp
qed simp

section \<open>The order of one document\<close>

type_synonym tie_value = "(UnknownReason, ScalarValue) result"

definition key_order :: "SortDirection \<Rightarrow> tie_value \<Rightarrow> tie_value \<Rightarrow> ordering" where
  "key_order d x y =
     (case (x, y) of
        (Inr a, Inr b) \<Rightarrow> (case d of HighestFirst \<Rightarrow> cmp b a | LowestFirst \<Rightarrow> cmp a b)
      | (Inr _, Inl _) \<Rightarrow> Less
      | (Inl _, Inr _) \<Rightarrow> Greater
      | (Inl _, Inl _) \<Rightarrow> Equal)"

definition key_head :: "tie_value list \<Rightarrow> tie_value" where
  "key_head xs = (case xs of [] \<Rightarrow> Inl UrFieldMissing | x # _ \<Rightarrow> x)"

fun keys_order :: "SortDirection list \<Rightarrow> tie_value list \<Rightarrow> tie_value list \<Rightarrow> ordering" where
  "keys_order [] xs ys = Equal"
| "keys_order (d # ds) xs ys =
     then_with (key_order d (key_head xs) (key_head ys)) (keys_order ds (tl xs) (tl ys))"

definition score_order :: "SortDirection list \<Rightarrow> Ranked \<Rightarrow> Ranked \<Rightarrow> ordering" where
  "score_order ds left right =
     then_with (cmp (sint (rk_score_milli right)) (sint (rk_score_milli left)))
       (keys_order ds (map fst (rk_keys left)) (map fst (rk_keys right)))"

definition ranked_order :: "SortDirection list \<Rightarrow> Ranked \<Rightarrow> Ranked \<Rightarrow> ordering" where
  "ranked_order ds left right =
     then_with (score_order ds left right) (cmp (rk_candidate_id left) (rk_candidate_id right))"

lemma comparator_key: "comparator (key_order d)"
proof
  show "key_order d y x = reverse (key_order d x y)" for x y
    by (auto simp: key_order_def cmp_def split: sum.splits SortDirection.splits)
  show "key_order d x z \<noteq> Greater" if "key_order d x y \<noteq> Greater" "key_order d y z \<noteq> Greater" for x y z
    using that by (cases x; cases y; cases z)
      (auto simp: key_order_def split: SortDirection.splits if_splits)
qed

lemma comparator_keys: "comparator (keys_order ds)"
proof (induction ds)
  case Nil
  have "keys_order [] = (\<lambda>xs ys. Equal)" by (intro ext) simp
  then show ?case by (simp add: comparator_def)
next
  case (Cons d ds)
  have eq: "keys_order (d # ds) = (\<lambda>xs ys. then_with (key_order d (key_head xs) (key_head ys))
          (keys_order ds (tl xs) (tl ys)))"
    by (intro ext) simp
  have "comparator (\<lambda>xs ys. then_with (key_order d (key_head xs) (key_head ys))
          (keys_order ds (tl xs) (tl ys)))"
    by (intro comparator_then comparator_on[OF comparator_key] comparator_on[OF Cons])
  then show ?case by (simp only: eq)
qed

interpretation sc: comparator "score_order ds" for ds
proof -
  have "comparator (\<lambda>left right. score_order ds left right)"
    unfolding score_order_def
    by (intro comparator_then comparator_on[OF comparator_keys] comparator_flip[OF comparator_cmp])
  then show "comparator (score_order ds)" .
qed

interpretation rk: comparator "ranked_order ds" for ds
proof -
  have "comparator (\<lambda>left right. ranked_order ds left right)"
    unfolding ranked_order_def by (intro comparator_then comparator_cmp sc.comparator_axioms)
  then show "comparator (ranked_order ds)" .
qed

text \<open>On candidates with the directions of the document the evaluator's comparison is this
  order, and a tie is what the order does not tell apart before the candidate id.\<close>

definition of_document :: "SortDirection list \<Rightarrow> Ranked \<Rightarrow> bool" where
  "of_document ds k \<longleftrightarrow> map snd (rk_keys k) = ds"

lemma compare_key_lists_order:
  "map snd xs = ds \<Longrightarrow> map snd ys = ds
     \<Longrightarrow> compare_key_lists xs ys = keys_order ds (map fst xs) (map fst ys)"
proof (induction ds arbitrary: xs ys)
  case (Cons d ds)
  then obtain x xs' y ys' where "xs = (x, d) # xs'" "ys = (y, d) # ys'" by fastforce
  with Cons show ?case
    by (cases "key_order d x y") (simp_all add: key_order_def key_head_def)
qed simp

lemma compare_order:
  assumes "of_document ds k" "of_document ds l"
  shows "compare k l = ranked_order ds k l"
  using compare_key_lists_order[of "rk_keys k" ds "rk_keys l"] assms
  by (simp add: compare_def ranked_order_def score_order_def compare_keys_def of_document_def)

lemma tied_order:
  assumes "of_document ds k" "of_document ds l"
  shows "tied k l \<longleftrightarrow> score_order ds k l = Equal"
  using compare_key_lists_order[of "rk_keys k" ds "rk_keys l"] assms
  by (auto simp: tied_def score_order_def compare_keys_def of_document_def sint_i64_inject)

lemma ranked_order_Equal: "ranked_order ds k l = Equal \<Longrightarrow> rk_candidate_id k = rk_candidate_id l"
  by (simp add: ranked_order_def)

lemma score_order_Less:
  assumes "of_document ds k" "of_document ds l"
  shows "score_order ds k l = Less \<longleftrightarrow>
    sint (rk_score_milli l) < sint (rk_score_milli k)
    \<or> rk_score_milli l = rk_score_milli k \<and> compare_keys k l = Less"
  using compare_key_lists_order[of "rk_keys k" ds "rk_keys l"] assms
  by (auto simp: score_order_def compare_keys_def of_document_def sint_i64_inject)

lemma ranked_order_score: "ranked_order ds k l \<noteq> Greater \<Longrightarrow> score_order ds k l \<noteq> Greater"
  by (auto simp: ranked_order_def)

section \<open>The survivors\<close>

definition tie_direction :: "TieBreakKey \<Rightarrow> SortDirection" where
  "tie_direction k = (case k of TbCandidateId d \<Rightarrow> d | TbValue _ d \<Rightarrow> d)"

abbreviation directions :: "SelectionPolicy \<Rightarrow> SortDirection list" where
  "directions p \<equiv> map tie_direction (sp_tie_break p)"

definition survivors_of :: "SelectionPolicy \<Rightarrow> Resolver \<Rightarrow> Candidate list \<Rightarrow> Ranked list" where
  "survivors_of p r cs = List.map_filter (\<lambda>c. rank_of p c r) cs"

lemma rank_of_SomeD:
  assumes "rank_of p c r = Some k"
  shows "rk_candidate_id k = ca_candidate_id c" "of_document (directions p) k"
  using assms
  by (auto simp: rank_of_def of_document_def tie_direction_def tie_break_key_def bind_eq_Some_conv
      split: if_splits TieBreakKey.splits)

lemma survivors_of_simps [simp]:
  "survivors_of p r [] = []"
  "survivors_of p r (c # cs) =
     (case rank_of p c r of None \<Rightarrow> survivors_of p r cs | Some k \<Rightarrow> k # survivors_of p r cs)"
  by (simp_all add: survivors_of_def map_filter_simps split: option.split)

lemma survivors_of_document: "k \<in> set (survivors_of p r cs) \<Longrightarrow> of_document (directions p) k"
  by (induction cs) (auto dest: rank_of_SomeD split: option.splits)

lemma survivors_ids: "rk_candidate_id ` set (survivors_of p r cs) \<subseteq> ca_candidate_id ` set cs"
  by (induction cs) (auto dest: rank_of_SomeD split: option.splits)

lemma survivors_distinct:
  "distinct (map ca_candidate_id cs) \<Longrightarrow> distinct (map rk_candidate_id (survivors_of p r cs))"
proof (induction cs)
  case (Cons c cs)
  show ?case
  proof (cases "rank_of p c r")
    case (Some k)
    then have "rk_candidate_id k = ca_candidate_id c" by (rule rank_of_SomeD)
    then have "rk_candidate_id k \<notin> rk_candidate_id ` set (survivors_of p r cs)"
      using Cons.prems survivors_ids[of p r cs] by auto
    with Cons Some show ?thesis by simp
  qed (use Cons in simp)
qed simp

lemma survivors_mset: "mset cs = mset cs' \<Longrightarrow> mset (survivors_of p r cs) = mset (survivors_of p r cs')"
proof -
  have m: "mset (survivors_of p r cs) =
      image_mset (\<lambda>c. the (rank_of p c r)) (filter_mset (\<lambda>c. rank_of p c r \<noteq> None) (mset cs))" for cs
    by (induction cs) (auto split: option.splits)
  show "mset cs = mset cs' \<Longrightarrow> ?thesis" by (simp add: m)
qed

lemma length_survivors: "length (survivors_of p r cs) \<le> length cs"
  by (simp add: survivors_of_def List.map_filter_def)

lemma survivors_member:
  "k \<in> set (survivors_of p r cs) \<longleftrightarrow> (\<exists>c\<in>set cs. rank_of p c r = Some k)"
  by (induction cs) (auto split: option.splits)

lemma check_candidate_ids_distinct:
  "check_candidate_ids seen cs = Inr () \<Longrightarrow>
     distinct (map ca_candidate_id cs) \<and> set (map ca_candidate_id cs) \<inter> set seen = {}"
  by (induction cs arbitrary: seen) (fastforce split: if_splits)+

lemma check_candidate_set_distinct:
  "check_candidate_set cs = Inr () \<Longrightarrow> distinct (map ca_candidate_id cs) \<and> length cs \<le> MAX_CANDIDATES"
  using check_candidate_ids_distinct[of "[]" cs]
  by (auto simp: check_candidate_set_def split: if_splits)

definition ranking :: "SelectionPolicy \<Rightarrow> Resolver \<Rightarrow> Candidate list \<Rightarrow> Ranked list" where
  "ranking p r cs = sort_by (ranked_order (directions p)) (survivors_of p r cs)"

lemma sort_survivors: "sort_by compare (survivors_of p r cs) = ranking p r cs"
  unfolding ranking_def by (rule sort_by_cong) (simp add: compare_order survivors_of_document)

lemma ranking_order_independent:
  assumes "mset cs = mset cs'" "distinct (map ca_candidate_id cs)"
  shows "ranking p r cs = ranking p r cs'"
  unfolding ranking_def
proof (rule rk.sort_by_order_independent)
  note d = survivors_distinct[OF assms(2), of p r]
  show "mset (survivors_of p r cs) = mset (survivors_of p r cs')" by (rule survivors_mset) fact
  show "distinct (survivors_of p r cs)" using d by (simp add: distinct_map)
  show "x = y" if "x \<in> set (survivors_of p r cs)" "y \<in> set (survivors_of p r cs)"
      "ranked_order (directions p) x y = Equal" for x y
    using d that ranked_order_Equal[OF that(3)] by (auto simp: distinct_map dest: inj_onD)
qed

section \<open>The cut\<close>

lemma ranking_sorted: "sorted_wrt (\<lambda>k l. score_order (directions p) k l \<noteq> Greater) (ranking p r cs)"
  unfolding ranking_def
  by (rule sorted_wrt_mono_rel[OF _ rk.sorted_sort_by]) (rule ranked_order_score)

lemma set_ranking [simp]: "set (ranking p r cs) = set (survivors_of p r cs)"
  by (simp add: ranking_def)

lemma length_ranking [simp]: "length (ranking p r cs) = length (survivors_of p r cs)"
  by (simp add: ranking_def)

lemma distinct_ranking:
  "distinct (map ca_candidate_id cs) \<Longrightarrow> distinct (map rk_candidate_id (ranking p r cs))"
  using survivors_distinct[of cs p r] mset_sort_by[of "ranked_order (directions p)" "survivors_of p r cs"]
  by (metis mset_eq_imp_distinct_iff mset_map ranking_def)

text \<open>In a sorted list that is not tied at the cut, everything in front of the cut is strictly
  better than everything behind it.\<close>

lemma cut_beats:
  assumes s: "sorted_wrt (\<lambda>k l. score_order ds k l \<noteq> Greater) ks"
    and cut: "score_order ds (ks ! (n - 1)) (ks ! n) \<noteq> Equal"
    and ij: "i < n" "n \<le> j" "j < length ks"
  shows "score_order ds (ks ! i) (ks ! j) = Less"
proof (cases "score_order ds (ks ! i) (ks ! j)")
  case Equal
  have le: "score_order ds (ks ! a) (ks ! b) \<noteq> Greater" if "a \<le> b" "b < length ks" for a b
    using s that sc.refl[of ds "ks ! a"] by (cases "a = b") (auto simp: sorted_wrt_iff_nth_less)
  have ji: "score_order ds (ks ! j) (ks ! i) \<noteq> Greater"
    using Equal sc.swap[of ds "ks ! j" "ks ! i"] by simp
  have "score_order ds (ks ! n) (ks ! i) \<noteq> Greater" using sc.le_trans[OF le ji] ij by simp
  then have "score_order ds (ks ! n) (ks ! (n - 1)) \<noteq> Greater"
    using sc.le_trans[OF _ le[of i "n - 1"]] ij by simp
  moreover have "score_order ds (ks ! (n - 1)) (ks ! n) \<noteq> Greater" using le[of "n - 1" n] ij by simp
  ultimately show ?thesis
    using cut sc.swap[of ds "ks ! n" "ks ! (n - 1)"]
    by (cases "score_order ds (ks ! (n - 1)) (ks ! n)") simp_all
next
  case Greater
  with s ij show ?thesis by (auto simp: sorted_wrt_iff_nth_less)
qed

section \<open>The decision\<close>

definition is_out_unknown :: "SelectionOutcome \<Rightarrow> bool" where
  "is_out_unknown oc = (case oc of OutUnknown _ _ \<Rightarrow> True | _ \<Rightarrow> False)"

definition settles :: "SelectionPolicy \<Rightarrow> Resolver \<Rightarrow> Candidate \<Rightarrow> bool" where
  "settles p r c \<longleftrightarrow> (\<exists>v k. assess p c r = Inr (Settled v k))"

lemma assess_Settled: "assess p c r = Inr (Settled v k) \<Longrightarrow> rank_of p c r = k"
  using assess_ranks[of p c r] by (cases k; cases "rank_of p c r") auto

lemma assess_all_settled:
  "(\<exists>vs'. assess_all p r vs ks cs = Inr (Inr (vs', ks'))) \<longleftrightarrow>
     list_all (settles p r) cs \<and> ks' = ks @ survivors_of p r cs"
proof (induction cs arbitrary: vs ks)
  case (Cons c cs)
  show ?case
  proof (cases "assess p c r")
    case (Inr a)
    show ?thesis
    proof (cases a)
      case (Settled v k)
      with Inr Cons assess_Settled[of p c r v k] show ?thesis
        by (cases k) (auto simp: settles_def)
    qed (use Inr in \<open>simp add: settles_def\<close>)
  qed (simp add: settles_def)
qed auto

lemma finish_simps [simp]:
  "sd_outcome (finish p ph ih facts now oc sel vs rs) = oc"
  "sd_selected (finish p ph ih facts now oc sel vs rs) = sel"
  "sd_candidates (finish p ph ih facts now oc sel vs rs) = vs"
  by (simp_all add: finish_def Let_def)

lemma evaluate_decides:
  assumes e: "evaluate_with_tables canon p T cs facts now = Inr d"
    and known: "\<not> is_out_unknown (sd_outcome d)"
  obtains rls where "policy_validate p = Inr ()" "check_candidate_set cs = Inr ()"
    "read_lists p facts now = Inr rls"
    "list_all (settles p (resolver_new p facts rls T now)) cs"
    "sd_outcome d = decide_outcome (sp_selection p) (ranking p (resolver_new p facts rls T now) cs)"
    "sd_selected d = selected_ids (sd_outcome d) (ranking p (resolver_new p facts rls T now) cs)"
proof -
  from e obtain ph ih where v: "policy_validate p = Inr ()" "check_candidate_set cs = Inr ()"
      "check_bound T p = Inr ()" "cn_policy_sha256 canon p = Inr ph"
      "cn_input_sha256 canon (evaluation_input p T cs facts now) = Inr ih"
    by (auto simp: evaluate_with_tables_def result_simps)
  obtain rls where rls: "read_lists p facts now = Inr rls"
  proof (cases "read_lists p facts now")
    case (Inl u)
    with e known show ?thesis
      by (cases u) (auto simp: evaluate_with_tables_def v Let_def is_out_unknown_def)
  qed (use that in blast)
  define r where "r = resolver_new p facts rls T now"
  obtain step where step: "assess_all p r [] [] cs = Inr step"
    using e by (cases "assess_all p r [] [] cs")
      (auto simp: evaluate_with_tables_def v rls Let_def r_def[symmetric])
  obtain vs ks where a: "assess_all p r [] [] cs = Inr (Inr (vs, ks))"
  proof (cases step)
    case (Inl u)
    with e step known show ?thesis
      by (cases u) (auto simp: evaluate_with_tables_def v rls Let_def r_def[symmetric]
          is_out_unknown_def)
  qed (use that step in \<open>metis surj_pair\<close>)
  have d: "sd_outcome d = decide_outcome (sp_selection p) (sort_by compare ks)"
      "sd_selected d = selected_ids (sd_outcome d) (sort_by compare ks)"
    using e by (auto simp: evaluate_with_tables_def v rls Let_def r_def[symmetric] a)
  from a have "\<exists>vs. assess_all p r [] [] cs = Inr (Inr (vs, ks))" by blast
  then have "list_all (settles p r) cs" "ks = survivors_of p r cs"
    unfolding assess_all_settled by simp_all
  with v(1,2) rls d sort_survivors[of p r cs] that r_def show ?thesis by simp
qed

text \<open>The chosen candidates are those in front of the cut.\<close>

lemma selected_cut:
  assumes oc: "decide_outcome q ks = OutSelected n" and len: "length ks \<le> MAX_CANDIDATES"
  defines "m \<equiv> requested q ks"
  shows "unat n = m" "m \<le> length ks" "m < length ks \<Longrightarrow> \<not> tied (ks ! (m - 1)) (ks ! m)"
    "selected_ids (OutSelected n) ks = map rk_candidate_id (take m ks)"
proof -
  show le: "m \<le> length ks" and "m < length ks \<Longrightarrow> \<not> tied (ks ! (m - 1)) (ks ! m)"
    using oc by (auto simp: decide_outcome_def m_def Let_def not_less split: if_splits)
  have "n = of_nat m" using oc by (auto simp: decide_outcome_def m_def Let_def split: if_splits)
  moreover have "m < 2 ^ 32" using le len by (simp add: selection_limits)
  ultimately show n: "unat n = m" by (simp add: unat_of_nat_less)
  show "selected_ids (OutSelected n) ks = map rk_candidate_id (take m ks)"
    by (simp add: selected_ids_def n)
qed

lemma index_by_id:
  assumes "distinct (map f ks)" "i < length ks" "m \<le> length ks"
  shows "f (ks ! i) \<in> set (map f (take m ks)) \<longleftrightarrow> i < m"
proof
  assume "f (ks ! i) \<in> set (map f (take m ks))"
  then obtain j where "j < m" "f (ks ! i) = f (ks ! j)"
    using assms(3) by (auto simp: in_set_conv_nth)
  moreover from this have "j < length ks" using assms(3) by simp
  ultimately have "i = j" using assms(1,2) nth_eq_iff_index_eq[OF assms(1), of i j] by simp
  with \<open>j < m\<close> show "i < m" by simp
next
  assume "i < m"
  with assms(2) have "take m ks ! i \<in> set (take m ks)" by (intro nth_mem) simp
  with \<open>i < m\<close> show "f (ks ! i) \<in> set (map f (take m ks))" by simp
qed

lemma selected_better:
  assumes s: "sorted_wrt (\<lambda>k l. score_order ds k l \<noteq> Greater) ks"
    and doc: "\<And>k. k \<in> set ks \<Longrightarrow> of_document ds k" and dist: "distinct (map rk_candidate_id ks)"
    and oc: "decide_outcome q ks = OutSelected n" and len: "length ks \<le> MAX_CANDIDATES"
    and k: "k \<in> set ks" "rk_candidate_id k \<in> set (selected_ids (OutSelected n) ks)"
    and l: "l \<in> set ks" "rk_candidate_id l \<notin> set (selected_ids (OutSelected n) ks)"
  shows "score_order ds k l = Less"
proof -
  define m where "m = requested q ks"
  note cut = selected_cut[OF oc len, folded m_def]
  obtain i j where ij: "i < length ks" "k = ks ! i" "j < length ks" "l = ks ! j"
    using k(1) l(1) by (metis in_set_conv_nth)
  have i: "i < m" using index_by_id[OF dist ij(1) cut(2)] k(2) ij(2) cut(4) by simp
  have j: "m \<le> j" using index_by_id[OF dist ij(3) cut(2)] l(2) ij(4) cut(4) by simp
  have "score_order ds (ks ! (m - 1)) (ks ! m) \<noteq> Equal"
    using cut(3) tied_order[OF doc doc, of "ks ! (m - 1)" "ks ! m"] ij j by simp
  from cut_beats[OF s this i j] ij show ?thesis by simp
qed

lemma decide_outcome_known [simp]: "\<not> is_out_unknown (decide_outcome q ks)"
  by (simp add: decide_outcome_def is_out_unknown_def Let_def)

lemma evaluate_settled:
  assumes "policy_validate p = Inr ()" "check_candidate_set cs = Inr ()" "check_bound T p = Inr ()"
    and "cn_policy_sha256 canon p = Inr ph"
    and "cn_input_sha256 canon (evaluation_input p T cs facts now) = Inr ih"
    and "read_lists p facts now = Inr rls"
    and "list_all (settles p (resolver_new p facts rls T now)) cs"
  obtains d where "evaluate_with_tables canon p T cs facts now = Inr d"
    "\<not> is_out_unknown (sd_outcome d)"
proof -
  obtain vs where vs: "assess_all p (resolver_new p facts rls T now) [] [] cs =
      Inr (Inr (vs, survivors_of p (resolver_new p facts rls T now) cs))"
    using assess_all_settled[of p "resolver_new p facts rls T now" "[]" "[]" cs] assms(7) by auto
  show ?thesis
    by (rule that, simp add: evaluate_with_tables_def assms(1-6) vs Let_def, simp)
qed

lemma evaluate_decided:
  assumes "evaluate_with_tables canon p T cs facts now = Inr d" "read_lists p facts now = Inr rls"
    and "list_all (settles p (resolver_new p facts rls T now)) cs"
  shows "\<not> is_out_unknown (sd_outcome d)"
proof -
  from assms(1) obtain ph ih where v: "policy_validate p = Inr ()" "check_candidate_set cs = Inr ()"
      "check_bound T p = Inr ()" "cn_policy_sha256 canon p = Inr ph"
      "cn_input_sha256 canon (evaluation_input p T cs facts now) = Inr ih"
    by (auto simp: evaluate_with_tables_def result_simps)
  from evaluate_settled[OF v assms(2,3)] assms(1) show ?thesis by auto
qed

end
