(* ===== verification/Selection_Typing.thy ===== *)
theory Selection_Typing
  imports Selection_Assess
begin

text \<open>
  What validation buys. The type a reference resolves to does not depend on the owner named in
  refusals; the gates, terms and tie-break keys of an accepted document are well typed; and a
  value that is read has the scalar kind its reference resolved to, whichever of the four
  sources it came from. So no predicate and no transform meets a value of the wrong kind.
\<close>

section \<open>Types of references\<close>

definition ref_type :: "Scope \<Rightarrow> ValueRef \<Rightarrow> ValueType option" where
  "ref_type scope v = ok_value (resolve_ref scope v [])"

lemma ok_value_simps [simp]: "ok_value (Inl e) = None" "ok_value (Inr v) = Some v"
  by (simp_all add: ok_value_def)

lemma ok_value_Some: "ok_value r = Some v \<longleftrightarrow> r = Inr v"
  by (cases r) auto

lemma ok_value_None: "ok_value r = None \<longleftrightarrow> (\<exists>e. r = Inl e)"
  by (cases r) auto

lemma ok_value_and_then: "ok_value (and_then r f) = Option.bind (ok_value r) (\<lambda>a. ok_value (f a))"
  by (cases r) auto

lemma ok_value_ok_or [simp]: "ok_value (ok_or e x) = x"
  by (cases x) auto

lemma ok_value_refuse [simp]:
  "ok_value (refuse_with c parts) = None" "ok_value (table_refuse t w c m) = None"
  "ok_value (keyed_refuse t w c m) = None"
  by (simp_all add: refuse_with_def table_refuse_def keyed_refuse_def)

lemma ok_value_check_limit: "ok_value (check_limit a l w) = ok_value (check_limit a l [])"
  by (simp add: check_limit_def)

lemma ok_value_scope_field: "ok_value (scope_field scope f w) = bt_get (scp_fields scope) f"
  by (simp add: scope_field_def)

lemma ok_value_scope_fact: "ok_value (scope_fact scope f w) = bt_get (scp_facts scope) f"
  by (simp add: scope_fact_def)

lemma ok_value_check_pin_fact:
  "ok_value (check_pin_fact scope f t w) = ok_value (check_pin_fact scope f t [])"
  by (simp add: check_pin_fact_def ok_value_and_then ok_value_scope_fact if_distrib[of ok_value]
      cong: if_cong)

lemma ok_value_check_pin:
  "ok_value (check_pin scope d w pin t) = ok_value (check_pin scope d [] pin t)"
proof -
  note s = ok_value_and_then ok_value_check_pin_fact[of scope _ t w]
  show ?thesis
    by (auto simp: check_pin_def s split: option.splits)
qed

lemma ok_value_check_pin_list:
  "ok_value (check_pin_list scope d w seen pins) = ok_value (check_pin_list scope d [] seen pins)"
proof (induction pins arbitrary: seen)
  case (Cons pin pins)
  then show ?case
    using ok_value_check_pin[of scope d w pin]
    by (auto simp: ok_value_and_then split: option.splits)
qed simp

lemma ok_value_check_pins:
  "ok_value (check_pins scope d pins w) = ok_value (check_pins scope d pins [])"
  by (simp add: check_pins_def ok_value_and_then ok_value_check_limit[of _ _ w]
      ok_value_check_pin_list[of scope d w] if_distrib[of ok_value] cong: if_cong)

lemma ok_value_if: "ok_value (if b then x else y) = (if b then ok_value x else ok_value y)"
  by simp

lemma resolve_owner: "ok_value (resolve_ref scope v w) = ref_type scope v"
proof -
  note s = ok_value_and_then ok_value_if option.case_distrib[of ok_value]
    ValueType.case_distrib[of ok_value] ok_value_scope_field ok_value_scope_fact
    ok_value_check_pins[of scope _ _ w]
  show ?thesis unfolding ref_type_def
    by (cases v) (simp_all add: s cong: if_cong option.case_cong ValueType.case_cong)
qed

lemma resolve_ref_Inr: "resolve_ref scope v w = Inr t \<longleftrightarrow> ref_type scope v = Some t"
  using resolve_owner[of scope v w] by (cases "resolve_ref scope v w") auto

section \<open>Accepted documents\<close>

fun well_typed :: "Scope \<Rightarrow> Predicate \<Rightarrow> bool" where
  "well_typed scope (IntegerAtLeast v _) \<longleftrightarrow> ref_type scope v = Some VtInteger"
| "well_typed scope (IntegerAtMost v _) \<longleftrightarrow> ref_type scope v = Some VtInteger"
| "well_typed scope (IntegerEquals v _) \<longleftrightarrow> ref_type scope v = Some VtInteger"
| "well_typed scope (BooleanEquals v _) \<longleftrightarrow> ref_type scope v = Some VtBoolean"
| "well_typed scope (StringIn v _) \<longleftrightarrow> (\<exists>allowed. ref_type scope v = Some (VtEnumString allowed))"
| "well_typed scope (IntegerCompare left _ right mul add) \<longleftrightarrow>
     ref_type scope left = Some VtInteger \<and> ref_type scope right = Some VtInteger
     \<and> (\<forall>m. mul = Some m \<longrightarrow> 1 \<le> m \<and> m \<le> MAX_INTEGER_COMPARE_MUL)
     \<and> (\<forall>a. add = Some a \<longrightarrow> unsigned_abs a \<le> MAX_INTEGER_COMPARE_ADD)"
| "well_typed scope (PredAll ps) \<longleftrightarrow> ps \<noteq> [] \<and> list_all (well_typed scope) ps"
| "well_typed scope (PredAny ps) \<longleftrightarrow> ps \<noteq> [] \<and> list_all (well_typed scope) ps"
| "well_typed scope (PredNot p) \<longleftrightarrow> well_typed scope p"

lemma is_enum_string_iff: "is_enum_string t \<longleftrightarrow> (\<exists>allowed. t = VtEnumString allowed)"
  by (cases t) (auto simp: is_enum_string_def)

lemma expect_Inr:
  "expect scope w v ''integer'' = Inr u \<longleftrightarrow> ref_type scope v = Some VtInteger"
  "expect scope w v ''boolean'' = Inr u \<longleftrightarrow> ref_type scope v = Some VtBoolean"
  "expect scope w v ''string'' = Inr u \<longleftrightarrow> (\<exists>allowed. ref_type scope v = Some (VtEnumString allowed))"
  by (auto simp: expect_def result_simps resolve_ref_Inr is_enum_string_iff split: if_splits)

lemma check_predicate_typed:
  "check_predicate p scope depth nodes w = Inr n \<Longrightarrow> well_typed scope p"
  "check_predicates ps scope depth nodes w = Inr n \<Longrightarrow> list_all (well_typed scope) ps"
  by (induction p scope depth nodes w and ps scope depth nodes w arbitrary: n and n
      rule: check_predicate_check_predicates.induct)
     (auto simp: result_simps expect_Inr check_string_in_def check_integer_compare_def not_less
       empty_predicate_list_def split: if_splits option.splits)

text \<open>The scope of an accepted document and the parts checked in it.\<close>

lemma policy_validateD:
  assumes "policy_validate p = Inr ()"
  obtains scope where "policy_scope p = Inr scope" "check_gates scope [] (sp_gates p) = Inr ()"
    "check_terms scope (sp_gates p) [] (sp_scoring p) = Inr ()"
    "try_for_each (check_tie_break p scope) (sp_tie_break p) = Inr ()"
    "check_requirement (sp_selection p) = Inr ()" "length (sp_scoring p) \<le> MAX_SCORING_TERMS"
  using assms
  by (auto simp: policy_validate_def result_simps check_limit_def not_less split: if_splits)

lemma check_gates_each:
  "check_gates scope earlier gates = Inr () \<Longrightarrow> gate \<in> set gates
     \<Longrightarrow> \<exists>before. check_gate scope before gate = Inr ()"
  by (induction gates arbitrary: earlier) (auto simp: result_simps)

lemma check_terms_each:
  "check_terms scope gates seen trms = Inr () \<Longrightarrow> trm \<in> set trms
     \<Longrightarrow> \<exists>before. check_term scope gates before trm = Inr ()"
  by (induction trms arbitrary: seen) (auto simp: result_simps)

lemma check_gateD:
  assumes "check_gate scope earlier gate = Inr ()"
  shows "well_typed scope (hg_predicate gate)"
    and "reads_table (hg_predicate gate) \<Longrightarrow> hg_on_unknown gate \<noteq> SubstituteVerdict b"
  using assms
  by (auto simp: check_gate_def result_simps Let_def dest: check_predicate_typed split: if_splits)

lemma check_termD:
  assumes "check_term scope gates seen trm = Inr ()"
  obtains t where "ref_type scope (sg_value trm) = Some t"
    "check_transform (sg_transform trm) t (sg_term_id trm) = Inr ()"
  using assms
  by (auto simp: check_term_def result_simps Let_def resolve_ref_Inr split: if_splits)

lemma check_lookup_entriesD:
  "check_lookup_entries seen es t w = Inr () \<Longrightarrow>
     distinct (map lu_key es) \<and> set (map lu_key es) \<inter> set seen = {}
     \<and> (\<forall>e\<in>set es. lookup_key_matches (lu_key e) t)"
  by (induction es arbitrary: seen) (fastforce split: if_splits)+

lemma well_typed_resolves: "well_typed scope p \<Longrightarrow> v \<in> set (collect_values p) \<Longrightarrow> ref_type scope v \<noteq> None"
  by (induction p) (auto simp: list_all_iff)

lemma value_refs_resolve:
  assumes "policy_validate p = Inr ()" "policy_scope p = Inr scope" "v \<in> set (value_refs p)"
  shows "ref_type scope v \<noteq> None"
proof -
  from assms(1) obtain scope' where s: "policy_scope p = Inr scope'"
      "check_gates scope' [] (sp_gates p) = Inr ()"
      "check_terms scope' (sp_gates p) [] (sp_scoring p) = Inr ()"
      "try_for_each (check_tie_break p scope') (sp_tie_break p) = Inr ()"
    by (rule policy_validateD)
  with assms(2) have [simp]: "scope' = scope" by simp
  consider gate where "gate \<in> set (sp_gates p)" "v \<in> set (collect_values (hg_predicate gate))"
    | trm where "trm \<in> set (sp_scoring p)" "v = sg_value trm"
    | d where "TbValue v d \<in> set (sp_tie_break p)"
    using assms(3)
    by (auto simp: value_refs_def List.map_filter_def split: TieBreakKey.splits option.splits)
  then show ?thesis
  proof cases
    case 1
    with s check_gates_each check_gateD(1) well_typed_resolves show ?thesis by (metis \<open>scope' = scope\<close>)
  next
    case 2
    with s check_terms_each obtain seen where "check_term scope (sp_gates p) seen trm = Inr ()"
      by (metis \<open>scope' = scope\<close>)
    then show ?thesis using 2 by (auto elim!: check_termD)
  next
    case 3
    with s(4) have "check_tie_break p scope (TbValue v d) = Inr ()"
      by (auto simp: try_for_each_Inr)
    then show ?thesis by (auto simp: check_tie_break_def result_simps resolve_ref_Inr)
  qed
qed

section \<open>The scope and the resolver\<close>

lemma declare_fieldsD:
  "declare_fields m ds = Inr m' \<Longrightarrow>
     m' = fold (\<lambda>(k, t). bt_insert k t) (map (\<lambda>d. (fd_name d, fd_value_type d)) ds) m
     \<and> distinct (map fd_name ds) \<and> (\<forall>d\<in>set ds. bt_get m (fd_name d) = None)"
  by (induction ds arbitrary: m) (fastforce simp: result_simps split: if_splits)+

lemma declare_factsD:
  "declare_facts m ds = Inr m' \<Longrightarrow>
     m' = fold (\<lambda>(k, t). bt_insert k t) (map (\<lambda>d. (fc_fact_key d, fc_value_type d)) ds) m
     \<and> distinct (map fc_fact_key ds) \<and> (\<forall>d\<in>set ds. bt_get m (fc_fact_key d) = None)"
  by (induction ds arbitrary: m) (fastforce simp: result_simps split: if_splits)+

lemma declare_tablesD:
  "declare_tables m ds = Inr m' \<Longrightarrow>
     m' = fold (\<lambda>(k, t). bt_insert k t) (map (\<lambda>d. (td_table_id d, d)) ds) m
     \<and> distinct (map td_table_id ds) \<and> (\<forall>d\<in>set ds. bt_get m (td_table_id d) = None)"
  by (induction ds arbitrary: m) (fastforce simp: result_simps split: if_splits)+

lemma policy_scopeD:
  assumes "policy_scope p = Inr scope"
  shows "bt_get (scp_fields scope) = map_of (map (\<lambda>d. (fd_name d, fd_value_type d)) (sp_fields p))"
    and "bt_get (scp_facts scope) = map_of (map (\<lambda>d. (fc_fact_key d, fc_value_type d)) (sp_facts p))"
    and "bt_get (scp_tables scope) = map_of (map (\<lambda>d. (td_table_id d, d)) (sp_tables p))"
    and "distinct (map fd_name (sp_fields p))" "distinct (map fc_fact_key (sp_facts p))"
    and "distinct (map td_table_id (sp_tables p))"
proof -
  from assms obtain fs cs ts where d: "declare_fields [] (sp_fields p) = Inr fs"
      "declare_facts [] (sp_facts p) = Inr cs" "declare_tables [] (sp_tables p) = Inr ts"
      "scope = \<lparr>scp_fields = fs, scp_facts = cs, scp_tables = ts\<rparr>"
    by (auto simp: policy_scope_def result_simps)
  note f = declare_fieldsD[OF d(1)] declare_factsD[OF d(2)] declare_tablesD[OF d(3)]
  show "distinct (map fd_name (sp_fields p))" "distinct (map fc_fact_key (sp_facts p))"
    "distinct (map td_table_id (sp_tables p))" using f by blast+
  then show "bt_get (scp_fields scope) = map_of (map (\<lambda>d. (fd_name d, fd_value_type d)) (sp_fields p))"
    "bt_get (scp_facts scope) = map_of (map (\<lambda>d. (fc_fact_key d, fc_value_type d)) (sp_facts p))"
    "bt_get (scp_tables scope) = map_of (map (\<lambda>d. (td_table_id d, d)) (sp_tables p))"
    using f by (simp_all add: d(4) bt_from_def[symmetric] bt_get_from o_def)
qed

lemma resolver_fields:
  assumes "policy_scope p = Inr scope"
  shows "bt_get (rv_fields (resolver_new p facts rls T now)) = bt_get (scp_fields scope)"
  using policy_scopeD[OF assms] by (simp add: resolver_new_def bt_get_from o_def)

lemma resolver_facts:
  assumes "policy_scope p = Inr scope"
  shows "bt_get (rv_facts (resolver_new p facts rls T now)) =
    map_of (map (\<lambda>d. (fc_fact_key d, d)) (sp_facts p))"
  using policy_scopeD[OF assms] by (simp add: resolver_new_def bt_get_from o_def)

lemma map_of_key: "distinct (map f ds) \<Longrightarrow> d \<in> set ds \<Longrightarrow> map_of (map (\<lambda>d. (f d, g d)) ds) (f d) = Some (g d)"
  by (induction ds) (auto simp: image_iff)

lemma map_of_keyD: "map_of (map (\<lambda>d. (f d, g d)) ds) k = Some x \<Longrightarrow> \<exists>d\<in>set ds. f d = k \<and> g d = x"
  by (auto dest!: map_of_SomeD)

section \<open>Record lists\<close>

definition list_declared :: "SelectionPolicy \<Rightarrow> str \<Rightarrow> str \<Rightarrow> RecordRow list \<Rightarrow> bool" where
  "list_declared p key kc rows \<longleftrightarrow>
     (\<exists>d cols. d \<in> set (sp_facts p) \<and> fc_fact_key d = key \<and> fc_value_type d = VtRecordList kc cols
       \<and> list_all (well_formed_row kc cols) rows)"

lemma resolve_listD:
  "resolve_list snap d now = Inr rows \<Longrightarrow> fc_value_type d = VtRecordList kc cols
     \<Longrightarrow> list_all (well_formed_row kc cols) rows"
  by (auto simp: resolve_list_def result_simps split: if_splits)

lemma declared_listsD:
  assumes "declared_lists snap now rls ds = Inr rls'" "set ds \<subseteq> set (sp_facts p)"
    and "\<And>k kc rows. bt_get rls k = Some (kc, rows) \<Longrightarrow> list_declared p k kc rows"
  shows "bt_get rls' k = Some (kc, rows) \<Longrightarrow> list_declared p k kc rows"
  using assms
proof (induction ds arbitrary: rls)
  case (Cons d ds)
  show ?case
  proof (cases "fc_value_type d")
    case (VtRecordList key_column cols)
    with Cons.prems obtain rs where rs: "resolve_list snap d now = Inr rs"
        "declared_lists snap now (bt_insert (fc_fact_key d) (key_column, rs) rls) ds = Inr rls'"
      by (auto simp: result_simps)
    have "list_declared p (fc_fact_key d) key_column rs"
      using resolve_listD[OF rs(1) VtRecordList] VtRecordList Cons.prems(3)
      by (auto simp: list_declared_def)
    with Cons.prems show ?thesis by (intro Cons.IH[OF _ rs(2)]) (auto split: if_splits)
  qed (use Cons in auto)
qed auto

lemma key_rowsD:
  "key_rows key kc flt keyed rows = Inr keyed' \<Longrightarrow> bt_get keyed' i = Some row
     \<Longrightarrow> bt_get keyed i = Some row \<or> row \<in> set rows"
  by (induction rows arbitrary: keyed)
     (fastforce split: if_splits option.splits ScalarValue.splits)+

definition index_ok :: "SelectionPolicy \<Rightarrow> ListIndex \<Rightarrow> bool" where
  "index_ok p index \<longleftrightarrow>
     (\<forall>key flt keyed i row. bt_get index (key, flt) = Some keyed \<longrightarrow> bt_get keyed i = Some row \<longrightarrow>
        (\<exists>kc rows. list_declared p key kc rows \<and> row \<in> set rows))"

lemma index_listsD:
  assumes "index_lists rls index vs = Inr index'" "index_ok p index"
    and "\<And>k kc rows. bt_get rls k = Some (kc, rows) \<Longrightarrow> list_declared p k kc rows"
  shows "index_ok p index'"
  using assms(1,2)
proof (induction vs arbitrary: index)
  case (Cons v vs)
  show ?case
  proof (cases "\<exists>key kf vc flt ab. v = VrKeyedFact key kf vc flt ab \<and> bt_get index (key, flt) = None")
    case True
    then obtain key kf vc flt ab where v: "v = VrKeyedFact key kf vc flt ab"
        "bt_get index (key, flt) = None" by blast
    with Cons.prems obtain kc rows keyed where k: "bt_get rls key = Some (kc, rows)"
        "key_rows key kc flt [] rows = Inr keyed"
        "index_lists rls (bt_insert (key, flt) keyed index) vs = Inr index'"
      by (auto simp: result_simps)
    have "index_ok p (bt_insert (key, flt) keyed index)"
      using Cons.prems(2) key_rowsD[OF k(2)] assms(3)[OF k(1)] by (fastforce simp: index_ok_def)
    with Cons.IH[OF k(3)] show ?thesis .
  qed (use Cons in \<open>auto split: ValueRef.splits\<close>)
qed simp

lemma read_listsD: "read_lists p facts now = Inr rls \<Longrightarrow> index_ok p rls"
  using declared_listsD[of facts now "[]" "sp_facts p" _ p] index_listsD[of _ "[]" "value_refs p" rls p]
  by (auto simp: read_lists_def result_simps index_ok_def)

section \<open>Values\<close>

fun scalar_kind :: "ScalarValue \<Rightarrow> ValueType \<Rightarrow> bool" where
  "scalar_kind (SvInteger _) VtInteger = True"
| "scalar_kind (SvBoolean _) VtBoolean = True"
| "scalar_kind (SvString _) (VtEnumString _) = True"
| "scalar_kind _ _ = False"

lemma scalar_matches_kind: "scalar_matches x t \<Longrightarrow> scalar_kind x t"
  by (cases x; cases t) auto

lemma same_kind: "same_scalar_kind t u \<Longrightarrow> scalar_kind x t \<Longrightarrow> scalar_kind x u"
  by (cases x; cases t; cases u) auto

text \<open>Tables bound to the document: each with the declaration of the document.\<close>

definition tables_of :: "SelectionPolicy \<Rightarrow> SelectionTables \<Rightarrow> bool" where
  "tables_of p T \<longleftrightarrow>
     (\<forall>i b. bt_get T i = Some b \<longrightarrow> bn_declaration b \<in> set (sp_tables p) \<and> td_table_id (bn_declaration b) = i)"

lemma bind_declarationsD:
  assumes "bind_declarations ls T ds = Inr T'" "tables_of p T" "set ds \<subseteq> set (sp_tables p)"
  shows "tables_of p T'"
  using assms
proof (induction ds arbitrary: T)
  case (Cons d ds)
  show ?case
  proof (cases "List.find (\<lambda>l. loaded_table_id l = td_table_id d) ls")
    case (Some l)
    with Cons.prems have
      "bind_declarations ls (bt_insert (td_table_id d) \<lparr>bn_loaded = l, bn_declaration = d\<rparr> T) ds = Inr T'"
      by (auto simp: result_simps)
    then show ?thesis by (rule Cons.IH) (use Cons.prems in \<open>auto simp: tables_of_def\<close>)
  qed (use Cons in auto)
qed simp

lemma bind_tablesD: "bind_tables p ls = Inr T \<Longrightarrow> tables_of p T"
  unfolding bind_tables_def by (rule bind_declarationsD) (auto simp: tables_of_def)

lemma read_row_kind:
  assumes "rd_value (read_row b row vc fc oc) = Inr x"
    and "bt_get (td_columns (bn_declaration b)) vc = Some t"
    and "\<And>f. fc = Some f \<Longrightarrow>
      \<exists>u. bt_get (td_columns (bn_declaration b)) f = Some u \<and> same_scalar_kind u t"
  shows "scalar_kind x t"
proof -
  obtain uf col cell where c: "read_column (bn_loaded b) row vc fc = (uf, col, cell)"
    using prod_cases3 by blast
  have col: "col = vc \<or> fc = Some col"
    using c by (auto simp: read_column_def Let_def split: if_splits option.splits)
  from assms(1) obtain u where u: "bt_get (td_columns (bn_declaration b)) col = Some u"
      "scalar_matches x u"
    by (auto simp: read_row_def c reading_known_def reading_unknown_def split: option.splits if_splits)
  show ?thesis
  proof (cases "col = vc")
    case True
    with u assms(2) show ?thesis by (simp add: scalar_matches_kind)
  next
    case False
    with col assms(3) u show ?thesis by (metis option.inject same_kind scalar_matches_kind)
  qed
qed

lemma table_kind:
  assumes "policy_scope p = Inr scope" "tables_of p T"
    and t: "ref_type scope (VrTable i kf pins vc fc ab) = Some t"
    and x: "rd_value (read_table T (VrTable i kf pins vc fc ab) key fact_of) = Inr x"
  shows "scalar_kind x t"
proof -
  from x obtain b where b: "bt_get T i = Some b"
    by (cases "bt_get T i") (auto simp: read_table_def reading_unknown_def)
  with assms(2) have d: "bn_declaration b \<in> set (sp_tables p)" "td_table_id (bn_declaration b) = i"
    by (auto simp: tables_of_def)
  have "bt_get (scp_tables scope) i = Some (bn_declaration b)"
    using policy_scopeD(3,6)[OF assms(1)] map_of_key[of td_table_id "sp_tables p" _ "\<lambda>d. d"] d by auto
  with t have col: "bt_get (td_columns (bn_declaration b)) vc = Some t"
      and fb: "\<And>f. fc = Some f \<Longrightarrow>
        \<exists>u. bt_get (td_columns (bn_declaration b)) f = Some u \<and> same_scalar_kind u t"
      and ab: "\<And>a. ab = Some a \<Longrightarrow> scalar_matches a t"
    by (auto simp: ref_type_def ok_value_Some result_simps split: option.splits if_splits)
  from x b consider a where "ab = Some a" "x = a"
    | row oc where "rd_value (read_row b row vc fc oc) = Inr x"
    by (auto simp: read_table_def reading_unknown_def reading_known_def
        split: prod.splits sum.splits if_splits option.splits)
  then show ?thesis
  proof cases
    case 1
    with ab show ?thesis by (simp add: scalar_matches_kind)
  next
    case 2
    then show ?thesis by (rule read_row_kind) (use col fb in auto)
  qed
qed

lemma string_key_Inr [result_simps]:
  "(case k of SvInteger _ \<Rightarrow> Inl e | SvBoolean _ \<Rightarrow> Inl e | SvString s \<Rightarrow> f s) = Inr x \<longleftrightarrow>
     (\<exists>s. k = SvString s \<and> f s = Inr x)"
  by (cases k) auto

lemma keyed_refD:
  assumes "ref_type scope (VrKeyedFact k kf vc flt ab) = Some t"
  obtains kc cols allowed where "bt_get (scp_facts scope) k = Some (VtRecordList kc cols)"
    "bt_get cols vc = Some t" "scalar_matches ab t"
    "bt_get (scp_fields scope) kf = Some (VtEnumString allowed)"
proof -
  from assms obtain lt where lt: "bt_get (scp_facts scope) k = Some lt"
    by (cases "bt_get (scp_facts scope) k") (auto simp: ref_type_def scope_fact_def)
  from assms lt obtain kc cols where l: "lt = VtRecordList kc cols"
    by (cases lt) (auto simp: ref_type_def scope_fact_def)
  have "bt_get cols vc = Some t \<and> scalar_matches ab t
      \<and> (\<exists>allowed. bt_get (scp_fields scope) kf = Some (VtEnumString allowed))"
    using assms lt l
    by (auto simp: ref_type_def ok_value_Some scope_fact_def scope_field_def is_enum_string_iff
        result_simps split: if_splits option.splits)
  with that lt l show ?thesis by blast
qed

lemma resolve_scalarD: "resolve_scalar snap d now = Inr x \<Longrightarrow> scalar_matches x (fc_value_type d)"
proof (cases "bt_get (sf_facts snap) (fc_fact_key d)")
  case (Some entry)
  then show "resolve_scalar snap d now = Inr x \<Longrightarrow> ?thesis"
    by (cases entry) (auto simp: resolve_scalar_def result_simps split: if_splits)
qed (simp add: resolve_scalar_def)

lemma read_value_kind:
  assumes scope: "policy_scope p = Inr scope" and T: "tables_of p T" and rls: "index_ok p rls"
    and t: "ref_type scope v = Some t"
    and x: "read_value (resolver_new p facts rls T now) v c = Inr x"
  shows "scalar_kind x t"
proof (cases v)
  case (VrField f)
  with t have "bt_get (scp_fields scope) f = Some t"
    by (auto simp: ref_type_def ok_value_Some scope_field_def result_simps)
  with x VrField resolver_fields[OF scope] show ?thesis
    by (auto simp: read_value_def read_field_def result_simps scalar_matches_kind split: if_splits)
next
  case (VrFact k)
  with t have t': "bt_get (scp_facts scope) k = Some t"
    by (auto simp: ref_type_def ok_value_Some scope_fact_def result_simps split: if_splits)
  from x VrFact obtain d where d: "map_of (map (\<lambda>d. (fc_fact_key d, d)) (sp_facts p)) k = Some d"
      "scalar_matches x (fc_value_type d)"
    by (auto simp: read_value_def read_fact_def resolver_facts[OF scope] result_simps
        dest: resolve_scalarD)
  from map_of_keyD[OF d(1)] have "d \<in> set (sp_facts p)" "fc_fact_key d = k" by auto
  with policy_scopeD(2,5)[OF scope] t' map_of_key[of fc_fact_key "sp_facts p" d fc_value_type]
  have "t = fc_value_type d" by auto
  with d(2) show ?thesis by (simp add: scalar_matches_kind)
next
  case (VrKeyedFact k kf vc flt ab)
  with t obtain kc cols where l: "bt_get (scp_facts scope) k = Some (VtRecordList kc cols)"
      "bt_get cols vc = Some t" "scalar_matches ab t"
    by (auto elim: keyed_refD)
  from x VrKeyedFact obtain keyed key where kx: "bt_get rls (k, flt) = Some keyed"
      "(\<exists>row. bt_get keyed key = Some row \<and> bt_get row vc = Some x) \<or> x = ab"
    by (auto simp: read_value_def result_simps resolver_new_def split: option.splits)
  show ?thesis
  proof (cases "x = ab")
    case False
    with kx(2) obtain row where row: "bt_get keyed key = Some row" "bt_get row vc = Some x" by blast
    with rls kx(1) obtain kc' rows where "list_declared p k kc' rows" "row \<in> set rows"
      unfolding index_ok_def by blast
    then obtain d cols' where d: "d \<in> set (sp_facts p)" "fc_fact_key d = k"
        "fc_value_type d = VtRecordList kc' cols'" "well_formed_row kc' cols' row"
      by (auto simp: list_declared_def list_all_iff)
    with policy_scopeD(2,5)[OF scope] l(1) map_of_key[of fc_fact_key "sp_facts p" d fc_value_type]
    have "cols' = cols" by auto
    with d(4) row(2) map_of_SomeD[OF l(2)] show ?thesis
      by (auto simp: well_formed_row_def list_all_iff scalar_matches_kind)
  qed (use l(3) in \<open>simp add: scalar_matches_kind\<close>)
next
  case (VrTable i kf pins vc fc ab)
  with x obtain key where
    "rd_value (read_table T v key (read_fact (resolver_new p facts rls T now))) = Inr x"
    by (auto simp: read_value_def table_reading_def result_simps resolver_new_def)
  with VrTable t table_kind[OF scope T] show ?thesis by blast
qed

section \<open>No value of the wrong kind\<close>

lemma transform_kind:
  assumes "check_transform f t w = Inr ()" "scalar_kind x t" "transform f x = Inl reason"
  shows "reason = UrLookupMiss"
proof (cases f)
  case (TfLookup entries d)
  with assms(3) show ?thesis by (auto simp: result_simps split: option.splits)
qed (use assms in \<open>cases x; auto split: if_splits\<close>)+

lemma leaf_typed:
  assumes "leaf_value x decide = TruthUnknown reason" "\<And>y. x = Inr y \<Longrightarrow> \<exists>b. decide y = Some b"
  shows "x = Inl reason"
  using assms by (cases x) (fastforce simp: leaf_value_def decided_unknown)+

lemma decide_kind:
  "scalar_kind y VtInteger \<Longrightarrow> \<exists>b. decide_integer P y = Some b"
  "scalar_kind y VtBoolean \<Longrightarrow> \<exists>b. decide_boolean Q y = Some b"
  "scalar_kind y (VtEnumString allowed) \<Longrightarrow> \<exists>b. decide_string R y = Some b"
  by (cases y; simp add: decide_integer_def decide_boolean_def decide_string_def)+

lemma meaning_typed_unknown:
  assumes "well_typed scope p" "meaning env p = TruthUnknown reason"
    and "\<And>v t x. v \<in> set (collect_values p) \<Longrightarrow> ref_type scope v = Some t \<Longrightarrow> env v = Inr x \<Longrightarrow> scalar_kind x t"
  shows "\<exists>v \<in> set (collect_values p). env v = Inl reason"
  using assms
proof (induction p)
  case (PredAll ps)
  from kleene_unknown[OF PredAll.prems(2)[simplified]]
  obtain q where "q \<in> set ps" "meaning env q = TruthUnknown reason" by auto
  with PredAll show ?case by (fastforce simp: list_all_iff)
next
  case (PredAny ps)
  from kleene_unknown[OF PredAny.prems(2)[simplified]]
  obtain q where "q \<in> set ps" "meaning env q = TruthUnknown reason" by auto
  with PredAny show ?case by (fastforce simp: list_all_iff)
next
  case (PredNot p)
  then show ?case by (cases "meaning env p") auto
next
  case (IntegerCompare left cop right mul add)
  have side: "v \<in> {left, right} \<Longrightarrow> side_value (env v) = Inl reason \<Longrightarrow> env v = Inl reason" for v
    using IntegerCompare.prems(1) IntegerCompare.prems(3)[of v VtInteger]
    by (cases "env v") (auto simp: side_value_def split: ScalarValue.splits)
  from IntegerCompare.prems(2) have "side_value (env left) = Inl reason \<or> side_value (env right) = Inl reason"
    by (auto simp: decided_unknown result_simps)
  with side show ?case by auto
next
  case (StringIn v members)
  then obtain allowed where "ref_type scope v = Some (VtEnumString allowed)" by auto
  with StringIn show ?case by (auto elim!: leaf_typed intro!: decide_kind(3)[of _ allowed])
qed (auto elim!: leaf_typed intro!: decide_kind(1,2))

end
