(* ===== verification/Selection_Bound_Sound.thy ===== *)
theory Selection_Bound_Sound
  imports Selection_Typing
begin

text \<open>
  Soundness of the upper bound: what a hypothetical identity reads covers what every candidate
  of that identity reads, the possible truth values cover the truth value of a gate, the outputs
  of a term cover its output up to the contribution, and so the bound is at least the score of
  every candidate of the declared domains that is ranked.
\<close>

section \<open>Candidates of an identity\<close>

definition in_domain :: "str \<Rightarrow> FieldDomain \<Rightarrow> ScalarValue option \<Rightarrow> bool" where
  "in_domain i dm x =
     (case dm of
        DomIdentity \<Rightarrow> x = Some (SvString i)
      | DomBoolean \<Rightarrow> x = None \<or> (\<exists>b. x = Some (SvBoolean b))
      | DomInteger lo hi \<Rightarrow>
          x = None \<or> (\<exists>n. x = Some (SvInteger n) \<and> sint lo \<le> sint n \<and> sint n \<le> sint hi))"

text \<open>A candidate of an identity: its identity fields hold the identity, its other fields are
  missing or in their domain.\<close>

definition candidate_of :: "SelectionPolicy \<Rightarrow> (str, FieldDomain) btree \<Rightarrow> str \<Rightarrow> Candidate \<Rightarrow> bool" where
  "candidate_of p domains i c \<longleftrightarrow>
     list_all (\<lambda>d. \<forall>dm. bt_get domains (fd_name d) = Some dm \<longrightarrow>
       in_domain i dm (bt_get (ca_fields c) (fd_name d))) (sp_fields p)"

definition complete :: "SelectionPolicy \<Rightarrow> Candidate \<Rightarrow> bool" where
  "complete p c \<longleftrightarrow> list_all (\<lambda>d. bt_get (ca_fields c) (fd_name d) \<noteq> None) (sp_fields p)"

section \<open>Readings\<close>

text \<open>A reading of the hypothesis covers a read value; with \<open>full\<close>, a ranged reading is of a
  value that is present.\<close>

definition covers :: "bool \<Rightarrow> Reading \<Rightarrow> (UnknownReason, ScalarValue) result \<Rightarrow> bool" where
  "covers full rd x =
     (case rd of
        Exact y \<Rightarrow> ok_value x = y
      | AnyBoolean \<Rightarrow> (\<exists>b. x = Inr (SvBoolean b)) \<or> \<not> full \<and> ok_value x = None
      | Range lo hi \<Rightarrow>
          (\<exists>n. x = Inr (SvInteger n) \<and> sint lo \<le> sint n \<and> sint n \<le> sint hi)
          \<or> \<not> full \<and> ok_value x = None)"

lemma hypothesis_fact_eq:
  "hypothesis_fact (hypothesis_of p T facts now domains rls i) = read_fact (resolver_new p facts rls T now)"
  by (simp add: fun_eq_iff hypothesis_fact_def read_fact_def hypothesis_of_def resolver_new_def)

lemma check_domainD:
  assumes "check_domain identities domains d = Inr ()"
  obtains (identity) allowed where "bt_get domains (fd_name d) = Some DomIdentity"
      "fd_value_type d = VtEnumString allowed" "set identities \<subseteq> set allowed"
  | (boolean) "bt_get domains (fd_name d) = Some DomBoolean" "fd_value_type d = VtBoolean"
  | (integer) lo hi where "bt_get domains (fd_name d) = Some (DomInteger lo hi)"
      "fd_value_type d = VtInteger"
  using assms
  by (cases "bt_get domains (fd_name d)"; cases "the (bt_get domains (fd_name d))";
      cases "fd_value_type d")
     (auto simp: check_domain_def Let_def find_None_iff split: option.splits if_splits)

text \<open>Every field a reference names is declared, has a domain that fits its type, and reads
  within it.\<close>

lemma field_reading:
  assumes "policy_scope p = Inr scope" "bt_get (scp_fields scope) f = Some t"
    and "try_for_each (check_domain identities domains) (sp_fields p) = Inr ()"
    and "i \<in> set identities" "candidate_of p domains i c" "full \<longrightarrow> complete p c"
  shows "covers full (hypothesis_read (hypothesis_of p T facts now domains rls i) (VrField f))
    (read_field (resolver_new p facts rls T now) f c)"
    and "is_enum_string t \<Longrightarrow> bt_get domains f = Some DomIdentity
      \<and> read_field (resolver_new p facts rls T now) f c = Inr (SvString i)"
proof -
  from assms(2) policy_scopeD(1)[OF assms(1)]
  obtain d where d: "d \<in> set (sp_fields p)" "fd_name d = f" "fd_value_type d = t"
    by (auto dest: map_of_keyD)
  have r: "read_field (resolver_new p facts rls T now) f c =
      and_then (ok_or UrFieldMissing (bt_get (ca_fields c) f))
        (\<lambda>v. if scalar_matches v t then Inr v else Inl UrTypeMismatch)"
    using assms(2) resolver_fields[OF assms(1)] by (simp add: read_field_def)
  have dm: "in_domain i x (bt_get (ca_fields c) f)" if "bt_get domains f = Some x" for x
    using assms(5) d that by (auto simp: candidate_of_def list_all_iff)
  have full: "full \<Longrightarrow> bt_get (ca_fields c) f \<noteq> None"
    using assms(6) d by (auto simp: complete_def list_all_iff)
  from assms(3) d(1) have "check_domain identities domains d = Inr ()" by (simp add: try_for_each_Inr)
  then have "covers full (hypothesis_read (hypothesis_of p T facts now domains rls i) (VrField f))
      (read_field (resolver_new p facts rls T now) f c)
    \<and> (is_enum_string t \<longrightarrow> bt_get domains f = Some DomIdentity
      \<and> read_field (resolver_new p facts rls T now) f c = Inr (SvString i))"
  proof (cases rule: check_domainD)
    case (identity allowed)
    with d dm[of DomIdentity] assms(4) show ?thesis
      by (auto simp: r hypothesis_read_def hypothesis_of_def covers_def in_domain_def)
  next
    case boolean
    with d dm[of DomBoolean] full show ?thesis
      by (auto simp: r hypothesis_read_def hypothesis_of_def covers_def in_domain_def
          is_enum_string_def)
  next
    case (integer lo hi)
    with d dm[of "DomInteger lo hi"] full show ?thesis
      by (auto simp: r hypothesis_read_def hypothesis_of_def covers_def in_domain_def
          is_enum_string_def)
  qed
  then show "covers full (hypothesis_read (hypothesis_of p T facts now domains rls i) (VrField f))
      (read_field (resolver_new p facts rls T now) f c)"
    and "is_enum_string t \<Longrightarrow> bt_get domains f = Some DomIdentity
      \<and> read_field (resolver_new p facts rls T now) f c = Inr (SvString i)"
    by blast+
qed

lemma table_ref_key:
  assumes "ref_type scope (VrTable tb kf pins vc fc ab) = Some t"
  obtains u where "bt_get (scp_fields scope) kf = Some u" "is_enum_string u"
  using assms
  by (auto simp: ref_type_def ok_value_Some scope_field_def result_simps split: option.splits if_splits)

lemma reading_covers:
  assumes s: "policy_scope p = Inr scope" and t: "ref_type scope v = Some t"
    and a: "try_for_each (check_domain identities domains) (sp_fields p) = Inr ()"
      "i \<in> set identities" "candidate_of p domains i c" "full \<longrightarrow> complete p c"
  shows "covers full (hypothesis_read (hypothesis_of p T facts now domains rls i) v)
    (read_value (resolver_new p facts rls T now) v c)"
proof (cases v)
  case (VrField f)
  with t have "bt_get (scp_fields scope) f = Some t"
    by (auto simp: ref_type_def ok_value_Some scope_field_def result_simps)
  from field_reading(1)[OF s this a] VrField show ?thesis by (simp add: read_value_def)
next
  case (VrFact k)
  then show ?thesis
    by (simp add: covers_def hypothesis_read_def read_value_def hypothesis_fact_eq)
next
  case (VrKeyedFact k kf vc flt ab)
  with t obtain allowed where "bt_get (scp_fields scope) kf = Some (VtEnumString allowed)"
    by (auto elim: keyed_refD)
  from field_reading(2)[OF s this a] VrKeyedFact show ?thesis
    by (auto simp: covers_def hypothesis_read_def read_value_def is_enum_string_def hypothesis_of_def
        resolver_new_def ok_value_and_then option.case_distrib[of ok_value] cong: option.case_cong)
next
  case (VrTable tb kf pins vc fc ab)
  with t obtain u where "bt_get (scp_fields scope) kf = Some u" "is_enum_string u"
    by (auto elim: table_ref_key)
  from field_reading(2)[OF s this(1) a this(2)] VrTable show ?thesis
    by (auto simp: covers_def hypothesis_read_def read_value_def table_reading_def hypothesis_fact_eq)
       (simp_all add: hypothesis_of_def resolver_new_def)
qed

section \<open>Gates\<close>

lemma leaf_truth:
  "leaf_value x decide = TruthTrue \<longleftrightarrow> (\<exists>y. x = Inr y \<and> decide y = Some True)"
  "leaf_value x decide = TruthFalse \<longleftrightarrow> (\<exists>y. x = Inr y \<and> decide y = Some False)"
  by (cases x; cases "decide (projr x)"; auto simp: leaf_value_def decided_def bool_truth_def)+

lemma decided_truth [simp]:
  "decided x = TruthTrue \<longleftrightarrow> x = Inr True" "decided x = TruthFalse \<longleftrightarrow> x = Inr False"
  by (cases x; auto simp: decided_def bool_truth_def)+

lemma kleene_truth:
  "kleene TruthFalse TruthTrue ts = TruthTrue \<longleftrightarrow> (\<forall>t\<in>set ts. t = TruthTrue)"
  "kleene TruthFalse TruthTrue ts = TruthFalse \<longleftrightarrow> TruthFalse \<in> set ts"
  "kleene TruthTrue TruthFalse ts = TruthTrue \<longleftrightarrow> TruthTrue \<in> set ts"
  "kleene TruthTrue TruthFalse ts = TruthFalse \<longleftrightarrow> (\<forall>t\<in>set ts. t = TruthFalse)"
  by (auto simp: kleene_def is_unknown_def find_None_iff find_Some_iff split: option.splits)

lemma kleene_is_unknown:
  "\<not> is_unknown a \<Longrightarrow> \<not> is_unknown n \<Longrightarrow>
     is_unknown (kleene a n ts) \<longleftrightarrow> a \<notin> set ts \<and> (\<exists>t\<in>set ts. is_unknown t)"
  by (auto simp: kleene_def find_None_iff find_Some_iff split: option.splits)

lemma truth_cases: "t = TruthTrue \<or> t = TruthFalse \<or> is_unknown t"
  by (cases t) auto

lemma compare_possible_sound:
  assumes "a \<le> x" "x \<le> b" "c \<le> y" "y \<le> (d :: int)"
  shows "compare_holds cop x y \<Longrightarrow> fst (compare_possible cop a b c d)"
    and "\<not> compare_holds cop x y \<Longrightarrow> snd (compare_possible cop a b c d)"
  using assms by (cases cop; simp add: compare_holds_def compare_possible_def Let_def; linarith)+

lemma scale_mono: "sint a \<le> sint b \<Longrightarrow> scale mul add a \<le> scale mul add b"
  by (auto simp: scale_def mult_right_mono split: option.splits)

definition possible_covers :: "bool \<Rightarrow> Possible \<Rightarrow> Truth \<Rightarrow> bool" where
  "possible_covers full ps t \<longleftrightarrow>
     (t = TruthTrue \<longrightarrow> ps_truth ps) \<and> (t = TruthFalse \<longrightarrow> ps_falsity ps)
     \<and> (full \<longrightarrow> is_unknown t \<longrightarrow> ps_unknown ps)"

lemma possible_covers_simps:
  "possible_covers full ps TruthTrue \<longleftrightarrow> ps_truth ps"
  "possible_covers full ps TruthFalse \<longleftrightarrow> ps_falsity ps"
  "possible_covers full ps (TruthUnknown reason) \<longleftrightarrow> full \<longrightarrow> ps_unknown ps"
  "ps_unknown possible_unknown"
  "possible_covers full (possible_exact b) (bool_truth b') \<longleftrightarrow> b = b'"
  "possible_covers full (possible_decided tf) (bool_truth b) \<longleftrightarrow> (if b then fst tf else snd tf)"
  by (auto simp: possible_covers_def possible_unknown_def possible_exact_def possible_decided_def
      bool_truth_def)

lemma leaf_value_simps [simp]:
  "leaf_value (Inl e) decide = TruthUnknown e"
  "leaf_value (Inr (SvInteger n)) (decide_integer P) = bool_truth (P (sint n))"
  "leaf_value (Inr (SvBoolean b)) (decide_integer P) = TruthUnknown UrTypeMismatch"
  "leaf_value (Inr (SvString t)) (decide_integer P) = TruthUnknown UrTypeMismatch"
  "leaf_value (Inr (SvInteger n)) (decide_boolean Q) = TruthUnknown UrTypeMismatch"
  "leaf_value (Inr (SvBoolean b)) (decide_boolean Q) = bool_truth (Q b)"
  "leaf_value (Inr (SvString t)) (decide_boolean Q) = TruthUnknown UrTypeMismatch"
  "leaf_value (Inr (SvInteger n)) (decide_string R) = TruthUnknown UrTypeMismatch"
  "leaf_value (Inr (SvBoolean b)) (decide_string R) = TruthUnknown UrTypeMismatch"
  "leaf_value (Inr (SvString t)) (decide_string R) = bool_truth (R t)"
  by (simp_all add: leaf_value_def decided_def decide_integer_def decide_boolean_def decide_string_def)

lemma covers_cases:
  assumes "covers full rd x"
  obtains (unread) e where "rd = Exact None" "x = Inl e"
  | (exact) y where "rd = Exact (Some y)" "x = Inr y"
  | (boolean) b where "rd = AnyBoolean" "x = Inr (SvBoolean b)"
  | (integer) lo hi n where "rd = Range lo hi" "x = Inr (SvInteger n)" "sint lo \<le> sint n" "sint n \<le> sint hi"
  | (missing) e where "\<not> full" "x = Inl e" "rd = AnyBoolean \<or> (\<exists>lo hi. rd = Range lo hi)"
proof (cases rd)
  case (Exact y)
  with assms that(1,2) show ?thesis by (cases x; cases y) (auto simp: covers_def)
next
  case AnyBoolean
  with assms that(3,5) show ?thesis by (cases x) (auto simp: covers_def)
next
  case (Range lo hi)
  with assms that(4,5) show ?thesis by (cases x) (auto simp: covers_def)
qed

lemma integer_possible_covers:
  assumes "covers full (hypothesis_read h v) x"
    and "\<And>lo n hi. lo \<le> n \<Longrightarrow> n \<le> hi \<Longrightarrow> if P n then fst (rng lo hi) else snd (rng lo hi)"
  shows "possible_covers full (integer_possible h v P rng) (leaf_value x (decide_integer P))"
  using assms(1)
proof (cases rule: covers_cases)
  case (exact y)
  then show ?thesis by (cases y) (simp_all add: integer_possible_def possible_covers_simps)
next
  case (integer lo hi n)
  with assms(2)[of "sint lo" "sint n" "sint hi"] show ?thesis
    by (simp add: integer_possible_def possible_covers_simps)
qed (auto simp: integer_possible_def possible_covers_simps)

lemma side_covers:
  assumes "covers full (hypothesis_read h v) x" "side_value x = Inr n"
  shows "\<exists>lo hi. integer_range h v = Some (lo, hi) \<and> sint lo \<le> sint n \<and> sint n \<le> sint hi"
  using assms(1) by (cases rule: covers_cases) (use assms(2) in \<open>auto simp: integer_range_def\<close>)

lemma side_covers_unknown:
  assumes "covers full (hypothesis_read h v) x" "side_value x = Inl e" full
  shows "integer_range h v = None"
  using assms(1)
proof (cases rule: covers_cases)
  case (exact y)
  with assms(2) show ?thesis by (cases y) (auto simp: integer_range_def side_value_def)
qed (use assms(2,3) in \<open>auto simp: integer_range_def side_value_def\<close>)

lemma compare_covers:
  assumes l: "covers full (hypothesis_read h left) x" and r: "covers full (hypothesis_read h right) y"
  shows "possible_covers full (possible h (IntegerCompare left cop right mul add))
    (decided (and_then (side_value x) (\<lambda>a. and_then (side_value y) (\<lambda>b.
       Inr (compare_holds cop (sint a) (scale mul add b))))))"
proof (cases "\<exists>a b. side_value x = Inr a \<and> side_value y = Inr b")
  case True
  then obtain a b where ab: "side_value x = Inr a" "side_value y = Inr b" by blast
  obtain lo hi where l': "integer_range h left = Some (lo, hi)" "sint lo \<le> sint a" "sint a \<le> sint hi"
    using side_covers[OF l ab(1)] by blast
  obtain lo' hi' where r': "integer_range h right = Some (lo', hi')" "sint lo' \<le> sint b" "sint b \<le> sint hi'"
    using side_covers[OF r ab(2)] by blast
  show ?thesis
    using compare_possible_sound[OF l'(2,3) scale_mono[OF r'(2)] scale_mono[OF r'(3)]]
    by (simp add: ab l'(1) r'(1) decided_def possible_covers_simps del: side_value_Inr)
next
  case False
  then obtain e where e: "side_value x = Inl e \<or> side_value y = Inl e"
    by (cases "side_value x"; cases "side_value y") auto
  have u: "\<exists>e. and_then (side_value x) (\<lambda>a. and_then (side_value y) (\<lambda>b.
       Inr (compare_holds cop (sint a) (scale mul add b)))) = Inl e"
    using False by (cases "side_value x"; cases "side_value y") (auto simp del: side_value_Inr)
  have "full \<Longrightarrow> integer_range h left = None \<or> integer_range h right = None"
    using e side_covers_unknown[OF l] side_covers_unknown[OF r] by auto
  with u show ?thesis
    by (auto simp: decided_def possible_covers_simps possible_unknown_def split: option.splits)
qed

lemma possible_sound:
  assumes "\<And>v. v \<in> set (collect_values p) \<Longrightarrow> covers full (hypothesis_read h v) (env v)"
  shows "possible_covers full (possible h p) (meaning env p)"
  using assms
proof (induction p)
  case (BooleanEquals v expected)
  then have "covers full (hypothesis_read h v) (env v)" by simp
  then show ?case
  proof (cases rule: covers_cases)
    case (exact y)
    then show ?thesis by (cases y) (simp_all add: possible_covers_simps)
  qed (auto simp: possible_covers_simps)
next
  case (StringIn v allowed)
  then have "covers full (hypothesis_read h v) (env v)" by simp
  then show ?case
  proof (cases rule: covers_cases)
    case (exact y)
    then show ?thesis by (cases y) (simp_all add: possible_covers_simps)
  qed (auto simp: possible_covers_simps)
next
  case (IntegerCompare left cop right mul add)
  then show ?case by (simp add: compare_covers del: possible.simps)
next
  case (PredAll ps)
  then have "possible_covers full (possible h q) (meaning env q)" if "q \<in> set ps" for q
    using that by fastforce
  then show ?case
    using truth_cases[of "meaning env _"]
    by (simp add: possible_covers_def kleene_truth kleene_is_unknown list_all_iff list_ex_iff Let_def)
       (metis (no_types, lifting) image_iff)
next
  case (PredAny ps)
  then have "possible_covers full (possible h q) (meaning env q)" if "q \<in> set ps" for q
    using that by fastforce
  then show ?case
    using truth_cases[of "meaning env _"]
    by (simp add: possible_covers_def kleene_truth kleene_is_unknown list_all_iff list_ex_iff Let_def)
       (metis (no_types, lifting) image_iff)
next
  case (PredNot p)
  then show ?case by (cases "meaning env p") (auto simp: possible_covers_def Let_def)
qed (auto intro!: integer_possible_covers)

section \<open>Terms\<close>

lemma contribution_between:
  assumes "sint lo \<le> sint n" "sint n \<le> sint hi"
  shows "contribution n w \<le> contribution lo w \<or> contribution n w \<le> contribution hi w"
proof (cases "0 \<le> sint w")
  case True
  with assms(2) have "sint n * sint w \<le> sint hi * sint w" by (simp add: mult_right_mono)
  then show ?thesis by (simp add: contribution_def sdiv_mono)
next
  case False
  with assms(1) have "sint n * sint w \<le> sint lo * sint w" by (simp add: mult_right_mono_neg)
  then show ?thesis by (simp add: contribution_def sdiv_mono)
qed

lemma key_reached_iff:
  "key_reached (Some (lo, hi)) k \<longleftrightarrow> (\<exists>i. k = LkInteger i \<and> sint lo \<le> sint i \<and> sint i \<le> sint hi)"
  "key_reached None k \<longleftrightarrow> (\<exists>b. k = LkBoolean b)"
  by (cases k; simp add: key_reached_def)+

text \<open>A lookup with as many keys inside a range as the range has values covers the range.\<close>

lemma keys_cover_range:
  assumes d: "distinct (map lu_key es)" and n: "sint lo \<le> sint n" "sint n \<le> sint hi"
    and size: "sint hi - sint lo + 1 \<le> int (length (filter (\<lambda>e. key_reached (Some (lo, hi)) (lu_key e)) es))"
  shows "LkInteger n \<in> lu_key ` set es"
proof -
  define fs where "fs = filter (\<lambda>e. key_reached (Some (lo, hi)) (lu_key e)) es"
  define val where "val = (\<lambda>k. case k of LkInteger i \<Rightarrow> sint i | _ \<Rightarrow> 0)"
  have key: "\<exists>i. k = LkInteger i \<and> sint lo \<le> sint i \<and> sint i \<le> sint hi" if "k \<in> lu_key ` set fs" for k
    using that by (auto simp: fs_def key_reached_iff)
  have inj: "inj_on val (lu_key ` set fs)"
  proof (rule inj_onI)
    fix k l
    assume kl: "k \<in> lu_key ` set fs" "l \<in> lu_key ` set fs" "val k = val l"
    from key[OF kl(1)] key[OF kl(2)] kl(3) show "k = l" by (auto simp: val_def sint_i64_inject)
  qed
  have "card (val ` lu_key ` set fs) = card (lu_key ` set fs)" using inj by (rule card_image)
  also have "\<dots> = length fs"
    using d distinct_card[of "map lu_key fs"] by (simp add: fs_def distinct_map_filter)
  finally have c: "card (val ` lu_key ` set fs) = length fs" .
  have sub: "val ` lu_key ` set fs \<subseteq> {sint lo..sint hi}" using key by (fastforce simp: val_def)
  have "card {sint lo..sint hi} \<le> card (val ` lu_key ` set fs)"
    unfolding c using size n by (simp add: fs_def)
  with sub have "val ` lu_key ` set fs = {sint lo..sint hi}"
    by (intro card_seteq) simp_all
  with n obtain k where k: "k \<in> lu_key ` set fs" "val k = sint n" by (metis atLeastAtMost_iff imageE)
  with key[OF k(1)] have "k = LkInteger n" by (auto simp: val_def sint_i64_inject)
  with k(1) show ?thesis by (auto simp: fs_def)
qed

lemma keys_cover_booleans:
  assumes d: "distinct (map lu_key es)"
    and size: "2 \<le> int (length (filter (\<lambda>e. key_reached None (lu_key e)) es))"
  shows "LkBoolean b \<in> lu_key ` set es"
proof -
  define fs where "fs = filter (\<lambda>e. key_reached None (lu_key e)) es"
  have sub: "lu_key ` set fs \<subseteq> {LkBoolean True, LkBoolean False}"
    by (auto simp: fs_def key_reached_iff)
  have "card (lu_key ` set fs) = length fs"
    using d distinct_card[of "map lu_key fs"] by (simp add: fs_def distinct_map_filter)
  with size have "card {LkBoolean True, LkBoolean False} \<le> card (lu_key ` set fs)" by (simp add: fs_def)
  with sub have "lu_key ` set fs = {LkBoolean True, LkBoolean False}" by (intro card_seteq) simp_all
  then have "LkBoolean b \<in> lu_key ` set fs" by (cases b) auto
  then show ?thesis by (auto simp: fs_def)
qed

definition keys_distinct :: "Transform \<Rightarrow> bool" where
  "keys_distinct f = (case f of TfLookup es _ \<Rightarrow> distinct (map lu_key es) | _ \<Rightarrow> True)"

definition of_range :: "(i64 \<times> i64) option \<Rightarrow> ScalarValue \<Rightarrow> bool" where
  "of_range rng x =
     (case rng of
        Some (lo, hi) \<Rightarrow> (\<exists>n. x = SvInteger n \<and> sint lo \<le> sint n \<and> sint n \<le> sint hi)
      | None \<Rightarrow> (\<exists>b. x = SvBoolean b))"

lemma of_range_reached:
  "of_range rng x \<Longrightarrow> key_reached rng (lookup_key x)"
  by (auto simp: of_range_def key_reached_def split: option.splits)

lemma lookup_covered:
  assumes "distinct (map lu_key es)" "of_range rng x"
    and "(case rng of Some (lo, hi) \<Rightarrow> sint hi - sint lo + 1 | None \<Rightarrow> 2)
      \<le> int (length (filter (\<lambda>e. key_reached rng (lu_key e)) es))"
  shows "lookup_key x \<in> lu_key ` set es"
  using assms keys_cover_range keys_cover_booleans
  by (cases rng) (auto simp: of_range_def)

lemma ranged_outputs_sound:
  assumes "keys_distinct f" "of_range rng x" "ranged_outputs f rng = (outs, miss)"
  shows "transform f x = Inr out \<Longrightarrow> \<exists>a\<in>set outs. contribution out w \<le> contribution a w"
    and "transform f x = Inl e \<Longrightarrow> miss"
proof -
  have "(\<forall>out. transform f x = Inr out \<longrightarrow> (\<exists>a\<in>set outs. contribution out w \<le> contribution a w))
      \<and> (\<forall>e. transform f x = Inl e \<longrightarrow> miss)"
  proof (cases f)
    case TfIdentity
    with assms contribution_between[of _ _ _ w] show ?thesis
      by (fastforce simp: of_range_def split: option.splits)
  next
    case (TfThreshold a t o')
    with assms show ?thesis by (auto simp: of_range_def split: option.splits if_splits)
  next
    case (TfLookup es d)
    show ?thesis
    proof (cases "List.find (\<lambda>e. lu_key e = lookup_key x) es")
      case None
      then have "lookup_key x \<notin> lu_key ` set es" by (auto simp: find_None_iff)
      with lookup_covered[of es rng x] assms TfLookup None show ?thesis
        by (cases d) (auto simp: keys_distinct_def Let_def split: if_splits)
    next
      case (Some e)
      then have "e \<in> set es" "lu_key e = lookup_key x" by (auto simp: find_Some_iff)
      then have "lu_value_milli e \<in> set outs"
        using of_range_reached[OF assms(2)] assms(3) TfLookup
        by (auto simp: Let_def split: if_splits option.splits)
      with Some TfLookup show ?thesis by auto
    qed
  qed
  then show "transform f x = Inr out \<Longrightarrow> \<exists>a\<in>set outs. contribution out w \<le> contribution a w"
    and "transform f x = Inl e \<Longrightarrow> miss" by blast+
qed

lemma outputs_sound:
  assumes cov: "covers full (hypothesis_read h (sg_value trm)) (env (sg_value trm))"
    and d: "keys_distinct (sg_transform trm)" and out: "term_output env trm = Some out"
    and outs: "outputs h trm = Inr outs"
  shows "\<exists>a\<in>set outs. contribution out w \<le> contribution a w"
  using cov
proof (cases rule: covers_cases)
  case (unread e)
  with out outs show ?thesis
    by (auto simp: term_output_def term_resolved_def outputs_def split: TermUnknownHandling.splits)
next
  case (exact y)
  with out outs show ?thesis
    by (auto simp: term_output_def term_resolved_def outputs_def
        split: TermUnknownHandling.splits sum.splits if_splits)
next
  case (boolean b)
  obtain os miss where os: "ranged_outputs (sg_transform trm) None = (os, miss)" by fastforce
  have "of_range None (SvBoolean b)" by (simp add: of_range_def)
  note s = ranged_outputs_sound[OF d this os]
  show ?thesis
  proof (cases "transform (sg_transform trm) (SvBoolean b)")
    case (Inl e)
    with s(2)[OF Inl] boolean os out outs show ?thesis
      by (auto simp: term_output_def term_resolved_def outputs_def split: TermUnknownHandling.splits)
  next
    case (Inr o1)
    with boolean out have "o1 = out" by (simp add: term_output_def term_resolved_def)
    with s(1)[of out w] Inr boolean os outs show ?thesis
      by (auto simp: outputs_def split: TermUnknownHandling.splits if_splits)
  qed
next
  case (integer lo hi n)
  obtain os miss where os: "ranged_outputs (sg_transform trm) (Some (lo, hi)) = (os, miss)" by fastforce
  have "of_range (Some (lo, hi)) (SvInteger n)" using integer by (simp add: of_range_def)
  note s = ranged_outputs_sound[OF d this os]
  show ?thesis
  proof (cases "transform (sg_transform trm) (SvInteger n)")
    case (Inl e)
    with s(2)[OF Inl] integer os out outs show ?thesis
      by (auto simp: term_output_def term_resolved_def outputs_def split: TermUnknownHandling.splits)
  next
    case (Inr o1)
    with integer out have "o1 = out" by (simp add: term_output_def term_resolved_def)
    with s(1)[of out w] Inr integer os outs show ?thesis
      by (auto simp: outputs_def split: TermUnknownHandling.splits if_splits)
  qed
next
  case (missing e)
  with out outs show ?thesis
    by (auto simp: term_output_def term_resolved_def outputs_def
        split: TermUnknownHandling.splits prod.splits)
qed

lemma largest_contribution_ge:
  assumes "largest_contribution w l outs = Some m"
  shows "\<exists>k. (outs = [] \<and> m = l) \<or> m = Some k \<and> (\<forall>a\<in>set outs. contribution a w \<le> k)
    \<and> (\<forall>j. l = Some j \<longrightarrow> j \<le> k)"
  using assms
proof (induction outs arbitrary: l)
  case (Cons a outs)
  from Cons.IH[of "Some (case l of None \<Rightarrow> contribution a w | Some j \<Rightarrow> max j (contribution a w))"] Cons.prems
  show ?case by (cases l) (auto simp: Let_def split: if_splits)
qed auto

lemma score_terms_sound:
  assumes "\<And>trm. trm \<in> set trms \<Longrightarrow>
      covers full (hypothesis_read h (sg_value trm)) (env (sg_value trm)) \<and> keys_distinct (sg_transform trm)"
    and "scores_sum env trms = Some s" "u \<le> v"
  shows "score_terms h v trms = Inl ScoreUnbounded \<or> (\<exists>m. score_terms h v trms = Inr m \<and> u + s \<le> m)"
  using assms
proof (induction trms arbitrary: u v s)
  case (Cons trm trms)
  from Cons.prems(2) obtain out m s' where t: "term_output env trm = Some out"
      "i64_try_from (contribution out (sg_weight_milli trm)) = Some m"
      "scores_sum env trms = Some s'" "s = sint m + s'"
    by (auto simp: term_score_def bind_eq_Some_conv)
  then have m: "sint m = contribution out (sg_weight_milli trm)" by (simp add: i64_try_from_Some)
  show ?case
  proof (cases "outputs h trm")
    case (Inr outs)
    have "\<exists>a\<in>set outs. contribution out (sg_weight_milli trm) \<le> contribution a (sg_weight_milli trm)"
      by (rule outputs_sound[OF _ _ t(1) Inr]) (use Cons.prems(1) in auto)
    then obtain a where a: "a \<in> set outs"
        "contribution out (sg_weight_milli trm) \<le> contribution a (sg_weight_milli trm)" by blast
    show ?thesis
    proof (cases "largest_contribution (sg_weight_milli trm) None outs")
      case (Some l)
      from largest_contribution_ge[OF Some] a obtain k where k: "l = Some k" "sint m \<le> k"
        using m by fastforce
      have "score_terms h (v + k) trms = Inl ScoreUnbounded
          \<or> (\<exists>n. score_terms h (v + k) trms = Inr n \<and> (u + sint m) + s' \<le> n)"
        by (rule Cons.IH) (use Cons.prems k t(3) in auto)
      with Inr Some k a(1) t(4) show ?thesis by (auto simp: add.assoc)
    qed (use Inr a(1) in auto)
  qed simp
qed simp

section \<open>The bound\<close>

lemma score_gates_open:
  assumes "\<And>gate. gate \<in> set gates \<Longrightarrow> gate_keeps env gate
      \<and> possible_covers full (possible h (hg_predicate gate)) (meaning env (hg_predicate gate))
      \<and> (reads_table (hg_predicate gate) \<longrightarrow> hg_on_unknown gate \<noteq> SubstituteVerdict True)
      \<and> (full \<or> hg_on_unknown gate \<noteq> SubstituteVerdict True)"
  shows "score_gates h gates = None"
  using assms
proof (induction gates)
  case (Cons gate gates)
  then have g: "gate_keeps env gate"
      "possible_covers full (possible h (hg_predicate gate)) (meaning env (hg_predicate gate))"
      "reads_table (hg_predicate gate) \<longrightarrow> hg_on_unknown gate \<noteq> SubstituteVerdict True"
      "full \<or> hg_on_unknown gate \<noteq> SubstituteVerdict True"
    by auto
  have "ps_truth (possible h (hg_predicate gate))
      \<or> ps_unknown (possible h (hg_predicate gate)) \<and> \<not> reads_table (hg_predicate gate)"
    using g by (cases "meaning env (hg_predicate gate)")
      (auto simp: gate_keeps_def possible_covers_simps)
  with Cons show ?case by (auto simp: Let_def)
qed simp

lemma best_score_ge:
  assumes "i \<in> set is" "f i = ScoreUnbounded \<or> (\<exists>m. f i = ScoreMax m \<and> s \<le> sint m)"
  shows "best_score f best is = Unbounded \<or> (\<exists>m. best_score f best is = MaxScore m \<and> s \<le> sint m)"
proof -
  have mono: "best_score f (Some b) is = Unbounded
      \<or> (\<exists>m. best_score f (Some b) is = MaxScore m \<and> sint b \<le> sint m)" for b "is"
  proof (induction "is" arbitrary: b)
    case (Cons j js)
    show ?case
    proof (cases "f j")
      case (ScoreMax m)
      with Cons[of "if sint b \<le> sint m then m else b"] show ?thesis by (auto split: if_splits)
    qed (use Cons[of b] in auto)
  qed simp
  show ?thesis
    using assms
  proof (induction "is" arbitrary: best)
    case (Cons j js)
    show ?case
    proof (cases "i = j")
      case True
      with Cons.prems(2) consider "f j = ScoreUnbounded" | m where "f j = ScoreMax m" "s \<le> sint m"
        by auto
      then show ?thesis
      proof cases
        case 2
        define b where "b = (case best of None \<Rightarrow> m | Some b \<Rightarrow> if sint b \<le> sint m then m else b)"
        have "s \<le> sint b" using 2(2) by (auto simp: b_def split: option.splits)
        with mono[of b js] 2(1) show ?thesis by (fastforce simp: b_def[symmetric])
      qed simp
    next
      case False
      with Cons show ?thesis by (cases "f j") auto
    qed
  qed simp
qed

lemma upper_bound_covers:
  assumes ub: "upper_bound_with_tables p T facts now identities domains = Inr ub"
    and i: "i \<in> set identities" and c: "candidate_of p domains i c"
    and full: "complete p c \<or> list_all (\<lambda>g. hg_on_unknown g \<noteq> SubstituteVerdict True) (sp_gates p)"
    and rls: "read_lists p facts now = Inr rls"
    and k: "rank_of p c (resolver_new p facts rls T now) = Some k"
  shows "ub = Unbounded \<or> (\<exists>m. ub = MaxScore m \<and> sint (rk_score_milli k) \<le> sint m)"
proof -
  define r where "r = resolver_new p facts rls T now"
  define h where "h = hypothesis_of p T facts now domains rls i"
  from ub have v: "policy_validate p = Inr ()"
      and dm: "try_for_each (check_domain identities domains) (sp_fields p) = Inr ()"
    by (auto simp: upper_bound_with_tables_def result_simps)
  from v obtain scope where s: "policy_scope p = Inr scope" "check_gates scope [] (sp_gates p) = Inr ()"
      "check_terms scope (sp_gates p) [] (sp_scoring p) = Inr ()"
    by (rule policy_validateD)
  have cov: "covers (complete p c) (hypothesis_read h w) (candidate_env r c w)"
    if "w \<in> set (value_refs p)" for w
    using value_refs_resolve[OF v s(1) that] reading_covers[OF s(1) _ dm i c]
    by (auto simp: h_def r_def)
  have gates: "score_gates h (sp_gates p) = None"
  proof (rule score_gates_open[where env = "candidate_env r c" and full = "complete p c"], intro conjI)
    fix gate assume g: "gate \<in> set (sp_gates p)"
    show "gate_keeps (candidate_env r c) gate"
      using k g by (auto simp: rank_of_def r_def list_all_iff split: if_splits)
    show "possible_covers (complete p c) (possible h (hg_predicate gate))
        (meaning (candidate_env r c) (hg_predicate gate))"
      by (rule possible_sound, rule cov) (use g in \<open>auto simp: value_refs_def\<close>)
    show "reads_table (hg_predicate gate) \<longrightarrow> hg_on_unknown gate \<noteq> SubstituteVerdict True"
      using check_gates_each[OF s(2) g] check_gateD(2) by blast
    show "complete p c \<or> hg_on_unknown gate \<noteq> SubstituteVerdict True"
      using full g by (auto simp: list_all_iff)
  qed
  have trms: "covers (complete p c) (hypothesis_read h (sg_value trm)) (candidate_env r c (sg_value trm))
      \<and> keys_distinct (sg_transform trm)" if t: "trm \<in> set (sp_scoring p)" for trm
  proof
    show "covers (complete p c) (hypothesis_read h (sg_value trm)) (candidate_env r c (sg_value trm))"
      by (rule cov) (use t in \<open>simp add: value_refs_def\<close>)
    from check_terms_each[OF s(3) t] obtain before where "check_term scope (sp_gates p) before trm = Inr ()" ..
    then show "keys_distinct (sg_transform trm)"
      by (rule check_termD) (auto simp: keys_distinct_def result_simps dest: check_lookup_entriesD
          split: Transform.splits if_splits)
  qed
  from k obtain t where t: "scores_sum (candidate_env r c) (sp_scoring p) = Some t"
      "sint (rk_score_milli k) = t"
    by (auto simp: rank_of_def r_def bind_eq_Some_conv i64_try_from_Some split: if_splits)
  have score: "hypothesis_score h p = ScoreUnbounded
      \<or> (\<exists>m. hypothesis_score h p = ScoreMax m \<and> sint (rk_score_milli k) \<le> sint m)"
    using score_terms_sound[OF trms t(1), of 0 0] t(2) gates
    by (auto simp: hypothesis_score_def i64_try_from_Some split: option.splits)
  have "ub = Unbounded \<or>
      ub = best_score (\<lambda>i. hypothesis_score (hypothesis_of p T facts now domains rls i) p) None identities"
    using ub rls by (auto simp: upper_bound_with_tables_def result_simps split: if_splits)
  then show ?thesis using best_score_ge[OF i, of "\<lambda>i. hypothesis_score (hypothesis_of p T facts now domains rls i) p"]
      score by (auto simp: h_def)
qed

end
