(* ===== verification/Selection_Collect.thy ===== *)
theory Selection_Collect
  imports Selection_Typing
begin

text \<open>
  The collect option next to the decision. Collecting evaluates every gate and every term and
  lists what is unknown; where it reaches a verdict without an unknown input, that verdict is
  the one the decision takes.
\<close>

section \<open>What a gate records\<close>

text \<open>With recording on, evaluating a predicate keeps the unknown inputs recorded before it and
  an unknown result leaves at least one more.\<close>

lemma read_noting_reads:
  assumes "read_noting r v c reads = (x, reads')"
  shows "re_recording reads' = re_recording reads" "re_unknown reads' = re_unknown reads"
  using assms by (auto simp: read_noting_def Let_def split: if_splits sum.splits prod.splits)

lemma record_simps [simp]:
  "re_recording (record_known r v reads) = re_recording reads"
  "re_unknown (record_known r v reads) = re_unknown reads"
  "re_recording (record_unknown v reason reads) = re_recording reads"
  "re_recording (truncate_unknown n reads) = re_recording reads"
  "re_unknown (truncate_unknown n reads) = take n (re_unknown reads)"
  by (simp_all add: record_known_def record_unknown_def truncate_unknown_def)

definition keeps_unknown :: "nat \<Rightarrow> Truth \<Rightarrow> Reads \<Rightarrow> Reads \<Rightarrow> bool" where
  "keeps_unknown n t reads reads' \<longleftrightarrow>
     re_recording reads' \<and> take n (re_unknown reads') = take n (re_unknown reads)
     \<and> n \<le> length (re_unknown reads') \<and> (is_unknown t \<longrightarrow> n < length (re_unknown reads'))"

lemma leaf_records:
  assumes "leaf v c r reads decide = (t, reads')" "re_recording reads"
  shows "keeps_unknown (length (re_unknown reads)) t reads reads'"
  using assms read_noting_reads[of r v c reads]
  by (auto simp: leaf_def keeps_unknown_def record_unknown_def bool_truth_def
      split: prod.splits sum.splits if_splits)

lemma integer_side_records:
  assumes "integer_side v c r reads = (x, reads')" "re_recording reads"
  shows "re_recording reads' \<and> (\<exists>us. re_unknown reads' = re_unknown reads @ us \<and> (\<not> is_ok x \<longrightarrow> us \<noteq> []))"
proof -
  obtain y reads1 where y: "read_noting r v c reads = (y, reads1)" by fastforce
  show ?thesis
  proof (cases y)
    case (Inr z)
    with assms read_noting_reads[OF y] show ?thesis
      by (cases z) (auto simp: integer_side_def y record_unknown_def)
  qed (use assms read_noting_reads[OF y] in \<open>auto simp: integer_side_def y record_unknown_def\<close>)
qed

lemma keeps_unknown_start:
  assumes "keeps_unknown (length (re_unknown reads)) t reads reads1" "start \<le> length (re_unknown reads)"
  shows "take start (re_unknown reads1) = take start (re_unknown reads)"
    "start \<le> length (re_unknown reads1)" "re_recording reads1"
    "is_unknown t \<or> start < length (re_unknown reads) \<Longrightarrow> start < length (re_unknown reads1)"
  using assms by (auto simp: keeps_unknown_def dest: arg_cong[of _ _ "take start"])

lemma truth_records:
  "truth p c r reads = (t, reads') \<Longrightarrow> re_recording reads
     \<Longrightarrow> keeps_unknown (length (re_unknown reads)) t reads reads'"
  "truth_all ps c r start u reads = (t, reads') \<Longrightarrow> re_recording reads \<Longrightarrow> start \<le> length (re_unknown reads)
     \<Longrightarrow> (u \<noteq> None \<longrightarrow> start < length (re_unknown reads)) \<Longrightarrow> keeps_unknown start t reads reads'"
  "truth_any ps c r start u reads = (t, reads') \<Longrightarrow> re_recording reads \<Longrightarrow> start \<le> length (re_unknown reads)
     \<Longrightarrow> (u \<noteq> None \<longrightarrow> start < length (re_unknown reads)) \<Longrightarrow> keeps_unknown start t reads reads'"
proof (induction p c r reads and ps c r start u reads and ps c r start u reads
       arbitrary: t reads' and t reads' and t reads' rule: truth_truth_all_truth_any.induct)
  case (6 left cop right mul add c r reads)
  obtain l reads1 where l: "integer_side left c r reads = (l, reads1)" by fastforce
  obtain rt reads2 where rt: "integer_side right c r reads1 = (rt, reads2)" by fastforce
  obtain us where us: "re_recording reads1" "re_unknown reads1 = re_unknown reads @ us" "\<not> is_ok l \<longrightarrow> us \<noteq> []"
    using integer_side_records[OF l] 6(2) by blast
  obtain vs where vs: "re_recording reads2" "re_unknown reads2 = re_unknown reads1 @ vs" "\<not> is_ok rt \<longrightarrow> vs \<noteq> []"
    using integer_side_records[OF rt us(1)] by blast
  show ?case using 6(1) us vs
    by (auto simp: l rt keeps_unknown_def bool_truth_def split: sum.splits if_splits)
next
  case (9 p c r reads)
  then obtain t1 where t1: "truth p c r reads = (t1, reads')" "t = truth_not t1"
    by (auto split: prod.splits)
  from "9.IH"[OF t1(1) "9.prems"(2)] t1(2) show ?case by (cases t1) (auto simp: keeps_unknown_def)
next
  case (11 p ps c r start u reads)
  obtain t1 reads1 where t1: "truth p c r reads = (t1, reads1)" by fastforce
  note s = keeps_unknown_start[OF "11.IH"(1)[OF t1 "11.prems"(2)] "11.prems"(3)]
  show ?case
  proof (cases t1)
    case TruthFalse
    with "11.prems" t1 s(1-3) show ?thesis by (auto simp: keeps_unknown_def)
  next
    case TruthTrue
    with "11.prems" t1 s "11.IH"(2)[OF t1[symmetric] TruthTrue] show ?thesis by (auto simp: keeps_unknown_def)
  next
    case (TruthUnknown reason)
    with "11.prems" t1 s "11.IH"(3)[OF t1[symmetric] TruthUnknown] show ?thesis
      by (auto simp: keeps_unknown_def)
  qed
next
  case (13 p ps c r start u reads)
  obtain t1 reads1 where t1: "truth p c r reads = (t1, reads1)" by fastforce
  note s = keeps_unknown_start[OF "13.IH"(1)[OF t1 "13.prems"(2)] "13.prems"(3)]
  show ?case
  proof (cases t1)
    case TruthTrue
    with "13.prems" t1 s(1-3) show ?thesis by (auto simp: keeps_unknown_def)
  next
    case TruthFalse
    with "13.prems" t1 s "13.IH"(2)[OF t1[symmetric] TruthFalse] show ?thesis by (auto simp: keeps_unknown_def)
  next
    case (TruthUnknown reason)
    with "13.prems" t1 s "13.IH"(3)[OF t1[symmetric] TruthUnknown] show ?thesis
      by (auto simp: keeps_unknown_def)
  qed
qed (auto simp: keeps_unknown_def dest!: leaf_records split: option.splits)

section \<open>The collected verdict\<close>

lemma note_unknown_some: "note_unknown i us x \<noteq> []"
  by (auto simp: note_unknown_def Let_def)

lemma notes_empty: "foldl (note_unknown i) us xs = [] \<longleftrightarrow> us = [] \<and> xs = []"
  by (induction xs arbitrary: us) (auto simp: note_unknown_some)

lemma collect_gatesD:
  assumes "collect_gates c r reads us gates = Inr (reads', us')" "re_recording reads"
  shows "(us' = [] \<longleftrightarrow> us = [] \<and> list_all (\<lambda>g. meaning (candidate_env r c) (hg_predicate g) = TruthTrue) gates)
    \<and> list_all (\<lambda>g. meaning (candidate_env r c) (hg_predicate g) \<noteq> TruthFalse) gates"
  using assms
proof (induction gates arbitrary: reads us)
  case (Cons gate gates)
  obtain t reads1 where t: "truth (hg_predicate gate) c r reads = (t, reads1)" by fastforce
  have m: "meaning (candidate_env r c) (hg_predicate gate) = t"
    using truth_is_meaning(1)[of "hg_predicate gate" c r reads] t by simp
  note k = truth_records(1)[OF t Cons.prems(2)]
  show ?case
    using Cons.prems Cons.IH[of "truncate_unknown (length (re_unknown reads)) reads1"] k
    by (cases t) (auto simp: t m Let_def keeps_unknown_def notes_empty)
qed simp

lemma collect_gates_rejected:
  assumes "collect_gates c r reads us gates = Inl cc" "re_recording reads"
  shows "\<exists>gate\<in>set gates. meaning (candidate_env r c) (hg_predicate gate) = TruthFalse
    \<and> cc_verdict cc = CollectedGateRejected (hg_gate_id gate)"
  using assms
proof (induction gates arbitrary: reads us)
  case (Cons gate gates)
  obtain t reads1 where t: "truth (hg_predicate gate) c r reads = (t, reads1)" by fastforce
  have m: "meaning (candidate_env r c) (hg_predicate gate) = t"
    using truth_is_meaning(1)[of "hg_predicate gate" c r reads] t by simp
  note k = truth_records(1)[OF t Cons.prems(2)]
  show ?case
    using Cons.prems Cons.IH[of "truncate_unknown (length (re_unknown reads)) reads1"] k
    by (cases t) (auto simp: t m Let_def keeps_unknown_def)
qed simp

lemma collect_termsD:
  assumes "collect_terms c r reads us tot trms = Inr (reads', us', tot')"
  shows "(us' = [] \<longleftrightarrow> us = [] \<and> list_all (\<lambda>t. is_ok (term_resolved (candidate_env r c) t)) trms)
    \<and> (us' = [] \<longrightarrow> (\<forall>s. tot = Some s \<longrightarrow>
        (\<exists>x. scores_sum (candidate_env r c) trms = Some x \<and> tot' = Some (s + x))))"
  using assms
proof (induction trms arbitrary: reads us tot)
  case (Cons trm trms)
  show ?case
  proof (cases "term_resolved (candidate_env r c) trm")
    case (Inl e)
    then show ?thesis
      using Cons.prems Cons.IH[of reads "note_unknown (sg_term_id trm) us (sg_value trm, e)" None]
      by (auto simp: term_resolved_def note_unknown_some)
  next
    case (Inr out)
    show ?thesis
    proof (cases tot)
      case None
      with Inr Cons.prems Cons.IH[of "record_known r (sg_value trm) reads" us None] show ?thesis
        by (auto simp: term_resolved_def Let_def)
    next
      case (Some s)
      with Inr Cons.prems obtain m where m:
          "i64_try_from (contribution out (sg_weight_milli trm)) = Some m"
          "collect_terms c r (record_known r (sg_value trm) reads) us (Some (s + sint m)) trms
             = Inr (reads', us', tot')"
        by (auto simp: term_resolved_def Let_def result_simps term_contribution_def)
      have "term_score (candidate_env r c) trm = Some m"
        using Inr m(1) by (simp add: term_score_def term_output_def)
      with Cons.IH[OF m(2)] Inr Some show ?thesis by (auto simp: add.assoc)
    qed
  qed
qed simp

definition all_known :: "SelectionPolicy \<Rightarrow> reading_env \<Rightarrow> bool" where
  "all_known p env \<longleftrightarrow>
     list_all (\<lambda>g. meaning env (hg_predicate g) = TruthTrue) (sp_gates p)
     \<and> list_all (\<lambda>t. is_ok (term_resolved env t)) (sp_scoring p)"

definition some_gate_false :: "SelectionPolicy \<Rightarrow> reading_env \<Rightarrow> bool" where
  "some_gate_false p env \<longleftrightarrow> list_ex (\<lambda>g. meaning env (hg_predicate g) = TruthFalse) (sp_gates p)"

lemma some_gate_false_unranked: "some_gate_false p (candidate_env r c) \<Longrightarrow> rank_of p c r = None"
  by (auto simp: some_gate_false_def rank_of_def list_ex_iff list_all_iff gate_keeps_def
      split: Truth.splits)

lemma all_known_gates: "all_known p env \<Longrightarrow> list_all (gate_keeps env) (sp_gates p)"
  by (auto simp: all_known_def list_all_iff gate_keeps_def)

lemma unknown_somewhere:
  assumes "\<not> all_known p env" "\<not> some_gate_false p env"
  shows "(\<exists>gate\<in>set (sp_gates p). \<exists>reason. meaning env (hg_predicate gate) = TruthUnknown reason)
    \<or> (\<exists>trm\<in>set (sp_scoring p). \<exists>reason. term_resolved env trm = Inl reason)"
proof -
  have "t = TruthTrue \<or> t = TruthFalse \<or> (\<exists>reason. t = TruthUnknown reason)" for t by (cases t) auto
  moreover have "is_ok x \<or> (\<exists>reason. x = Inl reason)" for x :: "(UnknownReason, i64) result" by (cases x) auto
  ultimately show ?thesis
    using assms unfolding all_known_def some_gate_false_def list_all_iff list_ex_iff by metis
qed

lemma collected_verdict:
  assumes "collect_candidate p r c = Inr cc"
  shows "case cc_verdict cc of
      CollectedGateRejected g \<Rightarrow>
        (\<exists>gate\<in>set (sp_gates p). hg_gate_id gate = g
           \<and> meaning (candidate_env r c) (hg_predicate gate) = TruthFalse)
    | CollectedScored s \<Rightarrow> all_known p (candidate_env r c) \<and> map_option rk_score_milli (rank_of p c r) = Some s
    | CollectedUnknown us \<Rightarrow> us \<noteq> [] \<and> \<not> all_known p (candidate_env r c) \<and> \<not> some_gate_false p (candidate_env r c)"
proof (cases "collect_gates c r reads_recording [] (sp_gates p)")
  case (Inl rejected)
  with assms have "cc = rejected" by (simp add: collect_candidate_def)
  with collect_gates_rejected[OF Inl] show ?thesis
    by (auto simp: reads_recording_def)
next
  case (Inr ru)
  then obtain reads us where g: "collect_gates c r reads_recording [] (sp_gates p) = Inr (reads, us)"
    by (cases ru) auto
  have rec: "re_recording reads_recording" by (simp add: reads_recording_def)
  note gD = collect_gatesD[OF g rec]
  from assms obtain reads' us' tot' where t:
      "collect_terms c r reads us (if us = [] then Some 0 else None) (sp_scoring p) = Inr (reads', us', tot')"
    by (auto simp: collect_candidate_def g result_simps)
  note tD = collect_termsD[OF t]
  have nf: "\<not> some_gate_false p (candidate_env r c)"
    using gD by (auto simp: some_gate_false_def list_ex_iff list_all_iff)
  show ?thesis
  proof (cases "us' = []")
    case True
    with tD gD have k: "us = []" "all_known p (candidate_env r c)" by (auto simp: all_known_def)
    with tD True obtain x where x: "scores_sum (candidate_env r c) (sp_scoring p) = Some x" "tot' = Some x"
      by auto
    with assms g t True obtain s where "i64_try_from x = Some s" "cc_verdict cc = CollectedScored s"
      by (auto simp: collect_candidate_def result_simps)
    with k x all_known_gates[OF k(2)] show ?thesis by (simp add: rank_of_def)
  next
    case False
    with tD gD have "\<not> all_known p (candidate_env r c)" by (auto simp: all_known_def)
    with False nf assms g t show ?thesis by (auto simp: collect_candidate_def)
  qed
qed

end
