(* ===== verification/Selection_Inputs.thy ===== *)
theory Selection_Inputs
  imports Selection_Tables
begin

text \<open>
  The inputs of a selection against their reference definitions: the index of a loaded table
  against a scan of its rows, and the snapshot built of an instance's records against the
  resolution rule of the contract, which both take the most specific scope of a key.
\<close>

section \<open>Finding a row\<close>

lemma length_null_columns: "length (foldl (null_column positions) rows columns) = length rows"
  by (induction columns arbitrary: rows) (auto simp: null_column_def split: option.splits)

lemma find_filter: "List.find P (filter Q xs) = List.find (\<lambda>x. Q x \<and> P x) xs"
  by (induction xs) auto

definition keyed_rows :: "nat \<Rightarrow> str \<Rightarrow> (nat \<times> StandardPackTableCell list) list \<Rightarrow> nat list" where
  "keyed_rows pos key irs = map fst (filter (\<lambda>ir. get_at (snd ir) pos = Some (CellText key)) irs)"

lemma index_row_get:
  "bt_get (index_row pos m ir) key =
     (if get_at (snd ir) pos = Some (CellText key)
      then Some ((case bt_get m key of None \<Rightarrow> [] | Some js \<Rightarrow> js) @ [fst ir])
      else bt_get m key)"
proof (cases "get_at (snd ir) pos")
  case (Some cell)
  then show ?thesis by (cases cell) (auto simp: index_row_def)
qed (simp add: index_row_def)

lemma index_rows:
  "bt_get (foldl (index_row pos) m irs) key =
     (case keyed_rows pos key irs of
        [] \<Rightarrow> bt_get m key
      | is \<Rightarrow> Some ((case bt_get m key of None \<Rightarrow> [] | Some js \<Rightarrow> js) @ is))"
proof (induction irs arbitrary: m)
  case (Cons ir irs)
  have k: "keyed_rows pos key (ir # irs) =
      (if get_at (snd ir) pos = Some (CellText key) then fst ir # keyed_rows pos key irs
       else keyed_rows pos key irs)"
    by (simp add: keyed_rows_def)
  show ?case
    by (auto simp: Cons k index_row_get split: list.splits option.splits)
qed (simp add: keyed_rows_def)

lemma keyed_rows_enumerate:
  "keyed_rows pos key (enumerate 0 rows) =
     filter (\<lambda>i. get_at (rows ! i) pos = Some (CellText key)) [0..<length rows]"
proof -
  have "enumerate 0 rows = map (\<lambda>i. (i, rows ! i)) [0..<length rows]"
    by (rule nth_equalityI) (simp_all add: nth_enumerate_eq)
  then show ?thesis by (simp add: keyed_rows_def filter_map o_def)
qed

lemma row_of_load:
  assumes "tb_row_key t = kc # rest"
  shows "row_of (load t now) key pins =
    List.find (\<lambda>i. loaded_cell (load t now) i kc = Some (CellText key) \<and> pins_hold (load t now) pins i)
      [0..<length (tb_rows t)]"
proof (cases "bt_get (ld_positions (load t now)) kc")
  case None
  then have "loaded_cell (load t now) i kc = None" for i by (simp add: loaded_cell_def)
  moreover have "ld_by_key (load t now) = []"
    using None assms by (simp add: load_def Let_def)
  moreover have "List.find (\<lambda>i. False) is = None" for "is" :: "nat list"
    by (simp add: find_None_iff)
  ultimately show ?thesis by (simp add: row_of_def)
next
  case (Some pos)
  define rows where "rows = tb_rows (ld_table (load t now))"
  have len: "length rows = length (tb_rows t)"
    by (simp add: rows_def load_def Let_def length_null_columns)
  have cell: "loaded_cell (load t now) i kc = get_at (rows ! i) pos" if "i < length rows" for i
    using that Some by (simp add: loaded_cell_def rows_def get_at_def)
  have idx: "ld_by_key (load t now) = foldl (index_row pos) [] (enumerate 0 rows)"
    using Some assms by (simp add: load_def rows_def Let_def)
  have "bt_get (ld_by_key (load t now)) key =
      (case keyed_rows pos key (enumerate 0 rows) of [] \<Rightarrow> None | is \<Rightarrow> Some is)"
    unfolding idx index_rows by (simp split: list.splits)
  then have "row_of (load t now) key pins =
      List.find (pins_hold (load t now) pins) (keyed_rows pos key (enumerate 0 rows))"
    by (simp add: row_of_def split: list.splits)
  also have "keyed_rows pos key (enumerate 0 rows) =
      filter (\<lambda>i. loaded_cell (load t now) i kc = Some (CellText key)) [0..<length rows]"
    unfolding keyed_rows_enumerate by (rule filter_cong) (simp_all add: cell)
  finally show ?thesis by (simp add: find_filter len)
qed

section \<open>The most specific record\<close>

definition key_records :: "str \<Rightarrow> FactRecord list \<Rightarrow> FactRecord list" where
  "key_records key rs = filter (\<lambda>r. fr_key r = key) rs"

text \<open>The first of the most specific records, as \<open>choose_record\<close> keeps it.\<close>

fun first_best :: "FactRecord option \<Rightarrow> FactRecord list \<Rightarrow> FactRecord option" where
  "first_best best [] = best"
| "first_best best (r # rs) =
     first_best (case best of
                   None \<Rightarrow> Some r
                 | Some b \<Rightarrow> if scope_specificity (fr_scope r) \<le> scope_specificity (fr_scope b) then Some b else Some r) rs"

lemma scope_specificity_le:
  "scope_specificity a \<le> scope_specificity b \<longleftrightarrow> specificity a \<le> specificity b"
  by (cases a; cases b) (simp_all add: word_le_nat_alt)

definition chosen_entry :: "str list \<Rightarrow> FactRecord \<Rightarrow> u8 \<times> SelectionFactEntry" where
  "chosen_entry ls r = (scope_specificity (fr_scope r), entry_for r (fr_key r \<in> set ls))"

lemma choose_records:
  assumes "bt_get m key = map_option (chosen_entry ls) best"
  shows "bt_get (foldl (choose_record ls) m rs) key =
    map_option (chosen_entry ls) (first_best best (key_records key rs))"
  using assms
proof (induction rs arbitrary: m best)
  case (Cons r rs)
  show ?case
  proof (cases "fr_key r = key")
    case True
    define best' where "best' = (case best of
                   None \<Rightarrow> Some r
                 | Some b \<Rightarrow> if scope_specificity (fr_scope r) \<le> scope_specificity (fr_scope b) then Some b else Some r)"
    have "bt_get (choose_record ls m r) key = map_option (chosen_entry ls) best'"
      using Cons.prems True
      by (cases best) (auto simp: choose_record_def best'_def chosen_entry_def Let_def)
    from Cons.IH[OF this] True show ?thesis by (simp add: key_records_def best'_def)
  next
    case False
    then have "bt_get (choose_record ls m r) key = bt_get m key"
      by (auto simp: choose_record_def Let_def split: option.splits)
    with Cons.IH[of "choose_record ls m r" best] Cons.prems False show ?thesis
      by (simp add: key_records_def)
  qed
qed (simp add: key_records_def)

lemma validate_records_distinct:
  "validate_records applies seen rs = Inr () \<Longrightarrow>
     distinct (map (\<lambda>r. (fr_scope r, fr_key r)) rs)
     \<and> set (map (\<lambda>r. (fr_scope r, fr_key r)) rs) \<inter> set seen = {}
     \<and> (\<forall>r\<in>set rs. applies (fr_scope r))"
  by (induction rs arbitrary: seen) (fastforce simp: result_simps split: if_splits)+

lemma scope_matches_specificity:
  "scope_matches a ctx \<Longrightarrow> scope_matches b ctx \<Longrightarrow> specificity a = specificity b \<Longrightarrow> a = b"
  by (cases a; cases b) auto

text \<open>With every specificity at most once, the first and the last most specific record are the
  same.\<close>

lemma first_best_max:
  assumes "distinct (map (\<lambda>r. specificity (fr_scope r)) rs)"
    and "\<And>b. best = Some b \<Longrightarrow> specificity (fr_scope b) \<notin> (\<lambda>r. specificity (fr_scope r)) ` set rs"
  shows "first_best best rs =
    (case (best, max_by_key (\<lambda>r. specificity (fr_scope r)) rs) of
       (None, x) \<Rightarrow> x
     | (Some b, None) \<Rightarrow> Some b
     | (Some b, Some x) \<Rightarrow> if specificity (fr_scope x) < specificity (fr_scope b) then Some b else Some x)"
  using assms
proof (induction rs arbitrary: best)
  case (Cons r rs)
  have mem: "x \<in> set rs" if "max_by_key (\<lambda>r. specificity (fr_scope r)) rs = Some x" for x
    using that by (induction rs arbitrary: x) (auto split: option.splits if_splits)
  show ?case
  proof (cases best)
    case None
    with Cons.IH[of "Some r"] Cons.prems show ?thesis by (auto split: option.splits)
  next
    case (Some b)
    define best' where
      "best' = (if scope_specificity (fr_scope r) \<le> scope_specificity (fr_scope b) then Some b else Some r)"
    have "first_best best (r # rs) = first_best best' rs" by (simp add: Some best'_def)
    also have "\<dots> = (case (best', max_by_key (\<lambda>r. specificity (fr_scope r)) rs) of
       (None, x) \<Rightarrow> x
     | (Some b, None) \<Rightarrow> Some b
     | (Some b, Some x) \<Rightarrow> if specificity (fr_scope x) < specificity (fr_scope b) then Some b else Some x)"
      by (rule Cons.IH) (use Cons.prems Some in \<open>auto simp: best'_def split: if_splits\<close>)
    finally show ?thesis
      using Cons.prems Some mem
      by (auto simp: best'_def scope_specificity_le split: option.splits if_splits)
  qed
qed (simp split: option.splits)

definition most_specific :: "InstanceFactSnapshot \<Rightarrow> str \<Rightarrow> FactRecord option" where
  "most_specific s key =
     max_by_key (\<lambda>r. specificity (fr_scope r))
       (filter (\<lambda>r. fr_key r = key \<and> scope_matches (fr_scope r) (is_context s)) (is_records s))"

lemma resolve_fact_most_specific:
  "resolve_fact s key now =
     (case most_specific s key of
        None \<Rightarrow> Unknown FuMissing key
      | Some r \<Rightarrow>
          if record_is_expired r now then Unknown FuExpired key
          else if fr_confidence_milli r = 0 then Unknown FuLowConfidence key
          else Known r)"
  by (simp add: resolve_fact_def most_specific_def)

lemma snapshot_entry:
  assumes "instance_snapshot_validate s = Inr ()"
  shows "bt_get (sf_facts (from_instance_snapshot_with_lists s at ls)) key =
    map_option (\<lambda>r. entry_for r (key \<in> set ls)) (most_specific s key)"
proof -
  define rs where "rs = filter (\<lambda>r. scope_matches (fr_scope r) (is_context s)) (is_records s)"
  define ks where "ks = key_records key rs"
  have ks: "ks = filter (\<lambda>r. fr_key r = key \<and> scope_matches (fr_scope r) (is_context s)) (is_records s)"
    by (simp add: ks_def rs_def key_records_def conj_commute)
  from assms have d: "distinct (map (\<lambda>r. (fr_scope r, fr_key r)) (is_records s))"
    using validate_records_distinct[of _ "[]" "is_records s"]
    by (auto simp: instance_snapshot_validate_def result_simps split: if_splits)
  have "distinct (map (\<lambda>r. specificity (fr_scope r)) ks)"
  proof (simp add: distinct_map, intro conjI inj_onI)
    show "distinct ks" using d by (simp add: ks distinct_map)
    fix a b assume ab: "a \<in> set ks" "b \<in> set ks" "specificity (fr_scope a) = specificity (fr_scope b)"
    then have "fr_scope a = fr_scope b" "fr_key a = fr_key b"
      by (auto simp: ks intro: scope_matches_specificity)
    with ab d show "a = b" by (auto simp: ks distinct_map inj_on_def)
  qed
  then have best: "first_best None ks = most_specific s key"
    using first_best_max[of ks None] by (simp add: most_specific_def ks)
  have mem: "r \<in> set ks" if "max_by_key f ks = Some r" for f r and ks :: "FactRecord list"
    using that by (induction ks arbitrary: r) (auto split: option.splits if_splits)
  have "bt_get (foldl (choose_record ls) [] rs) key = map_option (chosen_entry ls) (most_specific s key)"
    using choose_records[of "[]" key ls None rs] best by (simp add: ks_def)
  moreover have "fr_key r = key" if "most_specific s key = Some r" for r
    using mem[OF that[unfolded most_specific_def]] by simp
  moreover have "sf_facts (from_instance_snapshot_with_lists s at ls) =
      map (\<lambda>(k, v). (k, snd v)) (foldl (choose_record ls) [] rs)"
    by (simp add: from_instance_snapshot_with_lists_def from_fact_records_with_lists_def rs_def
        case_prod_unfold)
  ultimately show ?thesis
    by (cases "most_specific s key") (auto simp: map_of_map chosen_entry_def)
qed

end
