(* ===== verification/Selection_Example.thy ===== *)
theory Selection_Example
  imports Selection_Ranking Selection_Bound_Sound Selection_Collect Selection_Inputs
begin

text \<open>
  A small selection the properties are instantiated at: two fields, one gate that passes a
  candidate whose input is unknown, one term, one chosen candidate.
\<close>

definition ex_policy :: SelectionPolicy where
  "ex_policy =
     \<lparr>sp_schema_version = SELECTION_POLICY_SCHEMA_VERSION, sp_policy_id = [112],
      sp_applies_to =
        \<lparr>at_candidate_layout_id = [108],
         at_outcome_keys = \<lparr>ok_selected = [115], ok_empty = [101], ok_insufficient = [105],
                            ok_ambiguous = [97], ok_unknown = [117]\<rparr>\<rparr>,
      sp_fields = [\<lparr>fd_name = [105], fd_value_type = VtEnumString [[97], [98]]\<rparr>,
                   \<lparr>fd_name = [110], fd_value_type = VtInteger\<rparr>],
      sp_facts = [], sp_tables = [],
      sp_gates = [\<lparr>hg_gate_id = [103], hg_predicate = IntegerAtLeast (VrField [110]) 1,
                   hg_on_unknown = SubstituteVerdict True\<rparr>],
      sp_scoring = [\<lparr>sg_term_id = [116], sg_value = VrField [110], sg_transform = TfIdentity,
                     sg_weight_milli = 1000, sg_on_unknown = SubstituteMilli 7\<rparr>],
      sp_selection = \<lparr>sr_mode = TopK, sr_required_count = 1\<rparr>,
      sp_tie_break = [TbCandidateId LowestFirst]\<rparr>"

definition ex_first :: Candidate where
  "ex_first = \<lparr>ca_candidate_id = [97], ca_fields = [([105], SvString [97]), ([110], SvInteger 5)]\<rparr>"

definition ex_second :: Candidate where
  "ex_second = \<lparr>ca_candidate_id = [98], ca_fields = [([105], SvString [98]), ([110], SvInteger 3)]\<rparr>"

definition ex_unread :: Candidate where
  "ex_unread = \<lparr>ca_candidate_id = [97], ca_fields = [([105], SvString [97])]\<rparr>"

definition ex_facts :: SelectionFactSnapshot where
  "ex_facts = \<lparr>sf_snapshot_id = [102], sf_snapshot_at_unix_ms = 1, sf_facts = []\<rparr>"

definition ex_domains :: "i64 \<Rightarrow> (str, FieldDomain) btree" where
  "ex_domains hi = [([105], DomIdentity), ([110], DomInteger 0 hi)]"

definition ex_canonical :: Canonical where
  "ex_canonical = \<lparr>cn_policy_sha256 = (\<lambda>_. Inr []), cn_input_sha256 = (\<lambda>_. Inr [])\<rparr>"

abbreviation ex_resolver :: Resolver where
  "ex_resolver \<equiv> resolver_new ex_policy ex_facts [] no_tables 1"

lemma ex_valid: "policy_validate ex_policy = Inr ()"
  by (simp add: ex_policy_def policy_validate_def policy_scope_def check_id_def check_limit_def
      each_def selection_limits str_len_def utf8_width_def check_gate_def check_term_def
      check_tie_break_def check_requirement_def enter_predicate_def expect_def scope_field_def
      reads_keyed_fact_def reads_table_def check_class_gate_def is_record_list_def)

lemma ex_candidates: "check_candidate_set [ex_first, ex_second] = Inr ()"
    "check_candidate_set [ex_second, ex_first] = Inr ()"
  by (simp_all add: check_candidate_set_def ex_first_def ex_second_def selection_limits)

lemma ex_bound: "check_bound no_tables ex_policy = Inr ()"
  by (simp add: check_bound_def ex_policy_def)

lemma ex_lists: "read_lists ex_policy ex_facts 1 = Inr []"
  by (simp add: read_lists_def ex_policy_def value_refs_def List.map_filter_def)

lemma ex_read:
  "read_value ex_resolver (VrField [110]) ex_first = Inr (SvInteger 5)"
  "read_value ex_resolver (VrField [110]) ex_second = Inr (SvInteger 3)"
  "read_value ex_resolver (VrField [110]) ex_unread = Inl UrFieldMissing"
  by (simp_all add: read_value_def read_field_def resolver_new_def ex_policy_def ex_first_def
      ex_second_def ex_unread_def bt_from_def)

lemma ex_milli [simp]: "contribution 5 1000 = 5" "contribution 3 1000 = 3" "contribution 7 1000 = 7"
    "i64_try_from 5 = Some 5" "i64_try_from 3 = Some 3" "i64_try_from 7 = Some 7"
  by (simp_all add: contribution_def sdiv_pos i64_try_from_def)

lemma ex_parts:
  "sp_gates ex_policy = [\<lparr>hg_gate_id = [103], hg_predicate = IntegerAtLeast (VrField [110]) 1,
     hg_on_unknown = SubstituteVerdict True\<rparr>]"
  "sp_scoring ex_policy = [\<lparr>sg_term_id = [116], sg_value = VrField [110], sg_transform = TfIdentity,
     sg_weight_milli = 1000, sg_on_unknown = SubstituteMilli 7\<rparr>]"
  "sp_tie_break ex_policy = [TbCandidateId LowestFirst]"
  "sp_fields ex_policy = [\<lparr>fd_name = [105], fd_value_type = VtEnumString [[97], [98]]\<rparr>,
     \<lparr>fd_name = [110], fd_value_type = VtInteger\<rparr>]"
  "sp_selection ex_policy = \<lparr>sr_mode = TopK, sr_required_count = 1\<rparr>"
  by (simp_all add: ex_policy_def)

lemma ex_ids [simp]: "ca_candidate_id ex_first = [97]" "ca_candidate_id ex_second = [98]"
    "ca_candidate_id ex_unread = [97]"
  by (simp_all add: ex_first_def ex_second_def ex_unread_def)

lemma ex_ranks:
  "rank_of ex_policy ex_first ex_resolver =
     Some \<lparr>rk_candidate_id = [97], rk_score_milli = 5, rk_keys = [(Inr (SvString [97]), LowestFirst)]\<rparr>"
  "rank_of ex_policy ex_second ex_resolver =
     Some \<lparr>rk_candidate_id = [98], rk_score_milli = 3, rk_keys = [(Inr (SvString [98]), LowestFirst)]\<rparr>"
  "rank_of ex_policy ex_unread ex_resolver =
     Some \<lparr>rk_candidate_id = [97], rk_score_milli = 7, rk_keys = [(Inr (SvString [97]), LowestFirst)]\<rparr>"
  by (simp_all add: rank_of_def gate_keeps_def term_score_def term_output_def term_resolved_def
      tie_break_key_def ex_parts ex_read bool_truth_def)

lemma ex_settles: "list_all (settles ex_policy ex_resolver) [ex_first, ex_second, ex_unread]"
  using ex_ranks[folded assess_ranks] by (auto simp: settles_def)

lemma ex_evaluates:
  assumes "cs = [ex_first, ex_second] \<or> cs = [ex_second, ex_first]"
  obtains d where "evaluate_with_tables ex_canonical ex_policy no_tables cs ex_facts 1 = Inr d"
    "\<not> is_out_unknown (sd_outcome d)"
  by (rule evaluate_settled[OF ex_valid _ ex_bound _ _ ex_lists, of cs ex_canonical "[]" "[]"])
    (use assms ex_candidates ex_settles in \<open>auto simp: ex_canonical_def\<close>)

text \<open>The bound over the domain \<open>0..=5\<close>, and over the single value \<open>0\<close>, for which the gate
  holds nowhere.\<close>

lemma ex_upper_bound:
  "upper_bound_with_tables ex_policy no_tables ex_facts 1 [[97], [98]] (ex_domains 5) = Inr (MaxScore 7)"
  "upper_bound_with_tables ex_policy no_tables ex_facts 1 [[97], [98]] (ex_domains 0) = Inr NoneEligible"
  by (simp_all add: upper_bound_with_tables_def ex_valid ex_bound ex_lists ex_parts check_domain_def
      ex_domains_def table_key_fields_def value_refs_def List.map_filter_def hypothesis_score_def
      Let_def reads_table_def integer_possible_def hypothesis_read_def hypothesis_of_def
      possible_decided_def outputs_def contribution_def i64_try_from_def sdiv_pos)

text \<open>The same document with a lookup in place of the identity.\<close>

definition ex_lookup :: SelectionPolicy where
  "ex_lookup = ex_policy
     \<lparr>sp_scoring := [\<lparr>sg_term_id = [116], sg_value = VrField [110],
                     sg_transform = TfLookup [\<lparr>lu_key = LkInteger 1, lu_value_milli = 9\<rparr>] None,
                     sg_weight_milli = 1000, sg_on_unknown = TermDropCandidate\<rparr>]\<rparr>"

lemma ex_lookup_valid: "policy_validate ex_lookup = Inr ()"
  by (simp add: ex_lookup_def ex_policy_def policy_validate_def policy_scope_def check_id_def
      check_limit_def each_def selection_limits str_len_def utf8_width_def check_gate_def
      check_term_def check_tie_break_def check_requirement_def enter_predicate_def expect_def
      scope_field_def reads_keyed_fact_def reads_table_def check_class_gate_def is_record_list_def)

lemma ex_tables: "bind_tables ex_policy [] = Inr no_tables" "bind_tables ex_lookup [] = Inr no_tables"
  by (simp_all add: bind_tables_def ex_lookup_def ex_policy_def no_tables_def)

lemma ex_lookup_lists: "read_lists ex_lookup ex_facts 1 = Inr []"
  by (simp add: read_lists_def ex_lookup_def ex_policy_def value_refs_def List.map_filter_def)

lemma ex_lookup_read:
  "read_value (resolver_new ex_lookup ex_facts [] no_tables 1) (VrField [110]) ex_first = Inr (SvInteger 5)"
  by (simp add: read_value_def read_field_def resolver_new_def ex_lookup_def ex_policy_def ex_first_def
      bt_from_def)

text \<open>The same document with its term twice, and a candidate of the largest value: each contribution
  fits, their sum does not.\<close>

definition ex_twice :: SelectionPolicy where
  "ex_twice = ex_policy
     \<lparr>sp_scoring := sp_scoring ex_policy @ map (\<lambda>t. t\<lparr>sg_term_id := [117]\<rparr>) (sp_scoring ex_policy)\<rparr>"

definition ex_large :: Candidate where
  "ex_large = \<lparr>ca_candidate_id = [97],
     ca_fields = [([105], SvString [97]), ([110], SvInteger 9223372036854775807)]\<rparr>"

abbreviation ex_twice_resolver :: Resolver where
  "ex_twice_resolver \<equiv> resolver_new ex_twice ex_facts [] no_tables 1"

lemma ex_twice_sum:
  "list_all (gate_keeps (candidate_env ex_twice_resolver ex_large)) (sp_gates ex_twice)"
  "scores_sum (candidate_env ex_twice_resolver ex_large) (sp_scoring ex_twice) = Some 18446744073709551614"
proof -
  have "read_value ex_twice_resolver (VrField [110]) ex_large = Inr (SvInteger 9223372036854775807)"
    by (simp add: read_value_def read_field_def resolver_new_def ex_twice_def ex_policy_def ex_large_def
        bt_from_def)
  then show "list_all (gate_keeps (candidate_env ex_twice_resolver ex_large)) (sp_gates ex_twice)"
    "scores_sum (candidate_env ex_twice_resolver ex_large) (sp_scoring ex_twice) = Some 18446744073709551614"
    by (simp_all add: ex_twice_def ex_parts gate_keeps_def bool_truth_def term_score_def term_output_def
        term_resolved_def contribution_def sdiv_pos i64_try_from_def)
qed

end
