(* ===== verification/Selection_Properties.thy ===== *)
theory Selection_Properties
  imports Selection_Example
begin

text \<open>
  The properties of the selection policy: the choice and its independence of the order of the
  candidates, the semantics of gates, what a ranked candidate is, type safety of accepted
  documents, the collect option, the width of the arithmetic, and the upper bound.
\<close>

section \<open>The choice\<close>

text \<open>C19. When a document chooses candidates, it chooses exactly as many as it requires, and every
  chosen candidate is better than every other survivor by its score or by a declared tie-break
  key: the candidate id, by which the evaluator sorts last of all, never decides a choice.\<close>

theorem selected_beats_rest:
  assumes e: "evaluate_with_tables canon p T cs facts now = Inr d"
    and sel: "sd_outcome d = OutSelected n"
    and rls: "read_lists p facts now = Inr rls"
    and r: "r = resolver_new p facts rls T now"
    and a: "assess p c r = Inr (Settled v (Some k))" "c \<in> set cs" "ca_candidate_id c \<in> set (sd_selected d)"
    and b: "assess p c' r = Inr (Settled v' (Some k'))" "c' \<in> set cs" "ca_candidate_id c' \<notin> set (sd_selected d)"
  shows "length (sd_selected d) = unat n \<and> \<not> tied k k' \<and>
    (sint (rk_score_milli k') < sint (rk_score_milli k)
     \<or> rk_score_milli k' = rk_score_milli k \<and> compare_keys k k' = Less)"
proof -
  define ks where "ks = ranking p r cs"
  from sel have "\<not> is_out_unknown (sd_outcome d)" by (simp add: is_out_unknown_def)
  with e obtain rls' where "check_candidate_set cs = Inr ()" "read_lists p facts now = Inr rls'"
      "sd_outcome d = decide_outcome (sp_selection p) (ranking p (resolver_new p facts rls' T now) cs)"
      "sd_selected d = selected_ids (sd_outcome d) (ranking p (resolver_new p facts rls' T now) cs)"
    by (rule evaluate_decides)
  with rls r sel have cs: "check_candidate_set cs = Inr ()"
      and oc: "decide_outcome (sp_selection p) ks = OutSelected n"
      and ids: "sd_selected d = selected_ids (OutSelected n) ks"
    by (simp_all add: ks_def)
  note cs = check_candidate_set_distinct[OF cs]
  have len: "length ks \<le> MAX_CANDIDATES"
    using cs length_survivors[of p r cs] by (simp add: ks_def)
  have k: "k \<in> set ks" "rk_candidate_id k = ca_candidate_id c" "of_document (directions p) k"
    using assess_Settled[OF a(1)] a(2) rank_of_SomeD by (auto simp: ks_def survivors_member)
  have k': "k' \<in> set ks" "rk_candidate_id k' = ca_candidate_id c'" "of_document (directions p) k'"
    using assess_Settled[OF b(1)] b(2) rank_of_SomeD by (auto simp: ks_def survivors_member)
  have "score_order (directions p) k k' = Less"
  proof (rule selected_better[OF _ _ _ oc len])
    show "sorted_wrt (\<lambda>k l. score_order (directions p) k l \<noteq> Greater) ks"
      unfolding ks_def by (rule ranking_sorted)
    show "of_document (directions p) x" if "x \<in> set ks" for x
      using that by (simp add: ks_def survivors_of_document)
    show "distinct (map rk_candidate_id ks)" using cs by (simp add: ks_def distinct_ranking)
  qed (use k k' a(3) b(3) ids in simp_all)
  then have "\<not> tied k k'" "sint (rk_score_milli k') < sint (rk_score_milli k)
     \<or> rk_score_milli k' = rk_score_milli k \<and> compare_keys k k' = Less"
    using tied_order[OF k(3) k'(3)] score_order_Less[OF k(3) k'(3)] by simp_all
  moreover have "length (sd_selected d) = unat n"
    using selected_cut[OF oc len] ids by simp
  ultimately show ?thesis by simp
qed

lemma ex_selects:
  obtains d where "evaluate_with_tables ex_canonical ex_policy no_tables [ex_first, ex_second] ex_facts 1 = Inr d"
    "sd_outcome d = OutSelected 1" "sd_selected d = [[97]]"
proof -
  have r: "ranking ex_policy ex_resolver [ex_first, ex_second] =
      [\<lparr>rk_candidate_id = [97], rk_score_milli = 5, rk_keys = [(Inr (SvString [97]), LowestFirst)]\<rparr>,
       \<lparr>rk_candidate_id = [98], rk_score_milli = 3, rk_keys = [(Inr (SvString [98]), LowestFirst)]\<rparr>]"
    by (simp add: ranking_def ex_ranks ranked_order_def score_order_def ex_parts tie_direction_def cmp_def)
  obtain d where d: "evaluate_with_tables ex_canonical ex_policy no_tables [ex_first, ex_second] ex_facts 1 = Inr d"
      "\<not> is_out_unknown (sd_outcome d)"
    by (rule ex_evaluates[of "[ex_first, ex_second]"]) simp_all
  then obtain rls where "read_lists ex_policy ex_facts 1 = Inr rls"
      "sd_outcome d = decide_outcome (sp_selection ex_policy)
         (ranking ex_policy (resolver_new ex_policy ex_facts rls no_tables 1) [ex_first, ex_second])"
      "sd_selected d = selected_ids (sd_outcome d)
         (ranking ex_policy (resolver_new ex_policy ex_facts rls no_tables 1) [ex_first, ex_second])"
    by (rule evaluate_decides)
  with ex_lists have "sd_outcome d = OutSelected 1" "sd_selected d = [[97]]"
    by (simp_all add: r ex_parts decide_outcome_def requested_def tied_def selected_ids_def)
  with d(1) that show ?thesis by blast
qed

theorem selected_beats_rest_witness:
  "\<exists>v k v' k'. assess ex_policy ex_first ex_resolver = Inr (Settled v (Some k))
     \<and> assess ex_policy ex_second ex_resolver = Inr (Settled v' (Some k')) \<and> \<not> tied k k'"
proof -
  obtain d where d: "evaluate_with_tables ex_canonical ex_policy no_tables [ex_first, ex_second] ex_facts 1 = Inr d"
      "sd_outcome d = OutSelected 1" "sd_selected d = [[97]]"
    by (rule ex_selects)
  obtain v k where k: "assess ex_policy ex_first ex_resolver = Inr (Settled v (Some k))"
    using ex_ranks(1) assess_ranks by blast
  obtain v' k' where k': "assess ex_policy ex_second ex_resolver = Inr (Settled v' (Some k'))"
    using ex_ranks(2) assess_ranks by blast
  have "\<not> tied k k'"
    using selected_beats_rest[OF d(1,2) ex_lists refl k _ _ k'] d(3) by simp
  with k k' show ?thesis by blast
qed

text \<open>C20. The choice does not depend on the order in which the candidates are given: a
  permutation of them gives the same outcome and the same chosen candidates in the same order.
  (An evaluation that an unknown input ends names the first such candidate, so it is excluded.)\<close>

theorem selection_order_independent:
  assumes e: "evaluate_with_tables canon p T cs facts now = Inr d"
    and e': "evaluate_with_tables canon p T cs' facts now = Inr d'"
    and m: "mset cs' = mset cs" and known: "\<forall>reason detail. sd_outcome d \<noteq> OutUnknown reason detail"
  shows "sd_outcome d' = sd_outcome d \<and> sd_selected d' = sd_selected d"
proof -
  from known have "\<not> is_out_unknown (sd_outcome d)"
    by (simp add: is_out_unknown_def split: SelectionOutcome.splits)
  with e obtain rls where r: "check_candidate_set cs = Inr ()" "read_lists p facts now = Inr rls"
      "list_all (settles p (resolver_new p facts rls T now)) cs"
      "sd_outcome d = decide_outcome (sp_selection p) (ranking p (resolver_new p facts rls T now) cs)"
      "sd_selected d = selected_ids (sd_outcome d) (ranking p (resolver_new p facts rls T now) cs)"
    by (rule evaluate_decides)
  have "set cs' = set cs" using m by (metis set_mset_mset)
  with r(3) have "list_all (settles p (resolver_new p facts rls T now)) cs'" by (simp add: list_all_iff)
  with e' r(2) have "\<not> is_out_unknown (sd_outcome d')" by (rule evaluate_decided)
  with e' obtain rls' where r': "read_lists p facts now = Inr rls'"
      "sd_outcome d' = decide_outcome (sp_selection p) (ranking p (resolver_new p facts rls' T now) cs')"
      "sd_selected d' = selected_ids (sd_outcome d') (ranking p (resolver_new p facts rls' T now) cs')"
    by (rule evaluate_decides)
  have "ranking p (resolver_new p facts rls T now) cs = ranking p (resolver_new p facts rls T now) cs'"
    using check_candidate_set_distinct[OF r(1)] m by (intro ranking_order_independent) simp_all
  with r r' show ?thesis by simp
qed

theorem selection_order_independent_witness:
  "\<exists>d d'. evaluate_with_tables ex_canonical ex_policy no_tables [ex_first, ex_second] ex_facts 1 = Inr d
     \<and> evaluate_with_tables ex_canonical ex_policy no_tables [ex_second, ex_first] ex_facts 1 = Inr d'
     \<and> sd_selected d' = [[97]]"
proof -
  obtain d where d: "evaluate_with_tables ex_canonical ex_policy no_tables [ex_first, ex_second] ex_facts 1 = Inr d"
      "sd_outcome d = OutSelected 1" "sd_selected d = [[97]]"
    by (rule ex_selects)
  obtain d' where d': "evaluate_with_tables ex_canonical ex_policy no_tables [ex_second, ex_first] ex_facts 1 = Inr d'"
    by (rule ex_evaluates[of "[ex_second, ex_first]"]) simp_all
  have "sd_selected d' = sd_selected d"
    using selection_order_independent[OF d(1) d'] d(2) by simp
  with d d' show ?thesis by auto
qed

section \<open>Gates and terms\<close>

text \<open>C21. The evaluator's short-circuiting loops, with what they record along the way, compute
  Kleene's three-valued logic over the values the references read, with the reason of the first
  unknown member in document order.\<close>

theorem gate_truth_is_kleene: "fst (truth p c r reads) = meaning (candidate_env r c) p"
  by (rule truth_is_meaning)

text \<open>C22. Learning more never changes a decided gate: where a second evaluation reads every value
  the first one read, and possibly more, a gate the first decided has the same truth value.\<close>

theorem decided_gate_stable:
  assumes "\<forall>v x. read_value r v c = Inr x \<longrightarrow> read_value r' v c' = Inr x"
    and "\<forall>reason. fst (truth p c r reads) \<noteq> TruthUnknown reason"
  shows "fst (truth p c' r' reads') = fst (truth p c r reads)"
  unfolding truth_is_meaning
proof (rule meaning_decided)
  show "knows_more (candidate_env r c) (candidate_env r' c')" using assms(1) by (simp add: knows_more_def)
  show "\<not> is_unknown (meaning (candidate_env r c) p)"
    using assms(2) by (cases "meaning (candidate_env r c) p") (simp_all add: truth_is_meaning)
qed

lemma ex_knows_more:
  "\<forall>v x. read_value ex_resolver v ex_unread = Inr x \<longrightarrow> read_value ex_resolver v ex_first = Inr x"
proof (intro allI impI)
  fix v x
  assume x: "read_value ex_resolver v ex_unread = Inr x"
  have f: "read_field ex_resolver f ex_first = Inr y" if "read_field ex_resolver f ex_unread = Inr y" for f y
    using that by (auto simp: read_field_def ex_unread_def ex_first_def result_simps split: if_splits)
  show "read_value ex_resolver v ex_first = Inr x"
    using x by (cases v) (auto simp: read_value_def table_reading_def result_simps dest: f)
qed

theorem decided_gate_stable_witness:
  "fst (truth (StringIn (VrField [105]) [[97]]) ex_first ex_resolver reads_ignored) =
   fst (truth (StringIn (VrField [105]) [[97]]) ex_unread ex_resolver reads_ignored)"
proof (rule decided_gate_stable[OF ex_knows_more])
  have "read_value ex_resolver (VrField [105]) ex_unread = Inr (SvString [97])"
    by (simp add: read_value_def read_field_def resolver_new_def ex_parts ex_unread_def bt_from_def)
  then show "\<forall>reason. fst (truth (StringIn (VrField [105]) [[97]]) ex_unread ex_resolver reads_ignored)
      \<noteq> TruthUnknown reason"
    by (simp add: truth_is_meaning bool_truth_def del: truth.simps)
qed

text \<open>C23. The assessment of a candidate, with its early returns and its verdict, ranks exactly the
  candidates the specification ranks, and as it does: every gate keeps the candidate, every term
  has an output or a substitute, each contribution and their sum fit 64 bits, and the sum is the
  score.\<close>

theorem assessment_ranks_specified:
  "(\<exists>v. assess p c r = Inr (Settled v (Some k))) \<longleftrightarrow> rank_of p c r = Some k"
  by (rule assess_ranks)

section \<open>Types\<close>

text \<open>C24. In an accepted document read with its own tables, a scoring term never meets a value of
  the wrong kind: a transform of a value that was read fails only where a lookup without default
  has no entry for it.\<close>

theorem term_transform_typed:
  assumes v: "policy_validate p = Inr ()" and T: "bind_tables p ls = Inr T"
    and rls: "read_lists p facts now = Inr rls" and t: "trm \<in> set (sp_scoring p)"
    and x: "read_value (resolver_new p facts rls T now) (sg_value trm) c = Inr x"
    and e: "transform (sg_transform trm) x = Inl reason"
  shows "reason = UrLookupMiss"
proof -
  from v obtain scope where s: "policy_scope p = Inr scope"
      "check_terms scope (sp_gates p) [] (sp_scoring p) = Inr ()"
    by (rule policy_validateD)
  from check_terms_each[OF s(2) t] obtain seen where "check_term scope (sp_gates p) seen trm = Inr ()" ..
  then obtain u where u: "ref_type scope (sg_value trm) = Some u"
      "check_transform (sg_transform trm) u (sg_term_id trm) = Inr ()"
    by (rule check_termD)
  have "scalar_kind x u"
    using read_value_kind[OF s(1) bind_tablesD[OF T] read_listsD[OF rls] u(1) x] .
  from transform_kind[OF u(2) this e] show ?thesis .
qed

theorem term_transform_typed_witness:
  "\<exists>reason. transform (TfLookup [\<lparr>lu_key = LkInteger 1, lu_value_milli = 9\<rparr>] None) (SvInteger 5) = Inl reason
     \<and> reason = UrLookupMiss"
proof -
  have t: "hd (sp_scoring ex_lookup) \<in> set (sp_scoring ex_lookup)" by (simp add: ex_lookup_def)
  obtain reason where r: "transform (sg_transform (hd (sp_scoring ex_lookup))) (SvInteger 5) = Inl reason"
    by (simp add: ex_lookup_def)
  have "reason = UrLookupMiss"
    by (rule term_transform_typed[OF ex_lookup_valid ex_tables(2) ex_lookup_lists t _ r, of ex_first])
      (use ex_lookup_read in \<open>simp add: ex_lookup_def\<close>)
  with r show ?thesis by (simp add: ex_lookup_def)
qed

text \<open>C25. In an accepted document read with its own tables, a gate is unknown only because one of
  the values it names could not be read, and for that value's reason: no predicate compares a
  value of the wrong kind.\<close>

theorem gate_unknown_is_unread:
  assumes v: "policy_validate p = Inr ()" and T: "bind_tables p ls = Inr T"
    and rls: "read_lists p facts now = Inr rls" and g: "gate \<in> set (sp_gates p)"
    and t: "fst (truth (hg_predicate gate) c (resolver_new p facts rls T now) reads) = TruthUnknown reason"
  shows "\<exists>v \<in> set (collect_values (hg_predicate gate)).
    read_value (resolver_new p facts rls T now) v c = Inl reason"
proof -
  from v obtain scope where s: "policy_scope p = Inr scope" "check_gates scope [] (sp_gates p) = Inr ()"
    by (rule policy_validateD)
  from check_gates_each[OF s(2) g] obtain before where "check_gate scope before gate = Inr ()" ..
  then have w: "well_typed scope (hg_predicate gate)" by (rule check_gateD)
  show ?thesis
    by (rule meaning_typed_unknown[OF w t[unfolded truth_is_meaning]])
      (rule read_value_kind[OF s(1) bind_tablesD[OF T] read_listsD[OF rls]])
qed

theorem gate_unknown_is_unread_witness:
  "read_value ex_resolver (VrField [110]) ex_unread = Inl UrFieldMissing"
  using gate_unknown_is_unread[OF ex_valid ex_tables(1) ex_lists, of "hd (sp_gates ex_policy)" ex_unread
      reads_ignored UrFieldMissing]
  by (simp add: ex_parts truth_is_meaning ex_read del: truth.simps)

section \<open>Arithmetic\<close>

text \<open>C26. Scoring is exact or refused. An assessment fails exactly when the candidate passes the gates
  and either the contribution of a term (its output times its weight over 1000, truncated) leaves
  the 64-bit range after terms that all contribute, or all terms contribute and their exact sum
  leaves it; the failure is always \<open>ArithmeticOverflow\<close>. A score that is given is the exact
  integer sum of the contributions: nothing wraps and nothing saturates.\<close>

theorem score_exact_or_refused:
  "((\<exists>e. assess p c r = Inl e) \<longleftrightarrow>
      list_all (gate_keeps (candidate_env r c)) (sp_gates p)
      \<and> (terms_overflow (candidate_env r c) (sp_scoring p)
         \<or> (\<exists>s. scores_sum (candidate_env r c) (sp_scoring p) = Some s \<and> (s < - (2 ^ 63) \<or> 2 ^ 63 \<le> s))))
   \<and> (assess p c r = Inl e \<longrightarrow> sel_code e = SelArithmeticOverflow)
   \<and> (assess p c r = Inr (Settled v (Some k)) \<longrightarrow>
        scores_sum (candidate_env r c) (sp_scoring p) = Some (sint (rk_score_milli k)))"
proof (intro conjI impI)
  show "(\<exists>e. assess p c r = Inl e) \<longleftrightarrow>
      list_all (gate_keeps (candidate_env r c)) (sp_gates p)
      \<and> (terms_overflow (candidate_env r c) (sp_scoring p)
         \<or> (\<exists>s. scores_sum (candidate_env r c) (sp_scoring p) = Some s \<and> (s < - (2 ^ 63) \<or> 2 ^ 63 \<le> s)))"
    by (rule assess_overflow)
  show "sel_code e = SelArithmeticOverflow" if "assess p c r = Inl e" using that by (rule assess_code)
  assume "assess p c r = Inr (Settled v (Some k))"
  then have "rank_of p c r = Some k" using assess_ranks by blast
  then show "scores_sum (candidate_env r c) (sp_scoring p) = Some (sint (rk_score_milli k))"
    by (auto simp: rank_of_def bind_eq_Some_conv i64_try_from_Some split: if_splits)
qed

theorem score_exact_or_refused_witness:
  "\<exists>e. assess ex_twice ex_large ex_twice_resolver = Inl e \<and> sel_code e = SelArithmeticOverflow"
proof -
  have "\<exists>e. assess ex_twice ex_large ex_twice_resolver = Inl e"
    using score_exact_or_refused[of ex_twice ex_large ex_twice_resolver] ex_twice_sum by simp
  then obtain e where "assess ex_twice ex_large ex_twice_resolver = Inl e" ..
  with score_exact_or_refused[of ex_twice ex_large ex_twice_resolver e] show ?thesis by blast
qed

section \<open>The collect option\<close>

text \<open>C27. The collect option agrees with the decision. A candidate it scores passes every gate, has
  every term read, and is ranked by the assessment with that score. One it rejects fails the named
  gate and is ranked by no assessment, whatever the document does with unknown inputs. One it
  reports unknown fails no gate, and some gate is unknown or the value of some term cannot be had;
  at least one input is listed.\<close>

theorem collected_verdict_agrees:
  assumes "collect_candidate p r c = Inr cc"
  shows "case cc_verdict cc of
      CollectedScored s \<Rightarrow>
        (\<exists>v k. assess p c r = Inr (Settled v (Some k)) \<and> rk_score_milli k = s)
        \<and> (\<forall>gate\<in>set (sp_gates p). fst (truth (hg_predicate gate) c r reads_ignored) = TruthTrue)
        \<and> (\<forall>trm\<in>set (sp_scoring p). \<exists>out. and_then (read_value r (sg_value trm) c) (transform (sg_transform trm)) = Inr out)
    | CollectedGateRejected g \<Rightarrow>
        (\<nexists>v k. assess p c r = Inr (Settled v (Some k)))
        \<and> (\<exists>gate\<in>set (sp_gates p). hg_gate_id gate = g
             \<and> fst (truth (hg_predicate gate) c r reads_ignored) = TruthFalse)
    | CollectedUnknown us \<Rightarrow>
        us \<noteq> [] \<and> (\<forall>gate\<in>set (sp_gates p). fst (truth (hg_predicate gate) c r reads_ignored) \<noteq> TruthFalse)
        \<and> ((\<exists>gate\<in>set (sp_gates p). \<exists>reason.
              fst (truth (hg_predicate gate) c r reads_ignored) = TruthUnknown reason)
           \<or> (\<exists>trm\<in>set (sp_scoring p). \<exists>reason.
              and_then (read_value r (sg_value trm) c) (transform (sg_transform trm)) = Inl reason))"
proof (cases "cc_verdict cc")
  case (CollectedScored s)
  with collected_verdict[OF assms] obtain k where k: "rank_of p c r = Some k" "rk_score_milli k = s"
      "all_known p (candidate_env r c)"
    by (auto split: CollectedVerdict.splits)
  from k(1)[folded assess_ranks] k(2,3) CollectedScored show ?thesis
    by (auto simp: all_known_def list_all_iff truth_is_meaning term_resolved_def is_ok_iff)
next
  case (CollectedGateRejected g)
  with collected_verdict[OF assms] obtain gate where g: "gate \<in> set (sp_gates p)" "hg_gate_id gate = g"
      "meaning (candidate_env r c) (hg_predicate gate) = TruthFalse"
    by auto
  then have "rank_of p c r = None"
    by (intro some_gate_false_unranked) (auto simp: some_gate_false_def list_ex_iff)
  then have "\<nexists>v k. assess p c r = Inr (Settled v (Some k))" using assess_Settled by fastforce
  with g CollectedGateRejected show ?thesis by (auto simp: truth_is_meaning)
next
  case (CollectedUnknown us)
  with collected_verdict[OF assms] have u: "us \<noteq> []" "\<not> all_known p (candidate_env r c)"
      "\<not> some_gate_false p (candidate_env r c)" by simp_all
  with CollectedUnknown unknown_somewhere[OF u(2,3)] show ?thesis
    by (auto simp: truth_is_meaning some_gate_false_def list_ex_iff term_resolved_def)
qed

lemma ex_collects: "\<exists>cc. collect_candidate ex_policy ex_resolver ex_first = Inr cc
    \<and> cc_verdict cc = CollectedScored 5"
proof -
  have t: "fst (truth (IntegerAtLeast (VrField [110]) 1) ex_first ex_resolver reads_recording) = TruthTrue"
    by (simp add: truth_is_meaning ex_read bool_truth_def del: truth.simps)
  then obtain reads where "truth (IntegerAtLeast (VrField [110]) 1) ex_first ex_resolver reads_recording =
      (TruthTrue, reads)"
    by (cases "truth (IntegerAtLeast (VrField [110]) 1) ex_first ex_resolver reads_recording") auto
  then show ?thesis
    by (simp add: collect_candidate_def ex_parts ex_read term_contribution_def Let_def del: truth.simps)
qed

theorem collected_verdict_agrees_witness:
  "\<exists>v k. assess ex_policy ex_first ex_resolver = Inr (Settled v (Some k)) \<and> rk_score_milli k = 5"
proof -
  obtain cc where cc: "collect_candidate ex_policy ex_resolver ex_first = Inr cc"
      "cc_verdict cc = CollectedScored 5"
    using ex_collects by blast
  from collected_verdict_agrees[OF cc(1)] cc(2) show ?thesis by simp
qed

section \<open>The upper bound\<close>

text \<open>C28. The upper bound is sound. For a candidate of one of the hypothetical identities whose
  other fields lie in their declared domains, if an assessment ranks it, the bound is not finite
  or is at least its score; in particular it is never \<open>NoneEligible\<close>. A field of a ranged domain
  may be missing, provided that no gate passes a candidate on an unknown input.\<close>

theorem upper_bound_sound:
  assumes "upper_bound_with_tables p T facts now identities domains = Inr ub"
    and "i \<in> set identities" "candidate_of p domains i c"
    and "complete p c \<or> list_all (\<lambda>g. hg_on_unknown g \<noteq> SubstituteVerdict True) (sp_gates p)"
    and "read_lists p facts now = Inr rls"
    and "assess p c (resolver_new p facts rls T now) = Inr (Settled v (Some k))"
  shows "ub = Unbounded \<or> (\<exists>m. ub = MaxScore m \<and> sint (rk_score_milli k) \<le> sint m)"
  using upper_bound_covers[OF assms(1-5)] assess_Settled[OF assms(6)] by blast

theorem upper_bound_sound_witness:
  "\<exists>v k. assess ex_policy ex_first ex_resolver = Inr (Settled v (Some k))
     \<and> sint (rk_score_milli k) \<le> 7"
proof -
  obtain v k where k: "assess ex_policy ex_first ex_resolver = Inr (Settled v (Some k))"
    using ex_ranks(1) assess_ranks by blast
  have "candidate_of ex_policy (ex_domains 5) [97] ex_first" "complete ex_policy ex_first"
    by (simp_all add: candidate_of_def complete_def ex_parts ex_domains_def ex_first_def in_domain_def)
  with upper_bound_sound[OF ex_upper_bound(1) _ _ _ ex_lists k, of "[97]"] k show ?thesis by auto
qed

text \<open>C29. The condition on missing fields cannot be dropped: over a domain on which the gate never
  holds the bound excludes every identity, while the evaluation passes a candidate whose field is
  missing, by the gate's declared verdict, and scores it.\<close>

theorem upper_bound_misses_absent_field:
  "upper_bound ex_policy ex_facts 1 [[97], [98]] (ex_domains 0) = Inr NoneEligible
   \<and> candidate_of ex_policy (ex_domains 0) [97] ex_unread
   \<and> (\<exists>v k. assess ex_policy ex_unread ex_resolver = Inr (Settled v (Some k)) \<and> rk_score_milli k = 7)"
proof (intro conjI)
  show "upper_bound ex_policy ex_facts 1 [[97], [98]] (ex_domains 0) = Inr NoneEligible"
    unfolding upper_bound_def by (rule ex_upper_bound)
  show "candidate_of ex_policy (ex_domains 0) [97] ex_unread"
    by (simp add: candidate_of_def ex_parts ex_domains_def ex_unread_def in_domain_def)
  show "\<exists>v k. assess ex_policy ex_unread ex_resolver = Inr (Settled v (Some k)) \<and> rk_score_milli k = 7"
    using ex_ranks(3)[folded assess_ranks] by auto
qed

end
