(* ===== verification/Input_Properties.thy ===== *)
theory Input_Properties
  imports Selection_Inputs
begin

text \<open>
  The properties of what a selection reads: the row a table read selects, the record a fact key
  resolves to, and the texts that name the source of a fact.
\<close>

section \<open>Tables\<close>

text \<open>C30. The row of a shared table that a key and its pins select, found through the index built
  when the table is loaded, is the first row a scan of the loaded table finds: its key cell holds
  the key and every pin holds. A key column that has expired, or that the table does not have,
  selects no row either way.\<close>

theorem row_lookup_is_scan:
  assumes "tb_row_key t = kc # rest"
  shows "row_of (load t now) key pins =
    List.find (\<lambda>i. loaded_cell (load t now) i kc = Some (CellText key) \<and> pins_hold (load t now) pins i)
      [0..<length (tb_rows t)]"
  using assms by (rule row_of_load)

definition ex_column :: "str \<Rightarrow> StandardPackTableColumnType \<Rightarrow> StandardPackTableColumn" where
  "ex_column name t = \<lparr>cl_name = name, cl_column_type = t, cl_nullable = False, cl_valid_until_unix_s = None\<rparr>"

definition ex_table :: StandardPackTable where
  "ex_table =
     \<lparr>tb_game = [103], tb_table_id = [116], tb_row_key = [[107], [108]],
      tb_columns = [ex_column [107] ColKey, ex_column [108] ColBoolean],
      tb_rows = [[CellText [97], CellBoolean False], [CellText [97], CellBoolean True]]\<rparr>"

theorem row_lookup_is_scan_witness: "row_of (load ex_table 5) [97] [([108], SvBoolean True)] = Some 1"
proof -
  have k: "tb_row_key ex_table = [107] # [[108]]" by (simp add: ex_table_def)
  have rows: "tb_rows (ld_table (load ex_table 5)) = tb_rows ex_table"
    and pos: "bt_get (ld_positions (load ex_table 5)) [107] = Some 0"
      "bt_get (ld_positions (load ex_table 5)) [108] = Some 1"
    by (simp_all add: load_def ex_table_def ex_column_def expired_columns_def bt_from_def Let_def
        enumerate_eq_zip)
  show ?thesis
    unfolding row_lookup_is_scan[OF k]
    by (simp add: loaded_cell_def pins_hold_def rows pos get_at_def) (simp add: ex_table_def upt_rec)
qed

section \<open>Facts\<close>

text \<open>C31. The snapshot a selection reads agrees with the resolution rule of the contract: for a
  valid instance snapshot a key the rule does not find has no entry, and any other key has the
  entry of the record the rule chooses, the one of the most specific scope. (The rule takes the
  last such record and the snapshot the first; validation admits only one.)\<close>

theorem snapshot_agrees_with_contract:
  assumes "instance_snapshot_validate s = Inr ()"
  shows "case resolve_fact s key now of
      Known r \<Rightarrow> bt_get (sf_facts (from_instance_snapshot_with_lists s at ls)) key =
        Some (entry_for r (key \<in> set ls))
    | Unknown reason k \<Rightarrow>
        (bt_get (sf_facts (from_instance_snapshot_with_lists s at ls)) key = None) = (reason = FuMissing)"
  using snapshot_entry[OF assms, of at ls key]
  by (cases "most_specific s key") (simp_all add: resolve_fact_most_specific)

definition ex_fact :: "FactScope \<Rightarrow> i64 \<Rightarrow> FactRecord" where
  "ex_fact scope n =
     \<lparr>fr_scope = scope, fr_key = ascii ''env.n'', fr_content = Inline (FvInteger n),
      fr_observed_at_unix_ms = 1, fr_expires_at_unix_ms = None, fr_ttl_policy = None,
      fr_confidence_milli = 1000, fr_source_detector = [100], fr_source_snapshot_id = [115],
      fr_schema_version = [118], fr_resource_bundle_hash = replicate 64 48, fr_invalidate_on = []\<rparr>"

definition ex_snapshot :: InstanceFactSnapshot where
  "ex_snapshot =
     \<lparr>is_snapshot_id = [115], is_ledger_position = 1,
      is_context = \<lparr>fx_instance_id = [105], fx_server_id = [118], fx_game_id = [103]\<rparr>,
      is_records = [ex_fact (FactGame [103]) 1, ex_fact (FactInstance [105]) 2]\<rparr>"

lemma ex_snapshot_valid: "instance_snapshot_validate ex_snapshot = Inr ()"
  by (simp add: instance_snapshot_validate_def ex_snapshot_def ex_fact_def validate_token_def
      context_validate_def validate_alias_token_def validate_instance_alias_def record_validate_def
      validate_fact_key_def FAMILIES_def starts_with_def ascii_def validate_sha256_def
      ttl_validate_def value_validate_def is_ascii_hexdigit_def str_len_def utf8_width_def
      char_is_control_def MAX_FACT_TEXT_BYTES_def MAX_FACT_RECORDS_def MAX_FACT_KEY_BYTES_def
      MAX_INSTANCE_ALIAS_BYTES_def MAX_INVALIDATION_EVENTS_def numeral_eq_Suc)

theorem snapshot_agrees_with_contract_witness:
  "bt_get (sf_facts (from_instance_snapshot_with_lists ex_snapshot 5 [])) (ascii ''env.n'') =
   Some (entry_for (ex_fact (FactInstance [105]) 2) False)"
proof -
  have "resolve_fact ex_snapshot (ascii ''env.n'') 5 = Known (ex_fact (FactInstance [105]) 2)"
    by (simp add: resolve_fact_most_specific most_specific_def ex_snapshot_def ex_fact_def record_is_expired_def)
  with snapshot_agrees_with_contract[OF ex_snapshot_valid, where key = "ascii ''env.n''" and now = 5 and at = 5 and ls = "[]"]
  show ?thesis by simp
qed

section \<open>Texts\<close>

lemma id_parse_Some: "id_parse prefix t = Some bs \<longleftrightarrow> length bs = 16 \<and> t = id_canonical prefix bs"
proof
  assume p: "id_parse prefix t = Some bs"
  then have "take (length prefix) t = prefix" "length (drop (length prefix) t) = 32"
      "decode_pairs (drop (length prefix) t) = Some bs"
    by (auto simp: id_parse_def Let_def split: if_splits)
  with decode_pairs_SomeD[OF this(3)] append_take_drop_id[of "length prefix" t]
  show "length bs = 16 \<and> t = id_canonical prefix bs" by (simp add: id_canonical_def)
qed (simp add: id_parse_def id_canonical_def hex_text_ok decode_pairs_canonical)

text \<open>C38. The text of a typed identifier and its parser are inverse: a text is read as sixteen bytes
  exactly when it is the text written of them, so every identifier has one text.\<close>

theorem identifier_text_roundtrip: "id_parse prefix t = Some bs \<longleftrightarrow> length bs = 16 \<and> t = id_canonical prefix bs"
  by (rule id_parse_Some)

text \<open>C39. The key of a priority offset and its reader are inverse, and only such keys belong to the
  family.\<close>

theorem priority_offset_key_roundtrip:
  "(priority_offset_task_id key = Some task_id \<longleftrightarrow> task_id \<noteq> [] \<and> key = priority_offset_fact_key task_id)
   \<and> (fact_key_family key = PriorityOffset \<longleftrightarrow> (\<exists>t. t \<noteq> [] \<and> key = priority_offset_fact_key t))"
proof -
  have suffix: "strip_suffix v w = Some u \<longleftrightarrow> v = u @ w" for v w u
    by (auto simp: strip_suffix_def strip_prefix_Some rev_swap)
  have *: "priority_offset_task_id key = Some t \<longleftrightarrow> t \<noteq> [] \<and> key = priority_offset_fact_key t" for t
    by (auto simp: priority_offset_task_id_def priority_offset_fact_key_def bind_eq_Some_conv
        strip_prefix_Some suffix)
  show ?thesis
    using * by (auto simp: fact_key_family_def)
qed

lemma split_once_str_first: "c \<notin> set a \<Longrightarrow> split_once_str (c # d) (a @ c # d @ b) = Some (a, b)"
  by (induction a) (auto simp: split_once_str.simps[of "c # d"] starts_with_def)

lemma lower_hex_code: "is_lower_hex c \<Longrightarrow> (of_char c :: nat) < 128 \<and> of_char c \<noteq> (47 :: nat)"
  by (auto simp: is_lower_hex_def Let_def)

text \<open>The text of an identifier under an ASCII prefix without a slash.\<close>

definition plain_prefix :: "string \<Rightarrow> bool" where
  "plain_prefix prefix \<longleftrightarrow> list_all (\<lambda>c. of_char c < (128 :: nat) \<and> of_char c \<noteq> (47 :: nat)) prefix"

lemma id_text_plain:
  assumes "plain_prefix prefix"
  shows "list_all (\<lambda>c. c < 128 \<and> c \<noteq> 47) (ascii (id_canonical prefix bs))"
  using assms hex_text_ok[of bs] lower_hex_code
  by (auto simp: plain_prefix_def ascii_def id_canonical_def list_all_iff)

lemma id_of_str_text:
  assumes "plain_prefix prefix" "length bs = 16"
  shows "id_of_str prefix (ascii (id_canonical prefix bs)) = Some bs"
  using id_text_plain[OF assms(1), of bs] assms(2)
  by (auto simp: id_of_str_def id_parse_Some ascii_def list_all_iff comp_def)

lemma parse_source_text:
  assumes "length run = 16" "length frame = 16" "tail \<noteq> []"
  shows "parse_resource_reading_snapshot_id
      (resource_reading_snapshot_id (ascii (id_canonical ''run_'' run)) (ascii (id_canonical ''frame_'' frame)) tail)
    = Some (RunId run, FrameId frame)"
proof -
  have p: "plain_prefix ''run_''" "plain_prefix ''frame_''" by (simp_all add: plain_prefix_def)
  let ?r = "ascii (id_canonical ''run_'' run)" and ?f = "ascii (id_canonical ''frame_'' frame)"
  have n: "47 \<notin> set ?r" "47 \<notin> set ?f"
    using id_text_plain[OF p(1)] id_text_plain[OF p(2)] by (auto simp: list_all_iff)
  have d: "ascii ''/frame:'' = 47 # ascii ''frame:''" "ascii ''/'' = [47]" by (simp_all add: ascii_def)
  have "split_once_str (ascii ''/frame:'') (?r @ ascii ''/frame:'' @ ?f @ 47 # tail) = Some (?r, ?f @ 47 # tail)"
    using split_once_str_first[OF n(1), of "ascii ''frame:''"] by (simp add: d)
  moreover have "split_once 47 (?f @ 47 # tail) = Some (?f, tail)" using n(2) by (simp add: split_once_Some)
  ultimately show ?thesis
    using assms
    by (simp add: parse_resource_reading_snapshot_id_def resource_reading_snapshot_id_def d(2)
        id_of_str_text[OF p(1)] id_of_str_text[OF p(2)])
qed

lemma split_once_str_SomeD: "split_once_str d s = Some (a, b) \<Longrightarrow> s = a @ d @ b"
proof (induction s arbitrary: a)
  case Nil
  then show ?case by (auto simp: split_once_str.simps starts_with_iff split: if_splits)
next
  case (Cons c s)
  then show ?case
    by (subst (asm) split_once_str.simps) (auto simp: starts_with_iff split: if_splits)
qed

lemma id_of_str_SomeD:
  assumes "id_of_str prefix s = Some bs"
  shows "length bs = 16 \<and> s = ascii (id_canonical prefix bs)"
proof -
  from assms have s: "\<forall>c\<in>set s. c < 128" "length bs = 16" "map char_of s = id_canonical prefix bs"
    by (auto simp: id_of_str_def id_parse_Some list_all_iff split: if_splits)
  have "map of_char (map char_of s :: string) = map (\<lambda>c. c) s"
    unfolding map_map using s(1) by (intro map_cong) auto
  with s show ?thesis by (simp add: ascii_def)
qed

lemma parse_source_SomeD:
  assumes "parse_resource_reading_snapshot_id v = Some (RunId run, FrameId frame)"
  shows "length run = 16 \<and> length frame = 16
    \<and> (\<exists>tail. tail \<noteq> [] \<and> v = resource_reading_snapshot_id (ascii (id_canonical ''run_'' run))
         (ascii (id_canonical ''frame_'' frame)) tail)"
proof -
  obtain rest r f tail where v: "v = ascii ''run:'' @ r @ ascii ''/frame:'' @ rest" "rest = f @ 47 # tail" "tail \<noteq> []"
      "id_of_str ''run_'' r = Some run" "id_of_str ''frame_'' f = Some frame"
    using assms
    by (auto simp: parse_resource_reading_snapshot_id_def bind_eq_Some_conv strip_prefix_Some split_once_Some
        dest!: split_once_str_SomeD split: if_splits)
  have "ascii ''/'' = [47]" by (simp add: ascii_def)
  with v id_of_str_SomeD[OF v(4)] id_of_str_SomeD[OF v(5)] show ?thesis
    by (auto simp: resource_reading_snapshot_id_def)
qed

text \<open>C40. The source of a resource fact leads back to its run and frame: the parser recovers both from
  the source text of a reading, of its capacity, and of an adjustment, and it reads nothing but such
  texts: what it accepts is written of the identifiers it returns.\<close>

theorem fact_source_roundtrip:
  assumes "length run = 16" "length frame = 16" "name \<noteq> []"
    and "r = ascii (id_canonical ''run_'' run)" "f = ascii (id_canonical ''frame_'' frame)"
  shows "parse_resource_reading_snapshot_id (resource_reading_snapshot_id r f name) = Some (RunId run, FrameId frame)
    \<and> parse_resource_reading_snapshot_id (resource_reading_capacity_snapshot_id r f name) = Some (RunId run, FrameId frame)
    \<and> parse_resource_reading_snapshot_id (resource_adjustment_snapshot_id r f name base) = Some (RunId run, FrameId frame)
    \<and> (parse_resource_reading_snapshot_id v = Some (RunId run, FrameId frame) \<longleftrightarrow>
        (\<exists>tail. tail \<noteq> [] \<and> v = resource_reading_snapshot_id r f tail))"
proof -
  have "resource_reading_capacity_snapshot_id r f name = resource_reading_snapshot_id r f (name @ ascii ''/capacity'')"
    "resource_adjustment_snapshot_id r f name base = resource_reading_snapshot_id r f (name @ ascii ''/base:'' @ base)"
    by (simp_all add: resource_reading_capacity_snapshot_id_def resource_adjustment_snapshot_id_def
        resource_reading_snapshot_id_def)
  with assms parse_source_text[OF assms(1,2)] show ?thesis by (auto dest: parse_source_SomeD)
qed

theorem fact_source_roundtrip_witness:
  "parse_resource_reading_snapshot_id (resource_reading_capacity_snapshot_id
     (ascii (id_canonical ''run_'' (replicate 16 1))) (ascii (id_canonical ''frame_'' (replicate 16 2))) [97])
   = Some (RunId (replicate 16 1), FrameId (replicate 16 2))"
  using fact_source_roundtrip[of "replicate 16 1" "replicate 16 2" "[97]"] by simp

end
