(* ===== verification/Spec2Isabelle.thy ===== *)
theory Spec2Isabelle
  imports Sweep_Properties Fact_Properties Selection_Properties Input_Properties
begin

text \<open>
  A verification library for the ActingCommand Runtime, the Rust workspace under \<open>src/\<close>.

  \<^bold>\<open>The program.\<close> The Runtime is a local process (\<open>crates/runtime-host\<close>) that owns devices and
  runs tasks on them for several clients. The parts modelled here are its decision procedures,
  which take and return plain values. The seed scheduler (\<open>crates/scheduler/src/lib.rs\<close>) decides
  who may write to an instance: it issues leases, queues claims and fences writes. The fact store
  (\<open>crates/scheduler/src/facts.rs\<close>) keeps the newest observation per scope and key and rebuilds
  itself from sealed images. The contract crate (\<open>crates/actingcommand-contract\<close>) holds the types
  both exchange with the host and the clients: identifiers, lease tokens, fact records, the
  configuration manifest, the facts of an instance. The selection policy
  (\<open>crates/selection-policy\<close>) chooses among candidates a task has read: a document declares
  gates, scoring terms and tie-break keys over candidate fields, instance facts and shared tables,
  and the evaluator decides with three-valued truth and fixed-width arithmetic. The host calls the
  scheduler under one lock, with a monotonic clock reading as an argument, the fact store with the
  records its modules produce, and the evaluator with a snapshot of the instance facts.

  \<^bold>\<open>Conventions.\<close> A struct is a record whose fields carry a prefix per struct, an enum a datatype
  with the source's constructors, a method on \<open>&mut self\<close> a function that returns the result and
  the state after it, also when it fails (\<open>sched_op\<close> in \<open>Scheduler_State\<close>). \<open>Result\<close> is a sum with
  the error left, \<open>?\<close> is \<open>and_then\<close> or \<open>try_in\<close>. Integers keep their width as words; sequence
  numbers and expiries wrap or are checked where the source does so. A \<open>BTreeMap\<close> is an
  association list in ascending key order, a \<open>String\<close> a list of Unicode scalar values. No model
  function uses fuel: every loop of the modelled code is recursion on a list or has a termination
  proof.

  \<^bold>\<open>The theories.\<close>
  \<^item> \<open>Prelude\<close>: machine integers, results, vectors, ordered maps, stable sorting by a comparator
    (locale \<open>comparator\<close>), and the generic lemmas on them. \<open>Rust_Text\<close>: strings.
  \<^item> \<open>Contract\<close>: \<open>event/ids.rs\<close> (text form and issuer of identifiers), the lease types of
    \<open>runtime.rs\<close>, the outcome codes of \<open>codes.rs\<close> and \<open>outcome.rs\<close>.
  \<^item> \<open>Claims\<close>: configuration, claim kinds, routine gates, errors and their wire projections.
    \<open>Scheduler_State\<close>, \<open>Scheduler_Grants\<close>, \<open>Scheduler_Lifetime\<close>: the records of
    \<open>SeedScheduler\<close> and its operations in the order of the source: lookups and the queue;
    acquisition, queueing, the pump, commit; renewal, release, destructive steps, transfer,
    expiry, takeover.
  \<^item> \<open>Scheduler_Inv\<close>, \<open>Scheduler_Quiet\<close>, \<open>Scheduler_Leases\<close>: the representation invariant
    \<open>sched_inv\<close> and, per operation, that it is kept and which leases change. \<open>Lease_Spec\<close> is the
    abstract lease machine and forward simulation (locale \<open>simulation\<close>), \<open>Scheduler_Machine\<close> the
    step relation over all operations and the simulation of every step by that machine. \<open>Scheduler_Example\<close> is a concrete run used by the witnesses.
  \<^item> \<open>Scheduler_Properties\<close>: invariant, refinement, fencing of retired leases, exclusion of
    writers, the exact admission of a write, the choice of the pump. \<open>Queue_Properties\<close>: when an
    immediate try is granted, progress of the pump, the place of a queued claim.
    \<open>Sweep_Properties\<close>: that the removal loops return and what they remove, that a dedicated lease is
    exclusive and only closes resources (and that an entry the gate holds back refuses it, against
    its documentation), that an answered release or renewal may be repeated.
  \<^item> \<open>Runtime_Facts\<close>, \<open>Config_Manifest\<close>: the fact contract, the store, the pack registry keys, the
    configuration manifest and the facts recorded of it. \<open>Fact_Store\<close>, \<open>Fact_Properties\<close>: the
    store's invariant, its specification as a register per key, convergence of recording, sealing
    and rebuilding, the search for the newest complete image, the round trips of the
    configuration facts.
  \<^item> \<open>Rust_Int\<close>: signed integers and the checked conversions. \<open>Instance_Facts\<close>: \<open>fact.rs\<close> of the
    contract, its records, their validation and resolution, and the texts of keys and sources.
  \<^item> \<open>Selection_Schema\<close>, \<open>Selection_Validate\<close> (\<open>schema.rs\<close>): the document and every check of
    \<open>SelectionPolicy::validate\<close> with its refusal. \<open>Selection_Facts\<close> (\<open>facts.rs\<close>) and
    \<open>Selection_Tables\<close> (\<open>tables.rs\<close>): the fact snapshot and the bound tables.
    \<open>Selection_Evaluator\<close>, \<open>Selection_Decision\<close> (\<open>evaluator.rs\<close>): reading of values, truth,
    transforms; assessment, ranking, decision, the collect option. \<open>Selection_Bound\<close>
    (\<open>bound.rs\<close>): the upper bound of a candidate that was not read.
  \<^item> \<open>Selection_Meaning\<close>: the Kleene meaning of predicates, and that truth computes it.
    \<open>Selection_Assess\<close>: the rank of a candidate as a specification, and that the assessment
    finds it. \<open>Selection_Typing\<close>: what validation says of the kinds of values.
    \<open>Selection_Ranking\<close>: the order of ranked candidates (interpretations of \<open>comparator\<close>) and the
    cut. \<open>Selection_Bound_Sound\<close>, \<open>Selection_Collect\<close>, \<open>Selection_Inputs\<close>: the bound against
    the assessment, the collected verdicts, table rows and fact entries.
    \<open>Selection_Example\<close>: the documents of the witnesses.
  \<^item> \<open>Selection_Properties\<close>: the choice beats the rest and does not depend on the order of the
    candidates, gates mean their Kleene value and a decided one stays decided, accepted documents
    meet no ill-typed value, a score is exact or refused, the collect option agrees with the decision,
    the bound is sound where no gate passes on an unknown input, and is not without that
    condition. \<open>Input_Properties\<close>: the indexed row lookup is a scan, the snapshot follows the
    resolution rule of the contract, and identifiers, offset keys and fact sources read back.

  \<^bold>\<open>Parameters.\<close> The wall clock, the process nonce and the reader of sealed parts are arguments of
  the definitions that use them. So are the identities of a document and of the inputs of an
  evaluation (record \<open>Canonical\<close>), the digest by \<open>sha2\<close> of a canonical form of what derived \<open>serde\<close>
  code encodes. No property assumes anything of an identity.

  \<^bold>\<open>Not modelled.\<close> What performs I/O: the threads, sockets and ledger files of the host, device
  access, recognition back ends, the clients and the command line. JSON decoding by derived
  \<open>serde\<close> code, which is generated. Code that could be modelled and is not: the canonical JSON
  form (\<open>canonical.rs\<close> of the contract crate and of \<open>selection-policy\<close>), which enters only as
  the parameter above, the policy catalog and its evaluator (\<open>crates/policy\<close>), the task execution
  kernel, the recovery ladder and the dispatch of policies in the host, the resolution of the
  configuration file (\<open>crates/runtime-config\<close>) and the reading of table files. Nothing above
  calls these.
\<close>

end
